(* ===== verification/Prelude.thy ===== *)
theory Prelude
  imports Main "HOL-Library.Word" "HOL-Library.List_Lexorder" "HOL-Library.Char_ord"
begin

text \<open>
  The vocabulary shared by every component: Go's basic types, the error-returning calling
  convention of Go as a state-and-error combinator, and the generic lemmas on it.

  A Go function \<^verbatim>\<open>func f(...) (T, error)\<close> that works on some mutable state is a
  function from the state to a pair of a result (\<open>Inl\<close> the error, \<open>Inr\<close> the value) and the
  new state.  The state is returned on the error path as well: an early return in the source
  does not undo the effects that precede it.
\<close>

type_synonym error = string
type_synonym bytes = string
type_synonym go_int = "64 word"
type_synonym uint64 = "64 word"
type_synonym 'a res = "error + 'a"
type_synonym ('s, 'a) op = "'s \<Rightarrow> 'a res \<times> 's"

named_theorems op_simps \<open>equations that run the combinators\<close>
named_theorems sint_simps \<open>comparisons and arithmetic of Go's int read through sint\<close>

text \<open>
  A Go computation that returns or panics (a failed type assertion, a nil dereference).  A loop
  whose end depends on code outside the repository is given fuel; \<open>OutOfFuel\<close> says that it was
  not enough.
\<close>

datatype 'a run = Ret 'a | Panic error | OutOfFuel

fun bind_run :: "'a run \<Rightarrow> ('a \<Rightarrow> 'b run) \<Rightarrow> 'b run" where
  "bind_run (Ret x) f = f x"
| "bind_run (Panic e) f = Panic e"
| "bind_run OutOfFuel f = OutOfFuel"

lemma bind_run_Ret: "bind_run m f = Ret y \<longleftrightarrow> (\<exists>x. m = Ret x \<and> f x = Ret y)"
  by (cases m) auto

text \<open>
  Reading through a pointer, indexing a slice, a loop that collects its results, and the pattern
  \<^verbatim>\<open>if err != nil { return nil, h(err) }\<close> for a computation that may panic.
\<close>

definition deref :: "'a option \<Rightarrow> 'a run" where
  "deref p = (case p of None \<Rightarrow> Panic ''invalid memory address or nil pointer dereference'' | Some x \<Rightarrow> Ret x)"

definition index_run :: "'a list \<Rightarrow> int \<Rightarrow> 'a run" where
  "index_run xs i = (if 0 \<le> i \<and> i < int (length xs) then Ret (xs ! nat i)
     else Panic ''runtime error: index out of range'')"

fun map_run :: "('a \<Rightarrow> 'b run) \<Rightarrow> 'a list \<Rightarrow> 'b list run" where
  "map_run f [] = Ret []"
| "map_run f (x # xs) = bind_run (f x) (\<lambda>y. bind_run (map_run f xs) (\<lambda>ys. Ret (y # ys)))"

definition chk_run :: "'a res run \<Rightarrow> (error \<Rightarrow> error) \<Rightarrow> ('a \<Rightarrow> 'b res run) \<Rightarrow> 'b res run" where
  "chk_run m h k = bind_run m (\<lambda>r. case r of Inl e \<Rightarrow> Ret (Inl (h e)) | Inr x \<Rightarrow> k x)"

text \<open>\<^verbatim>\<open>errors.Wrap\<close>.\<close>

definition Wrap :: "string \<Rightarrow> error \<Rightarrow> error" where
  "Wrap msg err = msg @ '': '' @ err"

lemma deref_simps [simp]:
  "deref (Some x) = Ret x" "deref None = Panic ''invalid memory address or nil pointer dereference''"
  by (simp_all add: deref_def)

lemma chk_run_simps [simp]:
  "chk_run (Ret (Inr x)) h k = k x" "chk_run (Ret (Inl e)) h k = Ret (Inl (h e))" "chk_run (Panic p) h k = Panic p"
  by (simp_all add: chk_run_def)

lemma map_run_Ret: "(\<And>x. x \<in> set xs \<Longrightarrow> f x = Ret (g x)) \<Longrightarrow> map_run f xs = Ret (map g xs)"
  by (induction xs) simp_all

subsection \<open>The calling convention\<close>

definition ok :: "'a \<Rightarrow> ('s, 'a) op" where
  "ok x s = (Inr x, s)"

definition fail :: "error \<Rightarrow> ('s, 'a) op" where
  "fail e s = (Inl e, s)"

text \<open>
  \<open>chk m h k\<close> is \<^verbatim>\<open>x, err := m; if err != nil { return h(err) }; k(x)\<close>.
\<close>

definition chk :: "('s, 'a) op \<Rightarrow> (error \<Rightarrow> error) \<Rightarrow> ('a \<Rightarrow> ('s, 'b) op) \<Rightarrow> ('s, 'b) op" where
  "chk m h k s = (case m s of (Inl e, s') \<Rightarrow> (Inl (h e), s') | (Inr x, s') \<Rightarrow> k x s')"

text \<open>A call that only computes a value or an error, lifted to the convention.\<close>

definition pureE :: "'a res \<Rightarrow> ('s, 'a) op" where
  "pureE r s = (r, s)"

lemma ok_run [simp, op_simps]: "ok x s = (Inr x, s)"
  by (simp add: ok_def)

lemma fail_run [simp, op_simps]: "fail e s = (Inl e, s)"
  by (simp add: fail_def)

lemma pureE_run [simp, op_simps]: "pureE r s = (r, s)"
  by (simp add: pureE_def)

lemma chk_Inl [op_simps]: "m s = (Inl e, s') \<Longrightarrow> chk m h k s = (Inl (h e), s')"
  by (simp add: chk_def)

lemma chk_Inr [op_simps]: "m s = (Inr x, s') \<Longrightarrow> chk m h k s = k x s'"
  by (simp add: chk_def)

lemma chk_pure [simp, op_simps]:
  "chk (pureE (Inl e)) h k s = (Inl (h e), s)"
  "chk (pureE (Inr x)) h k s = k x s"
  "chk (ok x) h k s = k x s"
  "chk (fail e) h k s = (Inl (h e), s)"
  by (simp_all add: chk_def)

text \<open>Inversion of a successful and of a failed sequence.\<close>

lemma chk_InrE:
  assumes "chk m h k s = (Inr y, t)"
  obtains x u where "m s = (Inr x, u)" "k x u = (Inr y, t)"
  using assms by (auto simp: chk_def split: prod.splits sum.splits)

lemma chk_InlE:
  assumes "chk m h k s = (Inl e, t)"
  obtains (first) e' where "m s = (Inl e', t)" "e = h e'"
    | (later) x u where "m s = (Inr x, u)" "k x u = (Inl e, t)"
  using assms by (auto simp: chk_def split: prod.splits sum.splits)

lemma chk_Inr_iff:
  "chk m h k s = (Inr y, t) \<longleftrightarrow> (\<exists>x u. m s = (Inr x, u) \<and> k x u = (Inr y, t))"
  by (auto simp: chk_def split: prod.splits sum.splits)

lemma chk_Inl_iff:
  "chk m h k s = (Inl e, t) \<longleftrightarrow>
     (\<exists>e'. m s = (Inl e', t) \<and> e = h e') \<or> (\<exists>x u. m s = (Inr x, u) \<and> k x u = (Inl e, t))"
  by (auto simp: chk_def split: prod.splits sum.splits)

subsection \<open>Go's 64-bit int through \<open>sint\<close>\<close>

abbreviation max_int :: int where "max_int \<equiv> 9223372036854775807"
abbreviation min_int :: int where "min_int \<equiv> - 9223372036854775808"

definition int64_range :: "int \<Rightarrow> bool" where
  "int64_range i \<longleftrightarrow> min_int \<le> i \<and> i \<le> max_int"

lemma sint_int64_range [simp]: "int64_range (sint (w :: go_int))"
  using sint_greater_eq [of w] sint_less [of w] by (simp add: int64_range_def)

lemma sint_bounds: "min_int \<le> sint (w :: go_int)" "sint (w :: go_int) \<le> max_int"
  using sint_int64_range [of w] by (simp_all add: int64_range_def)

lemma sint_of_int [sint_simps]: "int64_range i \<Longrightarrow> sint (word_of_int i :: go_int) = i"
  by (simp add: int64_range_def sint_sbintrunc' signed_take_bit_int_eq_self)

lemma sless_sint [sint_simps]: "(a <s b) = (sint (a :: go_int) < sint b)"
  by (simp add: word_sless_alt)

lemma sle_sint [sint_simps]: "(a <=s b) = (sint (a :: go_int) \<le> sint b)"
  by (simp add: word_sle_eq)

lemma sint_add [sint_simps]:
  "int64_range (sint a + sint b) \<Longrightarrow> sint (a + b :: go_int) = sint a + sint b"
  by (simp add: signed_take_bit_int_eq_self sint_word_ariths int64_range_def)

lemma sint_sub [sint_simps]:
  "int64_range (sint a - sint b) \<Longrightarrow> sint (a - b :: go_int) = sint a - sint b"
  by (simp add: signed_take_bit_int_eq_self sint_word_ariths int64_range_def)

lemma mod_wrap_above: "m \<le> x \<Longrightarrow> x < 2 * m \<Longrightarrow> x mod m = x - (m :: int)"
  by (metis add_diff_cancel_left' diff_ge_0_iff_ge diff_less_eq minus_mod_self2 mod_pos_pos_trivial
        mult_2)

lemma mod_wrap_below: "- m \<le> x \<Longrightarrow> x < 0 \<Longrightarrow> x mod m = x + (m :: int)"
  by (metis add.commute add_less_same_cancel1 le_minus_iff minus_le_iff mod_add_self2
        mod_pos_pos_trivial neg_le_iff_le add.inverse_inverse diff_ge_0_iff_ge diff_minus_eq_add)

lemma sint_add_wrap:
  "sint (a + b :: go_int) =
     (if sint a + sint b > max_int then sint a + sint b - 2 ^ 64
      else if sint a + sint b < min_int then sint a + sint b + 2 ^ 64
      else sint a + sint b)"
proof -
  have eq: "sint (a + b) = (sint a + sint b + 2 ^ 63) mod 2 ^ 64 - 2 ^ 63"
    by (simp add: sint_word_ariths signed_take_bit_eq_take_bit_shift take_bit_eq_mod)
  have b: "min_int \<le> sint a" "sint a \<le> max_int" "min_int \<le> sint b" "sint b \<le> max_int"
    by (rule sint_bounds)+
  consider "sint a + sint b > max_int" | "sint a + sint b < min_int"
    | "int64_range (sint a + sint b)"
    by (force simp: int64_range_def)
  then show ?thesis
  proof cases
    case 1
    with b have "(sint a + sint b + 2 ^ 63) mod 2 ^ 64 = sint a + sint b + 2 ^ 63 - 2 ^ 64"
      by (intro mod_wrap_above) simp_all
    with 1 show ?thesis using eq by simp
  next
    case 2
    with b have "(sint a + sint b + 2 ^ 63) mod 2 ^ 64 = sint a + sint b + 2 ^ 63 + 2 ^ 64"
      by (intro mod_wrap_below) simp_all
    with 2 show ?thesis using eq by simp
  next
    case 3
    then show ?thesis by (simp add: sint_add int64_range_def)
  qed
qed

subsection \<open>Association lists and maps\<close>

lemma map_of_append_single [simp]:
  "map_of (xs @ [(k, v)]) k' =
     (case map_of xs k' of None \<Rightarrow> if k' = k then Some v else None | Some w \<Rightarrow> Some w)"
  by (auto simp: map_add_def split: option.splits)

lemma map_upd_eq_iff [simp]: "(m(k \<mapsto> v)) k' = (if k' = k then Some v else m k')"
  by simp

end
