(* ===== verification/Go_Strconv.thy ===== *)
theory Go_Strconv
  imports Prelude
begin

text \<open>
  The parts of Go's \<^verbatim>\<open>strconv\<close> and \<^verbatim>\<open>strings\<close> packages that the repository calls: decimal
  formatting and parsing of 64-bit integers (with the value that is returned next to an error,
  which the chaincode uses because it drops the error), \<^verbatim>\<open>ParseBool\<close>, ASCII case folding,
  prefix tests and splitting.  The main result is the round trip of \<open>Itoa\<close> and \<open>Atoi\<close>.
\<close>

abbreviation squote :: char where "squote \<equiv> CHR 0x27"

subsection \<open>Decimal digits\<close>

definition digit_char :: "nat \<Rightarrow> char" where
  "digit_char d = char_of (48 + d)"

definition digit_val :: "char \<Rightarrow> nat" where
  "digit_val c = of_char c - 48"

definition is_digit :: "char \<Rightarrow> bool" where
  "is_digit c \<longleftrightarrow> 48 \<le> (of_char c :: nat) \<and> (of_char c :: nat) \<le> 57"

fun nat_digits :: "nat \<Rightarrow> string" where
  "nat_digits n = (if n < 10 then [digit_char n] else nat_digits (n div 10) @ [digit_char (n mod 10)])"

declare nat_digits.simps [simp del]

definition digits_val :: "string \<Rightarrow> nat" where
  "digits_val s = foldl (\<lambda>n c. 10 * n + digit_val c) 0 s"

lemma is_digit_digit_char [simp]: "d < 10 \<Longrightarrow> is_digit (digit_char d)"
  by (simp add: is_digit_def digit_char_def)

lemma digit_val_digit_char [simp]: "d < 10 \<Longrightarrow> digit_val (digit_char d) = d"
  by (simp add: digit_val_def digit_char_def)

lemma digits_val_snoc [simp]: "digits_val (s @ [c]) = 10 * digits_val s + digit_val c"
  by (simp add: digits_val_def)

lemma digits_val_nat_digits [simp]: "digits_val (nat_digits n) = n"
proof (induction n rule: nat_digits.induct)
  case (1 n)
  then show ?case
    by (cases "n < 10") (simp_all add: nat_digits.simps [of n] digits_val_def)
qed

lemma nat_digits_all_digits [simp]: "c \<in> set (nat_digits n) \<Longrightarrow> is_digit c"
proof (induction n rule: nat_digits.induct)
  case (1 n)
  then show ?case
    by (cases "n < 10") (auto simp: nat_digits.simps [of n])
qed

lemma nat_digits_nonempty [simp]: "nat_digits n \<noteq> []"
  by (subst nat_digits.simps) simp

lemma nat_digits_inject [simp]: "nat_digits m = nat_digits n \<longleftrightarrow> m = n"
  by (metis digits_val_nat_digits)

lemma is_digit_cases: "is_digit c \<Longrightarrow> c \<notin> {CHR ''-'', CHR ''+'', CHR ''{'', CHR ''\"'', CHR '' ''}"
  by (auto simp: is_digit_def)

subsection \<open>\<^verbatim>\<open>strconv.Itoa\<close>, \<^verbatim>\<open>FormatInt\<close>, \<^verbatim>\<open>FormatUint\<close>\<close>

definition FormatUint :: "uint64 \<Rightarrow> string" where
  "FormatUint w = nat_digits (unat w)"

definition int_str :: "int \<Rightarrow> string" where
  "int_str i = (if i < 0 then CHR ''-'' # nat_digits (nat (- i)) else nat_digits (nat i))"

definition Itoa :: "go_int \<Rightarrow> string" where
  "Itoa w = int_str (sint w)"

subsection \<open>\<^verbatim>\<open>strconv.ParseUint\<close>, \<^verbatim>\<open>ParseInt\<close>, \<^verbatim>\<open>Atoi\<close>\<close>

datatype num_error = ErrSyntax | ErrRange

text \<open>
  The digit loop of \<^verbatim>\<open>ParseUint\<close> at base 10: it stops at the first byte that is no digit
  (value 0) and at the first overflow (the largest value of the width).
\<close>

fun parse_uint_loop :: "nat \<Rightarrow> nat \<Rightarrow> string \<Rightarrow> nat \<times> num_error option" where
  "parse_uint_loop mx n [] = (n, None)"
| "parse_uint_loop mx n (c # cs) =
     (if \<not> is_digit c then (0, Some ErrSyntax)
      else let n1 = 10 * n + digit_val c
           in if n1 > mx then (mx, Some ErrRange) else parse_uint_loop mx n1 cs)"

definition parse_uint :: "nat \<Rightarrow> string \<Rightarrow> nat \<times> num_error option" where
  "parse_uint bits s = (if s = [] then (0, Some ErrSyntax) else parse_uint_loop (2 ^ bits - 1) 0 s)"

definition ParseUint64 :: "string \<Rightarrow> uint64 \<times> num_error option" where
  "ParseUint64 s = (let (n, e) = parse_uint 64 s in (word_of_nat n, e))"

definition split_sign :: "string \<Rightarrow> bool \<times> string" where
  "split_sign s = (case s of
     c # cs \<Rightarrow> if c = CHR ''+'' then (False, cs) else if c = CHR ''-'' then (True, cs) else (False, s)
   | [] \<Rightarrow> (False, s))"

definition parse_int :: "nat \<Rightarrow> string \<Rightarrow> int \<times> num_error option" where
  "parse_int bits s =
     (if s = [] then (0, Some ErrSyntax)
      else let (neg, ds) = split_sign s;
               (un, err) = parse_uint bits ds
           in if err = Some ErrSyntax then (0, err)
              else if \<not> neg \<and> un \<ge> 2 ^ (bits - 1) then (2 ^ (bits - 1) - 1, Some ErrRange)
              else if neg \<and> un > 2 ^ (bits - 1) then (- (2 ^ (bits - 1)), Some ErrRange)
              else (if neg then - int un else int un, err))"

definition Atoi :: "string \<Rightarrow> go_int \<times> num_error option" where
  "Atoi s = (let (i, e) = parse_int 64 s in (word_of_int i, e))"

text \<open>The value alone: \<^verbatim>\<open>n, _ := strconv.Atoi(s)\<close>.\<close>

definition Atoi_val :: "string \<Rightarrow> go_int" where
  "Atoi_val s = fst (Atoi s)"

lemma digits_fold_mono: "k \<le> foldl (\<lambda>n c. 10 * n + digit_val c) k ds"
proof (induction ds arbitrary: k)
  case (Cons a ds)
  have "k \<le> 10 * k + digit_val a" by simp
  also have "\<dots> \<le> foldl (\<lambda>n c. 10 * n + digit_val c) (10 * k + digit_val a) ds" by (rule Cons.IH)
  finally show ?case by simp
qed simp

lemma parse_uint_loop_digits:
  "(\<And>c. c \<in> set s \<Longrightarrow> is_digit c) \<Longrightarrow> foldl (\<lambda>n c. 10 * n + digit_val c) n s \<le> mx \<Longrightarrow>
   parse_uint_loop mx n s = (foldl (\<lambda>n c. 10 * n + digit_val c) n s, None)"
proof (induction s arbitrary: n)
  case (Cons c cs)
  from Cons.prems(2) digits_fold_mono [of "10 * n + digit_val c" cs] have "10 * n + digit_val c \<le> mx"
    by simp
  with Cons show ?case by (simp add: Let_def)
qed simp

lemma parse_uint_nat_digits: "n < 2 ^ bits \<Longrightarrow> parse_uint bits (nat_digits n) = (n, None)"
  using parse_uint_loop_digits [of "nat_digits n" 0 "2 ^ bits - 1"]
  by (simp add: parse_uint_def digits_val_def [symmetric])

lemma split_sign_nat_digits [simp]: "split_sign (nat_digits n) = (False, nat_digits n)"
proof (cases "nat_digits n")
  case (Cons c cs)
  then have "is_digit c" by (metis list.set_intros(1) nat_digits_all_digits)
  then show ?thesis using Cons is_digit_cases [of c] by (auto simp: split_sign_def)
qed simp

lemma parse_int_int_str:
  assumes "- (2 ^ (bits - 1)) \<le> i" "i < 2 ^ (bits - 1)" "0 < bits"
  shows "parse_int bits (int_str i) = (i, None)"
proof -
  have p: "(2 :: int) ^ (bits - 1) < 2 ^ bits"
    using assms(3) by (intro power_strict_increasing) auto
  show ?thesis
  proof (cases "i < 0")
    case True
    with assms(1) p have "- i < 2 ^ bits" by linarith
    with True have "int (nat (- i)) < int (2 ^ bits)" by simp
    then have "nat (- i) < 2 ^ bits" by (rule of_nat_less_imp_less)
    moreover from True assms have "\<not> nat (- i) > 2 ^ (bits - 1)"
      by (simp add: nat_le_iff not_less)
    ultimately show ?thesis using True
      by (simp add: parse_int_def int_str_def split_sign_def parse_uint_nat_digits)
  next
    case False
    with assms(2) p have "i < 2 ^ bits" by linarith
    with False have "int (nat i) < int (2 ^ bits)" by simp
    then have "nat i < 2 ^ bits" by (rule of_nat_less_imp_less)
    moreover from False assms have "\<not> nat i \<ge> 2 ^ (bits - 1)"
      by (simp add: nat_less_iff not_le)
    ultimately show ?thesis using False
      by (simp add: parse_int_def int_str_def parse_uint_nat_digits)
  qed
qed

lemma Atoi_Itoa [simp]: "Atoi (Itoa w) = (w, None)"
proof -
  have "parse_int 64 (int_str (sint w)) = (sint w, None)"
    using sint_bounds [of w] by (intro parse_int_int_str) simp_all
  then show ?thesis by (simp add: Atoi_def Itoa_def)
qed

lemma Atoi_val_Itoa [simp]: "Atoi_val (Itoa w) = w"
  by (simp add: Atoi_val_def)

lemma ParseUint64_FormatUint [simp]: "ParseUint64 (FormatUint w) = (w, None)"
  using unsigned_less [of w, where ?'a = nat] by (simp add: ParseUint64_def FormatUint_def parse_uint_nat_digits)

text \<open>An opening brace is no digit and no sign: JSON text reads as the integer 0.\<close>

lemma Atoi_val_brace [simp]: "Atoi_val (CHR ''{'' # s) = 0"
  by (simp add: Atoi_val_def Atoi_def parse_int_def split_sign_def parse_uint_def is_digit_def)

lemma Atoi_val_empty [simp]: "Atoi_val [] = 0"
  by (simp add: Atoi_val_def Atoi_def parse_int_def)

subsection \<open>\<^verbatim>\<open>strconv.ParseBool\<close>\<close>

text \<open>\<^verbatim>\<open>strconv.Quote\<close>, with the bytes of a multi-byte character kept (as for every printable one).\<close>

definition quote_char :: "char \<Rightarrow> string" where
  "quote_char c =
     (let bs = CHR 0x5C; n = of_char c; hex = ''0123456789abcdef'' in
      case map_of [(7 :: nat, CHR ''a''), (8, CHR ''b''), (9, CHR ''t''), (10, CHR ''n''), (11, CHR ''v''), (12, CHR ''f''), (13, CHR ''r''),
                   (0x22, CHR 0x22), (0x5C, CHR 0x5C)] n of
        Some e \<Rightarrow> [bs, e]
      | None \<Rightarrow> if n < 32 \<or> n = 127 then bs # CHR ''x'' # [hex ! (n div 16), hex ! (n mod 16)] else [c])"

definition Quote :: "string \<Rightarrow> string" where
  "Quote s = CHR 0x22 # concat (map quote_char s) @ [CHR 0x22]"

definition ParseBool :: "string \<Rightarrow> bool res" where
  "ParseBool s =
     (if s \<in> {''1'', ''t'', ''T'', ''true'', ''TRUE'', ''True''} then Inr True
      else if s \<in> {''0'', ''f'', ''F'', ''false'', ''FALSE'', ''False''} then Inr False
      else Inl (''strconv.ParseBool: parsing '' @ Quote s @ '': invalid syntax''))"

definition FormatBool :: "bool \<Rightarrow> string" where
  "FormatBool b = (if b then ''true'' else ''false'')"

lemma ParseBool_FormatBool [simp]: "ParseBool (FormatBool b) = Inr b"
  by (simp add: ParseBool_def FormatBool_def)

subsection \<open>\<^verbatim>\<open>strings\<close>\<close>

definition lower_char :: "char \<Rightarrow> char" where
  "lower_char c = (if 65 \<le> (of_char c :: nat) \<and> (of_char c :: nat) \<le> 90
                   then char_of ((of_char c :: nat) + 32) else c)"

definition ToLower :: "string \<Rightarrow> string" where
  "ToLower s = map lower_char s"

definition HasPrefix :: "string \<Rightarrow> string \<Rightarrow> bool" where
  "HasPrefix s p \<longleftrightarrow> take (length p) s = p"

lemma HasPrefix_append [simp]: "HasPrefix (p @ s) p"
  by (simp add: HasPrefix_def)

lemma HasPrefix_iff: "HasPrefix s p \<longleftrightarrow> (\<exists>t. s = p @ t)"
  unfolding HasPrefix_def by (metis append_eq_conv_conj append_take_drop_id)

lemma lower_char_idem [simp]: "lower_char (lower_char c) = lower_char c"
  by (auto simp: lower_char_def)

lemma ToLower_idem [simp]: "ToLower (ToLower s) = ToLower s"
  by (simp add: ToLower_def comp_def)

text \<open>\<^verbatim>\<open>strings.Split(s, sep)\<close> for a one-byte separator.\<close>

fun Split :: "char \<Rightarrow> string \<Rightarrow> string list" where
  "Split sep [] = [[]]"
| "Split sep (c # cs) =
     (if c = sep then [] # Split sep cs
      else case Split sep cs of [] \<Rightarrow> [[c]] | p # ps \<Rightarrow> (c # p) # ps)"

lemma Split_nonempty [simp]: "Split sep s \<noteq> []"
  by (induction s) (auto split: list.splits)

lemma Split_no_sep: "sep \<notin> set s \<Longrightarrow> Split sep s = [s]"
  by (induction s) auto

lemma Split_append_sep: "sep \<notin> set p \<Longrightarrow> Split sep (p @ sep # s) = p # Split sep s"
  by (induction p) auto

end
