(* ===== verification/Go_Json.thy ===== *)
theory Go_Json
  imports Go_Strconv
begin

text \<open>
  Go's \<^verbatim>\<open>encoding/json\<close> at the level of bytes, as far as the repository uses it: values, the
  compact and the indented encoder, and the decoder.

  A value of Go's \<^verbatim>\<open>interface{}\<close> as the decoder builds it is a \<open>json\<close>.  A number keeps its
  decimal literal, so the rounding of \<^verbatim>\<open>float64\<close> is not modelled; the decoder's nesting limit
  (10000) is not modelled either.  A Go map is an association list with strictly increasing
  keys (\<open>canon\<close>), which is the order in which the encoder writes it; a struct is written in
  the order of its fields.  Strings are bytes: the encoder escapes what Go 1.17 to 1.21 escape
  and replaces invalid UTF-8, the decoder undoes it.

  The main result is the round trip \<open>json_decode_encode\<close> for values whose strings are ASCII.
\<close>

datatype json =
    JNull
  | JBool bool
  | JNum string
  | JStr string
  | JArr "json list"
  | JObj "(string \<times> json) list"

type_synonym obj = "(string \<times> json) list"

subsection \<open>UTF-8\<close>

abbreviation byte :: "char \<Rightarrow> nat" where "byte c \<equiv> of_char c"

definition cont :: "char \<Rightarrow> bool" where
  "cont c \<longleftrightarrow> 128 \<le> byte c \<and> byte c \<le> 191"

text \<open>Length of the valid encoding at the front of the bytes, as \<^verbatim>\<open>utf8.DecodeRune\<close> finds it.\<close>

fun utf8_len :: "string \<Rightarrow> nat option" where
  "utf8_len [] = None"
| "utf8_len (c # cs) =
     (let b = byte c in
      if b < 128 then Some 1
      else case cs of
        [] \<Rightarrow> None
      | c1 # cs1 \<Rightarrow> (let b1 = byte c1 in
          if 194 \<le> b \<and> b \<le> 223 then (if cont c1 then Some 2 else None)
          else case cs1 of
            [] \<Rightarrow> None
          | c2 # cs2 \<Rightarrow>
              if 224 \<le> b \<and> b \<le> 239 then
                (if cont c1 \<and> cont c2 \<and> (b = 224 \<longrightarrow> 160 \<le> b1) \<and> (b = 237 \<longrightarrow> b1 \<le> 159)
                 then Some 3 else None)
              else case cs2 of
                [] \<Rightarrow> None
              | c3 # _ \<Rightarrow>
                  if 240 \<le> b \<and> b \<le> 244 \<and> cont c1 \<and> cont c2 \<and> cont c3
                     \<and> (b = 240 \<longrightarrow> 144 \<le> b1) \<and> (b = 244 \<longrightarrow> b1 \<le> 143)
                  then Some 4 else None))"

text \<open>\<^verbatim>\<open>utf8.EncodeRune\<close>; a surrogate or a value above U+10FFFF is written as U+FFFD.\<close>

definition replacement :: string where
  "replacement = [CHR 0xEF, CHR 0xBF, CHR 0xBD]"

definition utf8_encode :: "nat \<Rightarrow> string" where
  "utf8_encode r =
     (if r < 128 then [char_of r]
      else if r < 2048 then [char_of (192 + r div 64), char_of (128 + r mod 64)]
      else if 55296 \<le> r \<and> r < 57344 \<or> 1114111 < r then replacement
      else if r < 65536 then
        [char_of (224 + r div 4096), char_of (128 + r div 64 mod 64), char_of (128 + r mod 64)]
      else [char_of (240 + r div 262144), char_of (128 + r div 4096 mod 64),
            char_of (128 + r div 64 mod 64), char_of (128 + r mod 64)])"

subsection \<open>Encoding\<close>

definition hex_digit :: "nat \<Rightarrow> char" where
  "hex_digit n = (if n < 10 then char_of (48 + n) else char_of (87 + n))"

text \<open>\<^verbatim>\<open>hex.EncodeToString\<close>.\<close>

definition hex_encode :: "bytes \<Rightarrow> string" where
  "hex_encode b = concat (map (\<lambda>c. [hex_digit (byte c div 16), hex_digit (byte c mod 16)]) b)"

abbreviation bslash :: char where "bslash \<equiv> CHR 0x5C"
abbreviation dquote :: char where "dquote \<equiv> CHR 0x22"

definition esc_ascii :: "char \<Rightarrow> string" where
  "esc_ascii c =
     (if c = dquote \<or> c = bslash then [bslash, c]
      else if c = CHR 0x0A then [bslash, CHR ''n'']
      else if c = CHR 0x0D then [bslash, CHR ''r'']
      else if c = CHR 0x09 then [bslash, CHR ''t'']
      else if byte c < 32 \<or> c = CHR ''<'' \<or> c = CHR ''>'' \<or> c = CHR ''&''
      then [bslash, CHR ''u'', CHR ''0'', CHR ''0'', hex_digit (byte c div 16), hex_digit (byte c mod 16)]
      else [c])"

fun quote_body :: "string \<Rightarrow> string" where
  "quote_body [] = []"
| "quote_body (c # cs) =
     (if byte c < 128 then esc_ascii c @ quote_body cs
      else case utf8_len (c # cs) of
        None \<Rightarrow> bslash # ''ufffd'' @ quote_body cs
      | Some n \<Rightarrow>
          (if take n (c # cs) = [CHR 0xE2, CHR 0x80, CHR 0xA8] then bslash # ''u2028''
           else if take n (c # cs) = [CHR 0xE2, CHR 0x80, CHR 0xA9] then bslash # ''u2029''
           else take n (c # cs)) @ quote_body (drop (n - 1) cs))"

definition quote :: "string \<Rightarrow> string" where
  "quote s = dquote # quote_body s @ [dquote]"

text \<open>
  \<open>enc i d v\<close> writes \<open>v\<close>; with \<open>i\<close> set it is \<^verbatim>\<open>MarshalIndent(v, "", "  ")\<close> at nesting depth
  \<open>d\<close>, without it \<^verbatim>\<open>Marshal(v)\<close>.
\<close>

definition nl :: "bool \<Rightarrow> nat \<Rightarrow> string" where
  "nl i d = (if i then CHR 0x0A # replicate (2 * d) (CHR '' '') else [])"

definition colon :: "bool \<Rightarrow> string" where
  "colon i = (if i then '': '' else '':'')"

fun enc :: "bool \<Rightarrow> nat \<Rightarrow> json \<Rightarrow> string"
  and enc_elems :: "bool \<Rightarrow> nat \<Rightarrow> json list \<Rightarrow> string"
  and enc_members :: "bool \<Rightarrow> nat \<Rightarrow> obj \<Rightarrow> string" where
  "enc i d JNull = ''null''"
| "enc i d (JBool b) = FormatBool b"
| "enc i d (JNum l) = l"
| "enc i d (JStr s) = quote s"
| "enc i d (JArr vs) = (if vs = [] then ''[]'' else CHR ''['' # enc_elems i (Suc d) vs @ nl i d @ '']'')"
| "enc i d (JObj kvs) = (if kvs = [] then ''{}'' else CHR ''{'' # enc_members i (Suc d) kvs @ nl i d @ ''}'')"
| "enc_elems i d [] = []"
| "enc_elems i d (v # vs) = nl i d @ enc i d v @ (if vs = [] then [] else CHR '','' # enc_elems i d vs)"
| "enc_members i d [] = []"
| "enc_members i d ((k, v) # kvs) =
     nl i d @ quote k @ colon i @ enc i d v @ (if kvs = [] then [] else CHR '','' # enc_members i d kvs)"

definition json_marshal :: "json \<Rightarrow> bytes" where
  "json_marshal v = enc False 0 v"

definition json_marshal_indent :: "json \<Rightarrow> bytes" where
  "json_marshal_indent v = enc True 0 v"

text \<open>A struct member with the tag \<^verbatim>\<open>omitempty\<close>.\<close>

definition omit :: "bool \<Rightarrow> string \<Rightarrow> json \<Rightarrow> obj" where
  "omit c k v = (if c then [] else [(k, v)])"

subsection \<open>Decoding\<close>

definition is_ws :: "char \<Rightarrow> bool" where
  "is_ws c \<longleftrightarrow> c = CHR '' '' \<or> c = CHR 0x09 \<or> c = CHR 0x0A \<or> c = CHR 0x0D"

definition skip_ws :: "string \<Rightarrow> string" where
  "skip_ws s = dropWhile is_ws s"

definition hex_val :: "char \<Rightarrow> nat option" where
  "hex_val c = (let b = byte c in
     if 48 \<le> b \<and> b \<le> 57 then Some (b - 48)
     else if 97 \<le> b \<and> b \<le> 102 then Some (b - 87)
     else if 65 \<le> b \<and> b \<le> 70 then Some (b - 55) else None)"

definition hex4 :: "string \<Rightarrow> nat option" where
  "hex4 s = (case s of a # b # c # d # _ \<Rightarrow>
       (case (hex_val a, hex_val b, hex_val c, hex_val d) of
          (Some w, Some x, Some y, Some z) \<Rightarrow> Some (4096 * w + 256 * x + 16 * y + z)
        | _ \<Rightarrow> None)
     | _ \<Rightarrow> None)"

text \<open>
  The escape \<^verbatim>\<open>\uXXXX\<close> after its \<open>u\<close>: the bytes written and how many are consumed.  A high
  surrogate followed by an escaped low one is one code point; a lone surrogate is U+FFFD.
\<close>

definition u_escape :: "string \<Rightarrow> (string \<times> nat) option" where
  "u_escape s = (case hex4 s of
     None \<Rightarrow> None
   | Some r \<Rightarrow>
       if 55296 \<le> r \<and> r < 56320 then
         (case (if take 2 (drop 4 s) = [bslash, CHR ''u''] then hex4 (drop 6 s) else None) of
            Some r2 \<Rightarrow> if 56320 \<le> r2 \<and> r2 < 57344
                       then Some (utf8_encode ((r - 55296) * 1024 + (r2 - 56320) + 65536), 10)
                       else Some (replacement, 4)
          | None \<Rightarrow> Some (replacement, 4))
       else Some (utf8_encode r, 4))"

definition esc_val :: "char \<Rightarrow> char option" where
  "esc_val e =
     (if e = dquote \<or> e = bslash \<or> e = CHR ''/'' then Some e
      else if e = CHR ''b'' then Some (CHR 0x08)
      else if e = CHR ''f'' then Some (CHR 0x0C)
      else if e = CHR ''n'' then Some (CHR 0x0A)
      else if e = CHR ''r'' then Some (CHR 0x0D)
      else if e = CHR ''t'' then Some (CHR 0x09)
      else None)"

definition prep :: "string \<Rightarrow> (string \<times> string) option \<Rightarrow> (string \<times> string) option" where
  "prep p r = map_option (\<lambda>(s, t). (p @ s, t)) r"

text \<open>The bytes after an opening quote: the string and what follows its closing quote.\<close>

fun unquote :: "string \<Rightarrow> (string \<times> string) option" where
  "unquote [] = None"
| "unquote (c # cs) =
     (if c = dquote then Some ([], cs)
      else if c = bslash then
        (case cs of
           [] \<Rightarrow> None
         | e # r \<Rightarrow>
             if e = CHR ''u''
             then (case u_escape r of None \<Rightarrow> None | Some (b, n) \<Rightarrow> prep b (unquote (drop n r)))
             else (case esc_val e of None \<Rightarrow> None | Some x \<Rightarrow> prep [x] (unquote r)))
      else if byte c < 32 then None
      else if byte c < 128 then prep [c] (unquote cs)
      else (case utf8_len (c # cs) of
              None \<Rightarrow> prep replacement (unquote cs)
            | Some n \<Rightarrow> prep (take n (c # cs)) (unquote (drop (n - 1) cs))))"

definition num_char :: "char \<Rightarrow> bool" where
  "num_char c \<longleftrightarrow> is_digit c \<or> c \<in> {CHR ''+'', CHR ''-'', CHR ''.'', CHR ''e'', CHR ''E''}"

definition valid_exp :: "string \<Rightarrow> bool" where
  "valid_exp s = (case s of
     [] \<Rightarrow> True
   | c # cs \<Rightarrow> (c = CHR ''e'' \<or> c = CHR ''E'') \<and>
       (let r = (case cs of x # xs \<Rightarrow> if x = CHR ''+'' \<or> x = CHR ''-'' then xs else cs | [] \<Rightarrow> [])
        in r \<noteq> [] \<and> list_all is_digit r))"

definition valid_frac :: "string \<Rightarrow> bool" where
  "valid_frac s = (case s of
     [] \<Rightarrow> True
   | c # cs \<Rightarrow>
       if c = CHR ''.'' then cs \<noteq> [] \<and> is_digit (hd cs) \<and> valid_exp (dropWhile is_digit cs)
       else valid_exp s)"

definition valid_num :: "string \<Rightarrow> bool" where
  "valid_num s =
     (case (case s of c # cs \<Rightarrow> if c = CHR ''-'' then cs else s | [] \<Rightarrow> []) of
        [] \<Rightarrow> False
      | c # cs \<Rightarrow> if c = CHR ''0'' then valid_frac cs
                  else is_digit c \<and> valid_frac (dropWhile is_digit cs))"

fun pval :: "nat \<Rightarrow> string \<Rightarrow> (json \<times> string) option"
  and pelems :: "nat \<Rightarrow> string \<Rightarrow> (json list \<times> string) option"
  and pmembers :: "nat \<Rightarrow> string \<Rightarrow> (obj \<times> string) option" where
  "pval 0 s = None"
| "pval (Suc f) s =
     (case skip_ws s of
        [] \<Rightarrow> None
      | c # r \<Rightarrow>
          if c = dquote then map_option (\<lambda>(x, t). (JStr x, t)) (unquote r)
          else if c = CHR ''{'' then
            (if skip_ws r \<noteq> [] \<and> hd (skip_ws r) = CHR ''}'' then Some (JObj [], tl (skip_ws r))
             else map_option (\<lambda>(x, t). (JObj x, t)) (pmembers f r))
          else if c = CHR ''['' then
            (if skip_ws r \<noteq> [] \<and> hd (skip_ws r) = CHR '']'' then Some (JArr [], tl (skip_ws r))
             else map_option (\<lambda>(x, t). (JArr x, t)) (pelems f r))
          else if c = CHR ''t'' then
            (if take 3 r = ''rue'' then Some (JBool True, drop 3 r) else None)
          else if c = CHR ''f'' then
            (if take 4 r = ''alse'' then Some (JBool False, drop 4 r) else None)
          else if c = CHR ''n'' then
            (if take 3 r = ''ull'' then Some (JNull, drop 3 r) else None)
          else let l = takeWhile num_char (c # r)
               in if valid_num l then Some (JNum l, dropWhile num_char (c # r)) else None)"
| "pelems 0 s = None"
| "pelems (Suc f) s =
     (case pval f s of
        None \<Rightarrow> None
      | Some (v, r) \<Rightarrow>
          (case skip_ws r of
             [] \<Rightarrow> None
           | c # t \<Rightarrow>
               if c = CHR '']'' then Some ([v], t)
               else if c = CHR '','' then map_option (\<lambda>(vs, u). (v # vs, u)) (pelems f t)
               else None))"
| "pmembers 0 s = None"
| "pmembers (Suc f) s =
     (case skip_ws s of
        [] \<Rightarrow> None
      | q # r0 \<Rightarrow>
          if q \<noteq> dquote then None
          else (case unquote r0 of
             None \<Rightarrow> None
           | Some (k, r1) \<Rightarrow>
               (case skip_ws r1 of
                  [] \<Rightarrow> None
                | cl # r2 \<Rightarrow>
                    if cl \<noteq> CHR '':'' then None
                    else (case pval f r2 of
                       None \<Rightarrow> None
                     | Some (v, r) \<Rightarrow>
                         (case skip_ws r of
                            [] \<Rightarrow> None
                          | c # t \<Rightarrow>
                              if c = CHR ''}'' then Some ([(k, v)], t)
                              else if c = CHR '','' then map_option (\<lambda>(kvs, u). ((k, v) # kvs, u)) (pmembers f t)
                              else None)))))"

text \<open>
  The whole input is one value, up to white space.  Every step of the descent that does not
  consume a byte is followed by one that does, so twice the length is enough fuel.
\<close>

definition json_decode :: "bytes \<Rightarrow> json option" where
  "json_decode s = (case pval (2 * length s + 2) s of
     Some (v, r) \<Rightarrow> if skip_ws r = [] then Some v else None
   | None \<Rightarrow> None)"

subsection \<open>Maps\<close>

fun obj_upd :: "string \<Rightarrow> json \<Rightarrow> obj \<Rightarrow> obj" where
  "obj_upd k v [] = [(k, v)]"
| "obj_upd k v ((k', v') # m) =
     (if k < k' then (k, v) # (k', v') # m else if k = k' then (k, v) # m else (k', v') # obj_upd k v m)"

definition obj_get :: "obj \<Rightarrow> string \<Rightarrow> json option" where
  "obj_get m k = map_of m k"

text \<open>Decoding into \<^verbatim>\<open>map[string]interface{}\<close>: the last of several equal keys wins.\<close>

fun canon :: "json \<Rightarrow> json" where
  "canon (JArr vs) = JArr (map canon vs)"
| "canon (JObj kvs) = JObj (fold (\<lambda>(k, v) m. obj_upd k v m) (map (\<lambda>(k, v). (k, canon v)) kvs) [])"
| "canon v = v"

definition json_unmarshal :: "bytes \<Rightarrow> json option" where
  "json_unmarshal s = map_option canon (json_decode s)"

subsection \<open>The round trip\<close>

definition ascii :: "string \<Rightarrow> bool" where
  "ascii s \<longleftrightarrow> list_all (\<lambda>c. byte c < 128) s"

lemma ascii_simps [simp]:
  "ascii []" "ascii (c # s) \<longleftrightarrow> byte c < 128 \<and> ascii s" "ascii (s @ t) \<longleftrightarrow> ascii s \<and> ascii t"
  by (simp_all add: ascii_def)

fun json_ok :: "json \<Rightarrow> bool" where
  "json_ok (JNum l) \<longleftrightarrow> valid_num l \<and> list_all num_char l"
| "json_ok (JStr s) \<longleftrightarrow> ascii s"
| "json_ok (JArr vs) \<longleftrightarrow> list_all json_ok vs"
| "json_ok (JObj kvs) \<longleftrightarrow> list_all (\<lambda>(k, v). ascii k \<and> json_ok v) kvs"
| "json_ok _ \<longleftrightarrow> True"

lemma prep_Some [simp]: "prep p (Some (s, t)) = Some (p @ s, t)"
  by (simp add: prep_def)

lemma hex_val_hex_digit [simp]: "n < 16 \<Longrightarrow> hex_val (hex_digit n) = Some n"
  by (auto simp: hex_val_def hex_digit_def)

lemma hex_val_0 [simp]: "hex_val (CHR ''0'') = Some 0"
  by (simp add: hex_val_def)

lemma u_escape_low:
  "n < 128 \<Longrightarrow> u_escape (CHR ''0'' # CHR ''0'' # hex_digit (n div 16) # hex_digit (n mod 16) # t)
     = Some ([char_of n], 4)"
  by (simp add: u_escape_def hex4_def utf8_encode_def)

lemma unquote_esc_ascii:
  assumes "byte c < 128"
  shows "unquote (esc_ascii c @ t) = prep [c] (unquote t)"
  using assms by (auto simp: esc_ascii_def esc_val_def u_escape_low)

lemma unquote_quote_body:
  "ascii s \<Longrightarrow> unquote (quote_body s @ dquote # t) = Some (s, t)"
  by (induction s) (simp_all add: unquote_esc_ascii)

lemma skip_ws_nl [simp]: "skip_ws (nl i d @ s) = skip_ws s"
proof -
  have "dropWhile is_ws (replicate n (CHR '' '') @ s) = dropWhile is_ws s" for n
    by (induction n) (simp_all add: is_ws_def)
  then show ?thesis by (simp add: skip_ws_def nl_def is_ws_def)
qed

lemma skip_ws_Cons [simp]: "skip_ws (c # s) = (if is_ws c then skip_ws s else c # s)"
  by (simp add: skip_ws_def)

lemma skip_ws_Nil [simp]: "skip_ws [] = []"
  by (simp add: skip_ws_def)

text \<open>What may follow a value: nothing that could continue a number.\<close>

definition delim :: "string \<Rightarrow> bool" where
  "delim t \<longleftrightarrow> t = [] \<or> \<not> num_char (hd t)"

lemma delim_intros [simp]:
  "delim []" "delim (CHR '','' # t)" "delim (CHR '']'' # t)" "delim (CHR ''}'' # t)"
  by (simp_all add: delim_def num_char_def is_digit_def)

lemma delim_nl [simp]: "delim t \<Longrightarrow> delim (nl i d @ t)"
  by (auto simp: delim_def nl_def num_char_def is_digit_def)

lemma valid_num_nonempty: "valid_num l \<Longrightarrow> l \<noteq> []"
  by (auto simp: valid_num_def)

lemma num_char_special [simp]:
  "\<not> num_char dquote" "\<not> num_char (CHR ''{'')" "\<not> num_char (CHR ''['')" "\<not> num_char (CHR ''t'')"
  "\<not> num_char (CHR ''f'')" "\<not> num_char (CHR ''n'')"
  by (simp_all add: num_char_def is_digit_def)

lemma num_char_not_ws: "num_char c \<Longrightarrow> \<not> is_ws c"
  by (auto simp: num_char_def is_digit_def is_ws_def)

lemma takeWhile_delim:
  "list_all num_char l \<Longrightarrow> delim t \<Longrightarrow> takeWhile num_char (l @ t) = l \<and> dropWhile num_char (l @ t) = t"
proof (induction l)
  case Nil
  then show ?case by (cases t) (simp_all add: delim_def)
qed simp

lemma pval_num:
  assumes "valid_num l" "list_all num_char l" "delim t"
  shows "pval (Suc f) (l @ t) = Some (JNum l, t)"
proof -
  obtain c r where l: "l = c # r" using valid_num_nonempty [OF assms(1)] by (cases l) auto
  then have c: "num_char c" using assms(2) by simp
  then have ne: "c \<noteq> dquote" "c \<noteq> CHR ''{''" "c \<noteq> CHR ''[''" "c \<noteq> CHR ''t''" "c \<noteq> CHR ''f''"
    "c \<noteq> CHR ''n''" "\<not> is_ws c"
    using num_char_special num_char_not_ws by blast+
  have tw: "takeWhile num_char (c # r @ t) = c # r" "dropWhile num_char (c # r @ t) = t"
    using takeWhile_delim [OF assms(2,3)] unfolding l by simp_all
  have vn: "valid_num (c # r)" using assms(1) unfolding l .
  show ?thesis
    unfolding l pval.simps append_Cons skip_ws_Cons
    by (simp only: ne vn tw list.case Let_def if_False if_True simp_thms)
qed

lemma enc_first: "json_ok v \<Longrightarrow> \<exists>c r. enc i d v = c # r \<and> \<not> is_ws c \<and> c \<noteq> CHR '']'' \<and> c \<noteq> CHR ''}''"
proof (cases v)
  case (JNum l)
  assume "json_ok v"
  with JNum obtain c r where "l = c # r" "num_char c"
    using valid_num_nonempty [of l] by (cases l) auto
  then show ?thesis using JNum by (auto simp: num_char_def is_digit_def is_ws_def)
qed (auto simp: is_ws_def FormatBool_def quote_def)

lemma enc_elems_first:
  "json_ok v \<Longrightarrow> \<exists>c r. skip_ws (enc_elems i d (v # vs) @ t) = c # r \<and> c \<noteq> CHR '']''"
  using enc_first [of v i d] by auto

lemma colon_skip: "skip_ws (colon i @ s) = CHR '':'' # (if i then CHR '' '' # s else s)"
  by (simp add: colon_def is_ws_def)

lemma pval_skip_space: "pval f (CHR '' '' # s) = pval f s"
  by (cases f) (simp_all add: is_ws_def)

lemma pval_skip_nl: "pval f (nl i d @ s) = pval f s"
  by (cases f) simp_all

lemma enc_length: "json_ok v \<Longrightarrow> 1 \<le> length (enc i d v)"
  using enc_first [of v i d] by auto

lemma enc_members_first: "\<exists>r. skip_ws (enc_members i d ((k, v) # kvs) @ t) = dquote # r"
  by (simp add: quote_def is_ws_def)

lemma parse_enc:
  "json_ok v \<Longrightarrow> delim t \<Longrightarrow> 2 * length (enc i d v) \<le> f \<Longrightarrow> pval f (enc i d v @ t) = Some (v, t)"
  "list_all json_ok vs \<Longrightarrow> vs \<noteq> [] \<Longrightarrow> 2 * length (enc_elems i d vs) < f \<Longrightarrow>
     pelems f (enc_elems i d vs @ nl i d' @ CHR '']'' # t) = Some (vs, t)"
  "list_all (\<lambda>(k, v). ascii k \<and> json_ok v) kvs \<Longrightarrow> kvs \<noteq> [] \<Longrightarrow> 2 * length (enc_members i d kvs) < f \<Longrightarrow>
     pmembers f (enc_members i d kvs @ nl i d' @ CHR ''}'' # t) = Some (kvs, t)"
proof (induction i d v and i d vs and i d kvs arbitrary: f t and f t d' and f t d' rule: enc_enc_elems_enc_members.induct)
  case (1 i d)
  then show ?case by (cases f) (simp_all add: is_ws_def)
next
  case (2 i d b)
  then show ?case by (cases f; cases b) (simp_all add: FormatBool_def is_ws_def)
next
  case (3 i d l)
  then obtain f' where "f = Suc f'"
    using valid_num_nonempty [of l] by (cases f) auto
  then show ?case using 3 by (simp only: enc.simps json_ok.simps pval_num)
next
  case (4 i d s)
  then show ?case by (cases f) (simp_all add: quote_def is_ws_def unquote_quote_body)
next
  case (5 i d vs)
  show ?case
  proof (cases vs)
    case Nil
    with 5 show ?thesis by (cases f) (simp_all add: is_ws_def)
  next
    case (Cons v ws)
    from 5(4) Cons obtain f' where f: "f = Suc f'" by (cases f) auto
    from 5(4) Cons f have "2 * length (enc_elems i (Suc d) vs) < f'" by simp
    with 5 Cons have IH: "pelems f' (enc_elems i (Suc d) vs @ nl i d @ CHR '']'' # t) = Some (vs, t)"
      by simp
    obtain c r where "skip_ws (enc_elems i (Suc d) vs @ nl i d @ CHR '']'' # t) = c # r" "c \<noteq> CHR '']''"
      using enc_elems_first [of v] 5(2) Cons by force
    with IH Cons f show ?thesis by (simp add: is_ws_def)
  qed
next
  case (6 i d kvs)
  show ?case
  proof (cases kvs)
    case Nil
    with 6 show ?thesis by (cases f) (simp_all add: is_ws_def)
  next
    case (Cons kv ws)
    from 6(4) Cons obtain f' where f: "f = Suc f'" by (cases f) auto
    from 6(4) Cons f have "2 * length (enc_members i (Suc d) kvs) < f'" by simp
    with 6 Cons have IH: "pmembers f' (enc_members i (Suc d) kvs @ nl i d @ CHR ''}'' # t) = Some (kvs, t)"
      by simp
    obtain r where "skip_ws (enc_members i (Suc d) kvs @ nl i d @ CHR ''}'' # t) = dquote # r"
      using enc_members_first [of i "Suc d" "fst kv" "snd kv" ws] Cons by auto
    with IH Cons f show ?thesis by (simp add: is_ws_def)
  qed
next
  case (7 i d)
  then show ?case by simp
next
  case (8 i d v vs)
  from 8(5) obtain f' where f: "f = Suc f'" by (cases f) auto
  have v: "pval f' (enc i d v @ u) = Some (v, u)" if "delim u" for u
    using 8 f that by simp
  show ?case
  proof (cases "vs = []")
    case True
    with v f show ?thesis by (simp add: pval_skip_nl is_ws_def)
  next
    case False
    from 8(5) f False have "2 * length (enc_elems i d vs) < f'" by simp
    with 8 False have "pelems f' (enc_elems i d vs @ nl i d' @ CHR '']'' # t) = Some (vs, t)" by simp
    with v f False show ?thesis by (simp add: pval_skip_nl is_ws_def)
  qed
next
  case (9 i d)
  then show ?case by simp
next
  case (10 i d k v kvs)
  from 10(5) obtain f' where f: "f = Suc f'" by (cases f) auto
  have v: "pval f' (enc i d v @ u) = Some (v, u)" if "delim u" for u
    using 10 f that by simp
  have k: "ascii k" using 10 by simp
  show ?case
  proof (cases "kvs = []")
    case True
    with v f k show ?thesis
      by (cases i) (simp_all add: quote_def unquote_quote_body colon_skip pval_skip_space is_ws_def)
  next
    case False
    from 10(5) f False have "2 * length (enc_members i d kvs) < f'" by simp
    with 10 False have "pmembers f' (enc_members i d kvs @ nl i d' @ CHR ''}'' # t) = Some (kvs, t)" by simp
    with v f k False show ?thesis
      by (cases i) (simp_all add: quote_def unquote_quote_body colon_skip pval_skip_space is_ws_def)
  qed
qed

lemma json_decode_encode:
  assumes "json_ok v"
  shows "json_decode (enc i d v) = Some v"
  using parse_enc(1) [OF assms, of "[]" i d "2 * length (enc i d v) + 2"]
  by (simp add: json_decode_def)

subsection \<open>The fuel is enough\<close>

lemma prep_SomeD: "prep b q = Some (x, r) \<Longrightarrow> \<exists>y. q = Some (y, r)"
  by (auto simp: prep_def)

lemma unquote_shorter: "unquote s = Some (x, r) \<Longrightarrow> length r < length s"
proof (induction s arbitrary: x rule: length_induct)
  case (1 s)
  have IH: "length r < length s" if "unquote t = Some (y, r)" "length t < length s" for t y
    using 1 that by fastforce
  show ?case
  proof (cases s)
    case (Cons c cs)
    with 1(2) have "r = cs \<or> (\<exists>t y. unquote t = Some (y, r) \<and> length t \<le> length cs)"
      by (auto simp del: utf8_len.simps split: if_splits list.splits option.splits
        dest!: prep_SomeD intro: exI [of _ "drop n t" for n t])
    then show ?thesis using IH Cons by fastforce
  qed (use 1(2) in simp)
qed

lemma skip_ws_length: "length (skip_ws s) \<le> length s"
  by (simp add: skip_ws_def length_dropWhile_le)

lemma skip_ws_shorter: "skip_ws s = c # r \<Longrightarrow> length r < length s"
  using skip_ws_length [of s] by simp

lemma dropWhile_num_shorter:
  "valid_num (takeWhile num_char s) \<Longrightarrow> length (dropWhile num_char s) < length s"
proof -
  assume "valid_num (takeWhile num_char s)"
  then have "0 < length (takeWhile num_char s)" using valid_num_nonempty by blast
  moreover have "length s = length (takeWhile num_char s) + length (dropWhile num_char s)"
    by (metis length_append takeWhile_dropWhile_id)
  ultimately show ?thesis by simp
qed

lemma parse_shorter:
  "(\<forall>s v r. pval f s = Some (v, r) \<longrightarrow> length r < length s) \<and>
   (\<forall>s vs r. pelems f s = Some (vs, r) \<longrightarrow> length r < length s) \<and>
   (\<forall>s kvs r. pmembers f s = Some (kvs, r) \<longrightarrow> length r < length s)"
proof (induction f)
  case (Suc f)
  have v: "length r < length s" if "pval f s = Some (v, r)" for s v r using Suc that by blast
  have e: "length r < length s" if "pelems f s = Some (v, r)" for s v r using Suc that by blast
  have m: "length r < length s" if "pmembers f s = Some (v, r)" for s v r using Suc that by blast
  have "length r < length s" if "pval (Suc f) s = Some (v, r)" for s v r
  proof (cases "skip_ws s")
    case (Cons c t)
    note st = skip_ws_shorter [OF Cons]
    show ?thesis
      using that Cons st skip_ws_length [of t] dropWhile_num_shorter [of "c # t"]
      by (auto simp: Let_def split: if_splits dest!: unquote_shorter e m
        simp del: takeWhile.simps dropWhile.simps)
  qed (use that in simp)
  moreover have "length r < length s" if "pelems (Suc f) s = Some (vs, r)" for s vs r
    using that by (auto split: option.splits list.splits if_splits dest!: skip_ws_shorter v e)
  moreover have "length r < length s" if "pmembers (Suc f) s = Some (kvs, r)" for s kvs r
    using that
    by (auto split: option.splits list.splits if_splits dest!: skip_ws_shorter unquote_shorter v m)
  ultimately show ?case by blast
qed simp

lemma pval_shorter: "pval f s = Some (v, r) \<Longrightarrow> length r < length s"
  using parse_shorter by blast

text \<open>With at least the fuel that \<open>json_decode\<close> starts with, one more unit changes nothing.\<close>

lemma parse_fuel_stable:
  "(\<forall>s. 2 * length s < f \<longrightarrow> pval (Suc f) s = pval f s) \<and>
   (\<forall>s. 2 * length s + 1 < f \<longrightarrow> pelems (Suc f) s = pelems f s) \<and>
   (\<forall>s. 2 * length s + 1 < f \<longrightarrow> pmembers (Suc f) s = pmembers f s)"
proof (induction f)
  case (Suc f)
  have v: "pval (Suc f) s = pval f s" if "2 * length s < f" for s using Suc that by blast
  have e: "pelems (Suc f) s = pelems f s" if "2 * length s + 1 < f" for s using Suc that by blast
  have m: "pmembers (Suc f) s = pmembers f s" if "2 * length s + 1 < f" for s using Suc that by blast
  have "pval (Suc (Suc f)) s = pval (Suc f) s" if "2 * length s < Suc f" for s
  proof (cases "skip_ws s")
    case (Cons c t)
    with skip_ws_shorter [OF Cons] that have "2 * length t + 1 < f \<or> f \<le> 2 * length t + 1" "length t < length s"
      by auto
    then have "2 * length t + 1 < f" using that by simp
    with Cons e m show ?thesis
      by (simp only: pval.simps(2) list.case)
  qed simp
  moreover have "pelems (Suc (Suc f)) s = pelems (Suc f) s" if "2 * length s + 1 < Suc f" for s
  proof -
    have vs: "pval (Suc f) s = pval f s" using v that by simp
    have "pelems (Suc f) u = pelems f u" if "pval f s = Some (w, r)" "skip_ws r = c # u" for w r c u
      using e pval_shorter [OF that(1)] skip_ws_shorter [OF that(2)] \<open>2 * length s + 1 < Suc f\<close> by simp
    then show ?thesis
      by (auto simp add: pelems.simps(2) [of "Suc f" s] pelems.simps(2) [of f s] vs
        simp del: pval.simps pelems.simps split: option.splits list.splits prod.splits)
  qed
  moreover have "pmembers (Suc (Suc f)) s = pmembers (Suc f) s" if "2 * length s + 1 < Suc f" for s
  proof -
    have vs: "pval (Suc f) r2 = pval f r2"
      if "skip_ws s = q # r0" "unquote r0 = Some (k, r1)" "skip_ws r1 = cl # r2" for q r0 k r1 cl r2
      using v skip_ws_shorter [OF that(1)] unquote_shorter [OF that(2)] skip_ws_shorter [OF that(3)]
        \<open>2 * length s + 1 < Suc f\<close> by simp
    have "pmembers (Suc f) u = pmembers f u"
      if "skip_ws s = q # r0" "unquote r0 = Some (k, r1)" "skip_ws r1 = cl # r2"
        "pval f r2 = Some (w, r)" "skip_ws r = c # u" for q r0 k r1 cl r2 w r c u
      using m skip_ws_shorter [OF that(1)] unquote_shorter [OF that(2)] skip_ws_shorter [OF that(3)]
        pval_shorter [OF that(4)] skip_ws_shorter [OF that(5)] \<open>2 * length s + 1 < Suc f\<close> by simp
    with vs show ?thesis
      by (auto simp add: pmembers.simps(2) [of "Suc f" s] pmembers.simps(2) [of f s]
        simp del: pval.simps pmembers.simps split: option.splits list.splits prod.splits)
  qed
  ultimately show ?case by blast
qed simp

lemma pval_fuel_enough: "pval (2 * length s + 2 + n) s = pval (2 * length s + 2) s"
proof (induction n)
  case (Suc n)
  then show ?case using parse_fuel_stable [of "2 * length s + 2 + n"] by simp
qed simp

subsection \<open>Numbers and objects the repository writes\<close>

lemma digit_char_0 [simp]: "d < 10 \<Longrightarrow> digit_char d = CHR ''0'' \<longleftrightarrow> d = 0"
proof
  assume "d < 10" "digit_char d = CHR ''0''"
  then have "d = digit_val (CHR ''0'')" by (metis digit_val_digit_char)
  then show "d = 0" by (simp add: digit_val_def)
qed (simp add: digit_char_def char_of_def bit_0)

lemma hd_nat_digits: "hd (nat_digits n) = CHR ''0'' \<longleftrightarrow> n = 0"
proof (induction n rule: nat_digits.induct)
  case (1 n)
  then show ?case
    by (cases "n < 10") (auto simp: nat_digits.simps [of n] hd_append)
qed

lemma dropWhile_all_digits: "(\<And>c. c \<in> set s \<Longrightarrow> is_digit c) \<Longrightarrow> dropWhile is_digit s = []"
  by simp

lemma valid_num_nat_digits: "valid_num (nat_digits n)" "valid_num (CHR ''-'' # nat_digits n)"
proof -
  obtain c cs where n: "nat_digits n = c # cs" by (cases "nat_digits n") auto
  have d: "is_digit x" if "x \<in> set (c # cs)" for x using that nat_digits_all_digits n by metis
  have "cs = []" if "c = CHR ''0''"
  proof -
    from that n hd_nat_digits [of n] have "n = 0" by simp
    with n show ?thesis by (simp add: nat_digits.simps)
  qed
  moreover have "dropWhile is_digit cs = []" using d by simp
  moreover have "c \<noteq> CHR ''-''" "is_digit c" using d [of c] is_digit_cases [of c] by auto
  ultimately show "valid_num (nat_digits n)" "valid_num (CHR ''-'' # nat_digits n)"
    by (simp_all add: n valid_num_def valid_frac_def del: dropWhile_eq_Nil_conv)
qed

lemma json_ok_int_str [simp]: "json_ok (JNum (int_str i))"
  by (auto simp: int_str_def valid_num_nat_digits list_all_iff num_char_def)

lemma json_ok_Itoa [simp]: "json_ok (JNum (Itoa n))"
  by (simp add: Itoa_def del: json_ok.simps)

lemma json_ok_FormatUint [simp]: "json_ok (JNum (FormatUint n))"
  by (auto simp: FormatUint_def valid_num_nat_digits list_all_iff num_char_def)

lemma json_decode_int_str [simp]: "json_decode (int_str i) = Some (JNum (int_str i))"
  using json_decode_encode [of "JNum (int_str i)" False] json_ok_int_str by (simp del: json_ok.simps)

subsection \<open>Canonical objects\<close>

fun canonical :: "json \<Rightarrow> bool" where
  "canonical (JArr vs) \<longleftrightarrow> list_all canonical vs"
| "canonical (JObj kvs) \<longleftrightarrow> sorted_wrt (<) (map fst kvs) \<and> list_all (\<lambda>(k, v). canonical v) kvs"
| "canonical _ \<longleftrightarrow> True"

abbreviation keys_sorted :: "obj \<Rightarrow> bool" where
  "keys_sorted m \<equiv> sorted_wrt (<) (map fst m)"

lemma set_obj_upd: "set (obj_upd k v m) \<subseteq> insert (k, v) (set m)"
  by (induction k v m rule: obj_upd.induct) auto

lemma obj_upd_sorted: "keys_sorted m \<Longrightarrow> keys_sorted (obj_upd k v m)"
proof (induction k v m rule: obj_upd.induct)
  case (2 k v k' v' m)
  have "\<forall>x\<in>set (obj_upd k v m). k' < fst x" if "k' < k" "\<forall>x\<in>set m. k' < fst x"
    using that set_obj_upd [of k v m] by fastforce
  with 2 show ?case by (auto dest: order.strict_trans)
qed simp

lemma obj_upd_snoc: "keys_sorted (m @ [(k, v)]) \<Longrightarrow> obj_upd k v m = m @ [(k, v)]"
proof (induction m)
  case (Cons a m)
  then show ?case by (cases a) (auto simp: sorted_wrt_append dest: less_not_sym)
qed simp

lemma fold_obj_upd_sorted: "keys_sorted (m @ kvs) \<Longrightarrow> fold (\<lambda>(k, v) m. obj_upd k v m) kvs m = m @ kvs"
proof (induction kvs arbitrary: m)
  case (Cons a kvs)
  obtain k v where a: "a = (k, v)" by (cases a)
  have "keys_sorted ((m @ [(k, v)]) @ kvs)" using Cons.prems a by simp
  then have "keys_sorted (m @ [(k, v)])" by (simp add: sorted_wrt_append)
  then show ?case using Cons.IH [of "m @ [(k, v)]"] Cons.prems a by (simp add: obj_upd_snoc)
qed simp

lemma canon_id: "canonical v \<Longrightarrow> canon v = v"
proof (induction v rule: canon.induct)
  case (1 vs)
  then show ?case by (auto simp: list_all_iff intro: map_idI)
next
  case (2 kvs)
  have "map (\<lambda>(k, v). (k, canon v)) kvs = kvs"
    using 2 by (intro map_idI) (auto simp: list_all_iff)
  then show ?case using fold_obj_upd_sorted [of "[]" kvs] 2 by simp
qed simp_all

lemma fold_obj_upd_inv:
  assumes "keys_sorted m" "list_all (\<lambda>(k, v). canonical v) m" "list_all (\<lambda>(k, v). canonical v) kvs"
  shows "canonical (JObj (fold (\<lambda>(k, v) m. obj_upd k v m) kvs m))"
  using assms
proof (induction kvs arbitrary: m)
  case (Cons a kvs)
  obtain k v where a: "a = (k, v)" by (cases a)
  have "list_all (\<lambda>(k, v). canonical v) (obj_upd k v m)"
    using Cons.prems a set_obj_upd [of k v m] by (fastforce simp: list_all_iff)
  then show ?case using Cons a by (simp add: obj_upd_sorted del: canonical.simps)
qed simp

lemma canonical_canon: "canonical (canon v)"
proof (induction v rule: canon.induct)
  case (2 kvs)
  then have "list_all (\<lambda>(k, v). canonical v) (map (\<lambda>(k, v). (k, canon v)) kvs)"
    by (auto simp: list_all_iff)
  then show ?case using fold_obj_upd_inv [of "[]"] by simp
qed (auto simp: list_all_iff)

lemma canonical_upd: "canonical (JObj m) \<Longrightarrow> canonical v \<Longrightarrow> canonical (JObj (obj_upd k v m))"
  using fold_obj_upd_inv [of m "[(k, v)]"] by simp

lemma json_ok_upd: "json_ok (JObj m) \<Longrightarrow> json_ok v \<Longrightarrow> ascii k \<Longrightarrow> json_ok (JObj (obj_upd k v m))"
  using set_obj_upd [of k v m] by (fastforce simp: list_all_iff)

lemma json_unmarshal_canonical: "json_unmarshal s = Some v \<Longrightarrow> canonical v"
  by (auto simp: json_unmarshal_def canonical_canon)

lemma json_unmarshal_enc: "json_ok v \<Longrightarrow> canonical v \<Longrightarrow> json_unmarshal (enc i d v) = Some v"
  by (simp add: json_unmarshal_def json_decode_encode canon_id)

end
