(* ===== verification/Go_Time.thy ===== *)
theory Go_Time
  imports Go_Json
begin

text \<open>
  Go's \<^verbatim>\<open>time.Time\<close> as the repository uses it: \<^verbatim>\<open>time.Parse(time.RFC3339, s)\<close>, comparison of
  instants, and the JSON form of a time (RFC 3339 with the shortest fraction), after Go 1.20.
  A parsed time keeps the calendar fields and the zone offset it was written with; its instant
  is computed from them.  A reading of the clock (\<^verbatim>\<open>time.Now()\<close>) is an argument of the code that
  takes it.  The text of a parse error is shortened to the input.
\<close>

record go_time =
  year :: nat
  month :: nat
  day :: nat
  hour :: nat
  minute :: nat
  second :: nat
  nsec :: nat
  zone :: int \<comment> \<open>offset from UTC in seconds\<close>

subsection \<open>Calendar\<close>

definition is_leap :: "nat \<Rightarrow> bool" where
  "is_leap y \<longleftrightarrow> y mod 4 = 0 \<and> (y mod 100 \<noteq> 0 \<or> y mod 400 = 0)"

definition days_in :: "nat \<Rightarrow> nat \<Rightarrow> nat" where
  "days_in m y = (if m = 2 then (if is_leap y then 29 else 28)
                  else if m \<in> {4, 6, 9, 11} then 30 else 31)"

definition days_before_year :: "nat \<Rightarrow> nat" where
  "days_before_year y = 365 * y + (y + 3) div 4 - (y + 99) div 100 + (y + 399) div 400"

definition days_before_month :: "nat \<Rightarrow> nat \<Rightarrow> nat" where
  "days_before_month m y = sum_list (map (\<lambda>k. days_in k y) [1..<m])"

definition unix_days :: "go_time \<Rightarrow> int" where
  "unix_days t = int (days_before_year (year t) + days_before_month (month t) (year t) + day t - 1) - 719528"

definition UnixNano :: "go_time \<Rightarrow> int" where
  "UnixNano t = (unix_days t * 86400 + int (hour t * 3600 + minute t * 60 + second t) - zone t)
     * 1000000000 + int (nsec t)"

text \<open>\<^verbatim>\<open>t.Before(u)\<close>\<close>

definition Before :: "go_time \<Rightarrow> go_time \<Rightarrow> bool" where
  "Before t u \<longleftrightarrow> UnixNano t < UnixNano u"

subsection \<open>Parsing RFC 3339\<close>

definition getnum2 :: "string \<Rightarrow> (nat \<times> string) option" where
  "getnum2 s = (case s of
     a # b # r \<Rightarrow> if is_digit a \<and> is_digit b then Some (digits_val [a, b], r) else None
   | _ \<Rightarrow> None)"

text \<open>The hour of the layout may be written with one digit.\<close>

definition getnum12 :: "string \<Rightarrow> (nat \<times> string) option" where
  "getnum12 s = (case s of
     a # r \<Rightarrow> if \<not> is_digit a then None
              else (case r of b # r' \<Rightarrow> if is_digit b then Some (digits_val [a, b], r') else Some (digit_val a, r)
                            | [] \<Rightarrow> Some (digit_val a, r))
   | [] \<Rightarrow> None)"

definition get_year :: "string \<Rightarrow> (nat \<times> string) option" where
  "get_year s = (if 4 \<le> length s \<and> list_all is_digit (take 4 s)
                 then Some (digits_val (take 4 s), drop 4 s) else None)"

definition expect :: "char \<Rightarrow> string \<Rightarrow> string option" where
  "expect c s = (case s of x # r \<Rightarrow> if x = c then Some r else None | [] \<Rightarrow> None)"

text \<open>An optional fraction: a period or comma and at least one digit; nine digits count.\<close>

definition get_frac :: "string \<Rightarrow> nat \<times> string" where
  "get_frac s = (case s of
     p # d # r \<Rightarrow>
       if (p = CHR ''.'' \<or> p = CHR '','') \<and> is_digit d
       then (let ds = take 9 (takeWhile is_digit (d # r))
             in (digits_val ds * 10 ^ (9 - length ds), dropWhile is_digit (d # r)))
       else (0, s)
   | _ \<Rightarrow> (0, s))"

definition get_zone :: "string \<Rightarrow> (int \<times> string) option" where
  "get_zone s = (case s of
     [] \<Rightarrow> None
   | c # r \<Rightarrow>
       if c = CHR ''Z'' then Some (0, r)
       else if length s < 6 \<or> s ! 3 \<noteq> CHR '':'' then None
       else (case (getnum2 (take 2 r), getnum2 (take 2 (drop 4 s))) of
          (Some (hr, _), Some (mm, _)) \<Rightarrow>
            if hr > 24 \<or> mm > 60 then None
            else if c = CHR ''+'' then Some (int ((hr * 60 + mm) * 60), drop 6 s)
            else if c = CHR ''-'' then Some (- int ((hr * 60 + mm) * 60), drop 6 s)
            else None
        | _ \<Rightarrow> None))"

definition parse_rfc3339 :: "string \<Rightarrow> go_time option" where
  "parse_rfc3339 s =
     Option.bind (get_year s) (\<lambda>(y, s). Option.bind (expect (CHR ''-'') s) (\<lambda>s.
     Option.bind (getnum2 s) (\<lambda>(mo, s). if mo = 0 \<or> 12 < mo then None else
     Option.bind (expect (CHR ''-'') s) (\<lambda>s.
     Option.bind (getnum2 s) (\<lambda>(d, s). Option.bind (expect (CHR ''T'') s) (\<lambda>s.
     Option.bind (getnum12 s) (\<lambda>(h, s). if 24 \<le> h then None else
     Option.bind (expect (CHR '':'') s) (\<lambda>s.
     Option.bind (getnum2 s) (\<lambda>(mi, s). if 60 \<le> mi then None else
     Option.bind (expect (CHR '':'') s) (\<lambda>s.
     Option.bind (getnum2 s) (\<lambda>(sec, s). if 60 \<le> sec then None else
     Option.bind (get_zone (snd (get_frac s))) (\<lambda>(z, r).
       if r \<noteq> [] \<or> d < 1 \<or> days_in mo y < d then None
       else Some \<lparr>year = y, month = mo, day = d, hour = h, minute = mi, second = sec,
                   nsec = fst (get_frac s), zone = z\<rparr>))))))))))))"

definition ParseRFC3339 :: "string \<Rightarrow> go_time res" where
  "ParseRFC3339 s = (case parse_rfc3339 s of
     None \<Rightarrow> Inl (''parsing time '' @ quote s) | Some t \<Rightarrow> Inr t)"

subsection \<open>Formatting\<close>

definition pad :: "nat \<Rightarrow> nat \<Rightarrow> string" where
  "pad k n = replicate (k - length (nat_digits n)) (CHR ''0'') @ nat_digits n"

definition frac_str :: "nat \<Rightarrow> string" where
  "frac_str ns = (if ns = 0 then []
     else CHR ''.'' # rev (dropWhile (\<lambda>c. c = CHR ''0'') (rev (pad 9 ns))))"

definition zone_str :: "int \<Rightarrow> string" where
  "zone_str z = (if z = 0 then ''Z''
     else (if z < 0 then CHR ''-'' else CHR ''+'')
       # pad 2 (nat \<bar>z\<bar> div 3600) @ '':'' @ pad 2 (nat \<bar>z\<bar> div 60 mod 60))"

definition format_rfc3339_nano :: "go_time \<Rightarrow> string" where
  "format_rfc3339_nano t =
     pad 4 (year t) @ ''-'' @ pad 2 (month t) @ ''-'' @ pad 2 (day t) @ ''T''
     @ pad 2 (hour t) @ '':'' @ pad 2 (minute t) @ '':'' @ pad 2 (second t)
     @ frac_str (nsec t) @ zone_str (zone t)"

text \<open>\<^verbatim>\<open>t.Format("2006-01-02 15:04:05")\<close>\<close>

definition format_datetime :: "go_time \<Rightarrow> string" where
  "format_datetime t = pad 4 (year t) @ ''-'' @ pad 2 (month t) @ ''-'' @ pad 2 (day t) @ '' ''
     @ pad 2 (hour t) @ '':'' @ pad 2 (minute t) @ '':'' @ pad 2 (second t)"

definition zero_time :: go_time where
  "zero_time = \<lparr>year = 1, month = 1, day = 1, hour = 0, minute = 0, second = 0, nsec = 0, zone = 0\<rparr>"

text \<open>\<^verbatim>\<open>Time.MarshalJSON\<close>: years of four digits and zone hours below 24 only.\<close>

definition marshal_time :: "go_time \<Rightarrow> json res" where
  "marshal_time t =
     (if 9999 < year t then Inl ''Time.MarshalJSON: year outside of range [0,9999]''
      else if 24 \<le> nat \<bar>zone t\<bar> div 3600 then Inl ''Time.MarshalJSON: timezone hour outside of range [0,23]''
      else Inr (JStr (format_rfc3339_nano t)))"

text \<open>\<^verbatim>\<open>Time.UnmarshalJSON\<close> into a field that holds \<open>old\<close>; \<^verbatim>\<open>null\<close> is a no-op.\<close>

definition unmarshal_time :: "go_time \<Rightarrow> json \<Rightarrow> go_time res" where
  "unmarshal_time old v = (case v of
     JNull \<Rightarrow> Inr old
   | JStr s \<Rightarrow> ParseRFC3339 s
   | _ \<Rightarrow> Inl ''Time.UnmarshalJSON: input is not a JSON string'')"

subsection \<open>The round trip\<close>

lemma length_nat_digits: "n < 10 ^ k \<Longrightarrow> 0 < k \<Longrightarrow> length (nat_digits n) \<le> k"
proof (induction k arbitrary: n)
  case (Suc k)
  show ?case
  proof (cases "n < 10")
    case True
    then show ?thesis by (simp add: nat_digits.simps [of n])
  next
    case False
    with Suc.prems have "n div 10 < 10 ^ k" "0 < k"
      by (auto simp: less_mult_imp_div_less mult.commute intro: Nat.gr0I)
    with Suc.IH False show ?thesis by (simp add: nat_digits.simps [of n])
  qed
qed simp

lemma length_pad [simp]: "n < 10 ^ k \<Longrightarrow> 0 < k \<Longrightarrow> length (pad k n) = k"
  by (simp add: pad_def length_nat_digits)

lemma digits_val_zeros [simp]: "digits_val (replicate j (CHR ''0'') @ s) = digits_val s"
  by (induction j) (simp_all add: digits_val_def digit_val_def)

lemma digits_val_pad [simp]: "digits_val (pad k n) = n"
  by (simp add: pad_def)

lemma pad_digits: "c \<in> set (pad k n) \<Longrightarrow> is_digit c"
  by (auto simp: pad_def is_digit_def split: if_splits dest: nat_digits_all_digits)

lemma pad2:
  assumes "n < 100"
  obtains a b where "pad 2 n = [a, b]" "is_digit a" "is_digit b" "digits_val [a, b] = n"
proof -
  have "length (pad 2 n) = 2" using assms by simp
  then obtain a b where p: "pad 2 n = [a, b]"
    by (metis (no_types, opaque_lifting) One_nat_def Suc_1 length_0_conv length_Suc_conv)
  show ?thesis
  proof (rule that [OF p])
    show "is_digit a" "is_digit b" using pad_digits [of _ 2 n] p by simp_all
    show "digits_val [a, b] = n" unfolding p [symmetric] by simp
  qed
qed

lemma getnum2_pad [simp]: "n < 100 \<Longrightarrow> getnum2 (pad 2 n @ s) = Some (n, s)"
  by (erule pad2) (simp add: getnum2_def)

lemma getnum12_pad [simp]: "n < 100 \<Longrightarrow> getnum12 (pad 2 n @ s) = Some (n, s)"
  by (erule pad2) (simp add: getnum12_def)

lemma get_year_pad [simp]: "n < 10000 \<Longrightarrow> get_year (pad 4 n @ s) = Some (n, s)"
  using length_pad [of n 4] pad_digits [of _ 4 n] by (auto simp: get_year_def list_all_iff)

lemma expect_Cons [simp]: "expect c (c # s) = Some s"
  by (simp add: expect_def)

lemma zone_str_first:
  "\<exists>c r. zone_str z = c # r \<and> \<not> is_digit c \<and> c \<noteq> CHR ''.'' \<and> c \<noteq> CHR '',''"
  by (auto simp: zone_str_def is_digit_def)

text \<open>A fraction of seconds without its trailing zeros.\<close>

lemma trim_zeros:
  obtains j where "s = rev (dropWhile (\<lambda>c. c = CHR ''0'') (rev s)) @ replicate j (CHR ''0'')"
proof -
  define t where "t = takeWhile (\<lambda>c. c = CHR ''0'') (rev s)"
  have "rev s = t @ dropWhile (\<lambda>c. c = CHR ''0'') (rev s)" by (simp add: t_def)
  then have "s = rev (dropWhile (\<lambda>c. c = CHR ''0'') (rev s)) @ rev t"
    by (metis rev_append rev_rev_ident)
  moreover have "t = replicate (length t) (CHR ''0'')"
    unfolding t_def by (metis (full_types) replicate_eqI set_takeWhileD)
  ultimately show ?thesis using that by (metis rev_replicate)
qed

lemma digits_val_trailing: "digits_val (s @ replicate j (CHR ''0'')) = digits_val s * 10 ^ j"
proof (induction j)
  case (Suc j)
  have "s @ replicate (Suc j) (CHR ''0'') = (s @ replicate j (CHR ''0'')) @ [CHR ''0'']"
    by (simp add: replicate_append_same)
  then show ?case using Suc by (simp only: digits_val_snoc) (simp add: digit_val_def)
qed simp

lemma get_frac_str:
  assumes "ns < 1000000000" "r \<noteq> []" "\<not> is_digit (hd r)" "hd r \<noteq> CHR ''.''" "hd r \<noteq> CHR '',''"
  shows "get_frac (frac_str ns @ r) = (ns, r)"
proof (cases "ns = 0")
  case True
  with assms show ?thesis
    by (cases r) (auto simp: frac_str_def get_frac_def split: list.splits)
next
  case False
  define d where "d = rev (dropWhile (\<lambda>c. c = CHR ''0'') (rev (pad 9 ns)))"
  obtain j where j: "pad 9 ns = d @ replicate j (CHR ''0'')"
    unfolding d_def by (rule trim_zeros)
  have "length (pad 9 ns) = 9" using assms(1) by simp
  then have lj: "length d + j = 9" unfolding j by simp
  have val: "ns = digits_val d * 10 ^ j"
    using digits_val_pad [of 9 ns] unfolding j digits_val_trailing by simp
  have dig: "is_digit c" if "c \<in> set d" for c
    using that pad_digits [of c 9 ns] unfolding j by simp
  have "d \<noteq> []" using val False by (auto simp: digits_val_def)
  then obtain x xs where x: "d = x # xs" by (meson neq_Nil_conv)
  have tr: "takeWhile is_digit r = []" "dropWhile is_digit r = r"
    using assms(2,3) by (cases r; simp)+
  have "takeWhile is_digit (d @ r) = d" "dropWhile is_digit (d @ r) = r"
    using dig tr by (simp_all add: takeWhile_append2 dropWhile_append2)
  then have tw: "takeWhile is_digit (x # xs @ r) = x # xs" "dropWhile is_digit (x # xs @ r) = r"
    unfolding x by simp_all
  have "frac_str ns @ r = CHR ''.'' # x # (xs @ r)"
    using False x by (simp add: frac_str_def d_def [symmetric])
  moreover have "is_digit x" using dig x by simp
  moreover have "9 - length (x # xs) = j" "take 9 (x # xs) = x # xs"
    using lj unfolding x by simp_all
  moreover have "ns = digits_val (x # xs) * 10 ^ j" using val unfolding x .
  ultimately show ?thesis
    unfolding get_frac_def by (simp only: list.case Let_def tw simp_thms if_True)
qed

definition zone_ok :: "int \<Rightarrow> bool" where
  "zone_ok z \<longleftrightarrow> 60 dvd z \<and> \<bar>z\<bar> < 86400"

lemma get_zone_str:
  assumes "zone_ok z"
  shows "get_zone (zone_str z) = Some (z, [])"
proof (cases "z = 0")
  case False
  from assms obtain k where k: "z = 60 * k" by (auto simp: zone_ok_def)
  with assms have kb: "\<bar>k\<bar> < 1440" by (auto simp: zone_ok_def)
  let ?h = "nat \<bar>z\<bar> div 3600" and ?m = "nat \<bar>z\<bar> div 60 mod 60"
  have n: "nat \<bar>z\<bar> = 60 * nat \<bar>k\<bar>" using k by (simp add: abs_mult nat_mult_distrib)
  have h: "?h = nat \<bar>k\<bar> div 60" and m: "?m = nat \<bar>k\<bar> mod 60"
    unfolding n by (simp_all add: div_mult2_eq [of _ 60 60, simplified])
  have "nat \<bar>k\<bar> < 24 * 60" using kb by linarith
  then have hm: "?h < 24" "?m < 60" using h m less_mult_imp_div_less by simp_all
  have sum: "(?h * 60 + ?m) * 60 = nat \<bar>z\<bar>" unfolding h m n by simp
  have h100: "?h < 100" "?m < 100" using hm by simp_all
  obtain a b where p: "pad 2 ?h = [a, b]" "is_digit a" "is_digit b" "digits_val [a, b] = ?h"
    using pad2 [OF h100(1)] .
  obtain c d where q: "pad 2 ?m = [c, d]" "is_digit c" "is_digit d" "digits_val [c, d] = ?m"
    using pad2 [OF h100(2)] .
  have z: "zone_str z = (if z < 0 then CHR ''-'' else CHR ''+'') # a # b # CHR '':'' # c # d # []"
    using False p(1) q(1) by (simp add: zone_str_def)
  define h m where hm_def: "h = ?h" "m = ?m"
  have g: "getnum2 [a, b] = Some (h, [])" "getnum2 [c, d] = Some (m, [])"
    using p(2-4) q(2-4) by (simp_all add: getnum2_def hm_def)
  have b: "\<not> (h > 24 \<or> m > 60)" "(h * 60 + m) * 60 = nat \<bar>z\<bar>"
    using hm sum unfolding hm_def [symmetric] by linarith+
  show ?thesis
  proof (cases "z < 0")
    case True
    then show ?thesis unfolding z get_zone_def using g b by simp
  next
    case False
    then show ?thesis unfolding z get_zone_def using g b by simp
  qed
qed (simp add: zone_str_def get_zone_def)

definition time_ok :: "go_time \<Rightarrow> bool" where
  "time_ok t \<longleftrightarrow> year t < 10000 \<and> 1 \<le> month t \<and> month t \<le> 12 \<and> 1 \<le> day t
     \<and> day t \<le> days_in (month t) (year t) \<and> hour t < 24 \<and> minute t < 60 \<and> second t < 60
     \<and> nsec t < 1000000000 \<and> zone_ok (zone t)"

lemma days_in_le: "days_in m y \<le> 31"
  by (simp add: days_in_def)

lemma parse_format:
  assumes "time_ok t"
  shows "parse_rfc3339 (format_rfc3339_nano t) = Some t"
proof -
  have "day t < 100" using assms days_in_le [of "month t" "year t"] by (simp add: time_ok_def)
  moreover have "get_frac (frac_str (nsec t) @ zone_str (zone t)) = (nsec t, zone_str (zone t))"
    using assms zone_str_first [of "zone t"] by (intro get_frac_str) (auto simp: time_ok_def)
  ultimately show ?thesis
    using assms by (simp add: parse_rfc3339_def format_rfc3339_nano_def time_ok_def get_zone_str)
qed

lemma unmarshal_marshal_time:
  assumes "time_ok t"
  shows "\<exists>s. marshal_time t = Inr (JStr s) \<and> unmarshal_time old (JStr s) = Inr t"
proof -
  have "nat \<bar>zone t\<bar> < 24 * 3600" using assms by (auto simp: time_ok_def zone_ok_def)
  then have "nat \<bar>zone t\<bar> div 3600 < 24" by (rule less_mult_imp_div_less)
  with assms show ?thesis
    by (simp add: marshal_time_def unmarshal_time_def ParseRFC3339_def parse_format time_ok_def)
qed

text \<open>Every time that parses and can be written again is well-formed.\<close>

lemma digits_val_bound: "list_all is_digit s \<Longrightarrow> digits_val s < 10 ^ length s"
proof (induction s rule: rev_induct)
  case (snoc c s)
  then have "digit_val c < 10" by (auto simp: is_digit_def digit_val_def)
  with snoc show ?case by simp
qed (simp add: digits_val_def)

lemma frac_scale_bound:
  assumes "list_all is_digit ds" "length ds \<le> 9"
  shows "digits_val ds * 10 ^ (9 - length ds) < 1000000000"
proof -
  have "digits_val ds * 10 ^ (9 - length ds) < 10 ^ length ds * 10 ^ (9 - length ds)"
    using digits_val_bound [OF assms(1)] by simp
  also have "\<dots> = 10 ^ 9" using assms(2) by (simp flip: power_add)
  finally show ?thesis by simp
qed

lemma get_frac_bound: "get_frac s = (n, r) \<Longrightarrow> n < 1000000000"
proof -
  have "list_all is_digit (take 9 (takeWhile is_digit t))" for t
    by (auto simp: list_all_iff dest: in_set_takeD set_takeWhileD)
  from frac_scale_bound [OF this] show "get_frac s = (n, r) \<Longrightarrow> n < 1000000000"
    by (auto simp: get_frac_def Let_def simp del: takeWhile.simps dropWhile.simps
      split: list.splits if_splits)
qed

lemma get_frac_bound' [simp]: "fst (get_frac s) < 1000000000"
  using get_frac_bound [of s] by (cases "get_frac s") simp

lemma get_year_bound: "get_year s = Some (y, r) \<Longrightarrow> y < 10000"
  using digits_val_bound [of "take 4 s"] by (auto simp: get_year_def min_def split: if_splits)

lemma get_zone_bound: "get_zone s = Some (z, r) \<Longrightarrow> 60 dvd z"
  by (auto simp: get_zone_def split: list.splits if_splits option.splits)

lemma parse_rfc3339_ok:
  assumes "parse_rfc3339 s = Some t" "marshal_time t = Inr v"
  shows "time_ok t"
proof -
  have "year t < 10000 \<and> 1 \<le> month t \<and> month t \<le> 12 \<and> 1 \<le> day t
     \<and> day t \<le> days_in (month t) (year t) \<and> hour t < 24 \<and> minute t < 60 \<and> second t < 60
     \<and> nsec t < 1000000000 \<and> 60 dvd zone t"
    using assms(1)
    by (auto simp: parse_rfc3339_def bind_eq_Some_conv split: if_splits
      dest!: get_year_bound get_zone_bound)
  moreover have "\<bar>zone t\<bar> < 86400"
  proof -
    have "nat \<bar>zone t\<bar> div 3600 < 24" using assms(2) by (auto simp: marshal_time_def split: if_splits)
    then show ?thesis by (simp add: div_less_iff_less_mult)
  qed
  ultimately show ?thesis by (simp add: time_ok_def zone_ok_def)
qed

lemma ascii_digits: "(\<And>c. c \<in> set s \<Longrightarrow> is_digit c) \<Longrightarrow> ascii s"
  by (force simp: ascii_def list_all_iff is_digit_def)

lemma ascii_pad [simp]: "ascii (pad k n)"
  by (rule ascii_digits) (rule pad_digits)

lemma ascii_format_rfc3339_nano [simp]: "ascii (format_rfc3339_nano t)"
proof -
  have "ascii (frac_str n)" for n
    using ascii_pad [of 9 n]
    by (auto simp: frac_str_def ascii_def list_all_iff dest: set_dropWhileD)
  then show ?thesis by (simp add: format_rfc3339_nano_def zone_str_def)
qed

end
