(* ===== verification/Token_Contract.thy ===== *)
theory Token_Contract
  imports Go_Time
begin

text \<open>
  The ERC-20 chaincode with hashed time-locks,
  \<^verbatim>\<open>artifacts/src/github.com/test-erc-20/chaincode/token_contract.go\<close>: its data, its helper
  functions and every method of \<^verbatim>\<open>SmartContract\<close>, one definition each, in the order of the
  checks of the source.

  The transaction context (Fabric's stub and client identity) is not part of the repository.
  It is the argument \<open>ctx\<close>: the stub's operations on an abstract simulation state \<open>'s\<close> and
  the two values of the client identity.  \<^verbatim>\<open>GetID\<close> is a pair, since \<^verbatim>\<open>Claim\<close> and \<^verbatim>\<open>Revert\<close> use
  the string without looking at the error.  Logging has no effect on the ledger and is left out.
\<close>

subsection \<open>The transaction context\<close>

record 's ctx =
  GetState :: "string \<Rightarrow> ('s, bytes option) op"
  PutState :: "string \<Rightarrow> bytes \<Rightarrow> ('s, unit) op"
  SetEvent :: "string \<Rightarrow> bytes \<Rightarrow> ('s, unit) op"
  CreateCompositeKey :: "string \<Rightarrow> string list \<Rightarrow> string res"
  GetMSPID :: "string res"
  GetID :: "string \<times> error option"

definition client_id :: "'s ctx \<Rightarrow> string res" where
  "client_id c = (case GetID c of (i, None) \<Rightarrow> Inr i | (_, Some e) \<Rightarrow> Inl e)"

subsection \<open>Data\<close>

definition totalSupplyKey :: string where
  "totalSupplyKey = ''totalSupply''"

definition allowancePrefix :: string where
  "allowancePrefix = ''allowance''"

record HTLC =
  Sender :: string
  Recipient :: string
  Amount :: go_int
  HashLock :: string
  TimeLock :: go_time
  Claimed :: bool
  Reverted :: bool
  ClaimPassword :: string

record event =
  From :: string
  To :: string
  Value :: go_int

text \<open>\<^verbatim>\<open>json.Marshal\<close> of the two structs.\<close>

definition marshal_HTLC :: "HTLC \<Rightarrow> bytes res" where
  "marshal_HTLC h = (case marshal_time (TimeLock h) of
     Inl e \<Rightarrow> Inl (''json: error calling MarshalJSON for type time.Time: '' @ e)
   | Inr t \<Rightarrow> Inr (json_marshal (JObj
       [(''sender'', JStr (Sender h)), (''recipient'', JStr (Recipient h)),
        (''amount'', JNum (Itoa (Amount h))), (''hashLock'', JStr (HashLock h)),
        (''timeLock'', t), (''claimed'', JBool (Claimed h)),
        (''reverted'', JBool (Reverted h)), (''claimPassword'', JStr (ClaimPassword h))])))"

definition marshal_event :: "event \<Rightarrow> bytes" where
  "marshal_event e = json_marshal (JObj
     [(''from'', JStr (From e)), (''to'', JStr (To e)), (''value'', JNum (Itoa (Value e)))])"

text \<open>
  \<^verbatim>\<open>json.Unmarshal\<close> into the struct: keys are matched without regard to case (and with the two
  non-ASCII letters that fold to \<open>s\<close> and \<open>k\<close>), unknown keys are skipped, \<^verbatim>\<open>null\<close> leaves a field
  as it is, and the first mismatch is the error.
\<close>

fun fold_key :: "string \<Rightarrow> string" where
  "fold_key [] = []"
| "fold_key (c # cs) =
     (if take 2 (c # cs) = [CHR 0xC5, CHR 0xBF] then CHR ''s'' # fold_key (drop 1 cs)
      else if take 3 (c # cs) = [CHR 0xE2, CHR 0x84, CHR 0xAA] then CHR ''k'' # fold_key (drop 2 cs)
      else lower_char c # fold_key cs)"

fun json_kind :: "json \<Rightarrow> string" where
  "json_kind JNull = ''null''"
| "json_kind (JBool _) = ''bool''"
| "json_kind (JNum l) = ''number''"
| "json_kind (JStr _) = ''string''"
| "json_kind (JArr _) = ''array''"
| "json_kind (JObj _) = ''object''"

definition type_error :: "string \<Rightarrow> string \<Rightarrow> string \<Rightarrow> error" where
  "type_error k f t =
     ''json: cannot unmarshal '' @ k @ '' into Go struct field HTLC.'' @ f @ '' of type '' @ t"

definition field_string :: "string \<Rightarrow> string \<Rightarrow> json \<Rightarrow> string res" where
  "field_string f old v = (case v of
     JNull \<Rightarrow> Inr old | JStr s \<Rightarrow> Inr s | _ \<Rightarrow> Inl (type_error (json_kind v) f ''string''))"

definition field_bool :: "string \<Rightarrow> bool \<Rightarrow> json \<Rightarrow> bool res" where
  "field_bool f old v = (case v of
     JNull \<Rightarrow> Inr old | JBool b \<Rightarrow> Inr b | _ \<Rightarrow> Inl (type_error (json_kind v) f ''bool''))"

definition field_int :: "string \<Rightarrow> go_int \<Rightarrow> json \<Rightarrow> go_int res" where
  "field_int f old v = (case v of
     JNull \<Rightarrow> Inr old
   | JNum l \<Rightarrow> (case Atoi l of (n, None) \<Rightarrow> Inr n | (_, Some _) \<Rightarrow> Inl (type_error (''number '' @ l) f ''int''))
   | _ \<Rightarrow> Inl (type_error (json_kind v) f ''int''))"

definition set_field :: "HTLC \<Rightarrow> string \<Rightarrow> json \<Rightarrow> HTLC res" where
  "set_field h k v =
     (if fold_key k = ''sender'' then map_sum id (\<lambda>x. h\<lparr>Sender := x\<rparr>) (field_string ''sender'' (Sender h) v)
      else if fold_key k = ''recipient'' then map_sum id (\<lambda>x. h\<lparr>Recipient := x\<rparr>) (field_string ''recipient'' (Recipient h) v)
      else if fold_key k = ''amount'' then map_sum id (\<lambda>x. h\<lparr>Amount := x\<rparr>) (field_int ''amount'' (Amount h) v)
      else if fold_key k = ''hashlock'' then map_sum id (\<lambda>x. h\<lparr>HashLock := x\<rparr>) (field_string ''hashLock'' (HashLock h) v)
      else if fold_key k = ''timelock'' then map_sum id (\<lambda>x. h\<lparr>TimeLock := x\<rparr>) (unmarshal_time (TimeLock h) v)
      else if fold_key k = ''claimed'' then map_sum id (\<lambda>x. h\<lparr>Claimed := x\<rparr>) (field_bool ''claimed'' (Claimed h) v)
      else if fold_key k = ''reverted'' then map_sum id (\<lambda>x. h\<lparr>Reverted := x\<rparr>) (field_bool ''reverted'' (Reverted h) v)
      else if fold_key k = ''claimpassword'' then map_sum id (\<lambda>x. h\<lparr>ClaimPassword := x\<rparr>) (field_string ''claimPassword'' (ClaimPassword h) v)
      else Inr h)"

fun set_fields :: "HTLC \<Rightarrow> obj \<Rightarrow> HTLC res" where
  "set_fields h [] = Inr h"
| "set_fields h ((k, v) # kvs) = (case set_field h k v of Inl e \<Rightarrow> Inl e | Inr h' \<Rightarrow> set_fields h' kvs)"

definition zero_HTLC :: HTLC where
  "zero_HTLC = \<lparr>Sender = [], Recipient = [], Amount = 0, HashLock = [], TimeLock = zero_time,
     Claimed = False, Reverted = False, ClaimPassword = []\<rparr>"

definition unmarshal_HTLC :: "bytes \<Rightarrow> HTLC res" where
  "unmarshal_HTLC b = (case json_decode b of
     None \<Rightarrow> Inl ''invalid JSON''
   | Some (JObj kvs) \<Rightarrow> set_fields zero_HTLC kvs
   | Some JNull \<Rightarrow> Inr zero_HTLC
   | Some v \<Rightarrow> Inl (''json: cannot unmarshal '' @ json_kind v @ '' into Go value of type chaincode.HTLC''))"

subsection \<open>Checked arithmetic\<close>

text \<open>
  \<^verbatim>\<open>add\<close> on Go's wrapping 64-bit integers: the sum wraps, and the comparison decides whether it
  did.
\<close>

definition add :: "go_int \<Rightarrow> go_int \<Rightarrow> go_int res" where
  "add b q = (let sum = q + b in
     if (sum <s q \<or> sum <s b) = (0 <=s b \<and> 0 <=s q)
     then Inl (''Math: addition overflow occurred '' @ Itoa b @ '' + '' @ Itoa q)
     else Inr sum)"

definition sub :: "go_int \<Rightarrow> go_int \<Rightarrow> go_int res" where
  "sub b q =
     (if q <=s 0 then Inl (''Error: the subtraction number is '' @ Itoa q @ '', it should be greater than 0'')
      else if b <s q then Inl (''Error: the number '' @ Itoa b @ '' is not enough to be subtracted by '' @ Itoa q)
      else Inr (b - q))"

subsection \<open>Transfers\<close>

definition transferHelper :: "'s ctx \<Rightarrow> string \<Rightarrow> string \<Rightarrow> go_int \<Rightarrow> ('s, unit) op" where
  "transferHelper c from to value =
     (if from = to then fail ''cannot transfer to and from same client account''
      else if value <s 0 then fail ''transfer amount cannot be negative''
      else chk (GetState c from)
        (\<lambda>err. ''failed to read client account '' @ from @ '' from world state: '' @ err)
        (\<lambda>fromCurrentBalanceBytes. case fromCurrentBalanceBytes of
           None \<Rightarrow> fail (''client account '' @ from @ '' has no balance'')
         | Some fb \<Rightarrow> (let fromCurrentBalance = Atoi_val fb in
             if fromCurrentBalance <s value then fail (''client account '' @ from @ '' has insufficient funds'')
             else chk (GetState c to)
               (\<lambda>err. ''failed to read recipient account '' @ to @ '' from world state: '' @ err)
               (\<lambda>toCurrentBalanceBytes.
                 let toCurrentBalance = (case toCurrentBalanceBytes of None \<Rightarrow> 0 | Some tb \<Rightarrow> Atoi_val tb) in
                 chk (pureE (sub fromCurrentBalance value)) id (\<lambda>fromUpdatedBalance.
                 chk (pureE (add toCurrentBalance value)) id (\<lambda>toUpdatedBalance.
                 chk (PutState c from (Itoa fromUpdatedBalance)) id (\<lambda>_.
                 PutState c to (Itoa toUpdatedBalance))))))))"

definition Transfer :: "'s ctx \<Rightarrow> string \<Rightarrow> string \<Rightarrow> go_int \<Rightarrow> ('s, unit) op" where
  "Transfer c sender recipient amount =
     chk (transferHelper c sender recipient amount) (\<lambda>err. ''failed to transfer: '' @ err) (\<lambda>_.
     chk (SetEvent c ''Transfer'' (marshal_event \<lparr>From = sender, To = recipient, Value = amount\<rparr>))
       (\<lambda>err. ''failed to set event: '' @ err) ok)"

subsection \<open>Hashed time-locks\<close>

definition TransferConditional ::
  "'s ctx \<Rightarrow> string \<Rightarrow> go_int \<Rightarrow> string \<Rightarrow> string \<Rightarrow> string \<Rightarrow> ('s, unit) op" where
  "TransferConditional c recipient amount hashLock timeLock claimPassword =
     chk (pureE (GetMSPID c)) (\<lambda>err. ''failed to get MSPID: '' @ err) (\<lambda>clientMSPID.
     if clientMSPID \<noteq> ''Org1MSP'' then fail ''client is not authorized to do Conditional Transfer''
     else chk (pureE (client_id c)) (\<lambda>err. ''failed to get client id: '' @ err) (\<lambda>clientID.
     chk (transferHelper c clientID recipient amount) (\<lambda>err. ''failed to transfer: '' @ err) (\<lambda>_.
     chk (pureE (ParseRFC3339 timeLock)) (\<lambda>err. ''failed to parse timeLock: '' @ err) (\<lambda>timeLockTime.
     chk (pureE (marshal_HTLC
            \<lparr>Sender = clientID, Recipient = recipient, Amount = amount, HashLock = hashLock,
             TimeLock = timeLockTime, Claimed = False, Reverted = False, ClaimPassword = claimPassword\<rparr>))
       (\<lambda>err. ''failed to marshal HTLC details: '' @ err) (\<lambda>htlcBytes.
     chk (PutState c hashLock htlcBytes)
       (\<lambda>err. ''failed to put HTLC details in the world state: '' @ err) ok)))))"

definition GetHashTimeLock :: "'s ctx \<Rightarrow> string \<Rightarrow> ('s, HTLC) op" where
  "GetHashTimeLock c hashLock =
     chk (GetState c hashLock) (\<lambda>err. ''failed to read HTLC details from the world state: '' @ err) (\<lambda>htlcBytes.
     case htlcBytes of
       None \<Rightarrow> fail (''HTLC not found for hashLock: '' @ hashLock)
     | Some b \<Rightarrow> chk (pureE (unmarshal_HTLC b)) (\<lambda>err. ''failed to unmarshal HTLC details: '' @ err) ok)"

text \<open>The clock is read twice: \<open>now\<close> decides, \<open>now'\<close> is only printed.\<close>

definition Claim :: "'s ctx \<Rightarrow> go_time \<Rightarrow> go_time \<Rightarrow> string \<Rightarrow> string \<Rightarrow> ('s, unit) op" where
  "Claim c now now' hashLock claimPassword =
     chk (pureE (GetMSPID c)) (\<lambda>err. ''failed to get MSPID: '' @ err) (\<lambda>clientMSPID.
     if clientMSPID \<noteq> ''Org1MSP'' then fail ''client is not authorized to Claim''
     else chk (GetHashTimeLock c hashLock) id (\<lambda>htlc.
       let clientID = fst (GetID c) in
       if Claimed htlc then fail ''invalid claim: HTLC already claimed''
       else if Reverted htlc then fail ''invalid claim: HTLC already reverted''
       else if ClaimPassword htlc \<noteq> claimPassword then fail ''invalid claim: incorrect claim password''
       else if Before now (TimeLock htlc)
       then fail (''invalid claim: timelock not yet expired-now:'' @ format_datetime now'
                  @ '' ,lock:'' @ format_datetime (TimeLock htlc))
       else chk (Transfer c clientID (Recipient htlc) (Amount htlc)) id (\<lambda>_.
            chk (pureE (marshal_HTLC (htlc\<lparr>Claimed := True\<rparr>)))
              (\<lambda>err. ''failed to marshal updated HTLC details: '' @ err) (\<lambda>htlcBytes.
            chk (PutState c hashLock htlcBytes)
              (\<lambda>err. ''failed to update HTLC details in the world state: '' @ err) ok))))"

definition Revert :: "'s ctx \<Rightarrow> go_time \<Rightarrow> string \<Rightarrow> ('s, unit) op" where
  "Revert c now hashLock =
     chk (pureE (GetMSPID c)) (\<lambda>err. ''failed to get MSPID: '' @ err) (\<lambda>clientMSPID.
     if clientMSPID \<noteq> ''Org1MSP'' then fail ''client is not authorized to Revert''
     else chk (GetHashTimeLock c hashLock) id (\<lambda>htlc.
       if Claimed htlc then fail ''invalid Revert: HTLC already claimed''
       else if Reverted htlc then fail ''invalid Revert: HTLC already reverted''
       else if Before now (TimeLock htlc) then fail ''invalid Revert: timelock not yet expired''
       else let clientID = fst (GetID c) in
            chk (Transfer c (Recipient htlc) clientID (Amount htlc)) id (\<lambda>_.
            chk (pureE (marshal_HTLC (htlc\<lparr>Reverted := True\<rparr>)))
              (\<lambda>err. ''failed to marshal updated HTLC details: '' @ err) (\<lambda>htlcBytes.
            chk (PutState c hashLock htlcBytes)
              (\<lambda>err. ''failed to update HTLC details in the world state: '' @ err) ok))))"

subsection \<open>Supply\<close>

definition Mint :: "'s ctx \<Rightarrow> go_int \<Rightarrow> ('s, unit) op" where
  "Mint c amount =
     chk (pureE (GetMSPID c)) (\<lambda>err. ''failed to get MSPID: '' @ err) (\<lambda>clientMSPID.
     if clientMSPID \<noteq> ''Org1MSP'' then fail ''client is not authorized to mint new tokens''
     else chk (pureE (client_id c)) (\<lambda>err. ''failed to get client id: '' @ err) (\<lambda>minter.
     if amount <=s 0 then fail ''mint amount must be a positive integer''
     else chk (GetState c minter)
       (\<lambda>err. ''failed to read minter account '' @ minter @ '' from world state: '' @ err)
       (\<lambda>currentBalanceBytes.
     let currentBalance = (case currentBalanceBytes of None \<Rightarrow> 0 | Some b \<Rightarrow> Atoi_val b) in
     chk (pureE (add currentBalance amount)) id (\<lambda>updatedBalance.
     chk (PutState c minter (Itoa updatedBalance)) id (\<lambda>_.
     chk (GetState c totalSupplyKey) (\<lambda>err. ''failed to retrieve total token supply: '' @ err)
       (\<lambda>totalSupplyBytes.
     let totalSupply = (case totalSupplyBytes of None \<Rightarrow> 0 | Some b \<Rightarrow> Atoi_val b) in
     chk (pureE (add totalSupply amount)) id (\<lambda>totalSupply'.
     chk (PutState c totalSupplyKey (Itoa totalSupply')) id (\<lambda>_.
     chk (SetEvent c ''Transfer'' (marshal_event \<lparr>From = ''0x0'', To = minter, Value = amount\<rparr>))
       (\<lambda>err. ''failed to set event: '' @ err) ok))))))))"

definition Burn :: "'s ctx \<Rightarrow> go_int \<Rightarrow> ('s, unit) op" where
  "Burn c amount =
     chk (pureE (GetMSPID c)) (\<lambda>err. ''failed to get MSPID: '' @ err) (\<lambda>clientMSPID.
     if clientMSPID \<noteq> ''Org1MSP'' then fail ''client is not authorized to mint new tokens''
     else chk (pureE (client_id c)) (\<lambda>err. ''failed to get client id: '' @ err) (\<lambda>minter.
     if amount <=s 0 then fail ''burn amount must be a positive integer''
     else chk (GetState c minter)
       (\<lambda>err. ''failed to read minter account '' @ minter @ '' from world state: '' @ err)
       (\<lambda>currentBalanceBytes. case currentBalanceBytes of
          None \<Rightarrow> fail ''The balance does not exist''
        | Some cb \<Rightarrow>
     (let currentBalance = Atoi_val cb in
     chk (pureE (sub currentBalance amount)) id (\<lambda>updatedBalance.
     chk (PutState c minter (Itoa updatedBalance)) id (\<lambda>_.
     chk (GetState c totalSupplyKey) (\<lambda>err. ''failed to retrieve total token supply: '' @ err)
       (\<lambda>totalSupplyBytes. case totalSupplyBytes of
          None \<Rightarrow> fail ''totalSupply does not exist''
        | Some tb \<Rightarrow>
     (let totalSupply = Atoi_val tb in
     chk (pureE (sub totalSupply amount)) id (\<lambda>totalSupply'.
     chk (PutState c totalSupplyKey (Itoa totalSupply')) id (\<lambda>_.
     chk (SetEvent c ''Transfer'' (marshal_event \<lparr>From = minter, To = ''0x0'', Value = amount\<rparr>))
       (\<lambda>err. ''failed to set event: '' @ err) ok))))))))))"

subsection \<open>Queries\<close>

definition BalanceOf :: "'s ctx \<Rightarrow> string \<Rightarrow> ('s, go_int) op" where
  "BalanceOf c account =
     chk (GetState c account) (\<lambda>err. ''failed to read from world state: '' @ err) (\<lambda>balanceBytes.
     case balanceBytes of
       None \<Rightarrow> fail (''the account '' @ account @ '' does not exist'')
     | Some b \<Rightarrow> ok (Atoi_val b))"

definition ClientAccountBalance :: "'s ctx \<Rightarrow> ('s, go_int) op" where
  "ClientAccountBalance c =
     chk (pureE (client_id c)) (\<lambda>err. ''failed to get client id: '' @ err) (\<lambda>clientID.
     chk (GetState c clientID) (\<lambda>err. ''failed to read from world state: '' @ err) (\<lambda>balanceBytes.
     case balanceBytes of
       None \<Rightarrow> fail (''the account '' @ clientID @ '' does not exist'')
     | Some b \<Rightarrow> ok (Atoi_val b)))"

definition ClientAccountID :: "'s ctx \<Rightarrow> ('s, string) op" where
  "ClientAccountID c =
     chk (pureE (client_id c)) (\<lambda>err. ''failed to get client id: '' @ err) ok"

definition TotalSupply :: "'s ctx \<Rightarrow> ('s, go_int) op" where
  "TotalSupply c =
     chk (GetState c totalSupplyKey) (\<lambda>err. ''failed to retrieve total token supply: '' @ err)
       (\<lambda>totalSupplyBytes. ok (case totalSupplyBytes of None \<Rightarrow> 0 | Some b \<Rightarrow> Atoi_val b))"

subsection \<open>Allowances\<close>

definition Approve :: "'s ctx \<Rightarrow> string \<Rightarrow> go_int \<Rightarrow> ('s, unit) op" where
  "Approve c spender value =
     chk (pureE (client_id c)) (\<lambda>err. ''failed to get client id: '' @ err) (\<lambda>owner.
     chk (pureE (CreateCompositeKey c allowancePrefix [owner, spender]))
       (\<lambda>err. ''failed to create the composite key for prefix '' @ allowancePrefix @ '': '' @ err)
       (\<lambda>allowanceKey.
     chk (PutState c allowanceKey (Itoa value))
       (\<lambda>err. ''failed to update state of smart contract for key '' @ allowanceKey @ '': '' @ err) (\<lambda>_.
     chk (SetEvent c ''Approval'' (marshal_event \<lparr>From = owner, To = spender, Value = value\<rparr>))
       (\<lambda>err. ''failed to set event: '' @ err) ok)))"

definition Allowance :: "'s ctx \<Rightarrow> string \<Rightarrow> string \<Rightarrow> ('s, go_int) op" where
  "Allowance c owner spender =
     chk (pureE (CreateCompositeKey c allowancePrefix [owner, spender]))
       (\<lambda>err. ''failed to create the composite key for prefix '' @ allowancePrefix @ '': '' @ err)
       (\<lambda>allowanceKey.
     chk (GetState c allowanceKey)
       (\<lambda>err. ''failed to read allowance for '' @ allowanceKey @ '' from world state: '' @ err)
       (\<lambda>allowanceBytes. ok (case allowanceBytes of None \<Rightarrow> 0 | Some b \<Rightarrow> Atoi_val b)))"

definition TransferFrom :: "'s ctx \<Rightarrow> string \<Rightarrow> string \<Rightarrow> go_int \<Rightarrow> ('s, unit) op" where
  "TransferFrom c from to value =
     chk (pureE (client_id c)) (\<lambda>err. ''failed to get client id: '' @ err) (\<lambda>spender.
     chk (pureE (CreateCompositeKey c allowancePrefix [from, spender]))
       (\<lambda>err. ''failed to create the composite key for prefix '' @ allowancePrefix @ '': '' @ err)
       (\<lambda>allowanceKey.
     chk (GetState c allowanceKey)
       (\<lambda>err. ''failed to retrieve the allowance for '' @ allowanceKey @ '' from world state: '' @ err)
       (\<lambda>currentAllowanceBytes.
     let currentAllowance = Atoi_val (case currentAllowanceBytes of None \<Rightarrow> [] | Some b \<Rightarrow> b) in
     if currentAllowance <s value then fail ''spender does not have enough allowance- for transfer''
     else chk (transferHelper c from to value) (\<lambda>err. ''failed to transfer: '' @ err) (\<lambda>_.
     chk (pureE (sub currentAllowance value)) id (\<lambda>updatedAllowance.
     chk (PutState c allowanceKey (Itoa updatedAllowance)) id (\<lambda>_.
     chk (SetEvent c ''Transfer'' (marshal_event \<lparr>From = from, To = to, Value = value\<rparr>))
       (\<lambda>err. ''failed to set event: '' @ err) ok))))))"

end
