(* ===== verification/Token_Ledger.thy ===== *)
theory Token_Ledger
  imports Token_Contract
begin

text \<open>
  What the chaincode relies on in Fabric's stub, as the locale \<open>fabric_ledger\<close>, and the effect
  of every successful transaction under these laws.

  The stub of a transaction shows the committed world state and collects writes; reads do not
  see the transaction's own writes; at most the last event is kept; composite keys begin with a
  null character.  These are the documented
  rules of \<^verbatim>\<open>ChaincodeStubInterface\<close>.
\<close>

subsection \<open>Checked arithmetic\<close>

lemma add_Inr_iff: "add b q = Inr s \<longleftrightarrow> int64_range (sint b + sint q) \<and> s = b + q"
  using sint_add_wrap [of q b] sint_bounds [of b] sint_bounds [of q]
  by (auto simp: add_def Let_def sint_simps int64_range_def add.commute split: if_splits)

lemma add_cases:
  "add b q = (if int64_range (sint b + sint q) then Inr (b + q)
     else Inl (''Math: addition overflow occurred '' @ Itoa b @ '' + '' @ Itoa q))"
proof (cases "add b q")
  case (Inl e)
  then have "\<not> int64_range (sint b + sint q)"
    using add_Inr_iff [of b q "b + q"] by auto
  with Inl show ?thesis by (auto simp: add_def Let_def split: if_splits)
next
  case (Inr s)
  then show ?thesis by (simp add: add_Inr_iff)
qed

lemma add_sint: "add b q = Inr s \<Longrightarrow> sint s = sint b + sint q"
  by (simp add: add_Inr_iff sint_add)

lemma sub_Inr_iff: "sub b q = Inr d \<longleftrightarrow> 0 < sint q \<and> sint q \<le> sint b \<and> d = b - q"
  by (auto simp: sub_def sint_simps split: if_splits)

lemma sub_sint: "sub b q = Inr d \<Longrightarrow> sint d = sint b - sint q"
  using sint_bounds [of b] by (simp add: sub_Inr_iff sint_sub int64_range_def)

subsection \<open>World states\<close>

type_synonym world = "string \<Rightarrow> bytes option"

text \<open>The integer a key holds, as every method of the contract reads it (0 when absent).\<close>

definition read_int :: "world \<Rightarrow> string \<Rightarrow> go_int" where
  "read_int w k = (case w k of None \<Rightarrow> 0 | Some b \<Rightarrow> Atoi_val b)"

abbreviation bal :: "world \<Rightarrow> string \<Rightarrow> int" where
  "bal w k \<equiv> sint (read_int w k)"

lemma read_int_upd [simp]:
  "read_int (w(k \<mapsto> Itoa v)) k' = (if k' = k then v else read_int w k')"
  by (simp add: read_int_def)

lemma read_int_other [simp]: "k' \<noteq> k \<Longrightarrow> read_int (w(k \<mapsto> b)) k' = read_int w k'"
  by (simp add: read_int_def)

lemma read_int_simps:
  "w k = Some b \<Longrightarrow> read_int w k = Atoi_val b"
  "w k = None \<Longrightarrow> read_int w k = 0"
  by (simp_all add: read_int_def)

lemma read_int_case: "(case w k of None \<Rightarrow> 0 | Some b \<Rightarrow> Atoi_val b) = read_int w k"
  by (simp add: read_int_def)

subsection \<open>The laws of the stub\<close>

locale fabric_ledger =
  fixes c :: "'s ctx"
    and committed :: "'s \<Rightarrow> world"
    and pending :: "'s \<Rightarrow> world"
    and last_event :: "'s \<Rightarrow> (string \<times> bytes) option"
  assumes get_value: "GetState c k s = (Inr v, s') \<Longrightarrow> v = committed s k"
    and get_frame: "GetState c k s = (r, s') \<Longrightarrow>
      committed s' = committed s \<and> pending s' = pending s \<and> last_event s' = last_event s"
    and put_ok: "PutState c k b s = (Inr u, s') \<Longrightarrow>
      committed s' = committed s \<and> pending s' = (pending s)(k \<mapsto> b) \<and> last_event s' = last_event s"
    and put_error: "PutState c k b s = (Inl e, s') \<Longrightarrow>
      committed s' = committed s \<and> pending s' = pending s \<and> last_event s' = last_event s"
    and event_ok: "SetEvent c n p s = (Inr u, s') \<Longrightarrow>
      committed s' = committed s \<and> pending s' = pending s \<and> last_event s' = Some (n, p)"
    and event_error: "SetEvent c n p s = (Inl e, s') \<Longrightarrow>
      committed s' = committed s \<and> pending s' = pending s \<and> last_event s' = last_event s"
    and composite_null: "CreateCompositeKey c p as = Inr ck \<Longrightarrow> \<exists>r. ck = CHR 0x00 # r"
begin

lemma get_ok:
  "GetState c k s = (Inr v, s') \<Longrightarrow>
     v = committed s k \<and> committed s' = committed s \<and> pending s' = pending s \<and> last_event s' = last_event s"
  using get_value get_frame by blast

text \<open>A successful transfer moves exactly \<open>v\<close> tokens and writes only the two accounts.\<close>

lemma transferHelper_effect:
  assumes "transferHelper c from to v s = (Inr u, s')"
  shows "from \<noteq> to \<and> 0 < sint v \<and> committed s from \<noteq> None \<and> sint v \<le> bal (committed s) from
    \<and> int64_range (bal (committed s) to + sint v)
    \<and> committed s' = committed s \<and> last_event s' = last_event s
    \<and> pending s' = (pending s)(from \<mapsto> Itoa (read_int (committed s) from - v),
                              to \<mapsto> Itoa (read_int (committed s) to + v))"
  using assms
  by (auto simp: transferHelper_def Let_def sub_Inr_iff add_Inr_iff read_int_case read_int_simps
      split: if_splits option.split_asm elim!: chk_InrE dest!: get_ok put_ok)

lemma Transfer_effect:
  assumes "Transfer c from to v s = (Inr u, s')"
  shows "from \<noteq> to \<and> 0 < sint v \<and> committed s from \<noteq> None \<and> sint v \<le> bal (committed s) from
    \<and> int64_range (bal (committed s) to + sint v)
    \<and> committed s' = committed s
    \<and> last_event s' = Some (''Transfer'', marshal_event \<lparr>From = from, To = to, Value = v\<rparr>)
    \<and> pending s' = (pending s)(from \<mapsto> Itoa (read_int (committed s) from - v),
                              to \<mapsto> Itoa (read_int (committed s) to + v))"
  using assms
  by (auto simp: Transfer_def elim!: chk_InrE dest!: transferHelper_effect event_ok)

text \<open>
  The owner's own \<^verbatim>\<open>transferHelper\<close> decides whether a transfer succeeds: with a stub whose calls
  do not fail, the four conditions below are also sufficient.
\<close>

lemma transferHelper_succeeds:
  assumes get: "\<And>k s. \<exists>s'. GetState c k s = (Inr (committed s k), s')"
    and put: "\<And>k b s. \<exists>s'. PutState c k b s = (Inr (), s')"
    and cond: "from \<noteq> to" "0 < sint v" "committed s from \<noteq> None" "sint v \<le> bal (committed s) from"
      "int64_range (bal (committed s) to + sint v)"
  shows "\<exists>s'. transferHelper c from to v s = (Inr (), s')"
proof -
  obtain fb where fb: "committed s from = Some fb" using cond(3) by blast
  obtain s1 where s1: "GetState c from s = (Inr (Some fb), s1)" using get [of "from" s] fb by auto
  then have c1: "committed s1 = committed s" using get_frame by blast
  obtain s2 where s2: "GetState c to s1 = (Inr (committed s to), s2)" using get [of to s1] c1 by auto
  have sub: "sub (Atoi_val fb) v = Inr (Atoi_val fb - v)"
    using cond fb by (simp add: sub_Inr_iff read_int_simps)
  have add: "add (read_int (committed s) to) v = Inr (read_int (committed s) to + v)"
    using cond by (simp add: add_Inr_iff)
  show ?thesis
    using cond fb s1 s2 sub add put
    by (auto simp: transferHelper_def chk_def Let_def read_int_case read_int_simps sint_simps split: prod.splits sum.splits)
      (metis Pair_inject Inl_Inr_False)+
qed

subsubsection \<open>Supply\<close>

lemma Mint_effect:
  assumes "Mint c v s = (Inr u, s')"
  shows "GetMSPID c = Inr ''Org1MSP'' \<and> (\<exists>minter. client_id c = Inr minter \<and> 0 < sint v
    \<and> int64_range (bal (committed s) minter + sint v)
    \<and> int64_range (bal (committed s) totalSupplyKey + sint v)
    \<and> committed s' = committed s
    \<and> last_event s' = Some (''Transfer'', marshal_event \<lparr>From = ''0x0'', To = minter, Value = v\<rparr>)
    \<and> pending s' = (pending s)(minter \<mapsto> Itoa (read_int (committed s) minter + v),
                              totalSupplyKey \<mapsto> Itoa (read_int (committed s) totalSupplyKey + v)))"
  using assms
  by (auto simp: Mint_def Let_def add_Inr_iff read_int_case sint_simps not_le
      split: if_splits option.split_asm elim!: chk_InrE dest!: get_ok put_ok event_ok)

lemma Burn_effect:
  assumes "Burn c v s = (Inr u, s')"
  shows "GetMSPID c = Inr ''Org1MSP'' \<and> (\<exists>minter. client_id c = Inr minter \<and> 0 < sint v
    \<and> committed s minter \<noteq> None \<and> committed s totalSupplyKey \<noteq> None
    \<and> sint v \<le> bal (committed s) minter \<and> sint v \<le> bal (committed s) totalSupplyKey
    \<and> committed s' = committed s
    \<and> last_event s' = Some (''Transfer'', marshal_event \<lparr>From = minter, To = ''0x0'', Value = v\<rparr>)
    \<and> pending s' = (pending s)(minter \<mapsto> Itoa (read_int (committed s) minter - v),
                              totalSupplyKey \<mapsto> Itoa (read_int (committed s) totalSupplyKey - v)))"
  using assms
  by (auto simp: Burn_def Let_def sub_Inr_iff sint_simps read_int_simps not_le
      split: if_splits option.split_asm elim!: chk_InrE dest!: get_ok put_ok event_ok)

subsubsection \<open>Hashed time-locks\<close>

lemma TransferConditional_effect:
  assumes "TransferConditional c recipient v hashLock timeLock password s = (Inr u, s')"
  shows "GetMSPID c = Inr ''Org1MSP'' \<and> (\<exists>sender t b. client_id c = Inr sender
    \<and> sender \<noteq> recipient \<and> 0 < sint v \<and> committed s sender \<noteq> None
    \<and> sint v \<le> bal (committed s) sender \<and> int64_range (bal (committed s) recipient + sint v)
    \<and> ParseRFC3339 timeLock = Inr t
    \<and> marshal_HTLC \<lparr>Sender = sender, Recipient = recipient, Amount = v, HashLock = hashLock,
        TimeLock = t, Claimed = False, Reverted = False, ClaimPassword = password\<rparr> = Inr b
    \<and> committed s' = committed s \<and> last_event s' = last_event s
    \<and> pending s' = (pending s)(sender \<mapsto> Itoa (read_int (committed s) sender - v),
                              recipient \<mapsto> Itoa (read_int (committed s) recipient + v),
                              hashLock \<mapsto> b))"
  using assms
  by (auto simp: TransferConditional_def split: if_splits
      elim!: chk_InrE dest!: transferHelper_effect put_ok)

lemma GetHashTimeLock_effect:
  assumes "GetHashTimeLock c hashLock s = (Inr h, s')"
  shows "(\<exists>b. committed s hashLock = Some b \<and> unmarshal_HTLC b = Inr h)
    \<and> committed s' = committed s \<and> pending s' = pending s \<and> last_event s' = last_event s"
  using assms
  by (auto simp: GetHashTimeLock_def split: option.split_asm elim!: chk_InrE dest!: get_ok)

lemma Claim_effect:
  assumes "Claim c now now' hashLock password s = (Inr u, s')"
  shows "GetMSPID c = Inr ''Org1MSP'' \<and> (\<exists>b h b'. committed s hashLock = Some b
    \<and> unmarshal_HTLC b = Inr h \<and> \<not> Claimed h \<and> \<not> Reverted h \<and> ClaimPassword h = password
    \<and> \<not> Before now (TimeLock h)
    \<and> fst (GetID c) \<noteq> Recipient h \<and> 0 < sint (Amount h) \<and> committed s (fst (GetID c)) \<noteq> None
    \<and> sint (Amount h) \<le> bal (committed s) (fst (GetID c))
    \<and> int64_range (bal (committed s) (Recipient h) + sint (Amount h))
    \<and> marshal_HTLC (h\<lparr>Claimed := True\<rparr>) = Inr b'
    \<and> committed s' = committed s
    \<and> last_event s' = Some (''Transfer'',
        marshal_event \<lparr>From = fst (GetID c), To = Recipient h, Value = Amount h\<rparr>)
    \<and> pending s' = (pending s)(fst (GetID c) \<mapsto> Itoa (read_int (committed s) (fst (GetID c)) - Amount h),
                              Recipient h \<mapsto> Itoa (read_int (committed s) (Recipient h) + Amount h),
                              hashLock \<mapsto> b'))"
  using assms
  by (auto simp: Claim_def Let_def split: if_splits
      elim!: chk_InrE dest!: GetHashTimeLock_effect Transfer_effect put_ok)

lemma Revert_effect:
  assumes "Revert c now hashLock s = (Inr u, s')"
  shows "GetMSPID c = Inr ''Org1MSP'' \<and> (\<exists>b h b'. committed s hashLock = Some b
    \<and> unmarshal_HTLC b = Inr h \<and> \<not> Claimed h \<and> \<not> Reverted h \<and> \<not> Before now (TimeLock h)
    \<and> fst (GetID c) \<noteq> Recipient h \<and> 0 < sint (Amount h) \<and> committed s (Recipient h) \<noteq> None
    \<and> sint (Amount h) \<le> bal (committed s) (Recipient h)
    \<and> int64_range (bal (committed s) (fst (GetID c)) + sint (Amount h))
    \<and> marshal_HTLC (h\<lparr>Reverted := True\<rparr>) = Inr b'
    \<and> committed s' = committed s
    \<and> last_event s' = Some (''Transfer'',
        marshal_event \<lparr>From = Recipient h, To = fst (GetID c), Value = Amount h\<rparr>)
    \<and> pending s' = (pending s)(Recipient h \<mapsto> Itoa (read_int (committed s) (Recipient h) - Amount h),
                              fst (GetID c) \<mapsto> Itoa (read_int (committed s) (fst (GetID c)) + Amount h),
                              hashLock \<mapsto> b'))"
  using assms
  by (auto simp: Revert_def Let_def split: if_splits
      elim!: chk_InrE dest!: GetHashTimeLock_effect Transfer_effect put_ok)

subsubsection \<open>Allowances\<close>

lemma Approve_effect:
  assumes "Approve c spender v s = (Inr u, s')"
  shows "\<exists>owner k. client_id c = Inr owner
    \<and> CreateCompositeKey c allowancePrefix [owner, spender] = Inr k
    \<and> committed s' = committed s \<and> pending s' = (pending s)(k \<mapsto> Itoa v)
    \<and> last_event s' = Some (''Approval'', marshal_event \<lparr>From = owner, To = spender, Value = v\<rparr>)"
  using assms
  by (auto simp: Approve_def elim!: chk_InrE dest!: put_ok event_ok)

lemma TransferFrom_effect:
  assumes "TransferFrom c from to v s = (Inr u, s')"
  shows "\<exists>spender k. client_id c = Inr spender
    \<and> CreateCompositeKey c allowancePrefix [from, spender] = Inr k
    \<and> from \<noteq> to \<and> 0 < sint v \<and> committed s from \<noteq> None \<and> sint v \<le> bal (committed s) from
    \<and> int64_range (bal (committed s) to + sint v) \<and> sint v \<le> bal (committed s) k
    \<and> committed s' = committed s
    \<and> last_event s' = Some (''Transfer'', marshal_event \<lparr>From = from, To = to, Value = v\<rparr>)
    \<and> pending s' = (pending s)(from \<mapsto> Itoa (read_int (committed s) from - v),
                              to \<mapsto> Itoa (read_int (committed s) to + v),
                              k \<mapsto> Itoa (read_int (committed s) k - v))"
proof -
  have nil: "Atoi_val (case x of None \<Rightarrow> [] | Some b \<Rightarrow> b) = (case x of None \<Rightarrow> 0 | Some b \<Rightarrow> Atoi_val b)" for x
    by (cases x) (simp_all add: Atoi_val_empty)
  show ?thesis
    using assms
    by (auto simp: TransferFrom_def Let_def nil sub_Inr_iff read_int_case
        split: if_splits elim!: chk_InrE dest!: transferHelper_effect get_ok put_ok event_ok)
qed

subsubsection \<open>Queries\<close>

lemma BalanceOf_result:
  "BalanceOf c account s = (Inr v, s') \<Longrightarrow>
     committed s account \<noteq> None \<and> v = read_int (committed s) account
     \<and> committed s' = committed s \<and> pending s' = pending s \<and> last_event s' = last_event s"
  by (auto simp: BalanceOf_def read_int_simps split: option.split_asm elim!: chk_InrE dest!: get_ok)

lemma Allowance_result:
  "Allowance c owner spender s = (Inr v, s') \<Longrightarrow>
     \<exists>k. CreateCompositeKey c allowancePrefix [owner, spender] = Inr k \<and> v = read_int (committed s) k
       \<and> committed s' = committed s \<and> pending s' = pending s \<and> last_event s' = last_event s"
  by (auto simp: Allowance_def read_int_case elim!: chk_InrE dest!: get_ok)

lemma TotalSupply_result:
  "TotalSupply c s = (Inr v, s') \<Longrightarrow> v = read_int (committed s) totalSupplyKey
     \<and> committed s' = committed s \<and> pending s' = pending s \<and> last_event s' = last_event s"
  by (auto simp: TotalSupply_def read_int_case elim!: chk_InrE dest!: get_ok)

end

text \<open>
  An in-memory stub that follows the laws: writes are collected apart from the committed state,
  composite keys are built as Fabric documents them.
\<close>

record sim =
  sim_committed :: world
  sim_pending :: world
  sim_event :: "(string \<times> bytes) option"

definition composite_key :: "string \<Rightarrow> string list \<Rightarrow> string" where
  "composite_key p as = CHR 0x00 # p @ [CHR 0x00] @ concat (map (\<lambda>a. a @ [CHR 0x00]) as)"

definition mem_ctx :: "string \<Rightarrow> string \<Rightarrow> sim ctx" where
  "mem_ctx msp i = \<lparr>GetState = (\<lambda>k s. (Inr (sim_committed s k), s)),
     PutState = (\<lambda>k v s. (Inr (), s\<lparr>sim_pending := (sim_pending s)(k \<mapsto> v)\<rparr>)),
     SetEvent = (\<lambda>n p s. (Inr (), s\<lparr>sim_event := Some (n, p)\<rparr>)),
     CreateCompositeKey = (\<lambda>p as. Inr (composite_key p as)),
     GetMSPID = Inr msp, GetID = (i, None)\<rparr>"

definition fresh :: "world \<Rightarrow> sim" where
  "fresh w = \<lparr>sim_committed = w, sim_pending = Map.empty, sim_event = None\<rparr>"

lemma mem_ctx_simps [simp]:
  "GetState (mem_ctx m i) k s = (Inr (sim_committed s k), s)"
  "PutState (mem_ctx m i) k v s = (Inr (), s\<lparr>sim_pending := (sim_pending s)(k \<mapsto> v)\<rparr>)"
  "SetEvent (mem_ctx m i) n p s = (Inr (), s\<lparr>sim_event := Some (n, p)\<rparr>)"
  "CreateCompositeKey (mem_ctx m i) q as = Inr (composite_key q as)"
  "GetMSPID (mem_ctx m i) = Inr m" "GetID (mem_ctx m i) = (i, None)"
  "client_id (mem_ctx m i) = Inr i"
  by (simp_all add: mem_ctx_def client_id_def)

lemma fresh_simps [simp]:
  "sim_committed (fresh w) = w" "sim_pending (fresh w) = Map.empty" "sim_event (fresh w) = None"
  by (simp_all add: fresh_def)

interpretation mem: fabric_ledger "mem_ctx m i" sim_committed sim_pending sim_event for m i
  by unfold_locales (auto simp: composite_key_def)

end
