(* ===== verification/Token_HTLC.thy ===== *)
theory Token_HTLC
  imports Token_Ledger
begin

text \<open>
  The stored form of a hashed time-lock: \<^verbatim>\<open>json.Unmarshal\<close> undoes \<^verbatim>\<open>json.Marshal\<close> on every lock
  that \<^verbatim>\<open>TransferConditional\<close>, \<^verbatim>\<open>Claim\<close> and \<^verbatim>\<open>Revert\<close> write, and a balance or an allowance is
  never read as a lock.
\<close>

definition htlc_ok :: "HTLC \<Rightarrow> bool" where
  "htlc_ok h \<longleftrightarrow> ascii (Sender h) \<and> ascii (Recipient h) \<and> ascii (HashLock h)
     \<and> ascii (ClaimPassword h) \<and> time_ok (TimeLock h)"

lemma marshal_time_ok:
  assumes "time_ok t"
  shows "marshal_time t = Inr (JStr (format_rfc3339_nano t))"
    "unmarshal_time old (JStr (format_rfc3339_nano t)) = Inr t"
  using unmarshal_marshal_time [OF assms, of old] by (auto simp: marshal_time_def split: if_splits)

definition HTLC_json :: "HTLC \<Rightarrow> json" where
  "HTLC_json h = JObj
     [(''sender'', JStr (Sender h)), (''recipient'', JStr (Recipient h)),
      (''amount'', JNum (Itoa (Amount h))), (''hashLock'', JStr (HashLock h)),
      (''timeLock'', JStr (format_rfc3339_nano (TimeLock h))), (''claimed'', JBool (Claimed h)),
      (''reverted'', JBool (Reverted h)), (''claimPassword'', JStr (ClaimPassword h))]"

lemma marshal_HTLC_Inr: "marshal_HTLC h = Inr b \<Longrightarrow> b = json_marshal (HTLC_json h)"
  by (auto simp: marshal_HTLC_def HTLC_json_def marshal_time_def split: if_splits)

lemma fold_key_fields:
  "fold_key ''sender'' = ''sender''"
  "fold_key ''recipient'' = ''recipient''"
  "fold_key ''amount'' = ''amount''"
  "fold_key ''hashLock'' = ''hashlock''"
  "fold_key ''timeLock'' = ''timelock''"
  "fold_key ''claimed'' = ''claimed''"
  "fold_key ''reverted'' = ''reverted''"
  "fold_key ''claimPassword'' = ''claimpassword''"
  by code_simp+

lemma set_fields_HTLC:
  assumes "time_ok (TimeLock h)"
  shows "(case HTLC_json h of JObj kvs \<Rightarrow> set_fields zero_HTLC kvs) = Inr h"
  by (simp add: HTLC_json_def set_field_def fold_key_fields field_string_def field_int_def
      field_bool_def marshal_time_ok(2) [OF assms] zero_HTLC_def del: fold_key.simps)

lemma HTLC_roundtrip:
  assumes "htlc_ok h"
  shows "\<exists>b. marshal_HTLC h = Inr b \<and> unmarshal_HTLC b = Inr h"
proof -
  have t: "time_ok (TimeLock h)" using assms by (simp add: htlc_ok_def)
  have "json_ok (HTLC_json h)"
    using assms json_ok_Itoa [of "Amount h"] by (simp add: HTLC_json_def htlc_ok_def)
  then have "json_decode (json_marshal (HTLC_json h)) = Some (HTLC_json h)"
    by (simp add: json_marshal_def json_decode_encode)
  then have "unmarshal_HTLC (json_marshal (HTLC_json h)) = Inr h"
    using set_fields_HTLC [OF t] by (simp add: unmarshal_HTLC_def HTLC_json_def)
  moreover have "marshal_HTLC h = Inr (json_marshal (HTLC_json h))"
    by (simp add: marshal_HTLC_def marshal_time_ok(1) [OF t] HTLC_json_def)
  ultimately show ?thesis by blast
qed

lemma unmarshal_HTLC_Itoa [simp]: "unmarshal_HTLC (Itoa n) = Inl (''json: cannot unmarshal number into Go value of type chaincode.HTLC'')"
  by (simp add: unmarshal_HTLC_def Itoa_def)

text \<open>A lock created by \<^verbatim>\<open>TransferConditional\<close> has a time that survives storing.\<close>

lemma marshal_parsed_ok:
  assumes "ParseRFC3339 s = Inr (TimeLock h)" "marshal_HTLC h = Inr b"
    "ascii (Sender h)" "ascii (Recipient h)" "ascii (HashLock h)" "ascii (ClaimPassword h)"
  shows "htlc_ok h"
proof -
  from assms(2) obtain v where "marshal_time (TimeLock h) = Inr v"
    by (auto simp: marshal_HTLC_def split: sum.splits)
  moreover from assms(1) have "parse_rfc3339 s = Some (TimeLock h)"
    by (auto simp: ParseRFC3339_def split: option.splits)
  ultimately show ?thesis using assms parse_rfc3339_ok by (simp add: htlc_ok_def)
qed

lemma marshal_HTLC_roundtrip: "htlc_ok h \<Longrightarrow> marshal_HTLC h = Inr b \<Longrightarrow> unmarshal_HTLC b = Inr h"
  using HTLC_roundtrip by fastforce

lemma htlc_ok_flags [simp]:
  "htlc_ok (h\<lparr>Claimed := x\<rparr>) = htlc_ok h" "htlc_ok (h\<lparr>Reverted := y\<rparr>) = htlc_ok h"
  by (simp_all add: htlc_ok_def)

lemma Atoi_val_HTLC: "marshal_HTLC h = Inr b \<Longrightarrow> Atoi_val b = 0"
  by (drule marshal_HTLC_Inr) (simp add: HTLC_json_def json_marshal_def)

end
