(* ===== verification/Token_Invariant.thy ===== *)
theory Token_Invariant
  imports Token_HTLC
begin

text \<open>
  The chaincode over a sequence of transactions.  A transaction runs one method on a fresh
  simulation of the committed world state; its writes are committed when the method returns no
  error and discarded otherwise.  The theory proves the accounting invariant (no account is
  negative and the accounts sum up to the total supply) and the life cycle of a hashed time-lock
  by rule induction over such sequences.
\<close>

subsection \<open>Transactions\<close>

datatype call =
    CallTransferConditional string go_int string string string
  | CallGetHashTimeLock string
  | CallClaim go_time go_time string string
  | CallRevert go_time string
  | CallMint go_int
  | CallBurn go_int
  | CallTransfer string string go_int
  | CallBalanceOf string
  | CallClientAccountBalance
  | CallClientAccountID
  | CallTotalSupply
  | CallApprove string go_int
  | CallAllowance string string
  | CallTransferFrom string string go_int

definition void :: "('s, 'a) op \<Rightarrow> ('s, unit) op" where
  "void m = chk m id (\<lambda>_. ok ())"

fun invoke :: "'s ctx \<Rightarrow> call \<Rightarrow> ('s, unit) op" where
  "invoke c (CallTransferConditional r v h t p) = TransferConditional c r v h t p"
| "invoke c (CallGetHashTimeLock h) = void (GetHashTimeLock c h)"
| "invoke c (CallClaim now now' h p) = Claim c now now' h p"
| "invoke c (CallRevert now h) = Revert c now h"
| "invoke c (CallMint v) = Mint c v"
| "invoke c (CallBurn v) = Burn c v"
| "invoke c (CallTransfer f t v) = Transfer c f t v"
| "invoke c (CallBalanceOf a) = void (BalanceOf c a)"
| "invoke c CallClientAccountBalance = void (ClientAccountBalance c)"
| "invoke c CallClientAccountID = void (ClientAccountID c)"
| "invoke c CallTotalSupply = void (TotalSupply c)"
| "invoke c (CallApprove sp v) = Approve c sp v"
| "invoke c (CallAllowance o' sp) = void (Allowance c o' sp)"
| "invoke c (CallTransferFrom f t v) = TransferFrom c f t v"

text \<open>
  \<open>A\<close> is the set of account identifiers in use.  The chaincode keeps balances, the supply, locks
  and allowances in one key space and does not separate them; \<open>admissible\<close> says that a call does
  not mix them: accounts are in \<open>A\<close>, the keys of locks and allowances are not.
\<close>

definition apart :: "string set \<Rightarrow> string \<Rightarrow> bool" where
  "apart A k \<longleftrightarrow> k \<notin> A \<and> k \<noteq> totalSupplyKey"

definition key_apart :: "string set \<Rightarrow> string res \<Rightarrow> bool" where
  "key_apart A r = (case r of Inl _ \<Rightarrow> True | Inr k \<Rightarrow> apart A k)"

definition admissible :: "string set \<Rightarrow> 's ctx \<Rightarrow> call \<Rightarrow> bool" where
  "admissible A c call \<longleftrightarrow> fst (GetID c) \<in> A \<and>
     (case call of
        CallTransferConditional r v h t p \<Rightarrow> r \<in> A \<and> apart A h \<and> ascii h \<and> ascii p
      | CallClaim now now' h p \<Rightarrow> apart A h
      | CallRevert now h \<Rightarrow> apart A h
      | CallTransfer f t v \<Rightarrow> f \<in> A \<and> t \<in> A
      | CallApprove sp v \<Rightarrow> key_apart A (CreateCompositeKey c allowancePrefix [fst (GetID c), sp])
      | CallTransferFrom f t v \<Rightarrow> f \<in> A \<and> t \<in> A
          \<and> key_apart A (CreateCompositeKey c allowancePrefix [f, fst (GetID c)])
      | _ \<Rightarrow> True)"

inductive tx ::
  "('s \<Rightarrow> world) \<Rightarrow> ('s \<Rightarrow> world) \<Rightarrow> ('s \<Rightarrow> (string \<times> bytes) option) \<Rightarrow> string set \<Rightarrow>
   world \<Rightarrow> call \<Rightarrow> world \<Rightarrow> bool"
  for com pend ev A where
  commit: "tx com pend ev A (com s) call (com s ++ pend s')"
    if "fabric_ledger c com pend ev" "pend s = Map.empty" "admissible A c call"
      "invoke c call s = (Inr (), s')"
| abort: "tx com pend ev A (com s) call (com s)"
    if "fabric_ledger c com pend ev" "pend s = Map.empty" "invoke c call s = (Inl e, s')"

inductive_cases txE: "tx com pend ev A w call w'"

inductive history ::
  "('s \<Rightarrow> world) \<Rightarrow> ('s \<Rightarrow> world) \<Rightarrow> ('s \<Rightarrow> (string \<times> bytes) option) \<Rightarrow> string set \<Rightarrow>
   world \<Rightarrow> call list \<Rightarrow> world \<Rightarrow> bool"
  for com pend ev A w where
  none: "history com pend ev A w [] w"
| more: "history com pend ev A w cs w' \<Longrightarrow> tx com pend ev A w' call w'' \<Longrightarrow>
         history com pend ev A w (cs @ [call]) w''"

subsection \<open>The accounting invariant\<close>

definition accounts :: "string set \<Rightarrow> bool" where
  "accounts A \<longleftrightarrow> finite A \<and> totalSupplyKey \<notin> A \<and> (\<forall>a\<in>A. ascii a)"

definition supply_inv :: "string set \<Rightarrow> world \<Rightarrow> bool" where
  "supply_inv A w \<longleftrightarrow> accounts A
     \<and> (\<forall>a\<in>A. 0 \<le> bal w a)
     \<and> (\<Sum>a\<in>A. bal w a) = bal w totalSupplyKey
     \<and> (\<forall>k b h. apart A k \<longrightarrow> w k = Some b \<longrightarrow> unmarshal_HTLC b = Inr h \<longrightarrow> htlc_ok h \<and> Recipient h \<in> A)"

lemma supply_inv_accounts: "supply_inv A w \<Longrightarrow> accounts A"
  by (simp add: supply_inv_def)

lemma supply_inv_empty: "accounts A \<Longrightarrow> supply_inv A Map.empty"
  by (simp add: supply_inv_def read_int_def)

lemma supply_inv_nonneg: "supply_inv A w \<Longrightarrow> a \<in> A \<Longrightarrow> 0 \<le> bal w a"
  by (simp add: supply_inv_def)

lemma supply_inv_lock:
  "supply_inv A w \<Longrightarrow> apart A k \<Longrightarrow> w k = Some b \<Longrightarrow> unmarshal_HTLC b = Inr h \<Longrightarrow> htlc_ok h \<and> Recipient h \<in> A"
  by (simp add: supply_inv_def)

lemma sum_fun_upd2:
  fixes f :: "'k \<Rightarrow> int"
  assumes "finite A" "x \<in> A" "y \<in> A" "x \<noteq> y"
  shows "(\<Sum>a\<in>A. if a = y then v else if a = x then u else f a) = (\<Sum>a\<in>A. f a) - f x - f y + u + v"
proof -
  have "A = insert x (insert y (A - {x, y}))" using assms by auto
  then have "(\<Sum>a\<in>A. g a) = g x + g y + (\<Sum>a\<in>A - {x, y}. g a)" for g :: "'k \<Rightarrow> int"
    using assms by (metis (no_types, lifting) Diff_iff add.assoc finite_Diff finite_insert
      insertCI insertE sum.insert empty_iff)
  then show ?thesis using assms by simp
qed

lemma sum_fun_upd1:
  fixes f :: "'k \<Rightarrow> int"
  assumes "finite A" "x \<in> A"
  shows "(\<Sum>a\<in>A. if a = x then u else f a) = (\<Sum>a\<in>A. f a) - f x + u"
  using assms by (simp add: sum.remove [of A x])

lemma bal_upd: "bal (w(k \<mapsto> Itoa v)) a = (if a = k then sint v else bal w a)"
  by simp

lemma supply_inv_move:
  assumes inv: "supply_inv A w" and A: "x \<in> A" "y \<in> A" and ne: "x \<noteq> y"
    and v: "0 < sint v" "sint v \<le> bal w x" "int64_range (bal w y + sint v)"
  shows "supply_inv A (w(x \<mapsto> Itoa (read_int w x - v), y \<mapsto> Itoa (read_int w y + v)))" (is "supply_inv A ?w")
proof -
  have nt: "x \<noteq> totalSupplyKey" "y \<noteq> totalSupplyKey" "finite A"
    using inv A by (auto simp: supply_inv_def accounts_def)
  have s: "sint (read_int w x - v) = bal w x - sint v" "sint (read_int w y + v) = bal w y + sint v"
    using v sint_bounds [of "read_int w x"] by (simp_all add: sint_sub sint_add int64_range_def)
  have b: "bal ?w a = (if a = y then bal w y + sint v else if a = x then bal w x - sint v else bal w a)" for a
    using s by simp
  have "(\<Sum>a\<in>A. bal ?w a) = (\<Sum>a\<in>A. bal w a)"
    unfolding b using sum_fun_upd2 [OF nt(3) A ne, of "bal w y + sint v" "bal w x - sint v" "bal w"]
    by simp
  moreover have "0 \<le> bal ?w a" if "a \<in> A" for a
    unfolding b using inv that v A by (auto simp: supply_inv_def)
  moreover have "?w k = w k" if "apart A k" for k using that A by (auto simp: apart_def)
  moreover have "bal ?w totalSupplyKey = bal w totalSupplyKey" unfolding b using nt by simp
  ultimately show ?thesis using inv by (simp add: supply_inv_def del: fun_upd_apply read_int_upd)
qed

lemma supply_inv_supply:
  assumes inv: "supply_inv A w" and A: "x \<in> A"
    and s: "sint n = bal w x + d" "sint t = bal w totalSupplyKey + d" "0 \<le> bal w x + d"
  shows "supply_inv A (w(x \<mapsto> Itoa n, totalSupplyKey \<mapsto> Itoa t))" (is "supply_inv A ?w")
proof -
  have nt: "totalSupplyKey \<notin> A" "finite A"
    using inv by (auto simp: supply_inv_def accounts_def)
  have "bal ?w a = (if a = x then bal w x + d else bal w a)" if "a \<in> A" for a
    using that nt s by auto
  then have "(\<Sum>a\<in>A. bal ?w a) = (\<Sum>a\<in>A. bal w a) + d"
    using sum_fun_upd1 [OF nt(2) A, of "bal w x + d" "bal w"] by simp
  moreover have "0 \<le> bal ?w a" if "a \<in> A" for a
    using inv that s nt by (auto simp: supply_inv_def)
  moreover have "?w k = w k" if "apart A k" for k using that A by (auto simp: apart_def)
  ultimately show ?thesis using inv s by (auto simp: supply_inv_def)
qed

lemma supply_inv_other:
  assumes "supply_inv A w" "apart A k"
    "\<And>h. unmarshal_HTLC b = Inr h \<Longrightarrow> htlc_ok h \<and> Recipient h \<in> A"
  shows "supply_inv A (w(k \<mapsto> b))"
proof -
  have "bal (w(k \<mapsto> b)) a = bal w a" if "a \<in> A \<or> a = totalSupplyKey" for a
    using that assms(2) by (auto simp: read_int_def apart_def)
  then show ?thesis using assms by (auto simp: supply_inv_def)
qed

lemma client_id_fst: "client_id c = Inr i \<Longrightarrow> i = fst (GetID c)"
  by (auto simp: client_id_def split: prod.splits option.splits)

lemma void_Inr: "void m s = (Inr u, s') \<longleftrightarrow> (\<exists>x. m s = (Inr x, s'))"
  by (auto simp: void_def chk_Inr_iff)

lemma sint_sub_le: "0 < sint v \<Longrightarrow> sint v \<le> sint b \<Longrightarrow> sint (b - v :: go_int) = sint b - sint v"
  using sint_bounds [of b] by (simp add: sint_sub int64_range_def)

context fabric_ledger
begin

lemma query_effect:
  assumes "invoke c call s = (Inr (), s')"
    "case call of CallGetHashTimeLock h \<Rightarrow> True | CallBalanceOf a \<Rightarrow> True | CallClientAccountBalance \<Rightarrow> True
       | CallClientAccountID \<Rightarrow> True | CallTotalSupply \<Rightarrow> True | CallAllowance o' sp \<Rightarrow> True | _ \<Rightarrow> False"
  shows "committed s' = committed s \<and> pending s' = pending s \<and> last_event s' = last_event s"
  using assms
  by (cases call)
    (auto simp: void_Inr ClientAccountBalance_def ClientAccountID_def split: option.split_asm
       elim!: chk_InrE dest!: GetHashTimeLock_effect BalanceOf_result TotalSupply_result Allowance_result get_ok)

text \<open>The settlement of a lock, for both \<^verbatim>\<open>Claim\<close> and \<^verbatim>\<open>Revert\<close>: a transfer and a new lock record.\<close>

lemma settle_inv:
  assumes inv: "supply_inv A w" and h: "apart A k" "w k = Some b" "unmarshal_HTLC b = Inr h"
    and x: "{x, y} = {i, Recipient h}" "i \<in> A" "x \<noteq> y"
    and v: "0 < sint (Amount h)" "sint (Amount h) \<le> bal w x" "int64_range (bal w y + sint (Amount h))"
    and m: "marshal_HTLC h' = Inr b'" "htlc_ok h' = htlc_ok h" "Recipient h' = Recipient h"
  shows "supply_inv A (w(x \<mapsto> Itoa (read_int w x - Amount h), y \<mapsto> Itoa (read_int w y + Amount h), k \<mapsto> b'))"
proof -
  have ok: "htlc_ok h" "Recipient h \<in> A" using supply_inv_lock [OF inv h] by auto
  then have "x \<in> A" "y \<in> A" using x by (auto simp: doubleton_eq_iff)
  note mv = supply_inv_move [OF inv this x(3) v]
  have "unmarshal_HTLC b' = Inr h'" using marshal_HTLC_roundtrip [of h'] ok m by simp
  then show ?thesis using ok m by (intro supply_inv_other [OF mv h(1)]) simp
qed

lemma invoke_inv:
  assumes inv: "supply_inv A (committed s)" and adm: "admissible A c call"
    and p: "pending s = Map.empty" and run: "invoke c call s = (Inr (), s')"
  shows "supply_inv A (committed s ++ pending s')"
proof (cases call)
  case (CallTransferConditional r v h t q)
  with run obtain i tm b where e: "client_id c = Inr i" "i \<noteq> r" "0 < sint v" "sint v \<le> bal (committed s) i"
    "int64_range (bal (committed s) r + sint v)" "ParseRFC3339 t = Inr tm"
    "marshal_HTLC \<lparr>Sender = i, Recipient = r, Amount = v, HashLock = h,
        TimeLock = tm, Claimed = False, Reverted = False, ClaimPassword = q\<rparr> = Inr b"
    "pending s' = (pending s)(i \<mapsto> Itoa (read_int (committed s) i - v),
                              r \<mapsto> Itoa (read_int (committed s) r + v), h \<mapsto> b)"
    by (auto dest!: TransferConditional_effect)
  from adm CallTransferConditional client_id_fst [OF e(1)]
  have a: "i \<in> A" "r \<in> A" "apart A h" "ascii h" "ascii q" by (auto simp: admissible_def)
  from supply_inv_accounts [OF inv] a have "ascii i" "ascii r" by (auto simp: accounts_def)
  with a e(6,7) have "htlc_ok \<lparr>Sender = i, Recipient = r, Amount = v, HashLock = h,
        TimeLock = tm, Claimed = False, Reverted = False, ClaimPassword = q\<rparr>" (is "htlc_ok ?h")
    by (intro marshal_parsed_ok) simp_all
  with marshal_HTLC_roundtrip [OF this e(7)] supply_inv_other [OF supply_inv_move [OF inv a(1,2) e(2-5)] a(3), of b]
  show ?thesis using a by (simp add: e(8) p)
next
  case (CallClaim now now' h q)
  with run adm show ?thesis
    by (auto simp: p admissible_def dest!: Claim_effect intro!: settle_inv [OF inv, where i = "fst (GetID c)"])
next
  case (CallRevert now h)
  with run adm show ?thesis
    by (auto simp: p admissible_def dest!: Revert_effect intro!: settle_inv [OF inv, where i = "fst (GetID c)"])
next
  case (CallMint v)
  with run adm show ?thesis
    by (auto simp: p admissible_def sint_add dest!: Mint_effect client_id_fst
      intro!: supply_inv_supply [OF inv, where d = "sint v"] add_nonneg_nonneg supply_inv_nonneg [OF inv])
next
  case (CallBurn v)
  with run adm show ?thesis
    by (auto simp: p admissible_def sint_sub_le dest!: Burn_effect client_id_fst
      intro!: supply_inv_supply [OF inv, where d = "- sint v"])
next
  case (CallTransfer f t v)
  with run adm show ?thesis
    by (auto simp: p admissible_def dest!: Transfer_effect intro!: supply_inv_move [OF inv])
next
  case (CallApprove sp v)
  with run adm show ?thesis
    by (auto simp: p admissible_def key_apart_def dest!: Approve_effect client_id_fst
      intro!: supply_inv_other [OF inv])
next
  case (CallTransferFrom f t v)
  with run adm show ?thesis
    by (auto simp: p admissible_def key_apart_def dest!: TransferFrom_effect client_id_fst
      intro!: supply_inv_other [OF supply_inv_move [OF inv]])
qed (use query_effect [OF run] inv p in simp_all)

end

lemma tx_inv: "tx com pend ev A w call w' \<Longrightarrow> supply_inv A w \<Longrightarrow> supply_inv A w'"
  by (auto elim!: txE intro: fabric_ledger.invoke_inv)

lemma history_inv: "history com pend ev A w cs w' \<Longrightarrow> supply_inv A w \<Longrightarrow> supply_inv A w'"
  by (induction rule: history.induct) (auto intro: tx_inv)

lemma bal_le_supply:
  assumes "supply_inv A w" "a \<in> A"
  shows "bal w a \<le> bal w totalSupplyKey"
  using assms member_le_sum [of a A "bal w"] by (auto simp: supply_inv_def accounts_def)

subsection \<open>The life cycle of a lock\<close>

definition lock_at :: "world \<Rightarrow> string \<Rightarrow> HTLC option" where
  "lock_at w k = (case w k of None \<Rightarrow> None
     | Some b \<Rightarrow> (case unmarshal_HTLC b of Inl _ \<Rightarrow> None | Inr h \<Rightarrow> Some h))"

definition settled :: "HTLC \<Rightarrow> bool" where
  "settled h \<longleftrightarrow> Claimed h \<or> Reverted h"

text \<open>A key that can hold a lock: it is no account, not the supply key and no composite key.\<close>

definition lock_key :: "string set \<Rightarrow> string \<Rightarrow> bool" where
  "lock_key A k \<longleftrightarrow> apart A k \<and> \<not> HasPrefix k [CHR 0x00]"

fun creates :: "string \<Rightarrow> call \<Rightarrow> bool" where
  "creates k (CallTransferConditional r v h t p) \<longleftrightarrow> h = k"
| "creates k _ \<longleftrightarrow> False"

lemma lock_at_Some_iff: "lock_at w k = Some h \<longleftrightarrow> (\<exists>b. w k = Some b \<and> unmarshal_HTLC b = Inr h)"
  by (auto simp: lock_at_def split: option.splits sum.splits)

lemma lock_at_upd [simp]:
  "lock_at (w(k' \<mapsto> b)) k = (if k = k' then (case unmarshal_HTLC b of Inl _ \<Rightarrow> None | Inr h \<Rightarrow> Some h) else lock_at w k)"
  by (simp add: lock_at_def)

lemma lock_key_simps:
  "lock_key A k \<Longrightarrow> a \<in> A \<Longrightarrow> k \<noteq> a" "lock_key A k \<Longrightarrow> k \<noteq> totalSupplyKey" "lock_key A k \<Longrightarrow> k \<noteq> CHR 0x00 # r"
  by (auto simp: lock_key_def apart_def HasPrefix_def)

lemma settle_lock:
  assumes inv: "supply_inv A w" and h: "apart A k0" "w k0 = Some b" "unmarshal_HTLC b = Inr h0"
    and k: "lock_key A k" and i: "i \<in> A" and xy: "{x, y} = {i, Recipient h0}"
    and m: "marshal_HTLC h' = Inr b'" "htlc_ok h' = htlc_ok h0"
  shows "lock_at (w(x \<mapsto> v, y \<mapsto> u, k0 \<mapsto> b')) k = (if k = k0 then Some h' else lock_at w k)"
proof -
  have ok: "htlc_ok h0" "Recipient h0 \<in> A" using supply_inv_lock [OF inv h] by auto
  then have "unmarshal_HTLC b' = Inr h'" using marshal_HTLC_roundtrip m by blast
  moreover have "k \<noteq> x" "k \<noteq> y" using lock_key_simps(1) [OF k] ok i xy by (auto simp: doubleton_eq_iff)
  ultimately show ?thesis by simp
qed

context fabric_ledger
begin

lemma invoke_lock:
  assumes inv: "supply_inv A (committed s)" and adm: "admissible A c call"
    and p: "pending s = Map.empty" and run: "invoke c call s = (Inr (), s')"
    and k: "lock_key A k" and h: "lock_at (committed s) k = Some h" and nc: "\<not> creates k call"
  shows "lock_at (committed s ++ pending s') k = Some h
    \<or> (\<exists>now now'. call = CallClaim now now' k (ClaimPassword h) \<and> \<not> settled h \<and> \<not> Before now (TimeLock h)
         \<and> lock_at (committed s ++ pending s') k = Some (h\<lparr>Claimed := True\<rparr>))
    \<or> (\<exists>now. call = CallRevert now k \<and> \<not> settled h \<and> \<not> Before now (TimeLock h)
         \<and> lock_at (committed s ++ pending s') k = Some (h\<lparr>Reverted := True\<rparr>))"
proof -
  note ks = lock_key_simps [OF k]
  show ?thesis
  proof (cases call)
    case (CallTransferConditional r v h0 t q)
    with run adm nc show ?thesis
      by (auto simp: p h ks admissible_def dest!: TransferConditional_effect client_id_fst)
  next
    case (CallClaim now now' k0 q)
    with run obtain b h0 b' where e: "committed s k0 = Some b" "unmarshal_HTLC b = Inr h0"
      "\<not> settled h0" "ClaimPassword h0 = q" "\<not> Before now (TimeLock h0)" "marshal_HTLC (h0\<lparr>Claimed := True\<rparr>) = Inr b'"
      "pending s' = (pending s)(fst (GetID c) \<mapsto> Itoa (read_int (committed s) (fst (GetID c)) - Amount h0),
         Recipient h0 \<mapsto> Itoa (read_int (committed s) (Recipient h0) + Amount h0), k0 \<mapsto> b')"
      by (auto simp: settled_def dest!: Claim_effect)
    from adm CallClaim have a: "apart A k0" "fst (GetID c) \<in> A" by (simp_all add: admissible_def)
    have "h0 = h" if "k0 = k" using that e h by (simp add: lock_at_Some_iff)
    with settle_lock [OF inv a(1) e(1,2) k a(2) refl e(6)] h e CallClaim p show ?thesis by auto
  next
    case (CallRevert now k0)
    with run obtain b h0 b' where e: "committed s k0 = Some b" "unmarshal_HTLC b = Inr h0"
      "\<not> settled h0" "\<not> Before now (TimeLock h0)" "marshal_HTLC (h0\<lparr>Reverted := True\<rparr>) = Inr b'"
      "pending s' = (pending s)(Recipient h0 \<mapsto> Itoa (read_int (committed s) (Recipient h0) - Amount h0),
         fst (GetID c) \<mapsto> Itoa (read_int (committed s) (fst (GetID c)) + Amount h0), k0 \<mapsto> b')"
      by (auto simp: settled_def dest!: Revert_effect)
    from adm CallRevert have a: "apart A k0" "fst (GetID c) \<in> A" by (simp_all add: admissible_def)
    have "h0 = h" if "k0 = k" using that e h by (simp add: lock_at_Some_iff)
    with settle_lock [OF inv a(1) e(1,2) k a(2) insert_commute e(5)] h e CallRevert p show ?thesis by auto
  next
    case (CallMint v)
    with run adm show ?thesis by (auto simp: p h ks admissible_def dest!: Mint_effect client_id_fst)
  next
    case (CallBurn v)
    with run adm show ?thesis by (auto simp: p h ks admissible_def dest!: Burn_effect client_id_fst)
  next
    case (CallTransfer f t v)
    with run adm show ?thesis by (auto simp: p h ks admissible_def dest!: Transfer_effect)
  next
    case (CallApprove sp v)
    with run show ?thesis by (auto simp: p h ks dest!: Approve_effect composite_null)
  next
    case (CallTransferFrom f t v)
    with run adm show ?thesis by (auto simp: p h ks admissible_def dest!: TransferFrom_effect composite_null)
  qed (use query_effect [OF run] h p in simp_all)
qed

lemma settled_rejects:
  assumes "lock_at (committed s) k = Some h" "settled h"
  shows "Claim c now now' k p s \<noteq> (Inr (), s')" "Revert c now k s \<noteq> (Inr (), s')"
  using assms by (auto simp: lock_at_Some_iff settled_def dest!: Claim_effect Revert_effect)

end

lemma tx_settled:
  assumes "tx com pend ev A w call w'" "supply_inv A w" "lock_key A k" "lock_at w k = Some h"
    "settled h" "\<not> creates k call"
  shows "lock_at w' k = Some h"
  using assms
proof cases
  case (commit c s s')
  with fabric_ledger.invoke_lock [OF commit(3), of A s call s' k h] assms show ?thesis by auto
qed (use assms in simp)

lemma history_settled:
  assumes "history com pend ev A w cs w'" "supply_inv A w" "lock_key A k" "lock_at w k = Some h"
    "settled h" "list_all (\<lambda>call. \<not> creates k call) cs"
  shows "lock_at w' k = Some h"
  using assms by (induction rule: history.induct) (auto intro: tx_settled history_inv)

end
