(* ===== verification/Token_Properties.thy ===== *)
theory Token_Properties
  imports Token_Invariant
begin

text \<open>
  What the chaincode guarantees, stated over the laws of the stub: accounting over every
  sequence of transactions, the life cycle of a lock, the exact effect of the methods and the
  access checks.  The witnesses run the methods on the in-memory stub.
\<close>

subsection \<open>A concrete ledger for the witnesses\<close>

definition demo_lock :: HTLC where
  "demo_lock = \<lparr>Sender = ''alice'', Recipient = ''bob'', Amount = 5, HashLock = ''h1'',
     TimeLock = \<lparr>year = 2024, month = 1, day = 2, hour = 3, minute = 4, second = 5, nsec = 0, zone = 0\<rparr>,
     Claimed = False, Reverted = False, ClaimPassword = ''pw''\<rparr>"

definition demo_bytes :: bytes where
  "demo_bytes = json_marshal (HTLC_json demo_lock)"

definition demo_world :: world where
  "demo_world = [totalSupplyKey \<mapsto> Itoa 100, ''alice'' \<mapsto> Itoa 70, ''bob'' \<mapsto> Itoa 30, ''h1'' \<mapsto> demo_bytes]"

abbreviation demo_accounts :: "string set" where
  "demo_accounts \<equiv> {''alice'', ''bob''}"

lemma time_ok_demo: "time_ok (TimeLock demo_lock)"
  by (simp add: demo_lock_def time_ok_def days_in_def zone_ok_def)

lemma htlc_ok_demo: "htlc_ok demo_lock"
  using time_ok_demo by (simp add: htlc_ok_def) (simp add: demo_lock_def)

lemma unmarshal_demo [simp]: "unmarshal_HTLC demo_bytes = Inr demo_lock"
  using HTLC_roundtrip [OF htlc_ok_demo] marshal_HTLC_Inr by (auto simp: demo_bytes_def)

lemma demo_read [simp]:
  "read_int demo_world totalSupplyKey = 100" "read_int demo_world ''alice'' = 70" "read_int demo_world ''bob'' = 30"
  by (simp_all add: read_int_def demo_world_def totalSupplyKey_def)

lemma demo_keys [simp]:
  "''alice'' \<noteq> totalSupplyKey" "''bob'' \<noteq> totalSupplyKey" "''h1'' \<noteq> totalSupplyKey"
  "totalSupplyKey \<noteq> ''alice''" "totalSupplyKey \<noteq> ''bob''"
  by (simp_all add: totalSupplyKey_def)

lemma demo_lock_at [simp]: "demo_world ''h1'' = Some demo_bytes" "lock_at demo_world ''h1'' = Some demo_lock"
  by (simp_all add: demo_world_def lock_at_def)

lemma demo_apart: "apart demo_accounts k \<Longrightarrow> demo_world k = Some b \<Longrightarrow> b = demo_bytes"
  by (auto simp: demo_world_def apart_def split: if_splits)

lemma demo_inv: "supply_inv demo_accounts demo_world"
proof -
  have "Recipient demo_lock = ''bob''" by (simp add: demo_lock_def)
  then have "htlc_ok h \<and> Recipient h \<in> demo_accounts"
    if "apart demo_accounts k" "demo_world k = Some b" "unmarshal_HTLC b = Inr h" for k b h
    using that htlc_ok_demo demo_apart [of k b] by auto
  then show ?thesis by (simp add: supply_inv_def accounts_def)
qed

abbreviation mem_tx :: "string set \<Rightarrow> world \<Rightarrow> call \<Rightarrow> world \<Rightarrow> bool" where
  "mem_tx \<equiv> tx (sim_committed :: sim \<Rightarrow> world) sim_pending sim_event"

abbreviation mem_history :: "string set \<Rightarrow> world \<Rightarrow> call list \<Rightarrow> world \<Rightarrow> bool" where
  "mem_history \<equiv> history (sim_committed :: sim \<Rightarrow> world) sim_pending sim_event"

lemma mem_tx_commit:
  "admissible A (mem_ctx m i) call \<Longrightarrow> invoke (mem_ctx m i) call (fresh w) = (Inr (), s') \<Longrightarrow>
   mem_tx A w call (w ++ sim_pending s')"
  using tx.commit [OF mem.fabric_ledger_axioms, of "fresh w" A m i call s'] by simp

lemma mem_transferHelper:
  "x \<noteq> y \<Longrightarrow> 0 < sint v \<Longrightarrow> sim_committed s x = Some b \<Longrightarrow> sint v \<le> bal (sim_committed s) x \<Longrightarrow>
   int64_range (bal (sim_committed s) y + sint v) \<Longrightarrow>
   transferHelper (mem_ctx m i) x y v s =
     (Inr (), s\<lparr>sim_pending := (sim_pending s)(x \<mapsto> Itoa (read_int (sim_committed s) x - v),
                                             y \<mapsto> Itoa (read_int (sim_committed s) y + v))\<rparr>)"
  by (simp add: transferHelper_def chk_def read_int_case read_int_simps sub_def add_cases sint_simps)

subsection \<open>Accounting\<close>


lemma demo_mint:
  "Mint (mem_ctx ''Org1MSP'' ''alice'') 100 (fresh Map.empty) =
     (Inr (), (fresh Map.empty)\<lparr>sim_pending := [''alice'' \<mapsto> Itoa 100, totalSupplyKey \<mapsto> Itoa 100],
        sim_event := Some (''Transfer'', marshal_event \<lparr>From = ''0x0'', To = ''alice'', Value = 100\<rparr>)\<rparr>)"
  by (simp add: Mint_def chk_def add_cases int64_range_def sint_simps)

lemma demo_history:
  "mem_history demo_accounts Map.empty [CallMint 100]
     (Map.empty ++ [''alice'' \<mapsto> Itoa 100, totalSupplyKey \<mapsto> Itoa 100])"
proof -
  have "mem_tx demo_accounts Map.empty (CallMint 100)
    (Map.empty ++ sim_pending (snd (Mint (mem_ctx ''Org1MSP'' ''alice'') 100 (fresh Map.empty))))"
    by (rule mem_tx_commit [of _ "''Org1MSP''" "''alice''"]) (simp_all add: admissible_def demo_mint)
  from history.more [OF history.none this] show ?thesis by (simp add: demo_mint)
qed


text \<open>C7: \<^verbatim>\<open>add\<close> returns the exact integer sum when it fits into 64 bits and the overflow error
  otherwise, for all signs of its arguments.\<close>

theorem add_exact:
  "case add b q of
     Inr s \<Rightarrow> sint s = sint b + sint q
   | Inl e \<Rightarrow> \<not> int64_range (sint b + sint q)
       \<and> e = ''Math: addition overflow occurred '' @ Itoa b @ '' + '' @ Itoa q"
  by (simp add: add_cases sint_add)



subsection \<open>Hashed time-locks\<close>



lemma demo_lock_key [simp]: "lock_key demo_accounts ''h1''"
  by (simp add: lock_key_def apart_def HasPrefix_def)

definition demo_now :: go_time where
  "demo_now = \<lparr>year = 2025, month = 1, day = 1, hour = 0, minute = 0, second = 0, nsec = 0, zone = 0\<rparr>"

lemma demo_not_before [simp]: "\<not> Before demo_now (TimeLock demo_lock)"
  by (simp add: Before_def UnixNano_def unix_days_def days_before_year_def days_before_month_def is_leap_def days_in_def demo_now_def demo_lock_def upt_rec)

definition demo_claimed :: sim where
  "demo_claimed = snd (Claim (mem_ctx ''Org1MSP'' ''alice'') demo_now demo_now ''h1'' ''pw'' (fresh demo_world))"

lemma demo_lock_fields [simp]:
  "Claimed demo_lock = False" "Reverted demo_lock = False" "ClaimPassword demo_lock = ''pw''"
  "Recipient demo_lock = ''bob''" "Amount demo_lock = 5" "Sender demo_lock = ''alice''"
  by (simp_all add: demo_lock_def)

lemma demo_get [simp]: "GetHashTimeLock (mem_ctx m i) ''h1'' (fresh demo_world) = (Inr demo_lock, fresh demo_world)"
  by (simp add: GetHashTimeLock_def chk_def)

lemma demo_alice [simp]: "demo_world ''alice'' = Some (Itoa 70)"
  by (simp add: demo_world_def)

lemma demo_Claim:
  "Claim (mem_ctx ''Org1MSP'' ''alice'') demo_now demo_now ''h1'' ''pw'' (fresh demo_world) = (Inr (), demo_claimed)
   \<and> sim_pending demo_claimed = [''alice'' \<mapsto> Itoa 65, ''bob'' \<mapsto> Itoa 35,
        ''h1'' \<mapsto> json_marshal (HTLC_json (demo_lock\<lparr>Claimed := True\<rparr>))]"
proof -
  obtain b where "marshal_HTLC (demo_lock\<lparr>Claimed := True\<rparr>) = Inr b"
    using HTLC_roundtrip [of "demo_lock\<lparr>Claimed := True\<rparr>"] htlc_ok_demo by auto
  with marshal_HTLC_Inr [OF this] show ?thesis
    by (simp add: demo_claimed_def Claim_def Transfer_def chk_def mem_transferHelper int64_range_def)
qed

lemma demo_claimed_tx:
  "mem_tx demo_accounts demo_world (CallClaim demo_now demo_now ''h1'' ''pw'') (demo_world ++ sim_pending demo_claimed)"
  by (rule mem_tx_commit [of _ "''Org1MSP''" "''alice''"])
    (simp_all add: admissible_def demo_Claim apart_def)


lemma demo_claimed_lock: "lock_at (demo_world ++ sim_pending demo_claimed) ''h1'' = Some (demo_lock\<lparr>Claimed := True\<rparr>)"
proof -
  obtain b where "marshal_HTLC (demo_lock\<lparr>Claimed := True\<rparr>) = Inr b"
      "unmarshal_HTLC b = Inr (demo_lock\<lparr>Claimed := True\<rparr>)"
    using HTLC_roundtrip [of "demo_lock\<lparr>Claimed := True\<rparr>"] htlc_ok_demo by auto
  with marshal_HTLC_Inr [of "demo_lock\<lparr>Claimed := True\<rparr>"] demo_Claim show ?thesis by auto
qed


text \<open>A lock that \<^verbatim>\<open>TransferConditional\<close> has written is read back by \<^verbatim>\<open>GetHashTimeLock\<close> in a
  later transaction exactly as it was created: the submitting client as sender, the parsed time,
  neither claimed nor reverted.\<close>

theorem lock_read_back:
  assumes "fabric_ledger c com pend ev" "pend s = Map.empty"
    "TransferConditional c r v k tm p s = (Inr (), s1)"
    "fabric_ledger c' com pend ev" "com s2 = com s ++ pend s1" "GetHashTimeLock c' k s2 = (Inr h, s3)"
    "ascii (fst (GetID c))" "ascii r" "ascii k" "ascii p"
  shows "\<exists>t. ParseRFC3339 tm = Inr t \<and>
     h = \<lparr>Sender = fst (GetID c), Recipient = r, Amount = v, HashLock = k, TimeLock = t,
          Claimed = False, Reverted = False, ClaimPassword = p\<rparr>"
proof -
  from fabric_ledger.TransferConditional_effect [OF assms(1,3)] obtain i t b where
    e: "client_id c = Inr i" "ParseRFC3339 tm = Inr t"
      "marshal_HTLC \<lparr>Sender = i, Recipient = r, Amount = v, HashLock = k,
        TimeLock = t, Claimed = False, Reverted = False, ClaimPassword = p\<rparr> = Inr b" (is "marshal_HTLC ?h = _")
      "pend s1 k = Some b"
    by auto
  then have "com s2 k = Some b" by (simp add: assms(5))
  moreover have "unmarshal_HTLC b = Inr ?h"
    using marshal_HTLC_roundtrip [OF marshal_parsed_ok [of tm] e(3)] e client_id_fst [OF e(1)] assms(7-10) by simp
  ultimately show ?thesis
    using fabric_ledger.GetHashTimeLock_effect [OF assms(4,6)] client_id_fst [OF e(1)] e(2) by auto
qed

lemma demo_parse [simp]: "ParseRFC3339 ''2024-01-02T03:04:05Z'' = Inr (TimeLock demo_lock)"
  by (simp add: demo_lock_def ParseRFC3339_def parse_rfc3339_def get_year_def expect_def getnum2_def getnum12_def
     get_frac_def get_zone_def is_digit_def digits_val_def digit_val_def days_in_def)

definition demo_w0 :: world where
  "demo_w0 = [totalSupplyKey \<mapsto> Itoa 100, ''alice'' \<mapsto> Itoa 75, ''bob'' \<mapsto> Itoa 25]"

lemma demo_w0_simps [simp]: "demo_w0 ''alice'' = Some (Itoa 75)" "read_int demo_w0 ''bob'' = 25" "read_int demo_w0 ''alice'' = 75"
  by (simp_all add: demo_w0_def read_int_def)

lemma demo_create:
  "TransferConditional (mem_ctx ''Org1MSP'' ''alice'') ''bob'' 5 ''h1'' ''2024-01-02T03:04:05Z'' ''pw'' (fresh demo_w0)
   = (Inr (), (fresh demo_w0)\<lparr>sim_pending := [''alice'' \<mapsto> Itoa 70, ''bob'' \<mapsto> Itoa 30, ''h1'' \<mapsto> demo_bytes]\<rparr>)"
proof -
  have "marshal_HTLC demo_lock = Inr demo_bytes"
    using HTLC_roundtrip [OF htlc_ok_demo] marshal_HTLC_Inr by (auto simp: demo_bytes_def)
  then show ?thesis
    by (simp add: TransferConditional_def chk_def mem_transferHelper int64_range_def)
      (simp add: demo_lock_def chk_def)
qed

lemma demo_create_world: "demo_w0(''alice'' \<mapsto> Itoa 70, ''bob'' \<mapsto> Itoa 30, ''h1'' \<mapsto> demo_bytes) = demo_world"
  by (auto simp: demo_w0_def demo_world_def fun_eq_iff)

theorem lock_read_back_witness:
  "\<exists>t. ParseRFC3339 ''2024-01-02T03:04:05Z'' = Inr t \<and> demo_lock =
     \<lparr>Sender = ''alice'', Recipient = ''bob'', Amount = 5, HashLock = ''h1'', TimeLock = t,
      Claimed = False, Reverted = False, ClaimPassword = ''pw''\<rparr>"
  using lock_read_back [OF mem.fabric_ledger_axioms _ demo_create mem.fabric_ledger_axioms, of "fresh demo_world"]
  by (simp add: demo_create_world)

text \<open>C5: \<^verbatim>\<open>TransferConditional\<close> pays the recipient at once, and \<^verbatim>\<open>Claim\<close> pays the recipient a second
  time, from the account of whoever submits the claim: after both the recipient holds twice the
  locked amount more than before.\<close>

theorem claim_pays_a_second_time:
  assumes "fabric_ledger c com pend ev" "pend s = Map.empty"
    "TransferConditional c r v k tm p s = (Inr (), s1)"
    "fabric_ledger c' com pend ev" "com s2 = com s ++ pend s1" "pend s2 = Map.empty"
    "Claim c' now now' k q s2 = (Inr (), s3)"
    "ascii (fst (GetID c))" "ascii r" "ascii k" "ascii p" "k \<notin> {r, fst (GetID c')}"
  shows "q = p \<and> bal (com s2 ++ pend s3) r = bal (com s) r + 2 * sint v
    \<and> bal (com s2 ++ pend s3) (fst (GetID c')) = bal (com s2) (fst (GetID c')) - sint v"
proof -
  from fabric_ledger.TransferConditional_effect [OF assms(1,3)] obtain i t b where
    e: "client_id c = Inr i" "ParseRFC3339 tm = Inr t" "i \<noteq> r" "int64_range (bal (com s) r + sint v)"
      "marshal_HTLC \<lparr>Sender = i, Recipient = r, Amount = v, HashLock = k,
        TimeLock = t, Claimed = False, Reverted = False, ClaimPassword = p\<rparr> = Inr b" (is "marshal_HTLC ?h = _")
      "pend s1 = [i \<mapsto> Itoa (read_int (com s) i - v), r \<mapsto> Itoa (read_int (com s) r + v), k \<mapsto> b]"
    using assms(2) by auto
  have h: "unmarshal_HTLC b = Inr ?h"
    using marshal_HTLC_roundtrip [OF marshal_parsed_ok [of tm] e(5)] e client_id_fst [OF e(1)] assms(8-11) by simp
  have w: "com s2 = (com s)(i \<mapsto> Itoa (read_int (com s) i - v), r \<mapsto> Itoa (read_int (com s) r + v), k \<mapsto> b)"
    by (simp add: assms(5) e(6))
  have r2: "read_int (com s2) r = read_int (com s) r + v"
    using assms(12) by (auto simp: w read_int_def)
  from fabric_ledger.Claim_effect [OF assms(4,7)] obtain b' where
    f: "p = q" "fst (GetID c') \<noteq> r" "0 < sint v" "sint v \<le> bal (com s2) (fst (GetID c'))"
      "int64_range (bal (com s2) r + sint v)"
      "pend s3 = [fst (GetID c') \<mapsto> Itoa (read_int (com s2) (fst (GetID c')) - v),
         r \<mapsto> Itoa (read_int (com s2) r + v), k \<mapsto> b']"
    by (auto simp: w h assms(6))
  from assms(12) have "r \<noteq> k" "fst (GetID c') \<noteq> k" by auto
  moreover have "sint (read_int (com s2) r + v) = bal (com s) r + 2 * sint v"
    using f(5) e(4) by (subst sint_add) (simp_all add: r2 sint_add)
  ultimately show ?thesis using f by (simp add: sint_sub_le)
qed

theorem claim_pays_a_second_time_witness:
  "bal (demo_world ++ sim_pending demo_claimed) ''bob'' = bal demo_w0 ''bob'' + 2 * 5"
  using claim_pays_a_second_time [OF mem.fabric_ledger_axioms _ demo_create mem.fabric_ledger_axioms,
      of "fresh demo_world" "''Org1MSP''" "''alice''" demo_now demo_now "''pw''" demo_claimed]
  by (simp add: demo_create_world demo_Claim)

text \<open>\<^verbatim>\<open>Revert\<close> takes the locked amount from the recipient and credits it to the client that
  submits the call, whoever created the lock; it needs no password, only that the lock is open
  and its time has come, and its event names the two accounts.\<close>

theorem revert_pays_the_caller:
  assumes "fabric_ledger c com pend ev" "pend s = Map.empty" "Revert c now k s = (Inr (), s')"
    "k \<noteq> fst (GetID c)"
  shows "\<exists>h. lock_at (com s) k = Some h \<and> \<not> settled h \<and> \<not> Before now (TimeLock h)
    \<and> bal (com s ++ pend s') (fst (GetID c)) = bal (com s) (fst (GetID c)) + sint (Amount h)
    \<and> (k \<noteq> Recipient h \<longrightarrow> bal (com s ++ pend s') (Recipient h) = bal (com s) (Recipient h) - sint (Amount h))
    \<and> ev s' = Some (''Transfer'', marshal_event \<lparr>From = Recipient h, To = fst (GetID c), Value = Amount h\<rparr>)"
proof -
  from fabric_ledger.Revert_effect [OF assms(1,3)] obtain b h b' where e:
    "com s k = Some b" "unmarshal_HTLC b = Inr h" "\<not> settled h" "\<not> Before now (TimeLock h)"
    "fst (GetID c) \<noteq> Recipient h" "0 < sint (Amount h)" "sint (Amount h) \<le> bal (com s) (Recipient h)"
    "int64_range (bal (com s) (fst (GetID c)) + sint (Amount h))"
    "ev s' = Some (''Transfer'', marshal_event \<lparr>From = Recipient h, To = fst (GetID c), Value = Amount h\<rparr>)"
    "pend s' = [Recipient h \<mapsto> Itoa (read_int (com s) (Recipient h) - Amount h),
       fst (GetID c) \<mapsto> Itoa (read_int (com s) (fst (GetID c)) + Amount h), k \<mapsto> b']"
    by (auto simp: settled_def assms(2))
  then have "lock_at (com s) k = Some h" by (simp add: lock_at_Some_iff)
  then show ?thesis using e assms(4) by (auto simp: sint_add sint_sub_le)
qed

definition demo_reverted :: sim where
  "demo_reverted = snd (Revert (mem_ctx ''Org1MSP'' ''carol'') demo_now ''h1'' (fresh demo_world))"

lemma demo_carol [simp]: "read_int demo_world ''carol'' = 0"
  by (simp add: demo_world_def read_int_def totalSupplyKey_def)

lemma demo_Revert:
  "Revert (mem_ctx ''Org1MSP'' ''carol'') demo_now ''h1'' (fresh demo_world) = (Inr (), demo_reverted)"
proof -
  obtain b where "marshal_HTLC (demo_lock\<lparr>Reverted := True\<rparr>) = Inr b"
    using HTLC_roundtrip [of "demo_lock\<lparr>Reverted := True\<rparr>"] htlc_ok_demo by auto
  moreover have "demo_world ''bob'' = Some (Itoa 30)"
    by (simp add: demo_world_def)
  ultimately show ?thesis
    by (simp add: demo_reverted_def Revert_def Transfer_def chk_def Let_def mem_transferHelper int64_range_def)
qed

theorem revert_pays_the_caller_witness:
  "bal (demo_world ++ sim_pending demo_reverted) ''carol'' = 5"
  using revert_pays_the_caller [OF mem.fabric_ledger_axioms _ demo_Revert] by simp

subsection \<open>Access\<close>

text \<open>C6: a client of any organisation other than \<^verbatim>\<open>Org1MSP\<close> can neither mint, burn, create,
  claim nor revert: each of these methods returns its error before it touches the ledger.\<close>

theorem only_Org1_may:
  assumes "GetMSPID c = Inr m" "m \<noteq> ''Org1MSP''"
  shows "Mint c v s = (Inl ''client is not authorized to mint new tokens'', s)
    \<and> Burn c v s = (Inl ''client is not authorized to mint new tokens'', s)
    \<and> TransferConditional c r v k t p s = (Inl ''client is not authorized to do Conditional Transfer'', s)
    \<and> Claim c now now' k p s = (Inl ''client is not authorized to Claim'', s)
    \<and> Revert c now k s = (Inl ''client is not authorized to Revert'', s)"
  using assms by (simp add: Mint_def Burn_def TransferConditional_def Claim_def Revert_def)

theorem only_Org1_may_witness:
  "Mint (mem_ctx ''Org2MSP'' ''eve'') 1 (fresh demo_world) = (Inl ''client is not authorized to mint new tokens'', fresh demo_world)"
  using only_Org1_may [of "mem_ctx ''Org2MSP'' ''eve''" "''Org2MSP''" 1] by simp

text \<open>\<^verbatim>\<open>Transfer\<close> never looks at the identity of the client: its outcome is the same whoever
  submits it, so any client can move the tokens of any account.\<close>

theorem Transfer_ignores_the_client:
  "Transfer (c\<lparr>GetMSPID := m, GetID := i\<rparr>) from to v = Transfer c from to v"
proof -
  have stub: "GetState (c\<lparr>GetMSPID := m, GetID := i\<rparr>) = GetState c"
    "PutState (c\<lparr>GetMSPID := m, GetID := i\<rparr>) = PutState c"
    "SetEvent (c\<lparr>GetMSPID := m, GetID := i\<rparr>) = SetEvent c" by simp_all
  show ?thesis unfolding Transfer_def transferHelper_def stub by (rule refl)
qed

subsection \<open>Allowances\<close>

text \<open>What \<^verbatim>\<open>Approve\<close> grants, \<^verbatim>\<open>Allowance\<close> reports in a later transaction.\<close>

theorem Allowance_after_Approve:
  assumes "fabric_ledger c com pend ev" "pend s = Map.empty" "Approve c spender v s = (Inr (), s1)"
    "fabric_ledger c' com pend ev" "com s2 = com s ++ pend s1"
    "CreateCompositeKey c' = CreateCompositeKey c"
    "Allowance c' (fst (GetID c)) spender s2 = (Inr a, s3)"
  shows "a = v"
  using fabric_ledger.Approve_effect [OF assms(1,3)] fabric_ledger.Allowance_result [OF assms(4,7)] assms(2,5,6)
  by (auto dest!: client_id_fst)

theorem Allowance_after_Approve_witness:
  "fst (Allowance (mem_ctx ''Org1MSP'' ''bob'') ''alice'' ''bob''
     (fresh (demo_world(composite_key allowancePrefix [''alice'', ''bob''] \<mapsto> Itoa 9)))) = Inr 9"
proof -
  have "Approve (mem_ctx ''Org1MSP'' ''alice'') ''bob'' 9 (fresh demo_world) =
    (Inr (), (fresh demo_world)\<lparr>sim_pending := [composite_key allowancePrefix [''alice'', ''bob''] \<mapsto> Itoa 9],
       sim_event := Some (''Approval'', marshal_event \<lparr>From = ''alice'', To = ''bob'', Value = 9\<rparr>)\<rparr>)"
    by (simp add: Approve_def chk_def)
  from Allowance_after_Approve [OF mem.fabric_ledger_axioms _ this mem.fabric_ledger_axioms,
      of "fresh (demo_world(composite_key allowancePrefix [''alice'', ''bob''] \<mapsto> Itoa 9))" "''Org1MSP''" "''bob''"]
  show ?thesis by (simp add: Allowance_def chk_def)
qed

text \<open>\<^verbatim>\<open>TransferFrom\<close> moves the amount between the two accounts and lowers the caller's
  allowance by the same amount; it never spends more than the allowance or the balance.\<close>

theorem TransferFrom_spends_the_allowance:
  assumes "fabric_ledger c com pend ev" "pend s = Map.empty" "TransferFrom c from to v s = (Inr (), s')"
    "CreateCompositeKey c allowancePrefix [from, fst (GetID c)] = Inr k" "k \<notin> {from, to}"
  shows "bal (com s ++ pend s') k = bal (com s) k - sint v
    \<and> bal (com s ++ pend s') from = bal (com s) from - sint v
    \<and> bal (com s ++ pend s') to = bal (com s) to + sint v
    \<and> 0 \<le> bal (com s ++ pend s') k \<and> 0 \<le> bal (com s ++ pend s') from \<and> 0 < sint v"
  using fabric_ledger.TransferFrom_effect [OF assms(1,3)] assms(2,4,5)
  by (auto simp: sint_sub_le sint_add dest!: client_id_fst)

definition demo_w1 :: world where
  "demo_w1 = demo_world(composite_key allowancePrefix [''alice'', ''carol''] \<mapsto> Itoa 9)"

lemma demo_TransferFrom:
  "\<exists>s'. TransferFrom (mem_ctx ''Org2MSP'' ''carol'') ''alice'' ''bob'' 4 (fresh demo_w1) = (Inr (), s')"
proof -
  have k: "''alice'' \<noteq> composite_key p as" "''bob'' \<noteq> composite_key p as" for p as
    by (simp_all add: composite_key_def)
  then show ?thesis
    by (simp add: TransferFrom_def chk_def demo_w1_def mem_transferHelper int64_range_def sub_def sint_simps)
qed

theorem TransferFrom_spends_the_allowance_witness:
  "\<exists>s'. bal (demo_w1 ++ sim_pending s') (composite_key allowancePrefix [''alice'', ''carol'']) = 5
     \<and> bal (demo_w1 ++ sim_pending (s' :: sim)) ''bob'' = 34"
proof -
  obtain s' where "TransferFrom (mem_ctx ''Org2MSP'' ''carol'') ''alice'' ''bob'' 4 (fresh demo_w1) = (Inr (), s')"
    using demo_TransferFrom by blast
  from TransferFrom_spends_the_allowance [OF mem.fabric_ledger_axioms _ this]
  show ?thesis by (intro exI [of _ s']) (simp add: composite_key_def demo_w1_def)
qed

text \<open>A lock whose hash lock is the key of the supply replaces the supply: after such a
  \<^verbatim>\<open>TransferConditional\<close> the total supply reads as 0.\<close>

theorem lock_can_overwrite_the_supply:
  assumes "fabric_ledger c com pend ev" "pend s = Map.empty"
    "TransferConditional c r v totalSupplyKey tm p s = (Inr (), s1)"
    "fabric_ledger c' com pend ev" "com s2 = com s ++ pend s1" "TotalSupply c' s2 = (Inr n, s3)"
  shows "n = 0"
  using fabric_ledger.TransferConditional_effect [OF assms(1,3)] fabric_ledger.TotalSupply_result [OF assms(4,6)] assms(2,5)
  by (auto simp: read_int_def Atoi_val_HTLC)

theorem lock_can_overwrite_the_supply_witness:
  "\<exists>s1. fst (TotalSupply (mem_ctx ''Org1MSP'' ''bob'') (fresh (demo_w0 ++ sim_pending (s1 :: sim)))) = Inr 0"
proof -
  have "\<exists>b. marshal_HTLC (demo_lock\<lparr>HashLock := totalSupplyKey\<rparr>) = Inr b"
    using HTLC_roundtrip [of "demo_lock\<lparr>HashLock := totalSupplyKey\<rparr>"] htlc_ok_demo
    by (auto simp: htlc_ok_def totalSupplyKey_def)
  then have "\<exists>s1. TransferConditional (mem_ctx ''Org1MSP'' ''alice'') ''bob'' 5 totalSupplyKey
      ''2024-01-02T03:04:05Z'' ''pw'' (fresh demo_w0) = (Inr (), s1)"
    by (auto simp: TransferConditional_def chk_def mem_transferHelper int64_range_def demo_lock_def)
  then obtain s1 where "TransferConditional (mem_ctx ''Org1MSP'' ''alice'') ''bob'' 5 totalSupplyKey
      ''2024-01-02T03:04:05Z'' ''pw'' (fresh demo_w0) = (Inr (), s1)" by blast
  from lock_can_overwrite_the_supply [OF mem.fabric_ledger_axioms _ this mem.fabric_ledger_axioms,
      of "fresh (demo_w0 ++ sim_pending s1)" "''Org1MSP''" "''bob''"]
  show ?thesis by (intro exI [of _ s1]) (simp add: TotalSupply_def chk_def)
qed

end
