(* ===== verification/Receipts.thy ===== *)
theory Receipts
  imports Go_Time
begin

text \<open>
  The contract of the receipt stores, \<^verbatim>\<open>internal/rest/receipt/api/persistence.go\<close>, and the
  in-memory implementation \<^verbatim>\<open>internal/rest/receipt/memdb.go\<close>.

  A receipt is a JSON object (\<^verbatim>\<open>map[string]interface{}\<close>), kept with its keys in ascending order.
  A number is kept as its literal.  The contract is the record \<open>persistence\<close> of the operations
  and the locale \<open>receipt_persistence\<close> of the two laws the receipt store relies on.
\<close>

subsection \<open>Values of Go maps\<close>

text \<open>\<^verbatim>\<open>utils.GetMapString\<close>: reflecting on the nil value of a JSON null panics.\<close>

definition GetMapString :: "obj \<Rightarrow> string \<Rightarrow> string run" where
  "GetMapString m key = (case obj_get m key of
     None \<Rightarrow> Ret []
   | Some JNull \<Rightarrow> Panic ''invalid memory address or nil pointer dereference''
   | Some (JStr s) \<Rightarrow> Ret s
   | Some _ \<Rightarrow> Ret [])"

lemma obj_get_upd [simp]: "obj_get (obj_upd k v m) k' = (if k' = k then Some v else obj_get m k')"
  by (induction k v m rule: obj_upd.induct) (auto simp: obj_get_def)

lemma obj_get_fold: "obj_get (fold (\<lambda>(k, v) m. obj_upd k v m) kvs m) k =
    (case map_of (rev kvs) k of Some v \<Rightarrow> Some v | None \<Rightarrow> obj_get m k)"
proof (induction kvs arbitrary: m)
  case (Cons a kvs)
  then show ?case by (cases a) (auto simp: map_add_def split: option.splits)
qed simp

lemma obj_get_canon:
  assumes "canon (JObj kvs) = JObj m"
  shows "obj_get m k = map_option canon (map_of (rev kvs) k)"
proof -
  have "m = fold (\<lambda>(k, v) m. obj_upd k v m) (map (\<lambda>(k, v). (k, canon v)) kvs) []" using assms by simp
  then show ?thesis by (simp only: obj_get_fold rev_map map_of_map) (simp add: obj_get_def split: option.splits)
qed

lemma canon_JNull: "canon v = JNull \<longleftrightarrow> v = JNull"
  by (cases v) simp_all

lemma canon_JObj: "\<exists>m. canon (JObj kvs) = JObj m"
  by simp

lemma map_of_omit [simp]: "map_of (omit c k v) k' = (if k' = k \<and> \<not> c then Some v else None)" "rev (omit c k v) = omit c k v"
  by (auto simp: omit_def)

subsection \<open>The contract\<close>

record 'p persistence =
  GetReceipts :: "int \<Rightarrow> int \<Rightarrow> string list \<Rightarrow> int \<Rightarrow> string \<Rightarrow> string \<Rightarrow> string \<Rightarrow> 'p \<Rightarrow> obj list res run"
  GetReceipt :: "string \<Rightarrow> 'p \<Rightarrow> obj option res"
  AddReceipt :: "string \<Rightarrow> obj \<Rightarrow> ('p, unit) op"

text \<open>
  \<open>valid\<close> is the invariant of the store; \<open>fits\<close> says which identifiers and receipts it accepts.
  What was added is found again, and adding under one identifier does not change or invent what
  is found under another (it may evict it).
\<close>

locale receipt_persistence =
  fixes p :: "'p persistence"
    and valid :: "'p \<Rightarrow> bool"
    and fits :: "string \<Rightarrow> obj \<Rightarrow> bool"
  assumes add_valid: "valid s \<Longrightarrow> fits i r \<Longrightarrow> AddReceipt p i r s = (Inr (), s') \<Longrightarrow> valid s'"
    and add_get: "valid s \<Longrightarrow> fits i r \<Longrightarrow> AddReceipt p i r s = (Inr (), s') \<Longrightarrow> GetReceipt p i s' = Inr y \<Longrightarrow> y = Some r"
    and add_other: "valid s \<Longrightarrow> fits i r \<Longrightarrow> fits j q \<Longrightarrow> i \<noteq> j \<Longrightarrow> AddReceipt p i r s = (Inr (), s') \<Longrightarrow>
      GetReceipt p j s' = Inr (Some x) \<Longrightarrow> GetReceipt p j s = Inr (Some x) \<or> (\<exists>e. GetReceipt p j s = Inl e)"
begin

text \<open>A sequence of successful additions: what is found was added, and was added last.\<close>

inductive adds :: "'p \<Rightarrow> (string \<times> obj) list \<Rightarrow> 'p \<Rightarrow> bool" for s where
  nil: "adds s [] s"
| snoc: "adds s rs t \<Longrightarrow> fits i r \<Longrightarrow> AddReceipt p i r t = (Inr (), u) \<Longrightarrow> adds s (rs @ [(i, r)]) u"

lemma adds_valid: "adds s rs t \<Longrightarrow> valid s \<Longrightarrow> valid t"
  by (induction rule: adds.induct) (auto intro: add_valid)

lemma adds_found:
  assumes "adds s rs t" "valid s" "\<And>j u. fits j q \<Longrightarrow> \<exists>y. GetReceipt p j u = Inr y" "fits j q"
    "GetReceipt p j s = Inr None" "GetReceipt p j t = Inr (Some x)"
  shows "map_of (rev rs) j = Some x"
  using assms(1,6)
proof (induction arbitrary: x rule: adds.induct)
  case nil
  then show ?case using assms(5) by simp
next
  case (snoc rs t i r u)
  have v: "valid t" using snoc.hyps(1) assms(2) adds_valid by blast
  show ?case
  proof (cases "i = j")
    case True
    then show ?thesis using add_get [OF v snoc.hyps(2,3)] snoc.prems by auto
  next
    case False
    then have "GetReceipt p j t = Inr (Some x)"
      using add_other [OF v snoc.hyps(2) assms(4) False snoc.hyps(3) snoc.prems] assms(3,4)
      by (metis Inl_Inr_False)
    then show ?thesis using snoc.IH False by auto
  qed
qed

end

subsection \<open>The in-memory store\<close>

record memoryReceipts =
  MaxDocs :: int
  receipts :: "obj list"

definition mem_GetReceipts ::
  "int \<Rightarrow> int \<Rightarrow> string list \<Rightarrow> int \<Rightarrow> string \<Rightarrow> string \<Rightarrow> string \<Rightarrow> memoryReceipts \<Rightarrow> obj list res run" where
  "mem_GetReceipts skip limit ids sinceEpochMS from to start m =
     (if ids \<noteq> [] \<or> sinceEpochMS \<noteq> 0 \<or> from \<noteq> [] \<or> to \<noteq> []
      then Ret (Inl ''Memory receipts do not support filtering'')
      else if limit < 0 then Panic ''runtime error: makeslice: cap out of range''
      else Ret (Inr (take (nat limit) (drop (nat skip) (receipts m)))))"

fun mem_find :: "string \<Rightarrow> obj list \<Rightarrow> obj option" where
  "mem_find requestID [] = None"
| "mem_find requestID (r # rs) =
     (if obj_get r ''_id'' = Some (JStr requestID) then Some r else mem_find requestID rs)"

definition mem_GetReceipt :: "string \<Rightarrow> memoryReceipts \<Rightarrow> obj option res" where
  "mem_GetReceipt requestID m = Inr (mem_find requestID (receipts m))"

definition mem_AddReceipt :: "string \<Rightarrow> obj \<Rightarrow> (memoryReceipts, unit) op" where
  "mem_AddReceipt requestID receipt m =
     (let curLen = int (length (receipts m));
          rs = (if 0 < curLen \<and> MaxDocs m \<le> curLen then butlast (receipts m) else receipts m)
      in (Inr (), m\<lparr>receipts := receipt # rs\<rparr>))"

definition mem_persistence :: "memoryReceipts persistence" where
  "mem_persistence = \<lparr>GetReceipts = mem_GetReceipts, GetReceipt = mem_GetReceipt, AddReceipt = mem_AddReceipt\<rparr>"

definition newMemoryReceipts :: "int \<Rightarrow> memoryReceipts" where
  "newMemoryReceipts n = \<lparr>MaxDocs = n, receipts = []\<rparr>"

definition mem_valid :: "memoryReceipts \<Rightarrow> bool" where
  "mem_valid m \<longleftrightarrow> int (length (receipts m)) \<le> max 1 (MaxDocs m)"

definition id_fits :: "string \<Rightarrow> obj \<Rightarrow> bool" where
  "id_fits i r \<longleftrightarrow> obj_get r ''_id'' = Some (JStr i)"

lemma mem_find_butlast: "mem_find i (butlast rs) = Some x \<Longrightarrow> mem_find i rs = Some x"
  by (induction rs) (auto split: if_splits)

interpretation mem_receipts: receipt_persistence mem_persistence mem_valid id_fits
proof unfold_locales
  fix s i r s' j q x
  show "mem_valid s \<Longrightarrow> AddReceipt mem_persistence i r s = (Inr (), s') \<Longrightarrow> mem_valid s'"
    by (auto simp: mem_valid_def mem_persistence_def mem_AddReceipt_def Let_def)
  show "id_fits i r \<Longrightarrow> AddReceipt mem_persistence i r s = (Inr (), s') \<Longrightarrow>
    GetReceipt mem_persistence i s' = Inr x \<Longrightarrow> x = Some r" for x
    by (auto simp: id_fits_def mem_persistence_def mem_AddReceipt_def mem_GetReceipt_def Let_def)
  show "id_fits i r \<Longrightarrow> i \<noteq> j \<Longrightarrow> AddReceipt mem_persistence i r s = (Inr (), s') \<Longrightarrow>
    GetReceipt mem_persistence j s' = Inr (Some x) \<Longrightarrow>
    GetReceipt mem_persistence j s = Inr (Some x) \<or> (\<exists>e. GetReceipt mem_persistence j s = Inl e)" for x
    by (auto simp: id_fits_def mem_persistence_def mem_AddReceipt_def mem_GetReceipt_def Let_def
      split: if_splits dest: mem_find_butlast)
qed

subsection \<open>What the in-memory store keeps\<close>

fun mem_add_all :: "obj list \<Rightarrow> memoryReceipts \<Rightarrow> memoryReceipts" where
  "mem_add_all [] m = m"
| "mem_add_all (r # rs) m = mem_add_all rs (snd (mem_AddReceipt [] r m))"

lemma mem_add_all_append: "mem_add_all (rs @ qs) m = mem_add_all qs (mem_add_all rs m)"
  by (induction rs arbitrary: m) auto

lemma mem_add_all_receipts:
  "MaxDocs (mem_add_all rs (newMemoryReceipts n)) = n
   \<and> receipts (mem_add_all rs (newMemoryReceipts n)) = take (nat (max 1 n)) (rev rs)"
proof (induction rs rule: rev_induct)
  case Nil
  then show ?case by (simp add: newMemoryReceipts_def)
next
  case (snoc r rs)
  let ?k = "nat (max 1 n)" and ?t = "take (nat (max 1 n)) (rev rs)"
  have t: "take ?k (r # rev rs) = r # take (?k - 1) (rev rs)" by (simp add: take_Cons')
  have "(if 0 < int (length ?t) \<and> n \<le> int (length ?t) then butlast ?t else ?t) = take (?k - 1) (rev rs)"
  proof (cases "length rs < ?k")
    case True
    then have "rs = [] \<or> int (length rs) < n" by (cases rs) (auto simp: max_def split: if_splits)
    with True show ?thesis by auto
  next
    case False
    then have "length ?t = ?k" "butlast ?t = take (?k - 1) (rev rs)" by (auto simp: butlast_take)
    then show ?thesis by auto
  qed
  then show ?case using snoc t by (auto simp: mem_add_all_append mem_AddReceipt_def Let_def split: if_splits)
qed

text \<open>The in-memory store always holds exactly the newest receipts, as many as configured and
  at least one, newest first; a query without filters returns the requested page of them, and a
  query with any filter is refused.\<close>

theorem memory_store_keeps_the_newest:
  "mem_GetReceipts skip limit ids since from to start (mem_add_all rs (newMemoryReceipts n)) =
     (if ids = [] \<and> since = 0 \<and> from = [] \<and> to = []
      then if limit < 0 then Panic ''runtime error: makeslice: cap out of range''
           else Ret (Inr (take (nat limit) (drop (nat skip) (take (nat (max 1 n)) (rev rs)))))
      else Ret (Inl ''Memory receipts do not support filtering''))"
  by (auto simp: mem_GetReceipts_def mem_add_all_receipts)

end
