(* ===== verification/Kvstore.thy ===== *)
theory Kvstore
  imports Go_Strconv
begin

text \<open>
  The key-value store of the gateway, \<^verbatim>\<open>internal/kvstore/kvstore.go\<close>: the interface \<^verbatim>\<open>KVStore\<close>
  with its iterators and the implementation that forwards to goleveldb.

  goleveldb itself is not part of the repository.  It is the argument \<open>ldb\<close>, a record of the
  calls the wrapper makes on an opened database \<open>'d\<close> and on an iterator \<open>'i\<close>; what its
  documentation promises is the locale \<open>goleveldb\<close>.  The locale \<open>kv_store\<close> states the same of the
  wrapper: it is what the receipt store and the subscription manager build on.
\<close>

subsection \<open>goleveldb, as far as it is called\<close>

record ('d, 'i) leveldb =
  ldb_Put :: "string \<Rightarrow> bytes \<Rightarrow> ('d, unit) op"
  ldb_Get :: "string \<Rightarrow> 'd \<Rightarrow> bytes res"
  ldb_Delete :: "string \<Rightarrow> ('d, unit) op"
  ldb_NewIterator :: "string option \<Rightarrow> 'd \<Rightarrow> 'i"
  ldb_Key :: "'i \<Rightarrow> string"
  ldb_Value :: "'i \<Rightarrow> bytes"
  ldb_Next :: "'i \<Rightarrow> bool \<times> 'i"
  ldb_Prev :: "'i \<Rightarrow> bool \<times> 'i"
  ldb_Last :: "'i \<Rightarrow> bool \<times> 'i"
  ldb_Seek :: "string \<Rightarrow> 'i \<Rightarrow> bool \<times> 'i"
  ldb_Close :: "('d, unit) op"

definition ErrorNotFound :: error where
  "ErrorNotFound = ''leveldb: not found''"

subsection \<open>The interface\<close>

text \<open>\<^verbatim>\<open>KVStore\<close> and \<^verbatim>\<open>KVIterator\<close>; the only range used is one with a start key.\<close>

record ('d, 'i) KVStore =
  Put :: "string \<Rightarrow> bytes \<Rightarrow> ('d, unit) op"
  Get :: "string \<Rightarrow> 'd \<Rightarrow> bytes res"
  Delete :: "string \<Rightarrow> ('d, unit) op"
  NewIterator :: "'d \<Rightarrow> 'i"
  NewIteratorWithRange :: "string \<Rightarrow> 'd \<Rightarrow> 'i"
  Close :: "('d, unit) op"
  Key :: "'i \<Rightarrow> string"
  Value :: "'i \<Rightarrow> bytes"
  Next :: "'i \<Rightarrow> bool \<times> 'i"
  Prev :: "'i \<Rightarrow> bool \<times> 'i"
  Last :: "'i \<Rightarrow> bool \<times> 'i"
  Seek :: "string \<Rightarrow> 'i \<Rightarrow> bool \<times> 'i"
  Release :: "'i \<Rightarrow> 'i"

subsection \<open>The implementation\<close>

text \<open>
  \<^verbatim>\<open>warnIfErr\<close> only logs.  \<^verbatim>\<open>Release\<close> advances the iterator instead of releasing it, as the
  source does.
\<close>

definition levelDB_Put :: "('d, 'i) leveldb \<Rightarrow> string \<Rightarrow> bytes \<Rightarrow> ('d, unit) op" where
  "levelDB_Put ldb key val d = (let (err, d') = ldb_Put ldb key val d in (err, d'))"

definition levelDB_Get :: "('d, 'i) leveldb \<Rightarrow> string \<Rightarrow> 'd \<Rightarrow> bytes res" where
  "levelDB_Get ldb key d = ldb_Get ldb key d"

definition levelDB_Delete :: "('d, 'i) leveldb \<Rightarrow> string \<Rightarrow> ('d, unit) op" where
  "levelDB_Delete ldb key d = (let (err, d') = ldb_Delete ldb key d in (err, d'))"

definition levelDB_NewIterator :: "('d, 'i) leveldb \<Rightarrow> 'd \<Rightarrow> 'i" where
  "levelDB_NewIterator ldb d = ldb_NewIterator ldb None d"

definition levelDB_NewIteratorWithRange :: "('d, 'i) leveldb \<Rightarrow> string \<Rightarrow> 'd \<Rightarrow> 'i" where
  "levelDB_NewIteratorWithRange ldb start d = ldb_NewIterator ldb (Some start) d"

definition levelDB_Release :: "('d, 'i) leveldb \<Rightarrow> 'i \<Rightarrow> 'i" where
  "levelDB_Release ldb i = snd (ldb_Next ldb i)"

definition NewLDBKeyValueStore :: "('d, 'i) leveldb \<Rightarrow> ('d, 'i) KVStore" where
  "NewLDBKeyValueStore ldb =
     \<lparr>Put = levelDB_Put ldb, Get = levelDB_Get ldb, Delete = levelDB_Delete ldb,
      NewIterator = levelDB_NewIterator ldb, NewIteratorWithRange = levelDB_NewIteratorWithRange ldb,
      Close = ldb_Close ldb, Key = ldb_Key ldb, Value = ldb_Value ldb, Next = ldb_Next ldb,
      Prev = ldb_Prev ldb, Last = ldb_Last ldb, Seek = ldb_Seek ldb, Release = levelDB_Release ldb\<rparr>"

subsection \<open>Sorted tables\<close>

text \<open>The entries of a database as an iterator walks them: strictly ascending keys.\<close>

type_synonym table = "(string \<times> bytes) list"

definition table_ok :: "table \<Rightarrow> bool" where
  "table_ok t \<longleftrightarrow> sorted_wrt (<) (map fst t)"

text \<open>The position of the first key that is not below \<open>k\<close>.\<close>

definition seek_pos :: "string \<Rightarrow> table \<Rightarrow> nat" where
  "seek_pos k t = length (takeWhile (\<lambda>e. fst e < k) t)"

lemma table_ok_distinct: "table_ok t \<Longrightarrow> distinct (map fst t)"
  by (simp add: table_ok_def strict_sorted_iff)

lemma table_ok_filter: "table_ok t \<Longrightarrow> table_ok (filter P t)"
  unfolding table_ok_def sorted_wrt_map by (rule sorted_wrt_filter)

lemma table_ok_unique:
  assumes "table_ok s" "table_ok t" "map_of s = map_of t"
  shows "s = t"
proof -
  have d: "distinct (map fst s)" "distinct (map fst t)" using assms table_ok_distinct by auto
  have "set s = set t" using assms(3) d by (metis map_of_inject_set)
  moreover have "sorted (map fst s)" "sorted (map fst t)" using assms by (auto simp: table_ok_def strict_sorted_iff)
  ultimately show ?thesis using d
    by (metis (no_types, lifting) map_sorted_distinct_set_unique distinct_map inj_on_Un sup.idem)
qed

subsection \<open>What the store promises\<close>

text \<open>
  \<open>contents\<close> is the map a database holds; \<open>items\<close> and \<open>cur\<close> are the entries an iterator was
  created on and its position (\<open>None\<close> before the first move or past an end).
\<close>

locale kv_store =
  fixes kv :: "('d, 'i) KVStore"
    and contents :: "'d \<Rightarrow> string \<rightharpoonup> bytes"
    and items :: "'i \<Rightarrow> table"
    and cur :: "'i \<Rightarrow> nat option"
  assumes get_value: "Get kv k d = Inr v \<Longrightarrow> contents d k = Some v"
    and get_missing: "Get kv k d = Inl ErrorNotFound \<longleftrightarrow> contents d k = None"
    and put_contents: "Put kv k v d = (Inr u, d') \<Longrightarrow> contents d' = (contents d)(k \<mapsto> v)"
    and delete_contents: "Delete kv k d = (Inr u, d') \<Longrightarrow> contents d' = (contents d)(k := None)"
    and iter_all: "table_ok (items (NewIterator kv d)) \<and> map_of (items (NewIterator kv d)) = contents d"
    and iter_range: "items (NewIteratorWithRange kv k d) = filter (\<lambda>e. k \<le> fst e) (items (NewIterator kv d))"
    and seek: "Seek kv k i = (b, i') \<Longrightarrow> items i' = items i \<and> (b \<longleftrightarrow> seek_pos k (items i) < length (items i))
      \<and> (b \<longrightarrow> cur i' = Some (seek_pos k (items i)))"
    and last: "Last kv i = (b, i') \<Longrightarrow> items i' = items i \<and> (b \<longleftrightarrow> items i \<noteq> [])
      \<and> (b \<longrightarrow> cur i' = Some (length (items i) - 1))"
    and iter_first: "Next kv (NewIterator kv d) = (b, i) \<Longrightarrow> items i = items (NewIterator kv d)
      \<and> (b \<longleftrightarrow> items i \<noteq> []) \<and> (b \<longrightarrow> cur i = Some 0)"
    and iter_next: "Next kv i = (b, i') \<Longrightarrow> cur i = Some n \<Longrightarrow> items i' = items i
      \<and> (b \<longleftrightarrow> Suc n < length (items i)) \<and> (b \<longrightarrow> cur i' = Some (Suc n))"
    and iter_prev: "Prev kv i = (b, i') \<Longrightarrow> cur i = Some n \<Longrightarrow> items i' = items i
      \<and> (b \<longleftrightarrow> 0 < n) \<and> (b \<longrightarrow> cur i' = Some (n - 1))"
    and key_value: "cur i = Some n \<Longrightarrow> n < length (items i) \<Longrightarrow> (Key kv i, Value kv i) = items i ! n"

text \<open>The laws goleveldb documents, and that the wrapper inherits them.\<close>

locale goleveldb =
  fixes ldb :: "('d, 'i) leveldb"
    and contents :: "'d \<Rightarrow> string \<rightharpoonup> bytes"
    and items :: "'i \<Rightarrow> table"
    and cur :: "'i \<Rightarrow> nat option"
  assumes ldb_get: "ldb_Get ldb k d = Inr v \<Longrightarrow> contents d k = Some v"
    and ldb_not_found: "ldb_Get ldb k d = Inl ErrorNotFound \<longleftrightarrow> contents d k = None"
    and ldb_put: "ldb_Put ldb k v d = (Inr u, d') \<Longrightarrow> contents d' = (contents d)(k \<mapsto> v)"
    and ldb_delete: "ldb_Delete ldb k d = (Inr u, d') \<Longrightarrow> contents d' = (contents d)(k := None)"
    and ldb_iter: "table_ok (items (ldb_NewIterator ldb None d)) \<and> map_of (items (ldb_NewIterator ldb None d)) = contents d"
    and ldb_range: "items (ldb_NewIterator ldb (Some k) d) = filter (\<lambda>e. k \<le> fst e) (items (ldb_NewIterator ldb None d))"
    and ldb_seek: "ldb_Seek ldb k i = (b, i') \<Longrightarrow> items i' = items i \<and> (b \<longleftrightarrow> seek_pos k (items i) < length (items i))
      \<and> (b \<longrightarrow> cur i' = Some (seek_pos k (items i)))"
    and ldb_last: "ldb_Last ldb i = (b, i') \<Longrightarrow> items i' = items i \<and> (b \<longleftrightarrow> items i \<noteq> [])
      \<and> (b \<longrightarrow> cur i' = Some (length (items i) - 1))"
    and ldb_first: "ldb_Next ldb (ldb_NewIterator ldb None d) = (b, i) \<Longrightarrow> items i = items (ldb_NewIterator ldb None d)
      \<and> (b \<longleftrightarrow> items i \<noteq> []) \<and> (b \<longrightarrow> cur i = Some 0)"
    and ldb_next: "ldb_Next ldb i = (b, i') \<Longrightarrow> cur i = Some n \<Longrightarrow> items i' = items i
      \<and> (b \<longleftrightarrow> Suc n < length (items i)) \<and> (b \<longrightarrow> cur i' = Some (Suc n))"
    and ldb_prev: "ldb_Prev ldb i = (b, i') \<Longrightarrow> cur i = Some n \<Longrightarrow> items i' = items i
      \<and> (b \<longleftrightarrow> 0 < n) \<and> (b \<longrightarrow> cur i' = Some (n - 1))"
    and ldb_key_value: "cur i = Some n \<Longrightarrow> n < length (items i) \<Longrightarrow> (ldb_Key ldb i, ldb_Value ldb i) = items i ! n"

sublocale goleveldb \<subseteq> wrapped: kv_store "NewLDBKeyValueStore ldb" contents items cur
proof unfold_locales
  show "Next (NewLDBKeyValueStore ldb) (NewIterator (NewLDBKeyValueStore ldb) d) = (b, i) \<Longrightarrow>
    items i = items (NewIterator (NewLDBKeyValueStore ldb) d) \<and> (b \<longleftrightarrow> items i \<noteq> []) \<and> (b \<longrightarrow> cur i = Some 0)" for d b i
    using ldb_first [of d b i] by (simp add: NewLDBKeyValueStore_def levelDB_NewIterator_def)
  show "Seek (NewLDBKeyValueStore ldb) k i = (b, i') \<Longrightarrow> items i' = items i
    \<and> (b \<longleftrightarrow> seek_pos k (items i) < length (items i)) \<and> (b \<longrightarrow> cur i' = Some (seek_pos k (items i)))" for k i b i'
    by (rule ldb_seek) (simp add: NewLDBKeyValueStore_def)
qed (use ldb_get ldb_not_found ldb_put ldb_delete ldb_iter ldb_range ldb_last ldb_next ldb_prev ldb_key_value in
    \<open>auto simp: NewLDBKeyValueStore_def levelDB_Put_def levelDB_Get_def levelDB_Delete_def
      levelDB_NewIterator_def levelDB_NewIteratorWithRange_def split: prod.splits\<close>)

subsection \<open>An in-memory database that follows the laws\<close>

definition mem_table :: "table \<Rightarrow> table" where
  "mem_table d = map (\<lambda>k. (k, the (map_of d k))) (sort (remdups (map fst d)))"

definition mem_seek :: "string \<Rightarrow> table \<times> nat option \<Rightarrow> bool \<times> table \<times> nat option" where
  "mem_seek k i = (seek_pos k (fst i) < length (fst i), fst i, Some (seek_pos k (fst i)))"

definition mem_last :: "table \<times> nat option \<Rightarrow> bool \<times> table \<times> nat option" where
  "mem_last i = (fst i \<noteq> [], fst i, Some (length (fst i) - 1))"

definition mem_next :: "table \<times> nat option \<Rightarrow> bool \<times> table \<times> nat option" where
  "mem_next i = (case snd i of None \<Rightarrow> (fst i \<noteq> [], fst i, Some 0)
     | Some n \<Rightarrow> (Suc n < length (fst i), fst i, Some (Suc n)))"

definition mem_prev :: "table \<times> nat option \<Rightarrow> bool \<times> table \<times> nat option" where
  "mem_prev i = (case snd i of None \<Rightarrow> (False, i) | Some n \<Rightarrow> (0 < n, fst i, if 0 < n then Some (n - 1) else None))"

definition mem_ldb :: "(table, table \<times> nat option) leveldb" where
  "mem_ldb = \<lparr>ldb_Put = (\<lambda>k v d. (Inr (), (k, v) # d)),
     ldb_Get = (\<lambda>k d. case map_of d k of None \<Rightarrow> Inl ErrorNotFound | Some v \<Rightarrow> Inr v),
     ldb_Delete = (\<lambda>k d. (Inr (), filter (\<lambda>e. fst e \<noteq> k) d)),
     ldb_NewIterator = (\<lambda>r d. (case r of None \<Rightarrow> mem_table d | Some k \<Rightarrow> filter (\<lambda>e. k \<le> fst e) (mem_table d), None)),
     ldb_Key = (\<lambda>i. case snd i of None \<Rightarrow> [] | Some n \<Rightarrow> fst (fst i ! n)),
     ldb_Value = (\<lambda>i. case snd i of None \<Rightarrow> [] | Some n \<Rightarrow> snd (fst i ! n)),
     ldb_Next = mem_next, ldb_Prev = mem_prev, ldb_Last = mem_last, ldb_Seek = mem_seek,
     ldb_Close = (\<lambda>d. (Inr (), d))\<rparr>"

lemma mem_table_ok: "table_ok (mem_table d)"
  by (simp add: table_ok_def mem_table_def comp_def strict_sorted_iff)

lemma map_of_mem_table: "map_of (mem_table d) = map_of d"
proof
  fix k
  have "map_of (mem_table d) k = (if k \<in> dom (map_of d) then Some (the (map_of d k)) else None)"
    by (simp add: mem_table_def map_of_map_restrict restrict_map_def comp_def dom_map_of_conv_image_fst)
  also have "\<dots> = map_of d k" by (cases "map_of d k") auto
  finally show "map_of (mem_table d) k = map_of d k" .
qed

lemma map_of_remove: "map_of (filter (\<lambda>e. fst e \<noteq> k) d) = (map_of d)(k := None)"
  by (induction d) auto

interpretation mem_db: goleveldb mem_ldb map_of fst snd
  by unfold_locales
    (auto simp: mem_ldb_def mem_table_ok map_of_mem_table map_of_remove mem_seek_def mem_last_def
      mem_next_def mem_prev_def split: option.splits)

end
