(* ===== verification/Go_Sort.thy ===== *)
theory Go_Sort
  imports Prelude
begin

text \<open>
  \<^verbatim>\<open>sort.SearchStrings\<close>, the binary search of Go's \<^verbatim>\<open>sort\<close> package, and its correctness: on a
  sorted slice it returns the number of elements below the key.
\<close>

function search_loop :: "(nat \<Rightarrow> bool) \<Rightarrow> nat \<Rightarrow> nat \<Rightarrow> nat" where
  "search_loop f i j =
     (if i < j then
        (let h = (i + j) div 2 in if \<not> f h then search_loop f (Suc h) j else search_loop f i h)
      else i)"
  by auto
termination by (relation "measure (\<lambda>(f, i, j). j - i)") auto

declare search_loop.simps [simp del]

definition Search :: "nat \<Rightarrow> (nat \<Rightarrow> bool) \<Rightarrow> nat" where
  "Search n f = search_loop f 0 n"

definition SearchStrings :: "string list \<Rightarrow> string \<Rightarrow> nat" where
  "SearchStrings a x = Search (length a) (\<lambda>i. x \<le> a ! i)"

text \<open>The loop finds the boundary of a monotone predicate.\<close>

lemma search_loop_boundary:
  assumes "i \<le> p" "p \<le> j" "\<And>k. i \<le> k \<Longrightarrow> k < j \<Longrightarrow> f k \<longleftrightarrow> p \<le> k"
  shows "search_loop f i j = p"
  using assms
proof (induction f i j rule: search_loop.induct)
  case (1 f i j)
  show ?case
  proof (cases "i < j")
    case True
    define h where "h = (i + j) div 2"
    have h: "i \<le> h" "h < j" using True by (auto simp: h_def)
    have fh: "f h \<longleftrightarrow> p \<le> h" using "1.prems"(3) h by blast
    have "search_loop f i j = (if \<not> f h then search_loop f (Suc h) j else search_loop f i h)"
      using True by (subst search_loop.simps) (simp add: Let_def h_def)
    also have "\<dots> = p"
    proof (cases "f h")
      case True
      then show ?thesis using "1.IH"(2) [OF \<open>i < j\<close> h_def] "1.prems" fh h by simp
    next
      case False
      then show ?thesis using "1.IH"(1) [OF \<open>i < j\<close> h_def] "1.prems" fh h by simp
    qed
    finally show ?thesis .
  next
    case False
    then show ?thesis using "1.prems" by (simp add: search_loop.simps)
  qed
qed

lemma takeWhile_sorted:
  "sorted (a :: 'a :: linorder list) \<Longrightarrow>
     takeWhile (\<lambda>y. y < x) a = filter (\<lambda>y. y < x) a \<and> dropWhile (\<lambda>y. y < x) a = filter (\<lambda>y. x \<le> y) a"
proof (induction a)
  case (Cons y a)
  {
    assume "\<not> y < x"
    then have "\<forall>z\<in>set a. x \<le> z" using Cons.prems by fastforce
    then have "filter (\<lambda>z. z < x) a = []" "filter (\<lambda>z. x \<le> z) a = a"
      by (auto simp: filter_empty_conv not_less filter_id_conv)
  }
  with Cons show ?case by auto
qed simp

lemma sorted_takeWhile_length:
  assumes "sorted (a :: 'a :: linorder list)" "k < length a"
  shows "x \<le> a ! k \<longleftrightarrow> length (takeWhile (\<lambda>y. y < x) a) \<le> k" (is "_ \<longleftrightarrow> ?n \<le> k")
proof
  assume "x \<le> a ! k"
  show "?n \<le> k"
  proof (rule ccontr)
    assume "\<not> ?n \<le> k"
    then have "a ! k < x" by (metis nth_mem not_le set_takeWhileD takeWhile_nth)
    with \<open>x \<le> a ! k\<close> show False by simp
  qed
next
  assume "?n \<le> k"
  then have n: "?n < length a" using assms(2) by simp
  from nth_length_takeWhile [OF n] have "x \<le> a ! ?n" by simp
  also have "\<dots> \<le> a ! k" using assms \<open>?n \<le> k\<close> by (simp add: sorted_nth_mono)
  finally show "x \<le> a ! k" .
qed

lemma SearchStrings_sorted:
  "sorted a \<Longrightarrow> SearchStrings a x = length (takeWhile (\<lambda>y. y < x) a)"
  unfolding SearchStrings_def Search_def
  by (rule search_loop_boundary) (auto simp: length_takeWhile_le sorted_takeWhile_length)

lemma take_SearchStrings: "sorted a \<Longrightarrow> take (SearchStrings a x) a = filter (\<lambda>y. y < x) a"
  by (metis SearchStrings_sorted takeWhile_eq_take takeWhile_sorted)

lemma drop_SearchStrings: "sorted a \<Longrightarrow> drop (SearchStrings a x) a = filter (\<lambda>y. x \<le> y) a"
  by (metis SearchStrings_sorted dropWhile_eq_drop takeWhile_sorted)

lemma SearchStrings_mem:
  assumes "sorted a"
  shows "SearchStrings a x < length a \<and> a ! SearchStrings a x = x \<longleftrightarrow> x \<in> set a"
proof
  assume "x \<in> set a"
  then obtain k where k: "k < length a" "a ! k = x" by (auto simp: in_set_conv_nth)
  let ?p = "length (takeWhile (\<lambda>y. y < x) a)"
  have "?p \<le> k" using sorted_takeWhile_length [OF assms k(1), of x] k(2) by simp
  then have p: "?p < length a" using k(1) by simp
  then have "x \<le> a ! ?p" using sorted_takeWhile_length [OF assms p, of x] by simp
  moreover have "a ! ?p \<le> x" using assms k \<open>?p \<le> k\<close> sorted_nth_mono by metis
  ultimately show "SearchStrings a x < length a \<and> a ! SearchStrings a x = x"
    using p by (simp add: SearchStrings_sorted [OF assms])
qed (metis nth_mem)

end
