(* ===== verification/Receipt_LevelDB.thy ===== *)
theory Receipt_LevelDB
  imports Receipts Kvstore Go_Sort
begin

text \<open>
  The LevelDB receipt store, \<^verbatim>\<open>internal/rest/receipt/leveldb.go\<close>.

  A receipt is stored under \<^verbatim>\<open>z<ulid>\<close>; four index entries point to this lookup key: one per
  sender, recipient and time of arrival, and the request identifier itself.  The state is the
  database together with the entropy source of the ULID generator; the generator is the argument
  \<open>next_id\<close>.  The loops over iterators take fuel, since only the laws of the store bound them.
\<close>

subsection \<open>\<^verbatim>\<open>fmt.Sprintf\<close> on the values of a receipt\<close>

fun fmt_value :: "char \<Rightarrow> json \<Rightarrow> string" where
  "fmt_value v JNull = ''%!'' @ [v] @ ''(<nil>)''"
| "fmt_value v (JStr s) = (if v = CHR ''s'' then s else ''%!'' @ [v] @ ''(string='' @ s @ '')'')"
| "fmt_value v (JBool b) = ''%!'' @ [v] @ ''(bool='' @ FormatBool b @ '')''"
| "fmt_value v (JNum l) = (if v = CHR ''d'' then l else ''%!'' @ [v] @ ''(float64='' @ l @ '')'')"
| "fmt_value v (JArr xs) =
     ''['' @ concat (case map (fmt_value v) xs of [] \<Rightarrow> [] | y # ys \<Rightarrow> y # map (\<lambda>z. '' '' @ z) ys) @ '']''"
| "fmt_value v (JObj kvs) =
     ''map['' @ concat (case map (\<lambda>(k, x). fmt_value v (JStr k) @ '':'' @ fmt_value v x) kvs of
        [] \<Rightarrow> [] | y # ys \<Rightarrow> y # map (\<lambda>z. '' '' @ z) ys) @ '']''"

definition fmt_field :: "char \<Rightarrow> obj \<Rightarrow> string \<Rightarrow> string" where
  "fmt_field v m k = fmt_value v (case obj_get m k of None \<Rightarrow> JNull | Some x \<Rightarrow> x)"

text \<open>\<^verbatim>\<open>json.Unmarshal\<close> into a map; a JSON null gives the nil map, which reads as empty.\<close>

definition unmarshal_map :: "bytes \<Rightarrow> obj res" where
  "unmarshal_map b = (case json_unmarshal b of
     Some (JObj m) \<Rightarrow> Inr m
   | Some JNull \<Rightarrow> Inr []
   | Some _ \<Rightarrow> Inl ''json: cannot unmarshal into Go value of type map[string]interface {}''
   | None \<Rightarrow> Inl ''invalid JSON'')"

subsection \<open>Adding\<close>

definition ldb_AddReceipt ::
  "('d, 'i) KVStore \<Rightarrow> ('e \<Rightarrow> string \<times> 'e) \<Rightarrow> string \<Rightarrow> obj \<Rightarrow> ('d \<times> 'e, unit) op" where
  "ldb_AddReceipt kv next_id requestID receipt s =
     (let (newID, e') = next_id (snd s);
          lookupKey = ''z'' @ newID;
          b = json_marshal_indent (JObj receipt);
          fromKey = ''from:'' @ fmt_field (CHR ''s'') receipt ''from'' @ '':'' @ lookupKey;
          receivedAtKey = ''receivedAt:'' @ fmt_field (CHR ''d'') receipt ''receivedAt'' @ '':'' @ lookupKey;
          (err, d') =
            chk (Put kv lookupKey b) id (\<lambda>_.
            chk (Put kv fromKey lookupKey) id (\<lambda>_.
            chk (case obj_get receipt ''to'' of
                   None \<Rightarrow> ok ()
                 | Some to \<Rightarrow>
                     (if to = JStr [] then ok ()
                      else Put kv (''to:'' @ fmt_value (CHR ''s'') to @ '':'' @ lookupKey) lookupKey)) id (\<lambda>_.
            chk (Put kv receivedAtKey lookupKey) id (\<lambda>_.
            Put kv requestID lookupKey)))) (fst s)
      in (err, d', e'))"

subsection \<open>Querying\<close>

definition intersect :: "string list \<Rightarrow> string list \<Rightarrow> string list" where
  "intersect arr1 arr2 =
     filter (\<lambda>from. let idx = SearchStrings arr2 from in idx < length arr2 \<and> arr2 ! idx = from) arr1"

definition applyBound :: "string list \<Rightarrow> string \<Rightarrow> string \<Rightarrow> string list" where
  "applyBound arr start end' =
     (let arr1 = (if start \<noteq> [] then drop (SearchStrings arr start) arr else arr)
      in if end' \<noteq> [] then take (SearchStrings arr1 end') arr1 else arr1)"

definition findEndPoint :: "('d, 'i) KVStore \<Rightarrow> int \<Rightarrow> 'd \<Rightarrow> string run" where
  "findEndPoint kv sinceEpochMS d =
     (let (found, itr) = Seek kv (''receivedAt:'' @ int_str sinceEpochMS @ '':'') (NewIterator kv d)
      in if found \<and> HasPrefix (Key kv itr) ''receivedAt:''
         then (let segments = Split (CHR '':'') (Key kv itr)
               in if length segments < 3 then Panic ''runtime error: index out of range [2]''
                  else Ret (segments ! 2))
         else Ret [])"

fun lookupKeys_of_ids :: "('d, 'i) KVStore \<Rightarrow> string list \<Rightarrow> 'd \<Rightarrow> string list" where
  "lookupKeys_of_ids kv [] d = []"
| "lookupKeys_of_ids kv (i # ids) d =
     (case Get kv i d of
        Inl err \<Rightarrow> lookupKeys_of_ids kv ids d
      | Inr val \<Rightarrow> val # lookupKeys_of_ids kv ids d)"

definition getLookupKeysByIDs :: "('d, 'i) KVStore \<Rightarrow> string list \<Rightarrow> string \<Rightarrow> string \<Rightarrow> 'd \<Rightarrow> string list" where
  "getLookupKeysByIDs kv ids start end' d = applyBound (sort (lookupKeys_of_ids kv ids d)) end' start"

fun prefix_loop ::
  "nat \<Rightarrow> ('d, 'i) KVStore \<Rightarrow> string \<Rightarrow> int \<Rightarrow> int \<Rightarrow> 'i \<Rightarrow> string list \<Rightarrow> (string list \<times> 'i) run" where
  "prefix_loop 0 kv prefix limit count itr lookupKeys = OutOfFuel"
| "prefix_loop (Suc f) kv prefix limit count itr lookupKeys =
     (let (more, itr') = Next kv itr in
      if \<not> more then Ret (lookupKeys, itr')
      else if count < limit then
        (if HasPrefix (Key kv itr') prefix
         then prefix_loop f kv prefix limit (count + 1) itr' (lookupKeys @ [Value kv itr'])
         else Ret (lookupKeys, itr'))
      else Ret (lookupKeys, itr'))"

definition getLookupKeysByPrefix ::
  "nat \<Rightarrow> ('d, 'i) KVStore \<Rightarrow> string \<Rightarrow> int \<Rightarrow> 'i \<Rightarrow> (string list \<times> 'i) run" where
  "getLookupKeysByPrefix fuel kv prefix limit itr =
     (let (found, itr') = Seek kv prefix itr in
      if found then
        (if HasPrefix (Key kv itr') prefix
         then prefix_loop fuel kv prefix limit 1 itr' [Value kv itr']
         else prefix_loop fuel kv prefix limit 0 itr' [])
      else Ret ([], itr'))"

definition getLookupKeysByFromAndTo ::
  "nat \<Rightarrow> ('d, 'i) KVStore \<Rightarrow> string \<Rightarrow> string \<Rightarrow> string \<Rightarrow> string \<Rightarrow> int \<Rightarrow> 'd \<Rightarrow> string list run" where
  "getLookupKeysByFromAndTo fuel kv from to start end' limit d =
     bind_run (if from \<noteq> [] then getLookupKeysByPrefix fuel kv (''from:'' @ from @ '':'') limit (NewIterator kv d)
               else Ret ([], NewIterator kv d)) (\<lambda>(fromKeys, itr).
     bind_run (if to \<noteq> [] then getLookupKeysByPrefix fuel kv (''to:'' @ to @ '':'') limit itr
               else Ret ([], itr)) (\<lambda>(toKeys, itr').
     let result = (if from \<noteq> [] \<and> to = [] then fromKeys
                   else if from = [] \<and> to \<noteq> [] then toKeys
                   else intersect fromKeys toKeys)
     in Ret (applyBound result end' start)))"

fun receipts_of_keys :: "('d, 'i) KVStore \<Rightarrow> string list \<Rightarrow> 'd \<Rightarrow> obj list" where
  "receipts_of_keys kv [] d = []"
| "receipts_of_keys kv (key # keys) d =
     (case Get kv key d of
        Inl err \<Rightarrow> receipts_of_keys kv keys d
      | Inr val \<Rightarrow>
          (case unmarshal_map val of
             Inl err \<Rightarrow> receipts_of_keys kv keys d
           | Inr receipt \<Rightarrow> receipt # receipts_of_keys kv keys d))"

definition getReceiptsByLookupKey :: "('d, 'i) KVStore \<Rightarrow> string list \<Rightarrow> int \<Rightarrow> 'd \<Rightarrow> obj list" where
  "getReceiptsByLookupKey kv lookupKeys limit d =
     (let n = (if 0 < limit \<and> limit < int (length lookupKeys) then nat limit else length lookupKeys)
      in receipts_of_keys kv (take n lookupKeys) d)"

fun no_filter_loop ::
  "nat \<Rightarrow> ('d, 'i) KVStore \<Rightarrow> int \<Rightarrow> int \<Rightarrow> bool \<Rightarrow> 'i \<Rightarrow> int \<Rightarrow> obj list \<Rightarrow> obj list run" where
  "no_filter_loop 0 kv skip limit valid itr index results = OutOfFuel"
| "no_filter_loop (Suc f) kv skip limit valid itr index results =
     (if \<not> valid then Ret results
      else if 0 < limit \<and> limit \<le> int (length results) then Ret results
      else let (valid', itr') = Prev kv itr in
        if skip \<le> index then
          (if \<not> HasPrefix (Key kv itr) ''z'' then Ret results
           else (case unmarshal_map (Value kv itr) of
              Inl err \<Rightarrow> no_filter_loop f kv skip limit valid' itr' index results
            | Inr receipt \<Rightarrow>
                (if json_decode (Value kv itr) = Some JNull then Panic ''assignment to entry in nil map''
                 else no_filter_loop f kv skip limit valid' itr' (index + 1)
                        (results @ [obj_upd ''_sequenceKey'' (JStr (Key kv itr)) receipt]))))
        else no_filter_loop f kv skip limit valid' itr' (index + 1) results)"

definition getReceiptsNoFilter ::
  "nat \<Rightarrow> ('d, 'i) KVStore \<Rightarrow> 'i \<Rightarrow> int \<Rightarrow> int \<Rightarrow> string \<Rightarrow> obj list run" where
  "getReceiptsNoFilter fuel kv itr skip limit start =
     (let (valid, itr') = (if start \<noteq> [] then Seek kv start itr else Last kv itr)
      in no_filter_loop fuel kv skip limit valid itr' 0 [])"

definition ldb_GetReceipts ::
  "nat \<Rightarrow> ('d, 'i) KVStore \<Rightarrow> int \<Rightarrow> int \<Rightarrow> int \<Rightarrow> string list \<Rightarrow> int \<Rightarrow> string \<Rightarrow> string \<Rightarrow> string \<Rightarrow>
   'd \<times> 'e \<Rightarrow> obj list res run" where
  "ldb_GetReceipts fuel kv defaultLimit skip limit0 ids sinceEpochMS from to start s =
     (let d = fst s in
      bind_run (if 0 < sinceEpochMS then findEndPoint kv sinceEpochMS d else Ret []) (\<lambda>endKey.
      if 0 < sinceEpochMS \<and> endKey = [] then Ret (Inr [])
      else let limit = (if limit0 = 0 then defaultLimit else limit0) in
      if ids = [] \<and> from = [] \<and> to = [] then
        (let itr = (if endKey \<noteq> [] then NewIteratorWithRange kv endKey d else NewIterator kv d)
         in bind_run (getReceiptsNoFilter fuel kv itr skip limit start) (\<lambda>results. Ret (Inr results)))
      else
        bind_run (if from \<noteq> [] \<or> to \<noteq> [] then getLookupKeysByFromAndTo fuel kv from to start endKey limit d
                  else Ret []) (\<lambda>lookupKeysByFromAndTo.
        let lookupKeysByIDs = (if ids \<noteq> [] then getLookupKeysByIDs kv ids start endKey d else []);
            lookupKeys = (if ids \<noteq> [] \<and> from = [] \<and> to = [] then lookupKeysByIDs
                          else if ids = [] then lookupKeysByFromAndTo
                          else intersect lookupKeysByIDs lookupKeysByFromAndTo)
        in Ret (Inr (getReceiptsByLookupKey kv (rev (sort lookupKeys)) limit d)))))"

definition ldb_GetReceipt :: "('d, 'i) KVStore \<Rightarrow> string \<Rightarrow> 'd \<times> 'e \<Rightarrow> obj option res" where
  "ldb_GetReceipt kv requestID s =
     (case Get kv requestID (fst s) of
        Inl err \<Rightarrow>
          (if err = ErrorNotFound then Inr None
           else Inl (''Failed to retrieve the entry for the original key: '' @ requestID @ ''. '' @ err))
      | Inr lookupKey \<Rightarrow>
          (case Get kv lookupKey (fst s) of
             Inl err \<Rightarrow> Inl (''failed to retrieve the entry for the generated ID: '' @ requestID @ ''. '' @ err)
           | Inr content \<Rightarrow>
               (case unmarshal_map content of Inl err \<Rightarrow> Inl err | Inr result \<Rightarrow> Inr (Some result))))"

definition ldb_persistence ::
  "nat \<Rightarrow> ('d, 'i) KVStore \<Rightarrow> ('e \<Rightarrow> string \<times> 'e) \<Rightarrow> int \<Rightarrow> ('d \<times> 'e) persistence" where
  "ldb_persistence fuel kv next_id defaultLimit =
     \<lparr>GetReceipts = ldb_GetReceipts fuel kv defaultLimit,
      GetReceipt = ldb_GetReceipt kv, AddReceipt = ldb_AddReceipt kv next_id\<rparr>"

subsection \<open>Set operations on sorted keys\<close>

lemma intersect_filter: "sorted arr2 \<Longrightarrow> intersect arr1 arr2 = filter (\<lambda>k. k \<in> set arr2) arr1"
  by (simp add: intersect_def Let_def SearchStrings_mem)

lemma applyBound_filter:
  assumes "sorted arr"
  shows "applyBound arr start end' = filter (\<lambda>k. start \<le> k \<and> (end' \<noteq> [] \<longrightarrow> k < end')) arr"
proof -
  have "(if start \<noteq> [] then drop (SearchStrings arr start) arr else arr) = filter (\<lambda>k. start \<le> k) arr"
    using assms by (auto simp: drop_SearchStrings)
  moreover have "sorted (filter (\<lambda>k. start \<le> k) arr)" using assms by (rule sorted_wrt_filter)
  ultimately show ?thesis
    by (auto simp: applyBound_def Let_def take_SearchStrings conj_commute)
qed

subsection \<open>Keys with a common prefix are contiguous\<close>

lemma prefix_le: "HasPrefix k p \<Longrightarrow> p \<le> k"
proof (induction p arbitrary: k)
  case (Cons a p)
  then show ?case by (cases k) (auto simp: HasPrefix_def)
qed simp

lemma prefix_convex:
  "p \<le> k \<Longrightarrow> k \<le> k' \<Longrightarrow> HasPrefix k' p \<Longrightarrow> HasPrefix k p"
proof (induction p arbitrary: k k')
  case (Cons a p)
  then obtain b l where k: "k = b # l" by (cases k) auto
  from Cons.prems(3) obtain l' where k': "k' = a # l'" "HasPrefix l' p"
    by (cases k') (auto simp: HasPrefix_def)
  have "a = b" using Cons.prems(1,2) k k' by auto
  then show ?case using Cons.IH [of l l'] Cons.prems(1,2) k k' by (auto simp: HasPrefix_def)
qed (simp add: HasPrefix_def)

lemma drop_seek: "table_ok t \<Longrightarrow> drop (seek_pos p t) t = filter (\<lambda>e. p \<le> fst e) t"
proof -
  assume "table_ok t"
  then have "sorted (map fst t)" by (simp add: table_ok_def strict_sorted_iff)
  then have "dropWhile (\<lambda>e. fst e < p) t = filter (\<lambda>e. p \<le> fst e) t"
  proof (induction t)
    case (Cons e t)
    have "filter (\<lambda>e. p \<le> fst e) t = t" if "\<not> fst e < p"
      using that Cons.prems by (fastforce simp: filter_id_conv)
    with Cons show ?case by auto
  qed simp
  then show ?thesis by (simp add: seek_pos_def dropWhile_eq_drop)
qed

lemma prefix_takeWhile:
  "table_ok u \<Longrightarrow> \<forall>e\<in>set u. p \<le> fst e \<Longrightarrow>
   filter (\<lambda>e. HasPrefix (fst e) p) u = takeWhile (\<lambda>e. HasPrefix (fst e) p) u"
proof (induction u)
  case (Cons e u)
  let ?P = "\<lambda>e. HasPrefix (fst e) p"
  have "\<not> ?P e'" if "\<not> ?P e" "e' \<in> set u" for e'
    using that Cons.prems prefix_convex [of p "fst e" "fst e'"] by (auto simp: table_ok_def less_imp_le)
  then have "\<not> ?P e \<Longrightarrow> filter ?P u = []" by (auto simp: filter_empty_conv)
  moreover have "table_ok u" using Cons.prems by (simp add: table_ok_def)
  ultimately show ?case using Cons by auto
qed simp

lemma table_prefix:
  assumes "table_ok t"
  shows "filter (\<lambda>e. HasPrefix (fst e) p) t = takeWhile (\<lambda>e. HasPrefix (fst e) p) (drop (seek_pos p t) t)"
proof -
  have "filter (\<lambda>e. HasPrefix (fst e) p) t = filter (\<lambda>e. HasPrefix (fst e) p) (filter (\<lambda>e. p \<le> fst e) t)"
    using prefix_le by (auto intro: filter_cong)
  also have "\<dots> = takeWhile (\<lambda>e. HasPrefix (fst e) p) (filter (\<lambda>e. p \<le> fst e) t)"
    using prefix_takeWhile [OF table_ok_filter [OF assms], of "\<lambda>e. p \<le> fst e" p] by auto
  finally show ?thesis by (simp add: drop_seek assms)
qed

subsection \<open>The loops under the laws of the store\<close>

abbreviation zkey :: "string \<times> bytes \<Rightarrow> bool" where
  "zkey e \<equiv> HasPrefix (fst e) ''z''"

definition decodes :: "string \<times> bytes \<Rightarrow> bool" where
  "decodes e \<longleftrightarrow> (\<exists>m. unmarshal_map (snd e) = Inr m) \<and> json_decode (snd e) \<noteq> Some JNull"

text \<open>A stored receipt as a query without filter returns it.\<close>

definition with_sequence :: "string \<times> bytes \<Rightarrow> obj" where
  "with_sequence e = (case unmarshal_map (snd e) of
     Inl _ \<Rightarrow> [] | Inr m \<Rightarrow> obj_upd ''_sequenceKey'' (JStr (fst e)) m)"

definition up_to :: "int \<Rightarrow> 'a list \<Rightarrow> 'a list" where
  "up_to limit xs = (if 0 < limit then take (nat limit) xs else xs)"

context kv_store
begin

lemma key_nth: "cur i = Some n \<Longrightarrow> n < length (items i) \<Longrightarrow> Key kv i = fst (items i ! n) \<and> Value kv i = snd (items i ! n)"
  by (metis fst_conv snd_conv key_value)

lemma prefix_loop_result:
  assumes "cur itr = Some n" "n < length (items itr)" "length (items itr) \<le> n + fuel" "0 \<le> count"
  shows "\<exists>itr'. prefix_loop fuel kv p limit count itr acc =
      Ret (acc @ map snd (take (nat (limit - count)) (takeWhile (\<lambda>e. HasPrefix (fst e) p) (drop (Suc n) (items itr)))), itr')
    \<and> items itr' = items itr"
  using assms
proof (induction fuel arbitrary: itr n count acc)
  case (Suc f)
  obtain b i' where nx: "Next kv itr = (b, i')" by (cases "Next kv itr")
  note law = iter_next [OF nx Suc.prems(1)]
  show ?case
  proof (cases "Suc n < length (items itr)")
    case False
    then show ?thesis using law nx by auto
  next
    case True
    then have c: "b" "cur i' = Some (Suc n)" "items i' = items itr" using law by auto
    have k: "Key kv i' = fst (items itr ! Suc n)" "Value kv i' = snd (items itr ! Suc n)"
      using key_nth [OF c(2)] True c(3) by auto
    have d: "drop (Suc n) (items itr) = items itr ! Suc n # drop (Suc (Suc n)) (items itr)"
      using True by (simp add: Cons_nth_drop_Suc)
    show ?thesis
    proof (cases "count < limit \<and> HasPrefix (Key kv i') p")
      case False
      then show ?thesis using nx c k d by auto
    next
      case step: True
      then have "nat (limit - count) = Suc (nat (limit - (count + 1)))" by arith
      then have t: "take (nat (limit - count)) (x # xs) = x # take (nat (limit - (count + 1))) xs" for x and xs :: table
        by (simp only: take_Suc_Cons)
      obtain itr' where "prefix_loop f kv p limit (count + 1) i' (acc @ [Value kv i']) =
          Ret ((acc @ [Value kv i']) @ map snd (take (nat (limit - (count + 1)))
            (takeWhile (\<lambda>e. HasPrefix (fst e) p) (drop (Suc (Suc n)) (items i')))), itr')"
          "items itr' = items i'"
        using Suc.IH [OF c(2), of "count + 1" "acc @ [Value kv i']"] True c(3) Suc.prems by auto
      then show ?thesis using nx c k d step t by auto
    qed
  qed
qed simp

text \<open>
  The index entries with a prefix are read in order, at most \<open>limit\<close> of them, but always one when
  there is one: the first entry is taken before the limit is looked at.
\<close>

lemma getLookupKeysByPrefix_result:
  assumes "table_ok (items itr)" "length (items itr) \<le> fuel"
  shows "\<exists>itr'. getLookupKeysByPrefix fuel kv p limit itr =
      Ret (map snd (take (nat (max 1 limit)) (filter (\<lambda>e. HasPrefix (fst e) p) (items itr))), itr')
    \<and> items itr' = items itr"
proof -
  let ?t = "items itr" and ?P = "\<lambda>e. HasPrefix (fst e) p"
  let ?n = "seek_pos p ?t"
  obtain b i' where sk: "Seek kv p itr = (b, i')" by (cases "Seek kv p itr")
  note law = seek [OF sk]
  have F: "filter ?P ?t = takeWhile ?P (drop ?n ?t)" by (rule table_prefix [OF assms(1)])
  show ?thesis
  proof (cases "?n < length ?t")
    case False
    then show ?thesis using law sk F by (auto simp: getLookupKeysByPrefix_def)
  next
    case True
    then have c: "b" "cur i' = Some ?n" "items i' = ?t" using law by auto
    have k: "Key kv i' = fst (?t ! ?n)" "Value kv i' = snd (?t ! ?n)" using key_nth [OF c(2)] True c(3) by auto
    have d: "drop ?n ?t = ?t ! ?n # drop (Suc ?n) ?t" using True by (simp add: Cons_nth_drop_Suc)
    show ?thesis
    proof (cases "?P (?t ! ?n)")
      case p: True
      have "nat (max 1 limit) = Suc (nat (limit - 1))" by (auto simp: max_def)
      then have "take (nat (max 1 limit)) (filter ?P ?t) =
          ?t ! ?n # take (nat (limit - 1)) (takeWhile ?P (drop (Suc ?n) ?t))"
        using p by (simp only: F d takeWhile.simps take_Suc_Cons if_True)
      moreover obtain j where "prefix_loop fuel kv p limit 1 i' [Value kv i'] =
          Ret ([Value kv i'] @ map snd (take (nat (limit - 1)) (takeWhile ?P (drop (Suc ?n) (items i')))), j)"
          "items j = items i'"
        using prefix_loop_result [OF c(2), of fuel 1 p limit "[Value kv i']"] True c(3) assms(2) by auto
      ultimately show ?thesis using sk c k p by (simp add: getLookupKeysByPrefix_def)
    next
      case p: False
      then have "filter ?P ?t = []" by (simp add: F d)
      then have "\<forall>x\<in>set (drop (Suc ?n) ?t). \<not> ?P x" by (auto simp: filter_empty_conv dest: in_set_dropD)
      then have "takeWhile ?P (drop (Suc ?n) ?t) = []" by (cases "drop (Suc ?n) ?t") auto
      moreover obtain j where "prefix_loop fuel kv p limit 0 i' [] =
          Ret (map snd (take (nat limit) (takeWhile ?P (drop (Suc ?n) (items i')))), j)" "items j = items i'"
        using prefix_loop_result [OF c(2), of fuel 0 p limit "[]"] True c(3) assms(2) by auto
      ultimately show ?thesis using sk c k p F d by (simp add: getLookupKeysByPrefix_def)
    qed
  qed
qed

lemma no_filter_loop_result:
  assumes "items itr = t" "L = rev (take (length L) t)" "length L \<le> length t"
    "L \<noteq> [] \<Longrightarrow> cur itr = Some (length L - 1)" "length L < fuel"
    "filter zkey L = takeWhile zkey L" "\<forall>e\<in>set L. zkey e \<longrightarrow> decodes e" "0 \<le> index"
  shows "no_filter_loop fuel kv skip limit (L \<noteq> []) itr index results =
    Ret (results @ (if 0 < limit then take (nat (limit - int (length results))) else id)
           (map with_sequence (drop (nat (skip - index)) (filter zkey L))))"
  using assms
proof (induction L arbitrary: itr fuel index results)
  case Nil
  then show ?case by (cases fuel) auto
next
  case (Cons e L)
  obtain f where f: "fuel = Suc f" using Cons.prems(5) by (cases fuel) auto
  have n: "length L < length t" using Cons.prems(3) by simp
  have "rev (take (Suc (length L)) t) = t ! length L # rev (take (length L) t)"
    using n by (simp add: take_Suc_conv_app_nth)
  then have e: "e = t ! length L" "L = rev (take (length L) t)" using Cons.prems(2) by simp_all
  have cu: "cur itr = Some (length L)" using Cons.prems(4) by simp
  have k: "Key kv itr = fst e" "Value kv itr = snd e" using key_nth [OF cu] n Cons.prems(1) e(1) by auto
  obtain b i' where pv: "Prev kv itr = (b, i')" by (cases "Prev kv itr")
  have b: "b = (L \<noteq> [])" "items i' = t" "L \<noteq> [] \<Longrightarrow> cur i' = Some (length L - 1)"
    using iter_prev [OF pv cu] Cons.prems(1) by auto
  have fl: "filter zkey L = takeWhile zkey L" using Cons.prems(6)
    by (cases "zkey e"; cases L) (auto simp: filter_empty_conv)
  note IH = Cons.IH [OF b(2) e(2) _ b(3) _ fl, where fuel = f, simplified b(1) [symmetric]]
  have IH': "no_filter_loop f kv skip limit b i' idx res =
      Ret (res @ (if 0 < limit then take (nat (limit - int (length res))) else id)
           (map with_sequence (drop (nat (skip - idx)) (filter zkey L))))" if "0 \<le> idx" for idx res
    using IH [of idx res] that n Cons.prems(5,7) f by simp
  consider (full) "0 < limit \<and> limit \<le> int (length results)"
    | (skip) "\<not> (0 < limit \<and> limit \<le> int (length results))" "index < skip"
    | (stop) "\<not> (0 < limit \<and> limit \<le> int (length results))" "skip \<le> index" "\<not> zkey e"
    | (take) "\<not> (0 < limit \<and> limit \<le> int (length results))" "skip \<le> index" "zkey e" by linarith
  then show ?case
  proof cases
    case full
    then show ?thesis by (simp add: f)
  next
    case skip
    then have "nat (skip - index) = Suc (nat (skip - (index + 1)))" by arith
    moreover have "filter zkey L = []" if "\<not> zkey e" using that Cons.prems(6) by simp
    ultimately show ?thesis using skip IH' [of "index + 1" results] Cons.prems(8) pv k by (auto simp: f)
  next
    case stop
    then show ?thesis using Cons.prems(6) pv k by (simp add: f)
  next
    case take
    then obtain m where m: "unmarshal_map (snd e) = Inr m" "json_decode (snd e) \<noteq> Some JNull"
      using Cons.prems(7) by (auto simp: decodes_def)
    have l: "nat (limit - int (length results)) = Suc (nat (limit - int (length results + 1)))" if "0 < limit"
      using take that by arith
    have "with_sequence e = obj_upd ''_sequenceKey'' (JStr (fst e)) m" by (simp add: with_sequence_def m)
    then show ?thesis
      using take IH' [of "index + 1" "results @ [with_sequence e]"] Cons.prems(8) pv k m l by (simp add: f)
  qed
qed

lemma getReceiptsNoFilter_newest:
  assumes "items itr = us @ zs" "\<forall>e\<in>set us. \<not> zkey e" "\<forall>e\<in>set zs. zkey e \<and> decodes e"
    "length (us @ zs) < fuel"
  shows "getReceiptsNoFilter fuel kv itr skip limit [] = Ret (up_to limit (map with_sequence (drop (nat skip) (rev zs))))"
proof -
  obtain b i' where l: "Last kv itr = (b, i')" by (cases "Last kv itr")
  define L where "L = rev (us @ zs)"
  have c: "items i' = us @ zs" "b = (L \<noteq> [])" "L \<noteq> [] \<Longrightarrow> cur i' = Some (length L - 1)"
    using last [OF l] assms(1) by (auto simp: L_def)
  have "takeWhile zkey (rev us) = []" using assms(2) by (cases us rule: rev_cases) auto
  then have tw: "takeWhile zkey L = rev zs"
    using assms(3) takeWhile_append2 [of "rev zs" zkey "rev us"] by (simp add: L_def)
  have fl: "filter zkey L = rev zs"
    using assms(2,3) by (auto simp: L_def rev_filter [symmetric] filter_empty_conv filter_id_conv)
  have "no_filter_loop fuel kv skip limit (L \<noteq> []) i' 0 [] =
      Ret ([] @ (if 0 < limit then take (nat (limit - int (length ([] :: obj list)))) else id)
             (map with_sequence (drop (nat (skip - 0)) (filter zkey L))))"
    using assms c tw fl by (intro no_filter_loop_result) (auto simp: L_def)
  then show ?thesis using l c(2) by (simp add: getReceiptsNoFilter_def up_to_def fl)
qed

end

subsection \<open>The contract of a receipt store\<close>

text \<open>
  What is assumed of the ULID generator: it never returns an identifier twice.  \<open>issued\<close> are the
  identifiers returned so far.
\<close>

locale ulid_source =
  fixes next_id :: "'e \<Rightarrow> string \<times> 'e" and issued :: "'e \<Rightarrow> string set"
  assumes next_fresh: "next_id e = (n, e') \<Longrightarrow> n \<notin> issued e \<and> issued e' = insert n (issued e)"

text \<open>Request identifiers are told apart from the other keys by having no colon and no leading \<open>z\<close>.\<close>

definition plain_id :: "string \<Rightarrow> bool" where
  "plain_id i \<longleftrightarrow> CHR '':'' \<notin> set i \<and> \<not> HasPrefix i ''z''"

definition ldb_fits :: "string \<Rightarrow> obj \<Rightarrow> bool" where
  "ldb_fits i r \<longleftrightarrow> plain_id i \<and> json_ok (JObj r) \<and> canonical (JObj r)"

lemma unmarshal_marshal_receipt: "ldb_fits i r \<Longrightarrow> unmarshal_map (json_marshal_indent (JObj r)) = Inr r"
  unfolding ldb_fits_def unmarshal_map_def json_marshal_indent_def
  by (simp add: json_unmarshal_enc del: enc.simps json_ok.simps canonical.simps)

lemma plain_id_keys:
  "plain_id i \<Longrightarrow> i \<noteq> CHR ''z'' # n" "plain_id i \<Longrightarrow> i \<noteq> ''from:'' @ x"
  "plain_id i \<Longrightarrow> i \<noteq> ''to:'' @ x" "plain_id i \<Longrightarrow> i \<noteq> ''receivedAt:'' @ x"
  by (auto simp: plain_id_def HasPrefix_def)

text \<open>The invariant: what is stored under a plain identifier is a lookup key issued before.\<close>

definition ldb_valid :: "('d \<Rightarrow> string \<rightharpoonup> bytes) \<Rightarrow> ('e \<Rightarrow> string set) \<Rightarrow> 'd \<times> 'e \<Rightarrow> bool" where
  "ldb_valid contents issued s \<longleftrightarrow>
     (\<forall>i lk. plain_id i \<longrightarrow> contents (fst s) i = Some lk \<longrightarrow> (\<exists>n\<in>issued (snd s). lk = CHR ''z'' # n))"

locale ldb_store = kv_store kv contents items cur + ulid_source next_id issued
  for kv :: "('d, 'i) KVStore" and contents items cur
    and next_id :: "'e \<Rightarrow> string \<times> 'e" and issued :: "'e \<Rightarrow> string set"
begin

lemma put_chain:
  assumes "chk (Put kv k1 v1) id (\<lambda>_. chk (Put kv k2 v) id (\<lambda>_. chk m id (\<lambda>_.
      chk (Put kv k4 v) id (\<lambda>_. Put kv k5 v)))) d = (Inr u, d')"
    and "m = ok () \<or> (\<exists>k3\<in>I. m = Put kv k3 v)" "k2 \<in> I" "k4 \<in> I"
  shows "\<exists>K\<subseteq>I. contents d' = (\<lambda>k. if k = k5 \<or> k \<in> K then Some v else if k = k1 then Some v1 else contents d k)"
  using assms(2)
proof
  assume "m = ok ()"
  with assms(1) have "contents d' = (contents d)(k1 \<mapsto> v1, k2 \<mapsto> v, k4 \<mapsto> v, k5 \<mapsto> v)"
    by (auto elim!: chk_InrE dest!: put_contents)
  then show ?thesis using assms(3,4) by (intro exI [of _ "{k2, k4}"]) auto
next
  assume "\<exists>k3\<in>I. m = Put kv k3 v"
  then obtain k3 where k3: "k3 \<in> I" "m = Put kv k3 v" by blast
  with assms(1) have "contents d' = (contents d)(k1 \<mapsto> v1, k2 \<mapsto> v, k3 \<mapsto> v, k4 \<mapsto> v, k5 \<mapsto> v)"
    by (auto elim!: chk_InrE dest!: put_contents)
  then show ?thesis using assms(3,4) k3(1) by (intro exI [of _ "{k2, k3, k4}"]) auto
qed

text \<open>
  The effect of a successful addition on the database, as far as plain identifiers and lookup
  keys are concerned.
\<close>

lemma AddReceipt_effect:
  assumes "ldb_AddReceipt kv next_id i r s = (Inr u, s')" "plain_id i"
  shows "\<exists>n. next_id (snd s) = (n, snd s')
    \<and> contents (fst s') i = Some (CHR ''z'' # n)
    \<and> contents (fst s') (CHR ''z'' # n) = Some (json_marshal_indent (JObj r))
    \<and> (\<forall>j. plain_id j \<longrightarrow> j \<noteq> i \<longrightarrow> contents (fst s') j = contents (fst s) j)
    \<and> (\<forall>m. m \<noteq> n \<longrightarrow> contents (fst s') (CHR ''z'' # m) = contents (fst s) (CHR ''z'' # m))"
proof -
  obtain n e' where n: "next_id (snd s) = (n, e')" by (cases "next_id (snd s)")
  define lk where "lk = CHR ''z'' # n"
  define I where "I = {k. CHR '':'' \<in> set k \<and> \<not> HasPrefix k ''z''}"
  have "\<exists>K\<subseteq>I. contents (fst s') = (\<lambda>k. if k = i \<or> k \<in> K then Some lk
      else if k = lk then Some (json_marshal_indent (JObj r)) else contents (fst s) k)" (is "\<exists>K\<subseteq>I. ?Q K")
  proof -
    define f where "f = ''from:'' @ fmt_field (CHR ''s'') r ''from'' @ '':'' @ lk"
    define a where "a = ''receivedAt:'' @ fmt_field (CHR ''d'') r ''receivedAt'' @ '':'' @ lk"
    define m where "m = (case obj_get r ''to'' of None \<Rightarrow> ok () | Some to \<Rightarrow>
      (if to = JStr [] then ok () else Put kv (''to:'' @ fmt_value (CHR ''s'') to @ '':'' @ lk) lk))"
    have I: "f \<in> I" "a \<in> I" "\<And>x. ''to:'' @ x \<in> I" by (auto simp: I_def f_def a_def HasPrefix_def)
    have m: "m = ok () \<or> (\<exists>k3\<in>I. m = Put kv k3 lk)"
      using I(3) by (auto simp: m_def split: option.split)
    have "chk (Put kv lk (json_marshal_indent (JObj r))) id (\<lambda>_. chk (Put kv f lk) id (\<lambda>_. chk m id (\<lambda>_.
        chk (Put kv a lk) id (\<lambda>_. Put kv i lk)))) (fst s) = (Inr u, fst s')"
      using assms(1) unfolding ldb_AddReceipt_def n f_def a_def m_def lk_def
      by (simp only: Let_def case_prod_conv append.simps split: prod.split_asm) (metis fst_conv Pair_inject)
    from put_chain [OF this m I(1,2)] show ?thesis .
  qed
  then obtain K where K: "K \<subseteq> I" "?Q K" by blast
  have "snd s' = e'" using assms(1) by (auto simp: ldb_AddReceipt_def Let_def n split: prod.split_asm)
  moreover have "j \<notin> K" "j \<noteq> lk" if "plain_id j" for j using that K(1) plain_id_keys(1) by (auto simp: I_def plain_id_def lk_def)
  moreover have "CHR ''z'' # m \<notin> K" "CHR ''z'' # m \<noteq> i" for m
    using K(1) plain_id_keys(1) [OF assms(2)] by (auto simp: I_def HasPrefix_def)
  ultimately show ?thesis using n K(2) by (auto simp: lk_def)
qed

end

context ldb_store
begin

lemma GetReceipt_found:
  assumes "contents (fst s) i = Some lk" "contents (fst s) lk = Some b" "ldb_GetReceipt kv i s = Inr x"
  shows "\<exists>r. unmarshal_map b = Inr r \<and> x = Some r"
  using assms get_missing [of i "fst s"] get_missing [of lk "fst s"]
  by (auto simp: ldb_GetReceipt_def split: sum.splits if_splits dest!: get_value)

lemma GetReceipt_SomeD:
  assumes "ldb_GetReceipt kv i s = Inr (Some r)"
  shows "\<exists>lk b. contents (fst s) i = Some lk \<and> contents (fst s) lk = Some b \<and> unmarshal_map b = Inr r"
  using assms by (auto simp: ldb_GetReceipt_def split: sum.splits if_splits dest!: get_value)

end

sublocale ldb_store \<subseteq> ldb_contract: receipt_persistence "ldb_persistence fuel kv next_id limit" "ldb_valid contents issued" ldb_fits
  for fuel limit
proof unfold_locales
  fix s i r s' j q x y
  assume v: "ldb_valid contents issued s" and f: "ldb_fits i r"
    and add: "AddReceipt (ldb_persistence fuel kv next_id limit) i r s = (Inr (), s')"
  have p: "plain_id i" using f by (simp add: ldb_fits_def)
  from AddReceipt_effect [of i r s "()" s'] add p obtain n where e:
    "next_id (snd s) = (n, snd s')" "contents (fst s') i = Some (CHR ''z'' # n)"
    "contents (fst s') (CHR ''z'' # n) = Some (json_marshal_indent (JObj r))"
    "\<forall>j. plain_id j \<longrightarrow> j \<noteq> i \<longrightarrow> contents (fst s') j = contents (fst s) j"
    "\<forall>m. m \<noteq> n \<longrightarrow> contents (fst s') (CHR ''z'' # m) = contents (fst s) (CHR ''z'' # m)"
    by (auto simp: ldb_persistence_def)
  note fresh = next_fresh [OF e(1)]
  show "ldb_valid contents issued s'"
    using v e fresh unfolding ldb_valid_def by (metis insertCI option.inject)
  show "GetReceipt (ldb_persistence fuel kv next_id limit) i s' = Inr y \<Longrightarrow> y = Some r"
    using GetReceipt_found [OF e(2,3)] unmarshal_marshal_receipt [OF f] by (fastforce simp: ldb_persistence_def)
  assume "ldb_fits j q" "i \<noteq> j" "GetReceipt (ldb_persistence fuel kv next_id limit) j s' = Inr (Some x)"
  then have j: "plain_id j" "j \<noteq> i" and g: "ldb_GetReceipt kv j s' = Inr (Some x)"
    by (auto simp: ldb_fits_def ldb_persistence_def)
  from GetReceipt_SomeD [OF g] obtain lk b where l:
    "contents (fst s') j = Some lk" "contents (fst s') lk = Some b" "unmarshal_map b = Inr x" by blast
  have lj: "contents (fst s) j = Some lk" using l(1) e(4) j by simp
  then obtain m where "m \<in> issued (snd s)" "lk = CHR ''z'' # m" using v j(1) by (auto simp: ldb_valid_def)
  then have lb: "contents (fst s) lk = Some b" using e(5) l(2) fresh by auto
  show "GetReceipt (ldb_persistence fuel kv next_id limit) j s = Inr (Some x)
      \<or> (\<exists>e. GetReceipt (ldb_persistence fuel kv next_id limit) j s = Inl e)"
    using GetReceipt_found [OF lj lb] l(3) by (cases "ldb_GetReceipt kv j s") (fastforce simp: ldb_persistence_def)+
qed

text \<open>The store on the in-memory database, with a counter as generator.\<close>

definition count_id :: "nat \<Rightarrow> string \<times> nat" where
  "count_id n = (nat_digits n, Suc n)"

interpretation mem_ldb_store: ldb_store "NewLDBKeyValueStore mem_ldb" map_of fst snd count_id "\<lambda>n. nat_digits ` {..<n}"
  by (rule ldb_store.intro [OF mem_db.wrapped.kv_store_axioms], unfold_locales)
    (auto simp: count_id_def lessThan_Suc)

subsection \<open>Properties\<close>

text \<open>The receipts of a list are added one after the other, as long as none fails.\<close>

fun add_all :: "'p persistence \<Rightarrow> (string \<times> obj) list \<Rightarrow> ('p, unit) op" where
  "add_all p [] = ok ()"
| "add_all p ((i, r) # rs) = chk (AddReceipt p i r) id (\<lambda>_. add_all p rs)"

lemma add_all_snoc: "add_all p (rs @ [(i, r)]) = chk (add_all p rs) id (\<lambda>_. AddReceipt p i r)"
proof (induction rs)
  case (Cons a rs)
  then show ?case by (cases a) (auto simp: chk_def fun_eq_iff split: prod.splits sum.splits)
qed (auto simp: chk_def fun_eq_iff split: prod.splits sum.splits)

context ldb_store
begin

lemma GetReceipt_error:
  assumes "contents (fst s) i = Some lk" "contents (fst s) lk = Some b" "unmarshal_map b = Inr r"
    "ldb_GetReceipt kv i s = Inl e"
  shows "\<exists>k e. Get kv k (fst s) = Inl e \<and> e \<noteq> ErrorNotFound"
proof (cases "Get kv i (fst s)")
  case (Inl e')
  then show ?thesis using get_missing [of i "fst s"] assms(1) by auto
next
  case (Inr v)
  then have "v = lk" using get_value assms(1) by force
  with Inr assms show ?thesis
    using get_missing [of lk "fst s"] get_value [of lk "fst s"]
    by (cases "Get kv lk (fst s)") (auto simp: ldb_GetReceipt_def)
qed

lemma ldb_add_keeps:
  assumes "ldb_valid contents issued s" "ldb_fits i r" "ldb_AddReceipt kv next_id i r s = (Inr (), s')"
    "plain_id j" "i \<noteq> j" "contents (fst s) j = Some lk" "contents (fst s) lk = Some b"
  shows "contents (fst s') j = Some lk \<and> contents (fst s') lk = Some b"
proof -
  from AddReceipt_effect [OF assms(3)] assms(2) obtain n where e: "next_id (snd s) = (n, snd s')"
    "\<forall>j. plain_id j \<longrightarrow> j \<noteq> i \<longrightarrow> contents (fst s') j = contents (fst s) j"
    "\<forall>m. m \<noteq> n \<longrightarrow> contents (fst s') (CHR ''z'' # m) = contents (fst s) (CHR ''z'' # m)"
    by (auto simp: ldb_fits_def)
  obtain m where "m \<in> issued (snd s)" "lk = CHR ''z'' # m"
    using assms(1,4,6) by (auto simp: ldb_valid_def)
  with next_fresh [OF e(1)] e assms show ?thesis by auto
qed

lemma add_all_contents:
  assumes "ldb_valid contents issued s" "\<forall>(i, r)\<in>set rs. ldb_fits i r"
    "add_all (ldb_persistence fuel kv next_id limit) rs s = (Inr (), s')"
  shows "ldb_valid contents issued s' \<and> (\<forall>i r. map_of (rev rs) i = Some r \<longrightarrow>
    (\<exists>lk b. contents (fst s') i = Some lk \<and> contents (fst s') lk = Some b \<and> unmarshal_map b = Inr r))"
  using assms(2,3)
proof (induction rs arbitrary: s' rule: rev_induct)
  case Nil
  then show ?case using assms(1) by simp
next
  case (snoc a rs)
  obtain i r where a: "a = (i, r)" by (cases a)
  with snoc.prems obtain t where t: "add_all (ldb_persistence fuel kv next_id limit) rs s = (Inr (), t)"
    "ldb_AddReceipt kv next_id i r t = (Inr (), s')"
    by (auto simp: add_all_snoc ldb_persistence_def elim!: chk_InrE)
  have f: "ldb_fits i r" "plain_id i" using snoc.prems a by (auto simp: ldb_fits_def)
  note IH = snoc.IH [OF _ t(1)]
  have v: "ldb_valid contents issued t" using IH snoc.prems by auto
  have v': "ldb_valid contents issued s'"
    using ldb_contract.add_valid [OF v f(1)] t(2) by (simp add: ldb_persistence_def)
  have "\<exists>lk b. contents (fst s') j = Some lk \<and> contents (fst s') lk = Some b \<and> unmarshal_map b = Inr q"
    if q: "map_of (rev (rs @ [a])) j = Some q" for j q
  proof (cases "j = i")
    case True
    then have "q = r" using q a by simp
    then show ?thesis using AddReceipt_effect [OF t(2) f(2)] unmarshal_marshal_receipt [OF f(1)] True by blast
  next
    case False
    with q a have m: "map_of (rev rs) j = Some q" by simp
    from map_of_SomeD [OF this] have "(j, q) \<in> set rs" by simp
    then have "plain_id j" using snoc.prems by (fastforce simp: ldb_fits_def)
    with m IH snoc.prems False ldb_add_keeps [OF v f(1) t(2)] show ?thesis by fastforce
  qed
  with v' show ?case by blast
qed

end

text \<open>C8: the LevelDB store finds every receipt: after any sequence of successful additions on a
  store in its invariant, \<^verbatim>\<open>GetReceipt\<close> on an added identifier returns the receipt added last under
  it, field by field, through the JSON encoding and the lookup key; the only other outcome is an
  error of the database itself, never a missing or another receipt.\<close>

theorem leveldb_finds_every_receipt:
  assumes "ldb_store kv contents items cur next_id issued" "ldb_valid contents issued s"
    "\<forall>(i, r)\<in>set rs. ldb_fits i r"
    "add_all (ldb_persistence fuel kv next_id limit) rs s = (Inr (), s')"
    "map_of (rev rs) i = Some r"
  shows "case ldb_GetReceipt kv i s' of
      Inr x \<Rightarrow> x = Some r
    | Inl _ \<Rightarrow> \<exists>k e. Get kv k (fst s') = Inl e \<and> e \<noteq> ErrorNotFound"
proof -
  from ldb_store.add_all_contents [OF assms(1-4)] assms(5) obtain lk b where c:
    "contents (fst s') i = Some lk" "contents (fst s') lk = Some b" "unmarshal_map b = Inr r" by blast
  show ?thesis
  proof (cases "ldb_GetReceipt kv i s'")
    case (Inr x)
    then show ?thesis using ldb_store.GetReceipt_found [OF assms(1) c(1,2) Inr] c(3) by auto
  next
    case (Inl e)
    then show ?thesis
      using ldb_store.GetReceipt_error [OF assms(1) c(1,2) _ Inl] c(3) by auto
  qed
qed

definition demo_receipt :: obj where
  "demo_receipt = [(''_id'', JStr ''r1''), (''from'', JStr ''alice''), (''receivedAt'', JNum (int_str 17))]"

lemma demo_fits: "ldb_fits ''r1'' demo_receipt"
  using json_ok_int_str [of 17]
  by (simp add: ldb_fits_def plain_id_def HasPrefix_def demo_receipt_def)

abbreviation demo_kv :: "(table, table \<times> nat option) KVStore" where
  "demo_kv \<equiv> NewLDBKeyValueStore mem_ldb"

lemma demo_kv_simps [simp]:
  "Put demo_kv k v d = (Inr (), (k, v) # d)"
  "Get demo_kv k d = (case map_of d k of None \<Rightarrow> Inl ErrorNotFound | Some v \<Rightarrow> Inr v)"
  by (simp_all add: NewLDBKeyValueStore_def levelDB_Put_def levelDB_Get_def mem_ldb_def)

lemma demo_add: "\<exists>s'. add_all (ldb_persistence 9 demo_kv count_id 10) [(''r1'', demo_receipt)] ([], 0) = (Inr (), s')"
  by (simp add: ldb_persistence_def ldb_AddReceipt_def chk_def count_id_def Let_def split: option.split)

theorem leveldb_finds_every_receipt_witness:
  "\<exists>s'. ldb_GetReceipt demo_kv ''r1'' (s' :: table \<times> nat) = Inr (Some demo_receipt)"
proof -
  obtain s' where s': "add_all (ldb_persistence 9 demo_kv count_id 10) [(''r1'', demo_receipt)] ([], 0) = (Inr (), s')"
    using demo_add by blast
  have v: "ldb_valid map_of (\<lambda>n. nat_digits ` {..<n}) ([] :: table, 0)" by (simp add: ldb_valid_def)
  have f: "\<forall>(i, r)\<in>set [(''r1'', demo_receipt)]. ldb_fits i r" using demo_fits by simp
  have "\<forall>k e. Get demo_kv k (fst s') = Inl e \<longrightarrow> e = ErrorNotFound" by (auto split: option.splits)
  then show ?thesis
    using leveldb_finds_every_receipt [OF mem_ldb_store.ldb_store_axioms v f s', of "''r1''" demo_receipt]
    by (intro exI [of _ s']) (auto split: sum.splits)
qed


definition demo_db :: table where
  "demo_db = [(''z2'', ''{}''), (''r1'', ''z1''), (''z1'', ''{}'')]"

lemma demo_table: "mem_table demo_db = [(''r1'', ''z1''), (''z1'', ''{}''), (''z2'', ''{}'')]"
  by (simp add: mem_table_def demo_db_def)

lemma demo_decode: "json_decode ''{}'' = Some (JObj [])"
  using json_decode_encode [of "JObj []" False 0] by simp


text \<open>The index of a sender or recipient is read in one pass, in the order of the lookup keys,
  up to the limit; but the first entry is taken before the limit is looked at, so that a limit
  below one still returns one.\<close>

theorem leveldb_index_scan:
  assumes "kv_store kv contents items cur" "table_ok (items itr)" "length (items itr) \<le> fuel"
  shows "\<exists>itr'. getLookupKeysByPrefix fuel kv p limit itr =
      Ret (map snd (take (nat (max 1 limit)) (filter (\<lambda>e. HasPrefix (fst e) p) (items itr))), itr')
    \<and> items itr' = items itr"
  using kv_store.getLookupKeysByPrefix_result [OF assms] .

theorem leveldb_index_scan_witness:
  "\<exists>itr'. getLookupKeysByPrefix 9 demo_kv ''z'' 5 (mem_table demo_db, None) = Ret ([''{}'', ''{}''], itr')"
proof -
  have "table_ok (mem_table demo_db)" by (rule mem_table_ok)
  from leveldb_index_scan [OF mem_db.wrapped.kv_store_axioms, of "(mem_table demo_db, None)" 9 "''z''" 5] this
  show ?thesis by (auto simp: demo_table HasPrefix_def)
qed

text \<open>C10: on sorted slices \<^verbatim>\<open>intersect\<close> keeps exactly the common keys in their order, and
  \<^verbatim>\<open>applyBound\<close> keeps exactly the keys from the lower bound up to, not including, the upper one.\<close>

theorem key_set_operations:
  assumes "sorted arr2" "sorted arr"
  shows "intersect arr1 arr2 = filter (\<lambda>k. k \<in> set arr2) arr1
    \<and> applyBound arr start end' = filter (\<lambda>k. start \<le> k \<and> (end' \<noteq> [] \<longrightarrow> k < end')) arr"
  using intersect_filter [OF assms(1)] applyBound_filter [OF assms(2)] by blast

theorem key_set_operations_witness:
  "intersect [''b'', ''d''] [''a'', ''b'', ''c''] = [''b'']
   \<and> applyBound [''a'', ''b'', ''c''] ''b'' ''c'' = [''b'']"
  using key_set_operations [of "[''a'', ''b'', ''c'']" "[''a'', ''b'', ''c'']" "[''b'', ''d'']" "''b''" "''c''"]
  by simp

end
