(* ===== verification/Event_Stream.thy ===== *)
theory Event_Stream
  imports Receipts
begin

text \<open>
  One event stream of the gateway: \<^verbatim>\<open>internal/events/evtprocessor.go\<close> and
  \<^verbatim>\<open>internal/events/eventstream.go\<close>.

  The goroutines of a stream (dispatcher, batch processor, poller) share the fields of
  \<^verbatim>\<open>eventStream\<close> under one lock.  The record \<open>eventStream\<close> holds these fields together with the
  local variable of the dispatcher (\<open>currentBatch\<close>) and of the processor (\<open>processing\<close>, the batch
  it has taken).  Each atomic section of the code is one function on this record, and the step
  relation \<open>es_step\<close> interleaves them in any order.  What the environment decides (the result of
  an attempt, timers, the moment of an update) is an explicit argument.
\<close>

subsection \<open>Events\<close>

datatype payload = PBytes bytes | PString string | PMap obj

record EventEntry =
  ChaincodeID :: string
  BlockNumber :: uint64
  TransactionID :: string
  TransactionIndex :: int
  EventIndex :: int
  EventName :: string
  Payload :: payload
  Timestamp :: int
  SubID :: string

record persistedFilter =
  BlockType :: string
  FilterChaincodeID :: string
  EventFilter :: string

record SubscriptionInfo =
  CreatedISO8601 :: string
  sub_ID :: string
  ChannelID :: string
  sub_Path :: string
  Summary :: string
  sub_Name :: string
  Stream :: string
  Signer :: string
  FromBlock :: string
  Filter :: persistedFilter
  PayloadType :: string

text \<open>
  \<^verbatim>\<open>processEventEntry\<close> without the hand-over to the stream: the event is tagged with the
  subscription and its payload converted.  Bytes that are no JSON object are passed on unchanged.
\<close>

definition processEventEntry :: "SubscriptionInfo \<Rightarrow> EventEntry \<Rightarrow> EventEntry" where
  "processEventEntry subInfo entry0 =
     (let entry = entry0\<lparr>SubID := sub_ID subInfo\<rparr>;
          payloadType = (if PayloadType subInfo = [] then ''bytes'' else PayloadType subInfo)
      in case Payload entry of
           PBytes payloadBytes \<Rightarrow>
             (if payloadType = ''string'' then entry\<lparr>Payload := PString payloadBytes\<rparr>
              else if payloadType = ''stringifiedJSON'' \<or> payloadType = ''json'' then
                (case json_unmarshal payloadBytes of
                   Some (JObj structuredMap) \<Rightarrow> entry\<lparr>Payload := PMap structuredMap\<rparr>
                 | Some JNull \<Rightarrow> entry\<lparr>Payload := PMap []\<rparr>
                 | _ \<Rightarrow> entry)
              else entry)
         | _ \<Rightarrow> entry)"

text \<open>The high-water mark of a subscription, on Go's wrapping \<^verbatim>\<open>uint64\<close>.\<close>

definition batchComplete :: "uint64 \<Rightarrow> EventEntry \<Rightarrow> uint64" where
  "batchComplete blockHWM newestEvent =
     (let newHWM = BlockNumber newestEvent + 1 in if newHWM > blockHWM then newHWM else blockHWM)"

subsection \<open>The stream\<close>

record webhookActionInfo =
  URL :: string
  Headers :: "(string \<times> string) list option"
  TLSkipHostVerify :: "bool option"
  RequestTimeoutSec :: "32 word"

record webSocketActionInfo =
  Topic :: string
  DistributionMode :: string

record StreamInfo =
  st_Created :: string
  st_ID :: string
  st_Name :: string
  st_Path :: string
  Suspended :: "bool option"
  st_Type :: string
  BatchSize :: uint64
  BatchTimeoutMS :: uint64
  ErrorHandling :: string
  RetryTimeoutSec :: uint64
  BlockedRetryDelaySec :: uint64
  Webhook :: "webhookActionInfo option"
  WebSocket :: "webSocketActionInfo option"
  Timestamps :: "bool option"
  TimestampCacheSize :: int

record eventStream =
  spec :: StreamInfo
  stopped :: bool
  processorDone :: bool
  pollerDone :: bool
  inFlight :: uint64
  batchQueue :: "EventEntry list list"
  batchCount :: uint64
  updateInProgress :: bool
  currentBatch :: "EventEntry list"
  processing :: "EventEntry list option"
  hwm :: "string \<Rightarrow> uint64"

definition MaxBatchSize :: uint64 where "MaxBatchSize = 1000"

text \<open>The defaults of \<^verbatim>\<open>newEventStream\<close>.\<close>

definition normalize_spec :: "StreamInfo \<Rightarrow> StreamInfo" where
  "normalize_spec s =
     s\<lparr>st_Type := (if ToLower (st_Type s) = ''webhook'' then ''webhook''
                  else if ToLower (st_Type s) = ''websocket'' then ''websocket'' else st_Type s),
       BatchSize := (if BatchSize s = 0 then 1 else if BatchSize s > MaxBatchSize then MaxBatchSize else BatchSize s),
       BatchTimeoutMS := (if BatchTimeoutMS s = 0 then 5000 else BatchTimeoutMS s),
       BlockedRetryDelaySec := (if BlockedRetryDelaySec s = 0 then 30 else BlockedRetryDelaySec s),
       Timestamps := (if Timestamps s = None then Some False else Timestamps s),
       TimestampCacheSize := (if TimestampCacheSize s = 0 then 1000 else TimestampCacheSize s),
       ErrorHandling := (if ErrorHandling s = [] then ''skip'' else ErrorHandling s),
       Suspended := (if Suspended s = None then Some False else Suspended s)\<rparr>"

subsection \<open>The actions\<close>

text \<open>
  The constructors of \<^verbatim>\<open>webhooks.go\<close> and \<^verbatim>\<open>websockets.go\<close>.  That of the webhook writes its defaults into
  the configuration it is given a pointer to, and dereferences it: a missing one is a panic.
  \<open>wsChannels\<close> says whether the WebSocket server is configured.
\<close>

definition newWebhookAction :: "webhookActionInfo option \<Rightarrow> webhookActionInfo run" where
  "newWebhookAction s = (case s of
     None \<Rightarrow> Panic ''invalid memory address or nil pointer dereference''
   | Some w \<Rightarrow> Ret (w\<lparr>RequestTimeoutSec := (if RequestTimeoutSec w = 0 then 120 else RequestTimeoutSec w),
                    TLSkipHostVerify := (if TLSkipHostVerify w = None then Some False else TLSkipHostVerify w)\<rparr>))"

definition newWebSocketAction :: "bool \<Rightarrow> webSocketActionInfo option \<Rightarrow> webSocketActionInfo res" where
  "newWebSocketAction wsChannels s =
     (if \<not> wsChannels then Inl ''WebSocket listener not configured''
      else Inr (case s of None \<Rightarrow> \<lparr>Topic = [], DistributionMode = []\<rparr> | Some w \<Rightarrow> w))"

definition init_stream :: "StreamInfo \<Rightarrow> eventStream" where
  "init_stream s = \<lparr>spec = s, stopped = False, processorDone = False, pollerDone = False, inFlight = 0,
     batchQueue = [], batchCount = 0, updateInProgress = False, currentBatch = [], processing = None,
     hwm = (\<lambda>_. 0)\<rparr>"

text \<open>\<open>lru_new\<close> is the constructor of the third-party LRU cache, which may refuse a size.\<close>

definition newEventStream :: "(int \<Rightarrow> error option) \<Rightarrow> bool \<Rightarrow> StreamInfo \<Rightarrow> eventStream res run" where
  "newEventStream lru_new wsChannels spec0 =
     (let s = normalize_spec spec0 in
      case lru_new (TimestampCacheSize s) of
        Some err \<Rightarrow> Ret (Inl (''Failed to create a resource for the stream: '' @ err))
      | None \<Rightarrow>
          if st_Type s = ''webhook'' then
            bind_run (newWebhookAction (Webhook s)) (\<lambda>w. Ret (Inr (init_stream (s\<lparr>Webhook := Some w\<rparr>))))
          else if st_Type s = ''websocket'' then
            (case newWebSocketAction wsChannels (WebSocket s) of
               Inl err \<Rightarrow> Ret (Inl err) | Inr _ \<Rightarrow> Ret (Inr (init_stream s)))
          else Ret (Inr (init_stream s)))"

definition suspendOrStop :: "eventStream \<Rightarrow> bool" where
  "suspendOrStop a \<longleftrightarrow> Suspended (spec a) = Some True \<or> stopped a"

definition isBlocked :: "eventStream \<Rightarrow> bool" where
  "isBlocked a \<longleftrightarrow> inFlight a \<ge> BatchSize (spec a)"

definition isAddressUnsafe :: "bool \<Rightarrow> nat list \<Rightarrow> bool run" where
  "isAddressUnsafe allowPrivateIPs ip4 =
     (if allowPrivateIPs then Ret False
      else if ip4 = [] then Panic ''runtime error: index out of range [0] with length 0''
      else let a = ip4 ! 0; b = ip4 ! 1 in
        Ret (a = 0 \<or> 224 \<le> a \<or> a = 127 \<or> a = 10 \<or> a = 172 \<and> 16 \<le> b \<and> b < 32 \<or> a = 192 \<and> b = 168))"

definition stop :: "eventStream \<Rightarrow> eventStream" where
  "stop a = a\<lparr>stopped := True\<rparr>"

definition suspend :: "eventStream \<Rightarrow> eventStream" where
  "suspend a = a\<lparr>spec := (spec a)\<lparr>Suspended := Some True\<rparr>\<rparr>"

definition resume :: "(eventStream, unit) op" where
  "resume a =
     (if \<not> processorDone a \<or> \<not> pollerDone a
      then (Inl (''Event processor is already active. Suspending:''
                 @ FormatBool (Suspended (spec a) = Some True)), a)
      else (Inr (), a\<lparr>spec := (spec a)\<lparr>Suspended := Some False\<rparr>, processorDone := False, pollerDone := False\<rparr>))"

subsection \<open>Updating\<close>

definition preUpdateStream :: "(eventStream, unit) op" where
  "preUpdateStream a =
     (if updateInProgress a then (Inl ''Update to event stream already in progress'', a)
      else (Inr (), a\<lparr>updateInProgress := True\<rparr>))"

definition postUpdateStream :: "eventStream \<Rightarrow> eventStream" where
  "postUpdateStream a = a\<lparr>pollerDone := False, processorDone := False, updateInProgress := False\<rparr>"

definition update_webhook :: "webhookActionInfo \<Rightarrow> webhookActionInfo \<Rightarrow> webhookActionInfo" where
  "update_webhook new old =
     old\<lparr>URL := (if URL new \<noteq> [] then URL new else URL old),
         RequestTimeoutSec := (if RequestTimeoutSec new \<noteq> 0 then RequestTimeoutSec new else RequestTimeoutSec old),
         TLSkipHostVerify := (if TLSkipHostVerify new \<noteq> None then TLSkipHostVerify new else TLSkipHostVerify old),
         Headers := (if Headers new \<noteq> None then Headers new else Headers old)\<rparr>"

definition update_websocket :: "webSocketActionInfo \<Rightarrow> webSocketActionInfo \<Rightarrow> webSocketActionInfo" where
  "update_websocket new old =
     old\<lparr>Topic := (if Topic new \<noteq> [] then Topic new else Topic old),
         DistributionMode := (if DistributionMode new \<noteq> [] then DistributionMode new else DistributionMode old)\<rparr>"

text \<open>
  The configuration of the stream's own type is changed field by field.  Where it is missing, the
  assignment dereferences a null pointer: a panic.
\<close>

definition update_spec :: "StreamInfo \<Rightarrow> StreamInfo \<Rightarrow> StreamInfo" where
  "update_spec new s =
     s\<lparr>Webhook := (if st_Type s = ''webhook''
                   then (case (Webhook new, Webhook s) of (Some n, Some old) \<Rightarrow> Some (update_webhook n old) | _ \<Rightarrow> Webhook s)
                   else Webhook s),
       WebSocket := (if st_Type s = ''websocket''
                   then (case (WebSocket new, WebSocket s) of (Some n, Some old) \<Rightarrow> Some (update_websocket n old) | _ \<Rightarrow> WebSocket s)
                   else WebSocket s),
       BatchSize := (if BatchSize s \<noteq> BatchSize new \<and> BatchSize new \<noteq> 0 \<and> BatchSize new < MaxBatchSize
                     then BatchSize new else BatchSize s),
       BatchTimeoutMS := (if BatchTimeoutMS s \<noteq> BatchTimeoutMS new \<and> BatchTimeoutMS new \<noteq> 0
                          then BatchTimeoutMS new else BatchTimeoutMS s),
       BlockedRetryDelaySec := (if BlockedRetryDelaySec s \<noteq> BlockedRetryDelaySec new \<and> BlockedRetryDelaySec new \<noteq> 0
                                then BlockedRetryDelaySec new else BlockedRetryDelaySec s),
       ErrorHandling := (if ErrorHandling new \<noteq> [] \<and> ErrorHandling s \<noteq> ErrorHandling new
                         then ErrorHandling new else ErrorHandling s),
       st_Name := (if st_Name new \<noteq> [] \<and> st_Name s \<noteq> st_Name new then st_Name new else st_Name s),
       Timestamps := (if Timestamps new \<noteq> None then Timestamps new else Timestamps s)\<rparr>"

definition update_panics :: "StreamInfo \<Rightarrow> StreamInfo \<Rightarrow> bool" where
  "update_panics new s \<longleftrightarrow>
     st_Type s = ''webhook'' \<and> Webhook new \<noteq> None \<and> Webhook s = None
       \<and> (case Webhook new of Some n \<Rightarrow> RequestTimeoutSec n \<noteq> 0 \<or> URL n \<noteq> [] \<or> TLSkipHostVerify n \<noteq> None \<or> Headers n \<noteq> None | None \<Rightarrow> False)
     \<or> st_Type s = ''websocket'' \<and> WebSocket new \<noteq> None \<and> WebSocket s = None
       \<and> (case WebSocket new of Some n \<Rightarrow> Topic n \<noteq> [] \<or> DistributionMode n \<noteq> [] | None \<Rightarrow> False)"

text \<open>The part of \<^verbatim>\<open>update\<close> after the wait for the goroutines.\<close>

definition finish_update :: "StreamInfo \<Rightarrow> eventStream \<Rightarrow> (StreamInfo res \<times> eventStream) run" where
  "finish_update newSpec a0 =
     (let a = a0\<lparr>currentBatch := []\<rparr> in
      if st_Type newSpec \<noteq> [] \<and> st_Type newSpec \<noteq> st_Type (spec a)
      then Ret (Inl ''The type of an event stream cannot be changed'', a)
      else if update_panics newSpec (spec a) then Panic ''invalid memory address or nil pointer dereference''
      else let a1 = postUpdateStream (a\<lparr>spec := update_spec newSpec (spec a)\<rparr>)
           in Ret (Inr (spec a1), a1))"

subsection \<open>The dispatcher\<close>

text \<open>
  One turn of \<^verbatim>\<open>batchDispatcher\<close> that receives an event, and one that runs into the batch timeout.
\<close>

definition handleEvent :: "EventEntry \<Rightarrow> eventStream \<Rightarrow> eventStream" where
  "handleEvent e a =
     (if stopped a then a
      else let batch = currentBatch a @ [e] in
        if word_of_nat (length batch) = BatchSize (spec a)
        then a\<lparr>inFlight := inFlight a + 1, batchQueue := batchQueue a @ [batch], currentBatch := []\<rparr>
        else a\<lparr>inFlight := inFlight a + 1, currentBatch := batch\<rparr>)"

definition batchTimeout :: "eventStream \<Rightarrow> eventStream" where
  "batchTimeout a =
     (if currentBatch a = [] then a
      else a\<lparr>batchQueue := batchQueue a @ [currentBatch a], currentBatch := []\<rparr>)"

subsection \<open>The processor\<close>

text \<open>\<^verbatim>\<open>batchProcessor\<close> takes the front batch, unless the stream is suspended or stopped.\<close>

definition takeBatch :: "eventStream \<Rightarrow> eventStream option" where
  "takeBatch a = (case (suspendOrStop a, processing a, batchQueue a) of
     (False, None, b # bs) \<Rightarrow> Some (a\<lparr>batchQueue := bs, batchCount := batchCount a + 1, processing := Some b\<rparr>)
   | _ \<Rightarrow> None)"

text \<open>
  What happens around one attempt: whether the stream is found suspended or stopped before it,
  whether the wait before a repeated attempt is interrupted by an update, the result of the
  attempt, and whether the retry time is over after it.
\<close>

record attempt =
  halted :: bool
  interrupted :: bool
  outcome :: "error option"
  late :: bool

fun performActionWithRetry :: "attempt list \<Rightarrow> nat \<Rightarrow> error option \<Rightarrow> error option run" where
  "performActionWithRetry [] n err = OutOfFuel"
| "performActionWithRetry (t # ts) n err =
     (if halted t then Ret err
      else if 0 < n \<and> interrupted t then Ret err
      else if outcome t = None \<or> late t then Ret (outcome t)
      else performActionWithRetry ts (Suc n) (outcome t))"

text \<open>
  One round of \<^verbatim>\<open>processBatch\<close>: the state found before it, whether the blocked-retry wait is
  interrupted, and the attempts made in it.
\<close>

record round =
  round_halted :: bool
  round_interrupted :: bool
  attempts :: "attempt list"

datatype batch_result = Processed | Halted | Interrupted

fun process_rounds :: "string \<Rightarrow> round list \<Rightarrow> nat \<Rightarrow> batch_result run" where
  "process_rounds eh [] n = OutOfFuel"
| "process_rounds eh (r # rs) n =
     (if round_halted r then Ret Halted
      else if 0 < n \<and> round_interrupted r then Ret Interrupted
      else bind_run (performActionWithRetry (attempts r) 0 None) (\<lambda>err.
        if err = None \<or> eh = ''skip'' then Ret Processed else process_rounds eh rs (Suc n)))"

text \<open>The last event of every subscription in the batch completes the batch for it.\<close>

definition last_of :: "EventEntry list \<Rightarrow> string \<Rightarrow> EventEntry option" where
  "last_of events sid = map_of (rev (map (\<lambda>e. (SubID e, e)) events)) sid"

definition ackBatch :: "EventEntry list \<Rightarrow> eventStream \<Rightarrow> eventStream" where
  "ackBatch events a = a\<lparr>hwm := (\<lambda>sid. case last_of events sid of
     None \<Rightarrow> hwm a sid | Some e \<Rightarrow> batchComplete (hwm a sid) e)\<rparr>"

definition processBatch :: "round list \<Rightarrow> eventStream \<Rightarrow> eventStream run" where
  "processBatch rounds a = (case processing a of
     None \<Rightarrow> Ret a
   | Some events \<Rightarrow>
       if events = [] then Ret (a\<lparr>processing := None\<rparr>)
       else bind_run (process_rounds (ErrorHandling (spec a)) rounds 0) (\<lambda>res.
         if res = Interrupted then Ret (a\<lparr>processing := None\<rparr>)
         else let a1 = (if res = Processed then a\<lparr>inFlight := inFlight a - word_of_nat (length events)\<rparr> else a);
                  a2 = a1\<lparr>processing := None\<rparr>
              in Ret (if suspendOrStop a then a2 else ackBatch events a2)))"

subsection \<open>The whole update\<close>

text \<open>
  \<^verbatim>\<open>update\<close> waits for the goroutines.  The processor works off its batch and the queue first; a list
  of rounds per batch says what happens meanwhile.  On a suspended or stopped stream the processor
  leaves without signing off from the wait group, so the wait never ends (\<open>OutOfFuel\<close>).
\<close>

fun drain :: "round list list \<Rightarrow> eventStream \<Rightarrow> eventStream run" where
  "drain rss a =
     (if suspendOrStop a then OutOfFuel
      else case (if processing a = None then takeBatch a else Some a) of
        None \<Rightarrow> Ret (a\<lparr>processorDone := True, pollerDone := True\<rparr>)
      | Some b \<Rightarrow> (case rss of [] \<Rightarrow> OutOfFuel | rs # rss' \<Rightarrow> bind_run (processBatch rs b) (drain rss')))"

declare drain.simps [simp del]

definition update :: "StreamInfo \<Rightarrow> round list list \<Rightarrow> eventStream \<Rightarrow> (StreamInfo res \<times> eventStream) run" where
  "update newSpec rss a =
     (case preUpdateStream a of
        (Inl err, a1) \<Rightarrow> Ret (Inl err, a1)
      | (Inr _, a1) \<Rightarrow> bind_run (drain rss a1) (finish_update newSpec))"

end
