(* ===== verification/Event_Stream_Steps.thy ===== *)
theory Event_Stream_Steps
  imports Event_Stream
begin

text \<open>
  The interleavings of an event stream's goroutines, their invariants by rule induction, and what
  the retry loops do.
\<close>

subsection \<open>The interleaving of the goroutines\<close>

text \<open>
  The trace records, for the statements only, which events the dispatcher has accepted and which
  batches have left the stream with which result.
\<close>

record trace =
  accepted :: "EventEntry list"
  finished :: "(batch_result \<times> EventEntry list) list"

type_synonym es_state = "eventStream \<times> trace"

inductive es_step :: "es_state \<Rightarrow> es_state \<Rightarrow> bool" where
  handling: "\<not> stopped a \<Longrightarrow> es_step (a, t) (handleEvent e a, t\<lparr>accepted := accepted t @ [e]\<rparr>)"
| timing_out: "es_step (a, t) (batchTimeout a, t)"
| taking: "takeBatch a = Some a' \<Longrightarrow> es_step (a, t) (a', t)"
| processing: "processing a = Some events \<Longrightarrow> process_rounds (ErrorHandling (spec a)) rounds 0 = Ret res \<Longrightarrow>
    (res = Halted \<longrightarrow> suspendOrStop a) \<Longrightarrow> processBatch rounds a = Ret a' \<Longrightarrow>
    es_step (a, t) (a', t\<lparr>finished := finished t @ [(res, events)]\<rparr>)"
| suspending: "es_step (a, t) (suspend a, t)"
| stopping: "es_step (a, t) (stop a, t)"
| processor_exit: "suspendOrStop a \<Longrightarrow> processing a = None \<Longrightarrow> es_step (a, t) (a\<lparr>processorDone := True\<rparr>, t)"
| poller_exit: "suspendOrStop a \<Longrightarrow> es_step (a, t) (a\<lparr>pollerDone := True\<rparr>, t)"
| resuming: "resume a = (Inr (), a') \<Longrightarrow> es_step (a, t) (a', t)"
| interrupting: "preUpdateStream a = (Inr (), a') \<Longrightarrow> es_step (a, t) (a', t)"
| updating: "drain [] a = Ret b \<Longrightarrow> finish_update newSpec b = Ret (r, a') \<Longrightarrow>
    es_step (a, t) (a', t\<lparr>finished := finished t @ [(Interrupted, currentBatch a)]\<rparr>)"

inductive_cases es_stepE: "es_step x y"

definition in_processor :: "eventStream \<Rightarrow> EventEntry list" where
  "in_processor a = (case processing a of None \<Rightarrow> [] | Some b \<Rightarrow> b)"

definition pending_events :: "eventStream \<Rightarrow> EventEntry list" where
  "pending_events a = in_processor a @ concat (batchQueue a) @ currentBatch a"

definition events_with :: "bool \<Rightarrow> trace \<Rightarrow> EventEntry list" where
  "events_with p t = concat (map snd (filter (\<lambda>x. (fst x = Processed) = p) (finished t)))"

definition batch_ok :: "eventStream \<Rightarrow> EventEntry list \<Rightarrow> bool" where
  "batch_ok a b \<longleftrightarrow> b \<noteq> [] \<and> length b \<le> unat (BatchSize (spec a))"

text \<open>
  The invariant: nothing is lost, doubled or reordered on the way; the in-flight counter is the
  number of pending events and of those that left unprocessed; batches are within the
  configured size; a high-water mark is zero or one past a processed event of its subscription.
\<close>

definition in_order :: "es_state \<Rightarrow> bool" where
  "in_order x \<longleftrightarrow> (case x of (a, t) \<Rightarrow> concat (map snd (finished t)) @ pending_events a = accepted t)"

definition counted :: "es_state \<Rightarrow> bool" where
  "counted x \<longleftrightarrow> (case x of (a, t) \<Rightarrow>
     inFlight a = word_of_nat (length (pending_events a) + length (events_with False t)))"

definition sized :: "es_state \<Rightarrow> bool" where
  "sized x \<longleftrightarrow> (case x of (a, t) \<Rightarrow>
     0 < BatchSize (spec a) \<and> BatchSize (spec a) \<le> MaxBatchSize \<and> Suspended (spec a) \<noteq> None \<and> Timestamps (spec a) \<noteq> None
     \<and> (\<forall>b\<in>set (batchQueue a). batch_ok a b) \<and> (\<forall>b. processing a = Some b \<longrightarrow> batch_ok a b)
     \<and> length (currentBatch a) < unat (BatchSize (spec a)))"

definition marked :: "es_state \<Rightarrow> bool" where
  "marked x \<longleftrightarrow> (case x of (a, t) \<Rightarrow>
     \<forall>sid. hwm a sid = 0 \<or> (\<exists>e\<in>set (events_with True t). SubID e = sid \<and> hwm a sid = BlockNumber e + 1))"

lemmas es_defs = pending_events_def in_processor_def events_with_def

lemma last_of_Some: "last_of events sid = Some e \<Longrightarrow> e \<in> set events \<and> SubID e = sid"
  by (auto simp: last_of_def dest!: map_of_SomeD)

lemma drain_Nil:
  "drain [] a = Ret b \<longleftrightarrow>
     \<not> suspendOrStop a \<and> processing a = None \<and> batchQueue a = [] \<and> b = a\<lparr>processorDone := True, pollerDone := True\<rparr>"
  by (auto simp: drain.simps takeBatch_def split: option.splits if_splits list.splits)

lemma batch_full_iff:
  assumes "n < unat (BatchSize s)"
  shows "word_of_nat (Suc n) = BatchSize s \<longleftrightarrow> Suc n = unat (BatchSize s)"
proof -
  have "Suc n < 2 ^ LENGTH(64)" using assms unsigned_less [of "BatchSize s", where ?'a = nat] by simp
  then have "unat (word_of_nat (Suc n) :: uint64) = Suc n" by (simp only: unsigned_of_nat take_bit_nat_eq_self of_nat_id)
  then show ?thesis by (metis word_unat_eq_iff)
qed

lemma processBatch_Ret:
  "processing a = Some events \<Longrightarrow> events \<noteq> [] \<Longrightarrow> process_rounds (ErrorHandling (spec a)) rounds 0 = Ret res \<Longrightarrow>
   processBatch rounds a = Ret a' \<longleftrightarrow>
     a' = (let a1 = a\<lparr>inFlight := (if res = Processed then inFlight a - word_of_nat (length events) else inFlight a), processing := None\<rparr>
           in if res = Interrupted \<or> suspendOrStop a then a1 else ackBatch events a1)"
  by (cases res) (auto simp: processBatch_def Let_def)

lemma in_order_step: "es_step x y \<Longrightarrow> sized x \<Longrightarrow> in_order x \<Longrightarrow> in_order y"
proof (induction rule: es_step.induct)
  case (processing a events rounds res a' t)
  then show ?case by (subst (asm) processBatch_Ret)
      (auto simp: in_order_def sized_def batch_ok_def es_defs Let_def ackBatch_def split: if_splits)
next
  case (updating a b newSpec r a' t)
  then show ?case
    by (auto simp: in_order_def drain_Nil finish_update_def Let_def es_defs postUpdateStream_def split: if_splits)
qed (auto simp: in_order_def es_defs handleEvent_def batchTimeout_def takeBatch_def suspend_def stop_def
       resume_def preUpdateStream_def Let_def split: option.splits if_splits list.splits bool.splits)

lemma counted_step: "es_step x y \<Longrightarrow> sized x \<Longrightarrow> counted x \<Longrightarrow> counted y"
proof (induction rule: es_step.induct)
  case (processing a events rounds res a' t)
  then show ?case by (subst (asm) processBatch_Ret)
      (auto simp: counted_def sized_def batch_ok_def es_defs Let_def ackBatch_def split: if_splits)
next
  case (updating a b newSpec r a' t)
  then show ?case
    by (auto simp: counted_def drain_Nil finish_update_def Let_def es_defs postUpdateStream_def split: if_splits)
qed (auto simp: counted_def es_defs handleEvent_def batchTimeout_def takeBatch_def suspend_def stop_def
       resume_def preUpdateStream_def Let_def split: option.splits if_splits list.splits bool.splits)

lemma BatchSize_update:
  "0 < BatchSize s \<Longrightarrow> BatchSize s \<le> MaxBatchSize \<Longrightarrow>
   0 < BatchSize (update_spec n s) \<and> BatchSize (update_spec n s) \<le> MaxBatchSize"
  by (auto simp: update_spec_def word_neq_0_conv)

lemma Suspended_update [simp]: "Suspended (update_spec n s) = Suspended s"
  by (simp add: update_spec_def)

lemma Timestamps_update: "Timestamps s \<noteq> None \<Longrightarrow> Timestamps (update_spec n s) \<noteq> None"
  by (simp add: update_spec_def)

lemma sized_step: "es_step x y \<Longrightarrow> sized x \<Longrightarrow> sized y"
proof (induction rule: es_step.induct)
  case (handling a t e)
  then have "length (currentBatch a) < unat (BatchSize (spec a))" by (simp add: sized_def)
  from batch_full_iff [OF this] handling show ?case
    by (auto simp: sized_def batch_ok_def handleEvent_def Let_def simp del: of_nat_Suc)
next
  case (processing a events rounds res a' t)
  then show ?case by (subst (asm) processBatch_Ret)
      (auto simp: sized_def batch_ok_def Let_def ackBatch_def split: if_splits)
next
  case (updating a b newSpec r a' t)
  then show ?case using BatchSize_update [of "spec a" newSpec] Timestamps_update [of "spec a" newSpec]
    by (auto simp: sized_def drain_Nil finish_update_def Let_def postUpdateStream_def unat_gt_0 word_neq_0_conv split: if_splits)
qed (auto simp: sized_def batch_ok_def batchTimeout_def takeBatch_def suspend_def stop_def
       resume_def preUpdateStream_def word_less_nat_alt split: option.splits if_splits list.splits bool.splits)

lemma marked_ack:
  "marked (a, t) \<Longrightarrow> marked (ackBatch events a, t\<lparr>finished := finished t @ [(Processed, events)]\<rparr>)"
  by (auto simp: marked_def ackBatch_def batchComplete_def events_with_def Let_def dest!: last_of_Some split: option.splits)

lemma marked_cong: "marked (a, t) \<Longrightarrow> hwm a' = hwm a \<Longrightarrow> set (finished t) \<subseteq> set (finished t') \<Longrightarrow> marked (a', t')"
  by (auto simp: marked_def events_with_def subset_iff)

lemma marked_step: "es_step x y \<Longrightarrow> sized x \<Longrightarrow> marked x \<Longrightarrow> marked y"
proof (induction rule: es_step.induct)
  case (processing a events rounds res a' t)
  then have "events \<noteq> []" by (simp add: sized_def batch_ok_def)
  with processing have a': "a' = (let a1 = a\<lparr>inFlight := (if res = Processed then inFlight a - word_of_nat (length events) else inFlight a), processing := None\<rparr>
     in if res = Interrupted \<or> suspendOrStop a then a1 else ackBatch events a1)" by (simp add: processBatch_Ret)
  show ?case
  proof (cases "res = Interrupted \<or> suspendOrStop a")
    case True
    then show ?thesis using processing.prems by (elim marked_cong) (auto simp: a' Let_def)
  next
    case False
    moreover then have "res = Processed" using processing.hyps(3) by (cases res) auto
    ultimately show ?thesis using processing.prems
      by (auto simp: a' Let_def intro!: marked_ack elim!: marked_cong)
  qed
next
  case (updating a b newSpec r a' t)
  then show ?case
    by (elim marked_cong)  (auto simp: drain_Nil finish_update_def Let_def postUpdateStream_def split: if_splits)
qed (elim marked_cong; auto simp: handleEvent_def batchTimeout_def takeBatch_def suspend_def stop_def
       resume_def preUpdateStream_def Let_def split: option.splits if_splits list.splits bool.splits)+

subsection \<open>Reachable states\<close>

definition no_trace :: trace where "no_trace = \<lparr>accepted = [], finished = []\<rparr>"

abbreviation es_steps :: "es_state \<Rightarrow> es_state \<Rightarrow> bool" where
  "es_steps \<equiv> es_step\<^sup>*\<^sup>*"

lemma normalize_BatchSize: "0 < BatchSize (normalize_spec s) \<and> BatchSize (normalize_spec s) \<le> MaxBatchSize"
  by (auto simp: normalize_spec_def MaxBatchSize_def word_neq_0_conv)

lemma new_stream:
  assumes "newEventStream lru wsChannels s0 = Ret (Inr a)"
  shows "sized (a, no_trace)" "in_order (a, no_trace)" "counted (a, no_trace)" "marked (a, no_trace)"
proof -
  obtain s where a: "a = init_stream s" and s: "BatchSize s = BatchSize (normalize_spec s0)"
    "Suspended s = Suspended (normalize_spec s0)" "Timestamps s = Timestamps (normalize_spec s0)"
    using assms by (auto simp: newEventStream_def Let_def newWebhookAction_def bind_run_Ret split: option.splits if_splits sum.splits)
  have "Suspended (normalize_spec s0) \<noteq> None" "Timestamps (normalize_spec s0) \<noteq> None" by (auto simp: normalize_spec_def)
  then show "sized (a, no_trace)" using normalize_BatchSize [of s0] by (simp add: sized_def a init_stream_def s unat_gt_0 word_neq_0_conv)
  show "in_order (a, no_trace)" "counted (a, no_trace)" "marked (a, no_trace)"
    by (simp_all add: in_order_def counted_def marked_def a init_stream_def es_defs no_trace_def)
qed

lemma steps_inv:
  "es_steps x y \<Longrightarrow> sized x \<Longrightarrow> in_order x \<Longrightarrow> counted x \<Longrightarrow> marked x \<Longrightarrow> sized y \<and> in_order y \<and> counted y \<and> marked y"
  by (induction rule: rtranclp_induct) (blast intro: sized_step in_order_step counted_step marked_step)+

lemmas reachable_inv = steps_inv [OF _ new_stream]

lemma finished_grows: "es_steps x y \<Longrightarrow> \<exists>zs. finished (snd y) = finished (snd x) @ zs"
  by (induction rule: rtranclp_induct) (auto elim!: es_step.cases)

lemma events_with_grows: "es_steps x y \<Longrightarrow> length (events_with p (snd x)) \<le> length (events_with p (snd y))"
  using finished_grows [of x y] by (auto simp: events_with_def)

lemma length_concat_filter: "length (concat (map snd (filter P xs))) \<le> length (concat (map snd xs))"
  by (induction xs) simp_all

lemma unat_uint64: "n < 2 ^ 64 \<Longrightarrow> unat (word_of_nat n :: uint64) = n"
  by (simp add: unsigned_of_nat take_bit_nat_eq_self)

declare rtranclp.rtrancl_into_rtrancl [trans]

subsection \<open>Properties\<close>


definition sample_spec :: StreamInfo where
  "sample_spec = \<lparr>st_Created = [], st_ID = ''es1'', st_Name = [], st_Path = [], Suspended = None, st_Type = ''WebSocket'', BatchSize = 0,
     BatchTimeoutMS = 0, ErrorHandling = ''block'', RetryTimeoutSec = 0, BlockedRetryDelaySec = 0, Webhook = None,
     WebSocket = Some \<lparr>Topic = ''t'', DistributionMode = []\<rparr>, Timestamps = None, TimestampCacheSize = 0\<rparr>"

definition sample_stream :: eventStream where
  "sample_stream = init_stream (normalize_spec sample_spec)"

definition sample_event :: "uint64 \<Rightarrow> EventEntry" where
  "sample_event n = \<lparr>ChaincodeID = ''cc'', BlockNumber = n, TransactionID = ''tx'', TransactionIndex = 0, EventIndex = 0,
     EventName = ''e'', Payload = PString [], Timestamp = 0, SubID = ''sub1''\<rparr>"

lemma sample_new: "newEventStream (\<lambda>_. None) True sample_spec = Ret (Inr sample_stream)"
  by (simp add: newEventStream_def sample_stream_def sample_spec_def normalize_spec_def newWebSocketAction_def ToLower_def lower_char_def)

definition sample_halted :: round where
  "sample_halted = \<lparr>round_halted = True, round_interrupted = False, attempts = []\<rparr>"

text \<open>The stream accepts an event and takes it, and is suspended before it can deliver it.\<close>

definition sample_run :: "eventStream list" where
  "sample_run = (let a1 = handleEvent (sample_event 7) sample_stream; a2 = the (takeBatch a1); a3 = suspend a2;
     a4 = (case processBatch [sample_halted] a3 of Ret a \<Rightarrow> a | _ \<Rightarrow> a3);
     a5 = a4\<lparr>processorDone := True\<rparr>; a6 = a5\<lparr>pollerDone := True\<rparr>; a7 = snd (resume a6) in [a1, a2, a3, a4, a5, a6, a7])"

lemmas sample_simps = sample_run_def sample_stream_def init_stream_def sample_spec_def normalize_spec_def handleEvent_def takeBatch_def
  suspendOrStop_def suspend_def resume_def sample_halted_def processBatch_def Let_def no_trace_def MaxBatchSize_def sample_event_def

lemma sample_steps:
  "es_steps (sample_stream, no_trace)
     (sample_run ! 6, \<lparr>accepted = [sample_event 7], finished = [(Halted, [sample_event 7])]\<rparr>)"
proof -
  let ?t1 = "\<lparr>accepted = [sample_event 7], finished = []\<rparr>"
  let ?t2 = "\<lparr>accepted = [sample_event 7], finished = [(Halted, [sample_event 7])]\<rparr>"
  have "es_step (sample_stream, no_trace) (sample_run ! 0, ?t1)"
    using es_step.handling [of sample_stream no_trace "sample_event 7"] by (simp add: sample_simps)
  then have "es_steps (sample_stream, no_trace) (sample_run ! 0, ?t1)" by (rule r_into_rtranclp)
  also have "es_step (sample_run ! 0, ?t1) (sample_run ! 1, ?t1)"
    by (rule es_step.taking) (simp add: sample_simps)
  also have "es_step (sample_run ! 1, ?t1) (sample_run ! 2, ?t1)"
    using es_step.suspending [of "sample_run ! 1" ?t1] by (simp add: sample_simps)
  also have "es_step (sample_run ! 2, ?t1) (sample_run ! 3, ?t2)"
    using es_step.processing [of "sample_run ! 2" "[sample_event 7]" "[sample_halted]" Halted "sample_run ! 3" ?t1]
    by (simp add: sample_simps)
  also have "es_step (sample_run ! 3, ?t2) (sample_run ! 4, ?t2)"
    using es_step.processor_exit [of "sample_run ! 3" ?t2] by (simp add: sample_simps)
  also have "es_step (sample_run ! 4, ?t2) (sample_run ! 5, ?t2)"
    using es_step.poller_exit [of "sample_run ! 4" ?t2] by (simp add: sample_simps)
  also have "es_step (sample_run ! 5, ?t2) (sample_run ! 6, ?t2)"
    by (rule es_step.resuming) (simp add: sample_simps)
  finally show ?thesis .
qed




text \<open>Events that left the stream without being processed, because it was suspended, stopped or
  updated meanwhile, are never taken off the in-flight counter.  Once they fill a batch the stream
  counts as blocked in every later state with the same batch size, and the poller asks for no more events.\<close>

theorem unprocessed_batch_blocks:
  assumes "newEventStream lru wsChannels s0 = Ret (Inr a0)" and "es_steps (a0, no_trace) (a, t)"
    and "unat (BatchSize (spec a)) \<le> length (events_with False t)"
    and "es_steps (a, t) (a', t')" and "BatchSize (spec a') = BatchSize (spec a)" and "length (accepted t') < 2 ^ 64"
  shows "isBlocked a'"
proof -
  have r: "es_steps (a0, no_trace) (a', t')" using assms(2,4) by (rule rtranclp_trans)
  have i: "in_order (a', t')" "counted (a', t')" using reachable_inv [OF r assms(1,1,1,1)] by simp_all
  define n where "n = length (pending_events a') + length (events_with False t')"
  have "length (events_with False t') \<le> length (concat (map snd (finished t')))"
    unfolding events_with_def by (rule length_concat_filter)
  moreover have "length (concat (map snd (finished t'))) + length (pending_events a') = length (accepted t')"
    using i(1) by (simp add: in_order_def flip: length_append)
  ultimately have "n < 2 ^ 64" using assms(6) by (simp add: n_def)
  moreover have "inFlight a' = word_of_nat n" using i(2) by (simp add: counted_def n_def)
  ultimately have "unat (inFlight a') = n" by (simp only: unat_uint64)
  moreover have "unat (BatchSize (spec a)) \<le> n"
    using assms(3) events_with_grows [OF assms(4), of False] by (simp add: n_def)
  ultimately show ?thesis by (simp add: isBlocked_def assms(5) word_le_nat_alt)
qed

theorem unprocessed_batch_blocks_witness:
  "isBlocked (sample_run ! 6) \<and> Suspended (spec (sample_run ! 6)) = Some False \<and> pending_events (sample_run ! 6) = []"
  using unprocessed_batch_blocks [OF sample_new sample_steps _ rtranclp.rtrancl_refl]
  by (simp add: sample_simps events_with_def es_defs)

text \<open>The mark of a subscription is moved past a whole block when one event of the block is
  processed.  With a batch size of one, two events of one block and a successful delivery of the first
  leave the mark behind the block while the second event is still queued: a restart from this
  mark would not see it again.\<close>

theorem mark_passes_queued_event:
  assumes "BatchSize (spec a) = 1" and "\<not> suspendOrStop a" and "currentBatch a = []" and "batchQueue a = []" and "processing a = None"
    and "SubID e1 = SubID e2" and "BlockNumber e1 = BlockNumber e2" and "hwm a (SubID e1) \<le> BlockNumber e1" and "unat (BlockNumber e1) < 2 ^ 64 - 1"
    and "takeBatch (handleEvent e2 (handleEvent e1 a)) = Some b"
    and "process_rounds (ErrorHandling (spec a)) rounds 0 = Ret Processed"
  shows "\<exists>c. processBatch rounds b = Ret c \<and> batchQueue c = [[e2]] \<and> hwm c (SubID e2) > BlockNumber e2"
proof -
  have b: "b = a\<lparr>inFlight := inFlight a + 1 + 1, batchQueue := [[e2]], batchCount := batchCount a + 1, processing := Some [e1]\<rparr>"
    using assms(1-5,10) by (auto simp: handleEvent_def Let_def takeBatch_def suspendOrStop_def)
  have "BlockNumber e1 < BlockNumber e1 + 1" using assms(9) by (simp add: word_less_nat_alt unat_word_ariths)
  then show ?thesis using assms(2,6-8,11)
    by (auto simp: b processBatch_def suspendOrStop_def Let_def ackBatch_def last_of_def batchComplete_def)
qed

definition sample_success :: round where
  "sample_success = \<lparr>round_halted = False, round_interrupted = False,
     attempts = [\<lparr>halted = False, interrupted = False, outcome = None, late = False\<rparr>]\<rparr>"

theorem mark_passes_queued_event_witness:
  "\<exists>c. processBatch [sample_success] (the (takeBatch (handleEvent (sample_event 7) (handleEvent (sample_event 7) sample_stream)))) = Ret c
     \<and> batchQueue c = [[sample_event 7]] \<and> hwm c ''sub1'' > 7"
  using mark_passes_queued_event [of sample_stream "sample_event 7" "sample_event 7"
      "the (takeBatch (handleEvent (sample_event 7) (handleEvent (sample_event 7) sample_stream)))" "[sample_success]"]
  by (simp add: sample_simps sample_success_def)

subsection \<open>The retry loops\<close>

definition failing :: "attempt \<Rightarrow> bool" where
  "failing t \<longleftrightarrow> \<not> halted t \<and> \<not> interrupted t \<and> outcome t \<noteq> None \<and> \<not> late t"

definition failed_round :: "round \<Rightarrow> bool" where
  "failed_round r \<longleftrightarrow> \<not> round_halted r \<and> \<not> round_interrupted r \<and> (\<exists>e. performActionWithRetry (attempts r) 0 None = Ret (Some e))"

lemma perform_failing:
  "\<forall>t\<in>set ts. failing t \<Longrightarrow> performActionWithRetry (ts @ us) n err
     = performActionWithRetry us (n + length ts) (if ts = [] then err else outcome (last ts))"
  by (induction ts arbitrary: n err) (auto simp: failing_def)

lemma process_failed:
  "\<forall>r\<in>set bad. failed_round r \<Longrightarrow> eh \<noteq> ''skip'' \<Longrightarrow> process_rounds eh (bad @ rs) n = process_rounds eh rs (n + length bad)"
  by (induction bad arbitrary: n) (auto simp: failed_round_def)

lemma process_good_round:
  assumes "\<not> round_halted r" "\<not> round_interrupted r" "attempts r = ts @ u # us" "\<forall>t\<in>set ts. failing t"
    "\<not> halted u" "\<not> interrupted u" "outcome u = None"
  shows "process_rounds eh (r # rs) n = Ret Processed"
  using assms by (simp add: perform_failing)

text \<open>C15: In block mode a batch is never given up: as long as every round fails the processor goes on,
  and once a round has a successful attempt after any number of failed ones the batch is taken
  off the counter and acknowledged to its subscriptions.\<close>

theorem block_mode_delivers:
  assumes "processing a = Some events" and "events \<noteq> []" and "\<not> suspendOrStop a" and "ErrorHandling (spec a) = ''block''"
    and "\<forall>r\<in>set bad. failed_round r"
    and "\<not> round_halted good" and "\<not> round_interrupted good" and "attempts good = ts @ u # us" and "\<forall>t\<in>set ts. failing t"
    and "\<not> halted u" and "\<not> interrupted u" and "outcome u = None"
  shows "processBatch bad a = OutOfFuel \<and>
    processBatch (bad @ good # rest) a
      = Ret (ackBatch events (a\<lparr>inFlight := inFlight a - word_of_nat (length events), processing := None\<rparr>))"
proof -
  have "process_rounds ''block'' bad 0 = OutOfFuel"
    using process_failed [of bad "''block''" "[]" 0] assms(5) by simp
  moreover have "process_rounds ''block'' (bad @ good # rest) 0 = Ret Processed"
    unfolding process_failed [OF assms(5), of "''block''", simplified] by (rule process_good_round [OF assms(6-12)])
  ultimately show ?thesis using assms(1-4) by (simp add: processBatch_def)
qed

definition sample_failure :: round where
  "sample_failure = \<lparr>round_halted = False, round_interrupted = False,
     attempts = [\<lparr>halted = False, interrupted = False, outcome = Some ''refused'', late = True\<rparr>]\<rparr>"

theorem block_mode_delivers_witness:
  "processBatch [sample_failure] (sample_run ! 1) = OutOfFuel \<and>
   (\<exists>c. processBatch [sample_failure, sample_success] (sample_run ! 1) = Ret c \<and> hwm c ''sub1'' = 8)"
  using block_mode_delivers [of "sample_run ! 1" "[sample_event 7]" "[sample_failure]" sample_success "[]"
      "\<lparr>halted = False, interrupted = False, outcome = None, late = False\<rparr>" "[]" "[]"]
  by (simp add: sample_simps sample_success_def sample_failure_def failed_round_def ackBatch_def last_of_def batchComplete_def)

text \<open>In skip mode one failed round is enough for a batch to be acknowledged, also when the round
  failed only because an update interrupted the wait between its attempts.\<close>

theorem skip_mode_acknowledges_failed_batch:
  assumes "processing a = Some events" and "events \<noteq> []" and "\<not> suspendOrStop a" and "ErrorHandling (spec a) = ''skip''"
    and "\<not> round_halted r" and "attempts r = ts @ u # us" and "ts \<noteq> []" and "\<forall>t\<in>set ts. failing t" and "interrupted u"
  shows "performActionWithRetry (attempts r) 0 None = Ret (outcome (last ts)) \<and> outcome (last ts) \<noteq> None
    \<and> processBatch (r # rest) a
      = Ret (ackBatch events (a\<lparr>inFlight := inFlight a - word_of_nat (length events), processing := None\<rparr>))"
proof -
  have p: "performActionWithRetry (attempts r) 0 None = Ret (outcome (last ts))"
    using assms(6-9) by (simp add: perform_failing)
  moreover have "outcome (last ts) \<noteq> None" using assms(7,8) by (auto simp: failing_def)
  ultimately show ?thesis using assms(1-5) by (simp add: processBatch_def)
qed

theorem skip_mode_acknowledges_failed_batch_witness:
  "\<exists>c. processBatch [\<lparr>round_halted = False, round_interrupted = False,
         attempts = [\<lparr>halted = False, interrupted = False, outcome = Some ''refused'', late = False\<rparr>,
                     \<lparr>halted = False, interrupted = True, outcome = None, late = False\<rparr>]\<rparr>]
       ((sample_run ! 1)\<lparr>spec := (spec (sample_run ! 1))\<lparr>ErrorHandling := ''skip''\<rparr>\<rparr>) = Ret c \<and> hwm c ''sub1'' = 8"
  using skip_mode_acknowledges_failed_batch [of "(sample_run ! 1)\<lparr>spec := (spec (sample_run ! 1))\<lparr>ErrorHandling := ''skip''\<rparr>\<rparr>"
      "[sample_event 7]"
      "\<lparr>round_halted = False, round_interrupted = False,
         attempts = [\<lparr>halted = False, interrupted = False, outcome = Some ''refused'', late = False\<rparr>,
                     \<lparr>halted = False, interrupted = True, outcome = None, late = False\<rparr>]\<rparr>"
      "[\<lparr>halted = False, interrupted = False, outcome = Some ''refused'', late = False\<rparr>]"
      "\<lparr>halted = False, interrupted = True, outcome = None, late = False\<rparr>" "[]" "[]"]
  by (simp add: sample_simps failing_def ackBatch_def last_of_def batchComplete_def)

text \<open>An update whose type differs from the stream's is refused only after the goroutines were
  stopped; they are not started again, and every later update is refused as being in progress.
  An update of a suspended stream does not return at all.\<close>

theorem refused_update_leaves_the_stream_dead:
  assumes "st_Type new \<noteq> []" "st_Type new \<noteq> st_Type (spec a)" "\<not> updateInProgress a" "processing a = None" "batchQueue a = []"
  shows "if suspendOrStop a then update new rss a = OutOfFuel
    else \<exists>a'. update new [] a = Ret (Inl ''The type of an event stream cannot be changed'', a')
        \<and> updateInProgress a' \<and> processorDone a' \<and> pollerDone a'
        \<and> (\<forall>n rss. update n rss a' = Ret (Inl ''Update to event stream already in progress'', a'))"
  using assms by (auto simp: update_def preUpdateStream_def drain.simps takeBatch_def finish_update_def suspendOrStop_def Let_def)

theorem refused_update_leaves_the_stream_dead_witness:
  "\<exists>a'. update (sample_spec\<lparr>st_Type := ''webhook''\<rparr>) [] sample_stream = Ret (Inl ''The type of an event stream cannot be changed'', a')
     \<and> update sample_spec [] a' = Ret (Inl ''Update to event stream already in progress'', a')"
proof -
  have "\<not> suspendOrStop sample_stream" by (simp add: sample_simps suspendOrStop_def)
  then show ?thesis using refused_update_leaves_the_stream_dead [of "sample_spec\<lparr>st_Type := ''webhook''\<rparr>" sample_stream]
    by (auto simp: sample_simps ToLower_def)
qed

end
