(* ===== verification/Subscription.thy ===== *)
theory Subscription
  imports Event_Stream_Steps
begin

text \<open>
  One subscription of a stream, \<^verbatim>\<open>internal/events/subscription.go\<close>: where it starts, how it
  registers with the node, and how the node's notifications become events of the stream.

  The RPC client of the gateway (built on the Fabric SDK), the LRU cache and the decoding of a block
  are arguments.  The high-water mark of the subscription's event processor is
  the entry of its identifier in the field \<open>hwm\<close> of the stream.
\<close>

subsection \<open>Collaborators\<close>

text \<open>\<^verbatim>\<open>QueryBlock\<close> is represented by what is used of its result, the timestamps of the transactions.\<close>

record ('c, 'r) RPCClient =
  QueryChainInfo :: "string \<Rightarrow> string \<Rightarrow> ('c, uint64) op"
  SubscribeEvent :: "SubscriptionInfo \<Rightarrow> uint64 \<Rightarrow> ('c, 'r) op"
  Unregister :: "'r option \<Rightarrow> 'c \<Rightarrow> 'c"
  QueryBlock :: "string \<Rightarrow> string \<Rightarrow> uint64 \<Rightarrow> ('c, int list) op"

record 'l lru =
  lru_Get :: "string \<Rightarrow> 'l \<Rightarrow> int list option \<times> 'l"
  lru_Add :: "string \<Rightarrow> int list \<Rightarrow> 'l \<Rightarrow> 'l"

record 'r subscription =
  info :: SubscriptionInfo
  registration :: "'r option"
  filterStale :: bool
  deleting :: bool
  resetRequested :: bool

subsection \<open>Life cycle\<close>

definition newSubscription :: "SubscriptionInfo \<Rightarrow> 'r subscription" where
  "newSubscription i =
     \<lparr>info = i\<lparr>Summary := ''FromBlock='' @ FromBlock i @ '',Chaincode='' @ FilterChaincodeID (Filter i)
                            @ '',Filter='' @ EventFilter (Filter i),
               sub_Name := (if sub_Name i = [] then sub_ID i else sub_Name i)\<rparr>,
      registration = None, filterStale = True, deleting = False, resetRequested = False\<rparr>"

definition restoreSubscription :: "SubscriptionInfo \<Rightarrow> 'r subscription" where
  "restoreSubscription i =
     \<lparr>info = i, registration = None, filterStale = True, deleting = False, resetRequested = False\<rparr>"

definition initBlockHWM :: "string \<Rightarrow> uint64 \<Rightarrow> eventStream \<Rightarrow> eventStream" where
  "initBlockHWM sid v a = a\<lparr>hwm := (hwm a)(sid := v)\<rparr>"

definition setInitialBlockHeight ::
  "('c, 'r) RPCClient \<Rightarrow> 'r subscription \<Rightarrow> ('c \<times> eventStream, uint64) op" where
  "setInitialBlockHeight rpc s = (\<lambda>(c, a).
     if FromBlock (info s) \<noteq> [] \<and> FromBlock (info s) \<noteq> ''newest'' then
       (case ParseUint64 (FromBlock (info s)) of
          (fromBlock, None) \<Rightarrow> (Inr fromBlock, (c, a))
        | (_, Some _) \<Rightarrow> (Inl ''FromBlock cannot be parsed as a BigInt'', (c, a)))
     else
       (case QueryChainInfo rpc (ChannelID (info s)) (Signer (info s)) c of
          (Inl err, c') \<Rightarrow> (Inl (''QSCC GetChainInfo() returned: '' @ err), (c', a))
        | (Inr i, c') \<Rightarrow> (Inr i, (c', initBlockHWM (sub_ID (info s)) i a))))"

definition setCheckpointBlockHeight :: "uint64 \<Rightarrow> 'r subscription \<Rightarrow> eventStream \<Rightarrow> eventStream" where
  "setCheckpointBlockHeight i s a = initBlockHWM (sub_ID (info s)) i a"

definition markFilterStale :: "('c, 'r) RPCClient \<Rightarrow> bool \<Rightarrow> 'r subscription \<Rightarrow> 'c \<Rightarrow> 'r subscription \<times> 'c" where
  "markFilterStale rpc stale s c =
     (s\<lparr>filterStale := stale\<rparr>,
      if stale \<and> \<not> filterStale s \<and> registration s \<noteq> None then Unregister rpc (registration s) c else c)"

text \<open>The goroutine \<^verbatim>\<open>processNewEvents\<close> that \<^verbatim>\<open>restartFilter\<close> starts is modelled below.\<close>

definition restartFilter ::
  "('c, 'r) RPCClient \<Rightarrow> uint64 \<Rightarrow> 'r subscription \<Rightarrow> 'c \<Rightarrow> unit res \<times> 'r subscription \<times> 'c" where
  "restartFilter rpc since s c =
     (case SubscribeEvent rpc (info s) since c of
        (Inl err, c') \<Rightarrow> (Inl (''SubscribeEvent returned: '' @ err), s, c')
      | (Inr reg, c') \<Rightarrow> (let (s', c'') = markFilterStale rpc False (s\<lparr>registration := Some reg\<rparr>) c' in (Inr (), s', c'')))"

definition unsubscribe :: "('c, 'r) RPCClient \<Rightarrow> bool \<Rightarrow> 'r subscription \<Rightarrow> 'c \<Rightarrow> 'r subscription \<times> 'c" where
  "unsubscribe rpc del s c = markFilterStale rpc True (s\<lparr>deleting := del, resetRequested := False\<rparr>) c"

definition requestReset :: "'r subscription \<Rightarrow> 'r subscription" where
  "requestReset s = s\<lparr>resetRequested := True\<rparr>"

definition blockHWM :: "'r subscription \<Rightarrow> eventStream \<Rightarrow> uint64" where
  "blockHWM s a = hwm a (sub_ID (info s))"

definition close_sub :: "('c, 'r) RPCClient \<Rightarrow> 'r subscription \<Rightarrow> 'c \<Rightarrow> 'c" where
  "close_sub rpc s c = Unregister rpc (registration s) c"

subsection \<open>Notifications\<close>


definition getEventTimestamp ::
  "'l lru \<Rightarrow> ('c, 'r) RPCClient \<Rightarrow> SubscriptionInfo \<Rightarrow> EventEntry \<Rightarrow> 'l \<times> 'c \<Rightarrow> (EventEntry \<times> 'l \<times> 'c) run" where
  "getEventTimestamp lru rpc i evt = (\<lambda>(l, c).
     let blockNumber = FormatUint (BlockNumber evt) in
     case lru_Get lru blockNumber l of
       (Some timestamps, l') \<Rightarrow>
         bind_run (index_run timestamps (TransactionIndex evt)) (\<lambda>t. Ret (evt\<lparr>Timestamp := t\<rparr>, l', c))
     | (None, l') \<Rightarrow>
         (case QueryBlock rpc (ChannelID i) (Signer i) (BlockNumber evt) c of
            (Inl _, c') \<Rightarrow> Ret (evt\<lparr>Timestamp := 0\<rparr>, l', c')
          | (Inr timestamps, c') \<Rightarrow>
              bind_run (index_run timestamps (TransactionIndex evt))
                (\<lambda>t. Ret (evt\<lparr>Timestamp := t\<rparr>, lru_Add lru blockNumber timestamps l', c'))))"

record CCEvent =
  cc_TxID :: string
  cc_ChaincodeID :: string
  cc_EventName :: string
  cc_Payload :: bytes
  cc_BlockNumber :: uint64

datatype 'b notification = BlockEvent 'b | ChaincodeEvent CCEvent

definition entry_of_cc :: "CCEvent \<Rightarrow> EventEntry" where
  "entry_of_cc e = \<lparr>ChaincodeID = cc_ChaincodeID e, BlockNumber = cc_BlockNumber e, TransactionID = cc_TxID e,
     TransactionIndex = 0, EventIndex = 0, EventName = cc_EventName e, Payload = PBytes (cc_Payload e),
     Timestamp = 0, SubID = []\<rparr>"

text \<open>
  \<^verbatim>\<open>processNewEvents\<close> until its channels are closed, on the notifications in the order they arrive.
\<close>

fun processNewEvents ::
  "('b \<Rightarrow> EventEntry list run) \<Rightarrow> 'l lru \<Rightarrow> ('c, 'r) RPCClient \<Rightarrow> SubscriptionInfo \<Rightarrow> 'b notification list
   \<Rightarrow> eventStream \<times> 'l \<times> 'c \<Rightarrow> (eventStream \<times> 'l \<times> 'c) run" where
  "processNewEvents getEvents lru rpc i [] x = Ret x"
| "processNewEvents getEvents lru rpc i (BlockEvent b # ns) (a, l, c) =
     bind_run (getEvents b) (\<lambda>events.
       processNewEvents getEvents lru rpc i ns (fold (\<lambda>e. handleEvent (processEventEntry i e)) events a, l, c))"
| "processNewEvents getEvents lru rpc i (ChaincodeEvent e # ns) (a, l, c) =
     bind_run (if Timestamps (spec a) = Some True then getEventTimestamp lru rpc i (entry_of_cc e) (l, c)
               else Ret (entry_of_cc e, l, c))
       (\<lambda>(evt, l', c'). processNewEvents getEvents lru rpc i ns (handleEvent (processEventEntry i evt) a, l', c'))"

subsection \<open>Properties\<close>

lemma handleEvent_pending: "\<not> stopped a \<Longrightarrow> pending_events (handleEvent e a) = pending_events a @ [e]"
  by (auto simp: handleEvent_def Let_def es_defs split: option.splits)

lemma handleEvent_frame [simp]:
  "stopped (handleEvent e a) = stopped a" "spec (handleEvent e a) = spec a" "hwm (handleEvent e a) = hwm a"
  by (simp_all add: handleEvent_def Let_def)

lemma handleEvents_pending:
  "\<not> stopped a \<Longrightarrow> pending_events (fold (\<lambda>e. handleEvent (f e)) es a) = pending_events a @ map f es
     \<and> \<not> stopped (fold (\<lambda>e. handleEvent (f e)) es a)"
  by (induction es arbitrary: a) (simp_all add: handleEvent_pending)

definition event_key :: "EventEntry \<Rightarrow> uint64 \<times> string \<times> string \<times> string" where
  "event_key e = (BlockNumber e, TransactionID e, ChaincodeID e, EventName e)"

fun notified :: "('b \<Rightarrow> EventEntry list run) \<Rightarrow> 'b notification \<Rightarrow> EventEntry list" where
  "notified getEvents (BlockEvent b) = (case getEvents b of Ret events \<Rightarrow> events | _ \<Rightarrow> [])"
| "notified getEvents (ChaincodeEvent e) = [entry_of_cc e]"

lemma processEventEntry_key [simp]:
  "event_key (processEventEntry i e) = event_key e" "SubID (processEventEntry i e) = sub_ID i"
  by (auto simp: processEventEntry_def Let_def event_key_def split: payload.splits option.splits json.splits)

lemma getEventTimestamp_key: "getEventTimestamp lru rpc i e x = Ret (e', y) \<Longrightarrow> event_key e' = event_key e"
  by (auto simp: getEventTimestamp_def Let_def bind_run_Ret event_key_def split: prod.splits option.splits sum.splits)

text \<open>C16: The events of a subscription's notifications, of blocks and of chaincode events alike, are appended
  to the pending events of the stream, all of them, in the order of arrival, tagged with the subscription; only
  the payload and the time of an event are converted on the way.\<close>

theorem notifications_reach_the_stream:
  assumes "processNewEvents getEvents lru rpc i ns (a, l, c) = Ret (a', l', c')" and "\<not> stopped a"
  shows "\<exists>es. pending_events a' = pending_events a @ es \<and> (\<forall>e\<in>set es. SubID e = sub_ID i)
    \<and> map event_key es = map event_key (concat (map (notified getEvents) ns))"
  using assms
proof (induction getEvents lru rpc i ns "(a, l, c)" arbitrary: a l c rule: processNewEvents.induct)
  case (2 getEvents lru rpc i b ns a l c)
  from "2.prems"(1) obtain events where e: "getEvents b = Ret events" by (auto simp: bind_run_Ret)
  from "2.hyps" [of events] "2.prems" handleEvents_pending [of a "processEventEntry i" events]
  obtain es where "pending_events a' = (pending_events a @ map (processEventEntry i) events) @ es"
    "\<forall>e\<in>set es. SubID e = sub_ID i" "map event_key es = map event_key (concat (map (notified getEvents) ns))"
    by (auto simp: e)
  then show ?case by (intro exI [of _ "map (processEventEntry i) events @ es"]) (auto simp: e)
next
  case (3 getEvents lru rpc i e ns a l c)
  from "3.prems"(1) obtain evt l1 c1 where
    evt: "(if Timestamps (spec a) = Some True then getEventTimestamp lru rpc i (entry_of_cc e) (l, c) else Ret (entry_of_cc e, l, c)) = Ret (evt, l1, c1)"
    and r: "processNewEvents getEvents lru rpc i ns (handleEvent (processEventEntry i evt) a, l1, c1) = Ret (a', l', c')"
    by (auto simp: bind_run_Ret)
  have k: "event_key evt = event_key (entry_of_cc e)" using evt getEventTimestamp_key by (auto split: if_splits)
  from "3.hyps" [OF r] "3.prems"(2) handleEvent_pending [of a]
  obtain es where "pending_events a' = (pending_events a @ [processEventEntry i evt]) @ es"
    "\<forall>e\<in>set es. SubID e = sub_ID i" "map event_key es = map event_key (concat (map (notified getEvents) ns))"
    by auto
  then show ?case using k by (intro exI [of _ "processEventEntry i evt # es"]) auto
qed simp

definition quiet_rpc :: "(unit, nat) RPCClient" where
  "quiet_rpc = \<lparr>QueryChainInfo = (\<lambda>_ _ c. (Inr 100, c)), SubscribeEvent = (\<lambda>_ _ c. (Inr 1, c)),
     Unregister = (\<lambda>_ c. c), QueryBlock = (\<lambda>_ _ _ c. (Inr [1650000000], c))\<rparr>"

definition no_cache :: "unit lru" where
  "no_cache = \<lparr>lru_Get = (\<lambda>_ l. (None, l)), lru_Add = (\<lambda>_ _ l. l)\<rparr>"

definition sample_sub :: SubscriptionInfo where
  "sample_sub = \<lparr>CreatedISO8601 = [], sub_ID = ''sub1'', ChannelID = ''ch'', sub_Path = [], Summary = [], sub_Name = [],
     Stream = ''es1'', Signer = ''user'', FromBlock = ''newest'',
     Filter = \<lparr>BlockType = ''tx'', FilterChaincodeID = ''cc'', EventFilter = ''.*''\<rparr>, PayloadType = ''string''\<rparr>"

theorem notifications_reach_the_stream_witness:
  "\<exists>a'. processNewEvents (\<lambda>b. Ret [b, b]) no_cache quiet_rpc sample_sub
        [BlockEvent (sample_event 7), ChaincodeEvent \<lparr>cc_TxID = ''tx'', cc_ChaincodeID = ''cc'', cc_EventName = ''e'',
           cc_Payload = ''x'', cc_BlockNumber = 8\<rparr>] (sample_stream, (), ()) = Ret (a', (), ())
     \<and> map BlockNumber (pending_events a') = [7, 7, 8]"
proof -
  let ?n = "[BlockEvent (sample_event 7), ChaincodeEvent \<lparr>cc_TxID = ''tx'', cc_ChaincodeID = ''cc'', cc_EventName = ''e'',
           cc_Payload = ''x'', cc_BlockNumber = 8\<rparr>]"
  have t: "Timestamps (spec sample_stream) = Some False" by (simp add: sample_simps)
  then obtain a' where r: "processNewEvents (\<lambda>b. Ret [b, b]) no_cache quiet_rpc sample_sub ?n (sample_stream, (), ()) = Ret (a', (), ())"
    by simp
  have s: "\<not> stopped sample_stream" "pending_events sample_stream = []" by (simp_all add: sample_simps es_defs)
  obtain es where "pending_events a' = pending_events sample_stream @ es"
    and k: "map event_key es = map event_key (concat (map (notified (\<lambda>b. Ret [b, b])) ?n))"
    using notifications_reach_the_stream [OF r s(1)] by blast
  then have "pending_events a' = es" using s by simp
  moreover have "map fst (map event_key es) = [7, 7, 8]"
    unfolding k by (simp add: event_key_def entry_of_cc_def sample_event_def)
  ultimately have "map fst (map event_key (pending_events a')) = [7, 7, 8]" by simp
  then have "map BlockNumber (pending_events a') = [7, 7, 8]" by (simp add: comp_def event_key_def)
  then show ?thesis by (intro exI [of _ a'] conjI r)
qed

end
