(* ===== verification/Event_Actions.thy ===== *)
theory Event_Actions
  imports Event_Stream
begin

text \<open>
  The two actions of an event stream, \<^verbatim>\<open>internal/events/webhooks.go\<close> and
  \<^verbatim>\<open>internal/events/websockets.go\<close>: the checks of their configuration and one attempt at delivering a
  batch.  The network is the argument of an attempt: DNS resolution, the HTTP exchange, and what
  becomes of the WebSocket channels.
\<close>

subsection \<open>The events as JSON\<close>

text \<open>\<^verbatim>\<open>encoding/json\<close> writes a byte slice in standard base64 with padding.\<close>

definition b64_char :: "nat \<Rightarrow> char" where
  "b64_char n = (if n < 26 then char_of (65 + n) else if n < 52 then char_of (71 + n)
     else if n < 62 then char_of (n - 4) else if n = 62 then CHR ''+'' else CHR ''/'')"

fun b64 :: "bytes \<Rightarrow> string" where
  "b64 [] = []"
| "b64 [a] = [b64_char (byte a div 4), b64_char (byte a mod 4 * 16), CHR ''='', CHR ''='']"
| "b64 [a, b] = [b64_char (byte a div 4), b64_char (byte a mod 4 * 16 + byte b div 16),
     b64_char (byte b mod 16 * 4), CHR ''='']"
| "b64 (a # b # c # r) = b64_char (byte a div 4) # b64_char (byte a mod 4 * 16 + byte b div 16)
     # b64_char (byte b mod 16 * 4 + byte c div 64) # b64_char (byte c mod 64) # b64 r"

definition payload_json :: "payload \<Rightarrow> json" where
  "payload_json p = (case p of PBytes b \<Rightarrow> JStr (b64 b) | PString s \<Rightarrow> JStr s | PMap m \<Rightarrow> JObj m)"

definition event_json :: "EventEntry \<Rightarrow> json" where
  "event_json e = JObj
     ([(''chaincodeId'', JStr (ChaincodeID e)), (''blockNumber'', JNum (FormatUint (BlockNumber e))),
       (''transactionId'', JStr (TransactionID e)), (''transactionIndex'', JNum (int_str (TransactionIndex e))),
       (''eventIndex'', JNum (int_str (EventIndex e))), (''eventName'', JStr (EventName e)),
       (''payload'', payload_json (Payload e))]
      @ (if Timestamp e = 0 then [] else [(''timestamp'', JNum (int_str (Timestamp e)))])
      @ [(''subId'', JStr (SubID e))])"

subsection \<open>Webhooks\<close>

text \<open>\<open>parse_url\<close> is \<^verbatim>\<open>url.Parse\<close> followed by \<^verbatim>\<open>Hostname\<close>: the host, or nothing when it refuses the text.\<close>

definition validateWebhookConfig :: "(string \<Rightarrow> string option) \<Rightarrow> webhookActionInfo option \<Rightarrow> error option" where
  "validateWebhookConfig parse_url s = (case s of
     None \<Rightarrow> Some (''Must specify webhook.url for action type 'webhook'' @ [squote])
   | Some w \<Rightarrow>
       if URL w = [] then Some (''Must specify webhook.url for action type 'webhook'' @ [squote])
       else if parse_url (URL w) = None then Some ''Invalid URL in webhook action''
       else None)"

record http_request =
  req_url :: string
  req_body :: bytes
  req_headers :: "(string \<times> string) list"
  req_timeout :: "32 word"
  req_insecure :: bool

record network =
  resolve :: "string \<Rightarrow> nat list res"
  exchange :: "http_request \<Rightarrow> nat res"

definition webhook_request :: "webhookActionInfo \<Rightarrow> EventEntry list \<Rightarrow> http_request" where
  "webhook_request w events =
     \<lparr>req_url = URL w, req_body = json_marshal (JArr (map event_json events)),
      req_headers = (''Content-Type'', ''application/json'') # (case Headers w of None \<Rightarrow> [] | Some hs \<Rightarrow> hs),
      req_timeout = RequestTimeoutSec w, req_insecure = (TLSkipHostVerify w = Some True)\<rparr>"

definition webhook_attemptBatch ::
  "(string \<Rightarrow> string option) \<Rightarrow> network \<Rightarrow> bool \<Rightarrow> string \<Rightarrow> webhookActionInfo \<Rightarrow> EventEntry list \<Rightarrow> error option run" where
  "webhook_attemptBatch parse_url net allowPrivateIPs esID w events =
     (case parse_url (URL w) of
        None \<Rightarrow> Panic ''invalid memory address or nil pointer dereference''
      | Some host \<Rightarrow>
          (case resolve net host of
             Inl err \<Rightarrow> Ret (Some err)
           | Inr addr \<Rightarrow> bind_run (isAddressUnsafe allowPrivateIPs addr) (\<lambda>unsafe.
               if unsafe then Ret (Some (''Cannot send Webhook POST to address: '' @ host))
               else (case exchange net (webhook_request w events) of
                  Inl err \<Rightarrow> Ret (Some err)
                | Inr status \<Rightarrow>
                    if 200 \<le> status \<and> status < 300 then Ret None
                    else Ret (Some (esID @ '': Failed with status='' @ nat_digits status))))))"

subsection \<open>WebSockets\<close>

text \<open>A null configuration is dereferenced by the check of the topic.\<close>

definition validateWebsocketConfig :: "webSocketActionInfo option \<Rightarrow> error option run" where
  "validateWebsocketConfig s = (case s of
     None \<Rightarrow> Panic ''invalid memory address or nil pointer dereference''
   | Some w \<Rightarrow>
       if Topic w = [] then Ret (Some (''missing required parameter 'websocket.topic'' @ [squote]))
       else if DistributionMode w \<noteq> [] \<and> DistributionMode w \<noteq> ''broadcast'' \<and> DistributionMode w \<noteq> ''workloadDistribution''
       then Ret (Some (''Invalid distribution mode '' @ [squote] @ DistributionMode w
              @ [squote] @ ''. Valid distribution modes are: 'workloadDistribution' and 'broadcast'.''))
       else Ret None)"

text \<open>
  What the two \<^verbatim>\<open>select\<close> statements of an attempt meet: the batch is taken by a connection (or an
  update or the closing of the topic comes first), and then a reply (or the same).
\<close>

datatype ws_reply = Acked | Exception error | NoReply

record ws_world =
  sent :: bool
  reply :: ws_reply

definition broadcasts :: "webSocketActionInfo \<Rightarrow> bool" where
  "broadcasts w \<longleftrightarrow> DistributionMode w = ''broadcast''"

definition ws_attemptBatch :: "webSocketActionInfo \<Rightarrow> ws_world \<Rightarrow> error option" where
  "ws_attemptBatch w world =
     (if \<not> sent world then Some ''Interrupted waiting for WebSocket connection to send event''
      else if broadcasts w then None
      else case reply world of
        Acked \<Rightarrow> None
      | Exception err \<Rightarrow> Some err
      | NoReply \<Rightarrow> Some ''Interrupted waiting for WebSocket acknowledgment'')"

subsection \<open>Properties\<close>

definition private_address :: "nat list \<Rightarrow> bool" where
  "private_address ip \<longleftrightarrow> ip ! 0 \<in> {0, 10, 127} \<or> 224 \<le> ip ! 0 \<or> take 2 ip = [192, 168] \<or> ip ! 0 = 172 \<and> ip ! 1 \<in> {16..<32}"

lemma isAddressUnsafe_private:
  "length ip = 4 \<Longrightarrow> isAddressUnsafe allow ip = Ret (\<not> allow \<and> private_address ip)"
  by (auto simp: isAddressUnsafe_def private_address_def Let_def take_Suc_conv_app_nth numeral_2_eq_2)

text \<open>Unless private addresses are allowed, a webhook whose host resolves to a private, loopback,
  multicast or reserved address is refused without any HTTP exchange; every other webhook is
  delivered exactly when the exchange ends with a status from 200 to 299.\<close>

theorem webhook_address_filter:
  assumes "parse_url (URL w) = Some host" and "resolve net host = Inr ip" and "length ip = 4"
  shows "webhook_attemptBatch parse_url net allow esID w events =
     (if \<not> allow \<and> private_address ip then Ret (Some (''Cannot send Webhook POST to address: '' @ host))
      else Ret (case exchange net (webhook_request w events) of
        Inl err \<Rightarrow> Some err
      | Inr status \<Rightarrow> if status \<in> {200..299} then None else Some (esID @ '': Failed with status='' @ nat_digits status)))"
  using assms by (auto simp: webhook_attemptBatch_def isAddressUnsafe_private split: sum.splits)

theorem webhook_address_filter_witness:
  "webhook_attemptBatch (\<lambda>_. Some ''intranet'') \<lparr>resolve = (\<lambda>_. Inr [10, 0, 0, 1]), exchange = (\<lambda>_. Inr 200)\<rparr> False ''es''
     \<lparr>URL = ''http://intranet/'', Headers = None, TLSkipHostVerify = None, RequestTimeoutSec = 0\<rparr> []
     = Ret (Some ''Cannot send Webhook POST to address: intranet'') \<and>
   webhook_attemptBatch (\<lambda>_. Some ''intranet'') \<lparr>resolve = (\<lambda>_. Inr [10, 0, 0, 1]), exchange = (\<lambda>_. Inr 200)\<rparr> True ''es''
     \<lparr>URL = ''http://intranet/'', Headers = None, TLSkipHostVerify = None, RequestTimeoutSec = 0\<rparr> [] = Ret None"
  using webhook_address_filter [of "\<lambda>_. Some ''intranet''" "\<lparr>URL = ''http://intranet/'', Headers = None, TLSkipHostVerify = None, RequestTimeoutSec = 0\<rparr>"
      "''intranet''" "\<lparr>resolve = (\<lambda>_. Inr [10, 0, 0, 1]), exchange = (\<lambda>_. Inr 200)\<rparr>" "[10, 0, 0, 1]" _ "''es''" "[]"]
  by (simp add: private_address_def)

definition event_ascii :: "EventEntry \<Rightarrow> bool" where
  "event_ascii e \<longleftrightarrow> ascii (ChaincodeID e) \<and> ascii (TransactionID e) \<and> ascii (EventName e) \<and> ascii (SubID e)
     \<and> (case Payload e of PBytes _ \<Rightarrow> True | PString s \<Rightarrow> ascii s | PMap m \<Rightarrow> json_ok (JObj m))"

lemma b64_char_ascii: "n < 64 \<Longrightarrow> byte (b64_char n) < 128"
  by (auto simp: b64_char_def)

lemma byte_less: "byte c < 256"
  using range_nat_of_char by (metis atLeastLessThan_iff rangeI)

lemma b64_index:
  "a < 256 \<Longrightarrow> a div 4 < (64 :: nat)" "b < 256 \<Longrightarrow> a mod 4 * 16 + b div 16 < (64 :: nat)"
  "c < 256 \<Longrightarrow> a mod 16 * 4 + c div 64 < (64 :: nat)" "a mod 4 * 16 < (64 :: nat)" "a mod 16 * 4 < (64 :: nat)"
proof -
  have m: "a mod 4 < 4" "a mod 16 < 16" by simp_all
  show "a < 256 \<Longrightarrow> a div 4 < 64" by (rule less_mult_imp_div_less) simp
  have "b < 256 \<Longrightarrow> b div 16 < 16" by (rule less_mult_imp_div_less) simp
  then show "b < 256 \<Longrightarrow> a mod 4 * 16 + b div 16 < 64" using m by linarith
  have "c < 256 \<Longrightarrow> c div 64 < 4" by (rule less_mult_imp_div_less) simp
  then show "c < 256 \<Longrightarrow> a mod 16 * 4 + c div 64 < 64" using m by linarith
  show "a mod 4 * 16 < 64" "a mod 16 * 4 < 64" using m by linarith+
qed

lemma b64_ascii: "ascii (b64 b)"
  by (induction b rule: b64.induct) (simp_all add: b64_char_ascii b64_index byte_less)

lemma event_json_ok: "event_ascii e \<Longrightarrow> json_ok (event_json e)"
  using json_ok_FormatUint json_ok_int_str
  by (auto simp: event_ascii_def event_json_def payload_json_def b64_ascii split: payload.splits)

text \<open>The body of a webhook request parses back to the array of the batch's events in their order,
  for events whose texts are ASCII (payload bytes may be any).\<close>

theorem webhook_body_parses:
  assumes "\<forall>e\<in>set events. event_ascii e"
  shows "json_decode (req_body (webhook_request w events)) = Some (JArr (map event_json events))"
  using assms event_json_ok
  by (auto simp: webhook_request_def json_marshal_def list_all_iff simp del: enc.simps intro!: json_decode_encode)

theorem webhook_body_parses_witness:
  "json_decode (req_body (webhook_request \<lparr>URL = ''http://h/'', Headers = None, TLSkipHostVerify = None, RequestTimeoutSec = 0\<rparr>
     [\<lparr>ChaincodeID = ''cc'', BlockNumber = 7, TransactionID = ''tx'', TransactionIndex = 0, EventIndex = 0, EventName = ''e'',
       Payload = PBytes [CHR 0xFF, CHR 0x00], Timestamp = 0, SubID = ''sb''\<rparr>])) \<noteq> None"
  using webhook_body_parses [of "[\<lparr>ChaincodeID = ''cc'', BlockNumber = 7, TransactionID = ''tx'', TransactionIndex = 0, EventIndex = 0, EventName = ''e'',
       Payload = PBytes [CHR 0xFF, CHR 0x00], Timestamp = 0, SubID = ''sb''\<rparr>]"]
  by (simp add: event_ascii_def)

end
