(* ===== verification/Block_Decoder.thy ===== *)
theory Block_Decoder
  imports Subscription Event_Actions
begin

text \<open>
  The decoder of blocks, \<^verbatim>\<open>internal/fabric/utils/blockdecoder.go\<close>, with its data
  \<^verbatim>\<open>rawblock.go\<close> and \<^verbatim>\<open>block.go\<close>.

  A block is a tree of serialized protobuf messages.  The messages are generated code outside the repository: the record
  types \<open>pb_...\<close> list the fields that the decoder reads, and \<open>proto\<close> is the argument that unmarshals each of them.
  A pointer to a message is an option.  The values that the decoder only passes on (the arguments of the
  lifecycle chaincode and the channel configuration) are of the type \<open>'x\<close>.
\<close>

subsection \<open>Messages of Fabric\<close>

record pb_Envelope =
  env_Payload :: bytes
  env_Signature :: bytes

record pb_Header =
  hdr_ChannelHeader :: bytes
  hdr_SignatureHeader :: bytes

record pb_Payload =
  pl_Header :: "pb_Header option"
  pl_Data :: bytes

record pb_Timestamp =
  ts_Seconds :: "64 word"
  ts_Nanos :: "32 word"

record pb_ChannelHeader =
  ch_Type :: "32 word"
  ch_Version :: "32 word"
  ch_Timestamp :: "pb_Timestamp option"
  ch_ChannelId :: string
  ch_TxId :: string
  ch_Epoch :: uint64

record pb_SignatureHeader =
  sh_Creator :: bytes
  sh_Nonce :: bytes

record pb_SerializedIdentity =
  si_Mspid :: string
  si_IdBytes :: bytes

record pb_TransactionAction =
  ta_Header :: bytes
  ta_Payload :: bytes

record pb_ChaincodeActionPayload =
  cap_ChaincodeProposalPayload :: bytes
  cap_Action :: "bytes option"

record pb_ProposalResponsePayload =
  prp_ProposalHash :: bytes
  prp_Extension :: bytes

record pb_ChaincodeID =
  cid_Path :: string
  cid_Name :: string
  cid_Version :: string

record pb_ChaincodeAction =
  cca_Events :: bytes
  cca_ChaincodeId :: "pb_ChaincodeID option"

record pb_ChaincodeEvent =
  ce_ChaincodeId :: string
  ce_TxId :: string
  ce_EventName :: string
  ce_Payload :: bytes

record pb_ChaincodeProposalPayload =
  cpp_Input :: bytes
  cpp_TransientMap :: "(string \<times> bytes) list"

record pb_ChaincodeInput =
  ci_Args :: "bytes list"
  ci_IsInit :: bool

record pb_ChaincodeSpec =
  pcs_Type :: "32 word"
  pcs_ChaincodeId :: "pb_ChaincodeID option"
  pcs_Input :: "pb_ChaincodeInput option"

record pb_BlockHeader =
  bh_Number :: uint64
  bh_PreviousHash :: bytes
  bh_DataHash :: bytes

record pb_Block =
  pb_BHeader :: "pb_BlockHeader option"
  pb_Data :: "bytes list option"
  pb_Metadata :: "bytes list option"

text \<open>
  \<^verbatim>\<open>proto.Unmarshal\<close> at each type (a transaction is the list of its actions, an invocation specification the
  pointer to its chaincode specification, a configuration envelope the pointer to its configuration), and the
  names of the generated enumerations.
\<close>

record 'x proto =
  u_Envelope :: "bytes \<Rightarrow> pb_Envelope res"
  u_Payload :: "bytes \<Rightarrow> pb_Payload res"
  u_ChannelHeader :: "bytes \<Rightarrow> pb_ChannelHeader res"
  u_SignatureHeader :: "bytes \<Rightarrow> pb_SignatureHeader res"
  u_SerializedIdentity :: "bytes \<Rightarrow> pb_SerializedIdentity res"
  u_Transaction :: "bytes \<Rightarrow> pb_TransactionAction list res"
  u_ChaincodeActionPayload :: "bytes \<Rightarrow> pb_ChaincodeActionPayload res"
  u_ProposalResponsePayload :: "bytes \<Rightarrow> pb_ProposalResponsePayload res"
  u_ChaincodeAction :: "bytes \<Rightarrow> pb_ChaincodeAction res"
  u_ChaincodeEvent :: "bytes \<Rightarrow> pb_ChaincodeEvent res"
  u_ChaincodeProposalPayload :: "bytes \<Rightarrow> pb_ChaincodeProposalPayload res"
  u_ChaincodeInvocationSpec :: "bytes \<Rightarrow> pb_ChaincodeSpec option res"
  u_ApproveArgs :: "bytes \<Rightarrow> 'x res"
  u_CommitArgs :: "bytes \<Rightarrow> 'x res"
  u_ConfigEnvelope :: "bytes \<Rightarrow> 'x option res"
  HeaderType_name :: "32 word \<Rightarrow> string"
  TxValidationCode_String :: "nat \<Rightarrow> string"
  ChaincodeSpec_Type_String :: "32 word \<Rightarrow> string"

subsection \<open>The raw block\<close>

record ChannelHeader =
  rch_ChannelID :: string
  rch_Epoch :: string
  rch_Timestamp :: "64 word"
  rch_TxID :: string
  rch_Type :: string
  rch_Version :: "64 word"

record SignatureHeader =
  rsh_Creator :: pb_SerializedIdentity
  rsh_Nonce :: string

record PayloadHeader =
  ph_ChannelHeader :: ChannelHeader
  ph_SignatureHeader :: SignatureHeader

record raw_ChaincodeEvent =
  ev_ChaincodeID :: string
  ev_TxID :: string
  ev_Timestamp :: string
  ev_EventName :: string
  ev_Payload :: bytes

record Extension =
  ext_ChaincodeID :: "pb_ChaincodeID option"
  ext_Events :: "raw_ChaincodeEvent option"

record ProposalResponsePayload =
  rpr_Extension :: Extension
  rpr_ProposalHash :: string

record ActionPayloadAction =
  apa_ProposalResponsePayload :: ProposalResponsePayload

datatype 'x arg = ArgNil | ArgString string | ArgMessage 'x

record 'x ChaincodeSpecInput =
  csi_Args :: "'x arg list"
  csi_IsInit :: bool

record 'x raw_ChaincodeSpec =
  csp_ChaincodeID :: "pb_ChaincodeID option"
  csp_Input :: "'x ChaincodeSpecInput"
  csp_Type :: string

record 'x ProposalPayloadInput =
  ppi_ChaincodeSpec :: "'x raw_ChaincodeSpec option"

record 'x ChaincodeProposalPayload =
  cp_TransientMap :: "(string \<times> bytes) list"
  cp_Input :: "'x ProposalPayloadInput"

record 'x ActionPayload =
  ap_Action :: ActionPayloadAction
  ap_ChaincodeProposalPayload :: "'x ChaincodeProposalPayload"

record 'x Action =
  act_Header :: SignatureHeader
  act_Payload :: "'x ActionPayload"

record 'x PayloadData =
  pd_Actions :: "'x Action list"
  pd_Config :: "'x option"

record 'x raw_Payload =
  rp_Data :: "'x PayloadData"
  rp_Header :: PayloadHeader

record 'x BlockDataEnvelope =
  bde_Payload :: "'x raw_Payload"
  bde_Signature :: string

record 'x RawBlock =
  rb_Data :: "'x BlockDataEnvelope list"
  rb_Header :: pb_BlockHeader
  rb_Metadata :: "bytes list"

subsection \<open>The block\<close>

record Creator =
  cr_MspID :: string
  cr_Cert :: string

record 'x TransactionAction =
  xa_Nonce :: string
  xa_Creator :: Creator
  xa_TransientMap :: "(string \<times> bytes) list"
  xa_ChaincodeID :: "pb_ChaincodeID option"
  xa_Input :: "'x ChaincodeSpecInput option"
  xa_ProposalHash :: string
  xa_Event :: "raw_ChaincodeEvent option"

record 'x Transaction =
  x_Type :: string
  x_TxID :: string
  x_Nonce :: string
  x_Creator :: Creator
  x_Status :: string
  x_Signature :: string
  x_Timestamp :: "64 word"
  x_Actions :: "'x TransactionAction list"

record 'x ConfigRecord =
  cf_Type :: string
  cf_Signature :: string
  cf_Timestamp :: "64 word"
  cf_Nonce :: string
  cf_Creator :: Creator
  cf_Config :: "'x option"

text \<open>The slice of transactions has a slot for every envelope; it is empty until there is a transaction.\<close>

record 'x Block =
  bl_Number :: uint64
  bl_DataHash :: string
  bl_PreviousHash :: string
  bl_Transactions :: "'x Transaction option list"
  bl_Config :: "'x ConfigRecord option"

subsection \<open>Unmarshalling\<close>

definition wrapped :: "string \<Rightarrow> 'a res \<Rightarrow> 'a res" where
  "wrapped msg r = (case r of Inl e \<Rightarrow> Inl (Wrap msg e) | Inr x \<Rightarrow> Inr x)"

definition getEnvelopeFromBlock :: "'x proto \<Rightarrow> bytes \<Rightarrow> pb_Envelope res" where
  "getEnvelopeFromBlock P data = wrapped ''error unmarshaling Envelope'' (u_Envelope P data)"

definition UnmarshalPayload :: "'x proto \<Rightarrow> bytes \<Rightarrow> pb_Payload res" where
  "UnmarshalPayload P encoded = wrapped ''error unmarshaling Payload'' (u_Payload P encoded)"

definition UnmarshalTransaction :: "'x proto \<Rightarrow> bytes \<Rightarrow> pb_TransactionAction list res" where
  "UnmarshalTransaction P txBytes = wrapped ''error unmarshaling Transaction'' (u_Transaction P txBytes)"

definition UnmarshalChaincodeActionPayload :: "'x proto \<Rightarrow> bytes \<Rightarrow> pb_ChaincodeActionPayload res" where
  "UnmarshalChaincodeActionPayload P capBytes = wrapped ''error unmarshaling ChaincodeActionPayload'' (u_ChaincodeActionPayload P capBytes)"

definition UnmarshalProposalResponsePayload :: "'x proto \<Rightarrow> bytes \<Rightarrow> pb_ProposalResponsePayload res" where
  "UnmarshalProposalResponsePayload P prpBytes = wrapped ''error unmarshaling ProposalResponsePayload'' (u_ProposalResponsePayload P prpBytes)"

definition UnmarshalChaincodeAction :: "'x proto \<Rightarrow> bytes \<Rightarrow> pb_ChaincodeAction res" where
  "UnmarshalChaincodeAction P caBytes = wrapped ''error unmarshaling ChaincodeAction'' (u_ChaincodeAction P caBytes)"

definition UnmarshalChaincodeEvents :: "'x proto \<Rightarrow> bytes \<Rightarrow> pb_ChaincodeEvent res" where
  "UnmarshalChaincodeEvents P eBytes = wrapped ''error unmarshaling ChaicnodeEvent'' (u_ChaincodeEvent P eBytes)"

subsection \<open>Headers\<close>

text \<open>\<^verbatim>\<open>time.Unix(sec, nsec).UnixNano()\<close>, on wrapping 64-bit integers; a missing timestamp counts as zero.\<close>

definition UnixNano :: "pb_Timestamp option \<Rightarrow> 64 word" where
  "UnixNano t = (case t of None \<Rightarrow> 0 | Some s \<Rightarrow> ts_Seconds s * 1000000000 + signed (ts_Nanos s))"

definition decodeSignatureHeader :: "'x proto \<Rightarrow> bytes \<Rightarrow> SignatureHeader res" where
  "decodeSignatureHeader P b = (case u_SignatureHeader P b of
     Inl err \<Rightarrow> Inl (Wrap ''error decoding SignatureHeader from payload'' err)
   | Inr signatureHeader \<Rightarrow> (case u_SerializedIdentity P (sh_Creator signatureHeader) of
       Inl err \<Rightarrow> Inl (Wrap ''error decoding Creator from signature header'' err)
     | Inr creator \<Rightarrow> Inr \<lparr>rsh_Creator = creator, rsh_Nonce = b64 (sh_Nonce signatureHeader)\<rparr>))"

definition decodePayloadHeader :: "'x proto \<Rightarrow> pb_Header option \<Rightarrow> PayloadHeader res run" where
  "decodePayloadHeader P header0 =
     bind_run (deref header0) (\<lambda>header.
     chk_run (Ret (u_ChannelHeader P (hdr_ChannelHeader header))) (Wrap ''error decoding ChannelHeader from payload'') (\<lambda>ch.
     chk_run (Ret (decodeSignatureHeader P (hdr_SignatureHeader header))) (Wrap ''error decoding SignatureHeader from payload'') (\<lambda>sh.
     Ret (Inr \<lparr>ph_ChannelHeader = \<lparr>rch_ChannelID = ch_ChannelId ch, rch_Epoch = FormatUint (ch_Epoch ch),
                 rch_Timestamp = UnixNano (ch_Timestamp ch), rch_TxID = ch_TxId ch,
                 rch_Type = HeaderType_name P (ch_Type ch), rch_Version = signed (ch_Version ch)\<rparr>,
               ph_SignatureHeader = sh\<rparr>))))"

definition creator_of :: "SignatureHeader \<Rightarrow> Creator" where
  "creator_of sh = \<lparr>cr_MspID = si_Mspid (rsh_Creator sh), cr_Cert = si_IdBytes (rsh_Creator sh)\<rparr>"

subsection \<open>Actions\<close>

definition decodeProposalResponsePayloadExtension :: "'x proto \<Rightarrow> bytes \<Rightarrow> Extension res" where
  "decodeProposalResponsePayloadExtension P extension = (case u_ChaincodeAction P extension of
     Inl err \<Rightarrow> Inl (Wrap ''error decoding chaincode action'' err)
   | Inr cca \<Rightarrow> (case u_ChaincodeEvent P (cca_Events cca) of
       Inl err \<Rightarrow> Inl (Wrap ''error decoding chaincode event'' err)
     | Inr ccevt \<Rightarrow> Inr \<lparr>ext_ChaincodeID = cca_ChaincodeId cca,
         ext_Events = Some \<lparr>ev_ChaincodeID = ce_ChaincodeId ccevt, ev_TxID = ce_TxId ccevt, ev_Timestamp = [],
                            ev_EventName = ce_EventName ccevt, ev_Payload = ce_Payload ccevt\<rparr>\<rparr>))"

definition decodeProposalResponsePayload :: "'x proto \<Rightarrow> bytes \<Rightarrow> ProposalResponsePayload res" where
  "decodeProposalResponsePayload P b = (case u_ProposalResponsePayload P b of
     Inl err \<Rightarrow> Inl (Wrap ''error decoding chaincode proposal response payload'' err)
   | Inr prp \<Rightarrow> (case decodeProposalResponsePayloadExtension P (prp_Extension prp) of
       Inl err \<Rightarrow> Inl err
     | Inr ext \<Rightarrow> Inr \<lparr>rpr_Extension = ext, rpr_ProposalHash = b64 (prp_ProposalHash prp)\<rparr>))"

definition decodeActionPayloadAction :: "'x proto \<Rightarrow> bytes option \<Rightarrow> ActionPayloadAction res run" where
  "decodeActionPayloadAction P action =
     bind_run (deref action) (\<lambda>proposalResponsePayload.
     chk_run (Ret (decodeProposalResponsePayload P proposalResponsePayload)) id (\<lambda>r.
     Ret (Inr \<lparr>apa_ProposalResponsePayload = r\<rparr>)))"

text \<open>
  The arguments of an invocation.  For the lifecycle chaincode the second one is a message; further ones stay
  \<^verbatim>\<open>nil\<close>.
\<close>

definition lifecycle_args :: "'x proto \<Rightarrow> bytes list \<Rightarrow> 'x arg list res run" where
  "lifecycle_args P args =
     bind_run (index_run args 0) (\<lambda>funcName.
     bind_run (index_run args 1) (\<lambda>argsBytes.
     let nils = (replicate (length args) ArgNil)[0 := ArgString funcName] in
     if funcName = ''ApproveChaincodeDefinitionForMyOrg'' then
       chk_run (Ret (u_ApproveArgs P argsBytes)) (Wrap ''error decoding args for ApproveChaincodeDefinitionForMyOrg'')
         (\<lambda>x. Ret (Inr (nils[1 := ArgMessage x])))
     else if funcName = ''CommitChaincodeDefinition'' then
       chk_run (Ret (u_CommitArgs P argsBytes)) (Wrap ''error decoding args for CommitChaincodeDefinition'')
         (\<lambda>x. Ret (Inr (nils[1 := ArgMessage x])))
     else Ret (Inr nils)))"

definition decode_input :: "'x proto \<Rightarrow> pb_ChaincodeSpec \<Rightarrow> 'x raw_ChaincodeSpec res run" where
  "decode_input P ccSpec =
     bind_run (deref (pcs_Input ccSpec)) (\<lambda>input.
     bind_run (deref (pcs_ChaincodeId ccSpec)) (\<lambda>cid.
     chk_run (if cid_Name cid = ''_lifecycle'' then lifecycle_args P (ci_Args input)
              else Ret (Inr (map ArgString (ci_Args input)))) id (\<lambda>args.
     Ret (Inr \<lparr>csp_ChaincodeID = Some cid, csp_Input = \<lparr>csi_Args = args, csi_IsInit = ci_IsInit input\<rparr>,
               csp_Type = ChaincodeSpec_Type_String P (pcs_Type ccSpec)\<rparr>))))"

definition decodeActionPayloadChaincodeProposalPayload :: "'x proto \<Rightarrow> bytes \<Rightarrow> 'x ChaincodeProposalPayload res run" where
  "decodeActionPayloadChaincodeProposalPayload P b =
     chk_run (Ret (u_ChaincodeProposalPayload P b)) (Wrap ''error decoding chaincode proposal payload'') (\<lambda>cpp.
     chk_run (Ret (u_ChaincodeInvocationSpec P (cpp_Input cpp))) (Wrap ''error decoding chaincode invocation spec'') (\<lambda>ccSpec.
     chk_run (case ccSpec of None \<Rightarrow> Ret (Inr None) | Some s \<Rightarrow> chk_run (decode_input P s) id (\<lambda>x. Ret (Inr (Some x)))) id (\<lambda>spec'.
     Ret (Inr \<lparr>cp_TransientMap = cpp_TransientMap cpp, cp_Input = \<lparr>ppi_ChaincodeSpec = spec'\<rparr>\<rparr>))))"

definition decodeActionPayload :: "'x proto \<Rightarrow> bytes \<Rightarrow> 'x ActionPayload res run" where
  "decodeActionPayload P payload =
     chk_run (Ret (u_ChaincodeActionPayload P payload)) (Wrap ''error decoding chaincode action payload'') (\<lambda>capPayload.
     chk_run (decodeActionPayloadAction P (cap_Action capPayload)) id (\<lambda>a.
     chk_run (decodeActionPayloadChaincodeProposalPayload P (cap_ChaincodeProposalPayload capPayload)) id (\<lambda>c.
     Ret (Inr \<lparr>ap_Action = a, ap_ChaincodeProposalPayload = c\<rparr>))))"

definition extension_of :: "'x Action \<Rightarrow> Extension" where
  "extension_of a = rpr_Extension (apa_ProposalResponsePayload (ap_Action (act_Payload a)))"

definition txAction_of :: "'x Action \<Rightarrow> 'x TransactionAction" where
  "txAction_of a = \<lparr>xa_Nonce = hex_encode (rsh_Nonce (act_Header a)), xa_Creator = creator_of (act_Header a),
     xa_TransientMap = cp_TransientMap (ap_ChaincodeProposalPayload (act_Payload a)),
     xa_ChaincodeID = ext_ChaincodeID (extension_of a),
     xa_Input = map_option csp_Input (ppi_ChaincodeSpec (cp_Input (ap_ChaincodeProposalPayload (act_Payload a)))),
     xa_ProposalHash = hex_encode (rpr_ProposalHash (apa_ProposalResponsePayload (ap_Action (act_Payload a)))),
     xa_Event = ext_Events (extension_of a)\<rparr>"

fun decode_actions :: "'x proto \<Rightarrow> pb_TransactionAction list \<Rightarrow> 'x Action list res run" where
  "decode_actions P [] = Ret (Inr [])"
| "decode_actions P (action # rest) =
     chk_run (Ret (decodeSignatureHeader P (ta_Header action))) id (\<lambda>sh.
     chk_run (decodeActionPayload P (ta_Payload action)) id (\<lambda>ap.
     chk_run (decode_actions P rest) id (\<lambda>as.
     Ret (Inr (\<lparr>act_Header = sh, act_Payload = ap\<rparr> # as)))))"

definition decodeTxPayloadData :: "'x proto \<Rightarrow> bytes \<Rightarrow> ('x Action list \<times> 'x TransactionAction list) res run" where
  "decodeTxPayloadData P payloadData =
     chk_run (Ret (u_Transaction P payloadData)) (Wrap ''error decoding transaction payload data'') (\<lambda>tx.
     chk_run (decode_actions P tx) id (\<lambda>actions. Ret (Inr (actions, map txAction_of actions))))"

definition decodeConfigPayloadData :: "'x proto \<Rightarrow> bytes \<Rightarrow> 'x option res" where
  "decodeConfigPayloadData P payloadData = (case u_ConfigEnvelope P payloadData of
     Inl err \<Rightarrow> Inl (Wrap ''error decoding config envelope'' err) | Inr config \<Rightarrow> Inr config)"

subsection \<open>Payloads\<close>

datatype 'x decoded = TxRecord "'x Transaction" | ConfigRec "'x ConfigRecord"

text \<open>The event is shared between the raw block and the block, so its timestamp is set in both.\<close>

definition stamp_event :: "64 word \<Rightarrow> raw_ChaincodeEvent \<Rightarrow> raw_ChaincodeEvent" where
  "stamp_event t e = e\<lparr>ev_Timestamp := int_str (sint t)\<rparr>"

definition stamp_extension :: "64 word \<Rightarrow> Extension \<Rightarrow> Extension" where
  "stamp_extension t x = x\<lparr>ext_Events := map_option (stamp_event t) (ext_Events x)\<rparr>"

definition stamp_action :: "64 word \<Rightarrow> 'x Action \<Rightarrow> 'x Action" where
  "stamp_action t a = (let p = act_Payload a; r = apa_ProposalResponsePayload (ap_Action p) in
     a\<lparr>act_Payload := p\<lparr>ap_Action := \<lparr>apa_ProposalResponsePayload =
         r\<lparr>rpr_Extension := stamp_extension t (rpr_Extension r)\<rparr>\<rparr>\<rparr>\<rparr>)"

definition stamp_txAction :: "64 word \<Rightarrow> 'x TransactionAction \<Rightarrow> 'x TransactionAction" where
  "stamp_txAction t x = x\<lparr>xa_Event := map_option (stamp_event t) (xa_Event x)\<rparr>"

definition decodePayload :: "'x proto \<Rightarrow> pb_Payload \<Rightarrow> ('x raw_Payload \<times> 'x decoded option) res run" where
  "decodePayload P payload =
     chk_run (decodePayloadHeader P (pl_Header payload)) id (\<lambda>h.
     let ch = ph_ChannelHeader h; sh = ph_SignatureHeader h; timestamp = rch_Timestamp ch; nonce = hex_encode (rsh_Nonce sh) in
     if rch_Type ch = HeaderType_name P 3 then
       chk_run (decodeTxPayloadData P (pl_Data payload)) id (\<lambda>(actions, txActions).
       Ret (Inr (\<lparr>rp_Data = \<lparr>pd_Actions = map (stamp_action timestamp) actions, pd_Config = None\<rparr>, rp_Header = h\<rparr>,
         Some (TxRecord \<lparr>x_Type = rch_Type ch, x_TxID = rch_TxID ch, x_Nonce = nonce, x_Creator = creator_of sh,
           x_Status = [], x_Signature = [], x_Timestamp = timestamp, x_Actions = map (stamp_txAction timestamp) txActions\<rparr>))))
     else if rch_Type ch = HeaderType_name P 1 then
       chk_run (Ret (decodeConfigPayloadData P (pl_Data payload))) id (\<lambda>config.
       Ret (Inr (\<lparr>rp_Data = \<lparr>pd_Actions = [], pd_Config = config\<rparr>, rp_Header = h\<rparr>,
         Some (ConfigRec \<lparr>cf_Type = rch_Type ch, cf_Signature = [], cf_Timestamp = timestamp, cf_Nonce = nonce,
           cf_Creator = creator_of sh, cf_Config = config\<rparr>))))
     else Ret (Inr (\<lparr>rp_Data = \<lparr>pd_Actions = [], pd_Config = None\<rparr>, rp_Header = h\<rparr>, None)))"

definition DecodeBlockDataEnvelope :: "'x proto \<Rightarrow> pb_Envelope \<Rightarrow> ('x BlockDataEnvelope \<times> 'x decoded) res run" where
  "DecodeBlockDataEnvelope P env =
     (let sig = b64 (env_Signature env) in
      chk_run (Ret (UnmarshalPayload P (env_Payload env))) (Wrap ''error decoding Payload from envelope'') (\<lambda>payload.
      chk_run (decodePayload P payload) id (\<lambda>(raw, result).
      let dataEnv = \<lparr>bde_Payload = raw, bde_Signature = sig\<rparr> in
      case result of
        Some (TxRecord tx) \<Rightarrow> Ret (Inr (dataEnv, TxRecord (tx\<lparr>x_Signature := sig\<rparr>)))
      | Some (ConfigRec config) \<Rightarrow> Ret (Inr (dataEnv, ConfigRec (config\<lparr>cf_Signature := sig\<rparr>)))
      | None \<Rightarrow> Panic ''interface conversion: interface {} is nil, not *utils.ConfigRecord'')))"

subsection \<open>Blocks\<close>

fun decode_envelopes ::
  "'x proto \<Rightarrow> nat \<Rightarrow> bytes \<Rightarrow> nat \<Rightarrow> bytes list \<Rightarrow>
   'x BlockDataEnvelope list \<times> 'x Transaction option list \<times> 'x ConfigRecord option \<Rightarrow>
   ('x BlockDataEnvelope list \<times> 'x Transaction option list \<times> 'x ConfigRecord option) res run" where
  "decode_envelopes P n txFilter i [] st = Ret (Inr st)"
| "decode_envelopes P n txFilter i (data # rest) (envs, transactions, config) =
     chk_run (Ret (getEnvelopeFromBlock P data)) (Wrap ''error decoding Envelope from block'') (\<lambda>env.
     chk_run (DecodeBlockDataEnvelope P env) (Wrap ''error decoding block data envelope'') (\<lambda>(dataEnv, payload).
     case payload of
       TxRecord tx \<Rightarrow>
         bind_run (index_run txFilter (int i)) (\<lambda>code.
         let slots = (if transactions = [] then replicate n None else transactions) in
         decode_envelopes P n txFilter (Suc i) rest
           (envs @ [dataEnv], slots[i := Some (tx\<lparr>x_Status := TxValidationCode_String P (byte code)\<rparr>)], config))
     | ConfigRec c \<Rightarrow> decode_envelopes P n txFilter (Suc i) rest (envs @ [dataEnv], transactions, Some c)))"

definition DecodeBlock :: "'x proto \<Rightarrow> pb_Block \<Rightarrow> ('x RawBlock \<times> 'x Block) res run" where
  "DecodeBlock P block =
     bind_run (deref (pb_Data block)) (\<lambda>data.
     bind_run (deref (pb_Metadata block)) (\<lambda>metadata.
     bind_run (index_run metadata 2) (\<lambda>txFilter.
     chk_run (decode_envelopes P (length data) txFilter 0 data ([], [], None)) id (\<lambda>(envs, transactions, config).
     bind_run (deref (pb_BHeader block)) (\<lambda>header.
     Ret (Inr (\<lparr>rb_Data = envs, rb_Header = header, rb_Metadata = metadata\<rparr>,
       \<lparr>bl_Number = bh_Number header, bl_DataHash = hex_encode (bh_DataHash header),
        bl_PreviousHash = hex_encode (bh_PreviousHash header), bl_Transactions = transactions, bl_Config = config\<rparr>)))))))"

definition action_event ::
  "uint64 \<Rightarrow> 64 word \<Rightarrow> string \<Rightarrow> nat \<Rightarrow> nat \<times> 'x Action \<Rightarrow> EventEntry list run" where
  "action_event number timestamp txID idx = (\<lambda>(actionIdx, action). case ext_Events (extension_of action) of
     None \<Rightarrow> Ret []
   | Some event \<Rightarrow> bind_run (deref (ext_ChaincodeID (extension_of action))) (\<lambda>cid.
       Ret [\<lparr>ChaincodeID = cid_Name cid, BlockNumber = number, TransactionID = txID, TransactionIndex = int idx,
             EventIndex = int actionIdx, EventName = ev_EventName event, Payload = PBytes (ev_Payload event),
             Timestamp = sint timestamp, SubID = []\<rparr>]))"

definition entry_events :: "uint64 \<Rightarrow> nat \<times> 'x BlockDataEnvelope \<Rightarrow> EventEntry list run" where
  "entry_events number = (\<lambda>(idx, entry).
     let ch = ph_ChannelHeader (rp_Header (bde_Payload entry)) in
     bind_run (map_run (action_event number (rch_Timestamp ch) (rch_TxID ch) idx)
                 (enumerate 0 (pd_Actions (rp_Data (bde_Payload entry))))) (\<lambda>ess. Ret (concat ess)))"

definition GetEvents :: "'x proto \<Rightarrow> pb_Block \<Rightarrow> EventEntry list run" where
  "GetEvents P block =
     bind_run (DecodeBlock P block) (\<lambda>r. case r of
       Inl err \<Rightarrow> Ret []
     | Inr (rawBlock, _) \<Rightarrow>
         bind_run (map_run (entry_events (bh_Number (rb_Header rawBlock))) (enumerate 0 (rb_Data rawBlock))) (\<lambda>ess. Ret (concat ess)))"

subsection \<open>What a block holds\<close>

text \<open>
  The content of an envelope as the bytes describe it: a configuration, or a transaction with its time, identifier and
  one event (chaincode, name, payload) for each of its actions.  The predicates name exactly the messages that have to be
  readable.
\<close>

datatype item = ConfigItem | TxItem "64 word" string "(string \<times> string \<times> bytes) list"

definition signer_ok :: "'x proto \<Rightarrow> bytes \<Rightarrow> bool" where
  "signer_ok P b \<longleftrightarrow> (\<exists>sh cr. u_SignatureHeader P b = Inr sh \<and> u_SerializedIdentity P (sh_Creator sh) = Inr cr)"

definition args_ok :: "'x proto \<Rightarrow> bytes list \<Rightarrow> bool" where
  "args_ok P args \<longleftrightarrow> (\<exists>f b rest. args = f # b # rest
     \<and> (f = ''ApproveChaincodeDefinitionForMyOrg'' \<longrightarrow> (\<exists>x. u_ApproveArgs P b = Inr x))
     \<and> (f = ''CommitChaincodeDefinition'' \<longrightarrow> (\<exists>x. u_CommitArgs P b = Inr x)))"

definition proposal_ok :: "'x proto \<Rightarrow> bytes \<Rightarrow> bool" where
  "proposal_ok P b \<longleftrightarrow> (\<exists>cpp s. u_ChaincodeProposalPayload P b = Inr cpp \<and> u_ChaincodeInvocationSpec P (cpp_Input cpp) = Inr s
     \<and> (\<forall>x. s = Some x \<longrightarrow> (\<exists>input cid. pcs_Input x = Some input \<and> pcs_ChaincodeId x = Some cid
          \<and> (cid_Name cid = ''_lifecycle'' \<longrightarrow> args_ok P (ci_Args input)))))"

definition action_is :: "'x proto \<Rightarrow> pb_TransactionAction \<Rightarrow> string \<times> string \<times> bytes \<Rightarrow> bool" where
  "action_is P a e \<longleftrightarrow> signer_ok P (ta_Header a)
     \<and> (\<exists>cap b prp cca cid ev. u_ChaincodeActionPayload P (ta_Payload a) = Inr cap \<and> cap_Action cap = Some b
          \<and> u_ProposalResponsePayload P b = Inr prp \<and> u_ChaincodeAction P (prp_Extension prp) = Inr cca
          \<and> cca_ChaincodeId cca = Some cid \<and> u_ChaincodeEvent P (cca_Events cca) = Inr ev
          \<and> e = (cid_Name cid, ce_EventName ev, ce_Payload ev) \<and> proposal_ok P (cap_ChaincodeProposalPayload cap))"

definition payload_is :: "'x proto \<Rightarrow> pb_Payload \<Rightarrow> item \<Rightarrow> bool" where
  "payload_is P pl it \<longleftrightarrow> (\<exists>h ch. pl_Header pl = Some h \<and> u_ChannelHeader P (hdr_ChannelHeader h) = Inr ch
     \<and> signer_ok P (hdr_SignatureHeader h)
     \<and> (case it of
          TxItem t txid es \<Rightarrow> HeaderType_name P (ch_Type ch) = HeaderType_name P 3 \<and> UnixNano (ch_Timestamp ch) = t \<and> ch_TxId ch = txid
            \<and> (\<exists>acts. u_Transaction P (pl_Data pl) = Inr acts \<and> list_all2 (action_is P) acts es)
        | ConfigItem \<Rightarrow> HeaderType_name P (ch_Type ch) = HeaderType_name P 1 \<and> HeaderType_name P 1 \<noteq> HeaderType_name P 3
            \<and> (\<exists>c. u_ConfigEnvelope P (pl_Data pl) = Inr c)))"

definition envelope_is :: "'x proto \<Rightarrow> bytes \<Rightarrow> item \<Rightarrow> bool" where
  "envelope_is P d it \<longleftrightarrow> (\<exists>env pl. u_Envelope P d = Inr env \<and> u_Payload P (env_Payload env) = Inr pl \<and> payload_is P pl it)"

fun item_events :: "uint64 \<Rightarrow> nat \<times> item \<Rightarrow> EventEntry list" where
  "item_events number (idx, ConfigItem) = []"
| "item_events number (idx, TxItem t txid es) =
     map (\<lambda>(j, cc, name, payload). \<lparr>ChaincodeID = cc, BlockNumber = number, TransactionID = txid, TransactionIndex = int idx,
       EventIndex = int j, EventName = name, Payload = PBytes payload, Timestamp = sint t, SubID = []\<rparr>) (enumerate 0 es)"

subsection \<open>Decoding\<close>

definition decoded_action :: "'x Action \<Rightarrow> string \<times> string \<times> bytes \<Rightarrow> bool" where
  "decoded_action a e \<longleftrightarrow> (\<exists>cid ev. ext_ChaincodeID (extension_of a) = Some cid \<and> ext_Events (extension_of a) = Some ev
     \<and> e = (cid_Name cid, ev_EventName ev, ev_Payload ev))"

definition decoded_entry :: "'x BlockDataEnvelope \<Rightarrow> item \<Rightarrow> bool" where
  "decoded_entry d it \<longleftrightarrow> (case it of
     ConfigItem \<Rightarrow> pd_Actions (rp_Data (bde_Payload d)) = []
   | TxItem t txid es \<Rightarrow> rch_Timestamp (ph_ChannelHeader (rp_Header (bde_Payload d))) = t
       \<and> rch_TxID (ph_ChannelHeader (rp_Header (bde_Payload d))) = txid
       \<and> list_all2 decoded_action (pd_Actions (rp_Data (bde_Payload d))) es)"

lemma signer_ok_decodes: "signer_ok P b \<Longrightarrow> \<exists>sh. decodeSignatureHeader P b = Inr sh"
  by (auto simp: signer_ok_def decodeSignatureHeader_def)

lemma args_ok_decodes: "args_ok P args \<Longrightarrow> \<exists>x. lifecycle_args P args = Ret (Inr x)"
  by (auto simp: args_ok_def lifecycle_args_def index_run_def Let_def)

lemma proposal_ok_decodes: "proposal_ok P b \<Longrightarrow> \<exists>c. decodeActionPayloadChaincodeProposalPayload P b = Ret (Inr c)"
proof -
  assume "proposal_ok P b"
  then obtain cpp s where s: "u_ChaincodeProposalPayload P b = Inr cpp" "u_ChaincodeInvocationSpec P (cpp_Input cpp) = Inr s"
    "\<And>x. s = Some x \<Longrightarrow> \<exists>input cid. pcs_Input x = Some input \<and> pcs_ChaincodeId x = Some cid
          \<and> (cid_Name cid = ''_lifecycle'' \<longrightarrow> args_ok P (ci_Args input))"
    by (auto simp: proposal_ok_def)
  have "\<exists>y. decode_input P x = Ret (Inr y)" if "s = Some x" for x
    using s(3) [OF that] args_ok_decodes [of P] by (fastforce simp: decode_input_def)
  then show ?thesis
    using s(1,2) by (cases s) (auto simp: decodeActionPayloadChaincodeProposalPayload_def)
qed

lemma action_is_decodes:
  "action_is P a e \<Longrightarrow> \<exists>sh ap. decodeSignatureHeader P (ta_Header a) = Inr sh
     \<and> decodeActionPayload P (ta_Payload a) = Ret (Inr ap) \<and> decoded_action \<lparr>act_Header = sh, act_Payload = ap\<rparr> e"
  using signer_ok_decodes [of P "ta_Header a"] proposal_ok_decodes [of P]
  by (fastforce simp: action_is_def decodeActionPayload_def decodeActionPayloadAction_def decodeProposalResponsePayload_def
      decodeProposalResponsePayloadExtension_def decoded_action_def extension_of_def)

lemma actions_decode:
  "list_all2 (action_is P) acts es \<Longrightarrow> \<exists>as. decode_actions P acts = Ret (Inr as) \<and> list_all2 decoded_action as es"
proof (induction rule: list_all2_induct)
  case (Cons a acts e es)
  with action_is_decodes [of P a e] show ?case by auto
qed simp

lemma stamp_keeps [simp]:
  "decoded_action (stamp_action t a) e = decoded_action a e"
  by (auto simp: decoded_action_def stamp_action_def extension_of_def stamp_extension_def stamp_event_def Let_def)

lemma envelope_decodes:
  assumes "envelope_is P d it"
  shows "\<exists>env data x. getEnvelopeFromBlock P d = Inr env \<and> DecodeBlockDataEnvelope P env = Ret (Inr (data, x)) \<and> decoded_entry data it"
proof -
  obtain env pl where e: "u_Envelope P d = Inr env" "u_Payload P (env_Payload env) = Inr pl" "payload_is P pl it"
    using assms by (auto simp: envelope_is_def)
  then obtain h ch sh where h: "pl_Header pl = Some h" "u_ChannelHeader P (hdr_ChannelHeader h) = Inr ch"
    "decodeSignatureHeader P (hdr_SignatureHeader h) = Inr sh"
    using signer_ok_decodes [of P] by (fastforce simp: payload_is_def)
  have "\<exists>data x. DecodeBlockDataEnvelope P env = Ret (Inr (data, x)) \<and> decoded_entry data it"
  proof (cases it)
    case ConfigItem
    with e h show ?thesis
      by (auto simp: payload_is_def DecodeBlockDataEnvelope_def UnmarshalPayload_def wrapped_def decodePayload_def
          decodePayloadHeader_def decodeConfigPayloadData_def decoded_entry_def Let_def)
  next
    case (TxItem t txid es)
    with e(3) h obtain acts where a: "u_Transaction P (pl_Data pl) = Inr acts" "list_all2 (action_is P) acts es"
      and c: "HeaderType_name P (ch_Type ch) = HeaderType_name P 3" "UnixNano (ch_Timestamp ch) = t" "ch_TxId ch = txid"
      by (auto simp: payload_is_def)
    obtain as where "decode_actions P acts = Ret (Inr as)" "list_all2 decoded_action as es"
      using actions_decode [OF a(2)] by blast
    with TxItem e(2) h a(1) c show ?thesis
      by (auto simp: DecodeBlockDataEnvelope_def UnmarshalPayload_def wrapped_def decodePayload_def
          decodePayloadHeader_def decodeTxPayloadData_def decoded_entry_def Let_def list_all2_map1)
  qed
  then show ?thesis using e(1) by (simp add: getEnvelopeFromBlock_def wrapped_def)
qed

lemma envelopes_decode:
  assumes "list_all2 (envelope_is P) ds items" "i + length ds \<le> length f"
  shows "\<exists>new trs c. list_all2 decoded_entry new items
    \<and> decode_envelopes P n f i (ds @ rest) (envs, transactions, config) =
        decode_envelopes P n f (i + length ds) rest (envs @ new, trs, c)"
  using assms
proof (induction arbitrary: i envs transactions config rule: list_all2_induct)
  case Nil
  show ?case by (intro exI [of _ "[]"] exI [of _ transactions] exI [of _ config]) simp
next
  case (Cons d ds it items)
  obtain env data x where e: "getEnvelopeFromBlock P d = Inr env" "DecodeBlockDataEnvelope P env = Ret (Inr (data, x))" "decoded_entry data it"
    using envelope_decodes [OF Cons.hyps(1)] by blast
  obtain trs1 c1 where s: "decode_envelopes P n f i (d # ds @ rest) (envs, transactions, config) =
      decode_envelopes P n f (Suc i) (ds @ rest) (envs @ [data], trs1, c1)"
    using e(1,2) Cons.prems by (cases x) (auto simp: index_run_def Let_def)
  obtain new trs c where "list_all2 decoded_entry new items"
    "decode_envelopes P n f (Suc i) (ds @ rest) (envs @ [data], trs1, c1) =
       decode_envelopes P n f (Suc i + length ds) rest ((envs @ [data]) @ new, trs, c)"
    using Cons.IH [of "Suc i" "envs @ [data]" trs1 c1] Cons.prems by auto
  with e(3) s show ?case by (intro exI [of _ "data # new"] exI [of _ trs] exI [of _ c]) simp
qed

lemma action_events:
  "list_all2 decoded_action as es \<Longrightarrow>
   map_run (action_event number t txid idx) (enumerate n as) =
     Ret (map (\<lambda>(j, cc, name, payload). [\<lparr>ChaincodeID = cc, BlockNumber = number, TransactionID = txid, TransactionIndex = int idx,
       EventIndex = int j, EventName = name, Payload = PBytes payload, Timestamp = sint t, SubID = []\<rparr>]) (enumerate n es))"
proof (induction arbitrary: n rule: list_all2_induct)
  case (Cons a as e es)
  from Cons.hyps(1) Cons.IH [of "Suc n"] show ?case by (auto simp: decoded_action_def action_event_def)
qed simp

lemma concat_singletons: "concat (map (\<lambda>(j, cc, name, payload). [f j cc name payload]) xs) = map (\<lambda>(j, cc, name, payload). f j cc name payload) xs"
  by (induction xs) auto

lemma entry_events_decoded: "decoded_entry d it \<Longrightarrow> entry_events number (idx, d) = Ret (item_events number (idx, it))"
  by (cases it) (auto simp: decoded_entry_def entry_events_def Let_def action_events concat_singletons)

lemma entries_events:
  "list_all2 decoded_entry envs items \<Longrightarrow>
   map_run (entry_events number) (enumerate n envs) = Ret (map (item_events number) (enumerate n items))"
proof (induction arbitrary: n rule: list_all2_induct)
  case (Cons d ds it items)
  from entry_events_decoded [OF Cons.hyps(1)] Cons.IH [of "Suc n"] show ?case by simp
qed simp

subsection \<open>Properties\<close>

definition block_is :: "'x proto \<Rightarrow> pb_Block \<Rightarrow> uint64 \<Rightarrow> item list \<Rightarrow> bool" where
  "block_is P b number items \<longleftrightarrow> (\<exists>h data metadata. pb_BHeader b = Some h \<and> bh_Number h = number
     \<and> pb_Data b = Some data \<and> list_all2 (envelope_is P) data items
     \<and> pb_Metadata b = Some metadata \<and> 2 < length metadata \<and> length data \<le> length (metadata ! 2))"

lemma block_events:
  assumes "block_is P b number items"
  shows "GetEvents P b = Ret (concat (map (item_events number) (enumerate 0 items)))"
proof -
  obtain h data md where b: "pb_BHeader b = Some h" "bh_Number h = number" "pb_Data b = Some data" "list_all2 (envelope_is P) data items"
    "pb_Metadata b = Some md" "2 < length md" "length data \<le> length (md ! 2)"
    using assms by (auto simp: block_is_def)
  obtain new trs c where "list_all2 decoded_entry new items"
    "decode_envelopes P (length data) (md ! 2) 0 data ([], [], None) = Ret (Inr (new, trs, c))"
    using envelopes_decode [OF b(4), of 0 "md ! 2" "length data" "[]" "[]" "[]" None] b(7) by auto
  with b show ?thesis by (auto simp: GetEvents_def DecodeBlock_def index_run_def entries_events)
qed

text \<open>C26: A block whose envelopes, headers and actions can be read and whose metadata has a validation code for
  every transaction is turned into exactly one event for every action of every endorser transaction, in the order of the block,
  with the number of the block, the index and identifier of the transaction, the index of the action, its chaincode, event name,
  payload and time, and none for a configuration; a subscription hands all of them to its stream in this order.\<close>

theorem block_events_reach_the_stream:
  assumes "block_is P b number items" "\<not> stopped a"
  shows "\<exists>a'. processNewEvents (GetEvents P) lru rpc i [BlockEvent b] (a, l, c) = Ret (a', l, c)
    \<and> pending_events a' = pending_events a @ map (processEventEntry i) (concat (map (item_events number) (enumerate 0 items)))"
  using assms handleEvents_pending [of a "processEventEntry i"] by (simp add: block_events)

text \<open>One envelope of a block that cannot be read hides the events of all its transactions: \<^verbatim>\<open>GetEvents\<close> drops the error and
  returns no event at all, also none of the transactions before it.\<close>

theorem unreadable_envelope_hides_the_block:
  assumes "pb_Data b = Some (good @ d # rest)" "list_all2 (envelope_is P) good items"
    and "pb_Metadata b = Some metadata" "2 < length metadata" "length good \<le> length (metadata ! 2)"
    and "case u_Envelope P d of Inl err \<Rightarrow> True | Inr env \<Rightarrow> (\<exists>err. u_Payload P (env_Payload env) = Inl err)"
  shows "GetEvents P b = Ret []"
proof -
  have e: "\<exists>err. decode_envelopes P n f i (d # rest) (envs, trs, c) = Ret (Inl err)" for n f i envs trs c
    using assms(6) by (auto simp: getEnvelopeFromBlock_def wrapped_def DecodeBlockDataEnvelope_def UnmarshalPayload_def Let_def split: sum.splits)
  obtain new trs c where "decode_envelopes P (length (good @ d # rest)) (metadata ! 2) 0 (good @ d # rest) ([], [], None) =
      decode_envelopes P (length (good @ d # rest)) (metadata ! 2) (length good) (d # rest) (new, trs, c)"
    using envelopes_decode [OF assms(2), of 0 "metadata ! 2" _ "d # rest" "[]" "[]" None] assms(5) by fastforce
  then obtain err where "decode_envelopes P (length (good @ d # rest)) (metadata ! 2) 0 (good @ d # rest) ([], [], None) = Ret (Inl err)"
    using e by metis
  with assms(1,3,4) show ?thesis by (simp add: GetEvents_def DecodeBlock_def index_run_def)
qed

text \<open>A transaction of any other type, an update of the configuration for example, ends the decoder with a panic.\<close>

theorem other_header_type_panics:
  assumes "u_Payload P (env_Payload env) = Inr pl" "pl_Header pl = Some h" "u_ChannelHeader P (hdr_ChannelHeader h) = Inr ch"
    "signer_ok P (hdr_SignatureHeader h)" "HeaderType_name P (ch_Type ch) \<notin> {HeaderType_name P 1, HeaderType_name P 3}"
  shows "DecodeBlockDataEnvelope P env = Panic ''interface conversion: interface {} is nil, not *utils.ConfigRecord''"
  using assms signer_ok_decodes [of P "hdr_SignatureHeader h"]
  by (auto simp: DecodeBlockDataEnvelope_def UnmarshalPayload_def wrapped_def decodePayload_def decodePayloadHeader_def Let_def)

text \<open>The comments call the nonce and the proposal hash hexadecimal, but it is their base64 text that is written in hexadecimal.\<close>

theorem nonce_is_encoded_twice:
  assumes "u_SignatureHeader P b = Inr sh" "decodeSignatureHeader P b = Inr r"
  shows "xa_Nonce (txAction_of \<lparr>act_Header = r, act_Payload = p\<rparr>) = hex_encode (b64 (sh_Nonce sh))"
  using assms by (auto simp: decodeSignatureHeader_def txAction_of_def split: sum.splits)

subsection \<open>An example\<close>

text \<open>Messages under symbolic names: an envelope \<^verbatim>\<open>e1\<close> with a transaction of one action, and a configuration \<^verbatim>\<open>c1\<close>.\<close>

definition only :: "string \<Rightarrow> 'a \<Rightarrow> bytes \<Rightarrow> 'a res" where
  "only k v b = (if b = k then Inr v else Inl ''unexpected EOF'')"

definition sample_proto :: "nat proto" where
  "sample_proto = \<lparr>
     u_Envelope = (\<lambda>b. if b = ''e1'' then Inr \<lparr>env_Payload = ''p1'', env_Signature = ''s''\<rparr>
                        else only ''c1'' \<lparr>env_Payload = ''p2'', env_Signature = ''s''\<rparr> b),
     u_Payload = (\<lambda>b. if b = ''p1'' then Inr \<lparr>pl_Header = Some \<lparr>hdr_ChannelHeader = ''h1'', hdr_SignatureHeader = ''s1''\<rparr>, pl_Data = ''t1''\<rparr>
                       else only ''p2'' \<lparr>pl_Header = Some \<lparr>hdr_ChannelHeader = ''h2'', hdr_SignatureHeader = ''s1''\<rparr>, pl_Data = ''g1''\<rparr> b),
     u_ChannelHeader = (\<lambda>b. Inr \<lparr>ch_Type = if b = ''h1'' then 3 else 1, ch_Version = 0,
       ch_Timestamp = Some \<lparr>ts_Seconds = 1650000000, ts_Nanos = 5\<rparr>, ch_ChannelId = ''ch'', ch_TxId = ''tx1'', ch_Epoch = 0\<rparr>),
     u_SignatureHeader = only ''s1'' \<lparr>sh_Creator = ''cr'', sh_Nonce = ''n''\<rparr>,
     u_SerializedIdentity = only ''cr'' \<lparr>si_Mspid = ''Org1MSP'', si_IdBytes = ''cert''\<rparr>,
     u_Transaction = only ''t1'' [\<lparr>ta_Header = ''s1'', ta_Payload = ''a1''\<rparr>],
     u_ChaincodeActionPayload = only ''a1'' \<lparr>cap_ChaincodeProposalPayload = ''cp'', cap_Action = Some ''rp''\<rparr>,
     u_ProposalResponsePayload = only ''rp'' \<lparr>prp_ProposalHash = ''hash'', prp_Extension = ''ca''\<rparr>,
     u_ChaincodeAction = only ''ca'' \<lparr>cca_Events = ''ev'', cca_ChaincodeId = Some \<lparr>cid_Path = [], cid_Name = ''erc20'', cid_Version = ''1''\<rparr>\<rparr>,
     u_ChaincodeEvent = only ''ev'' \<lparr>ce_ChaincodeId = ''erc20'', ce_TxId = ''tx1'', ce_EventName = ''Transfer'', ce_Payload = ''{}''\<rparr>,
     u_ChaincodeProposalPayload = only ''cp'' \<lparr>cpp_Input = ''is'', cpp_TransientMap = []\<rparr>,
     u_ChaincodeInvocationSpec = only ''is'' (Some \<lparr>pcs_Type = 1, pcs_ChaincodeId = Some \<lparr>cid_Path = [], cid_Name = ''erc20'', cid_Version = ''1''\<rparr>,
       pcs_Input = Some \<lparr>ci_Args = [''Transfer'', ''bob'', ''5''], ci_IsInit = False\<rparr>\<rparr>),
     u_ApproveArgs = only ''ap'' 0, u_CommitArgs = only ''co'' 0, u_ConfigEnvelope = only ''g1'' (Some 7),
     HeaderType_name = (\<lambda>t. if t = 1 then ''CONFIG'' else if t = 3 then ''ENDORSER_TRANSACTION'' else []),
     TxValidationCode_String = (\<lambda>n. if n = 0 then ''VALID'' else ''INVALID''),
     ChaincodeSpec_Type_String = (\<lambda>t. if t = 1 then ''GOLANG'' else ''UNDEFINED'')\<rparr>"

definition sample_block :: "bytes list \<Rightarrow> pb_Block" where
  "sample_block data = \<lparr>pb_BHeader = Some \<lparr>bh_Number = 9, bh_PreviousHash = ''p'', bh_DataHash = ''d''\<rparr>, pb_Data = Some data,
     pb_Metadata = Some [[], [], ''vv'']\<rparr>"

lemma sample_e1: "envelope_is sample_proto ''e1'' (TxItem 1650000000000000005 ''tx1'' [(''erc20'', ''Transfer'', ''{}'')])"
  by (simp add: envelope_is_def payload_is_def signer_ok_def action_is_def proposal_ok_def sample_proto_def only_def UnixNano_def)

lemma sample_c1: "envelope_is sample_proto ''c1'' ConfigItem"
  by (simp add: envelope_is_def payload_is_def signer_ok_def sample_proto_def only_def)

theorem block_events_reach_the_stream_witness:
  "\<exists>a'. processNewEvents (GetEvents sample_proto) no_cache quiet_rpc sample_sub [BlockEvent (sample_block [''c1'', ''e1''])]
        (sample_stream, (), ()) = Ret (a', (), ())
     \<and> map (\<lambda>e. (BlockNumber e, TransactionIndex e, EventName e, SubID e)) (pending_events a') = [(9, 1, ''Transfer'', ''sub1'')]"
proof -
  have b: "block_is sample_proto (sample_block [''c1'', ''e1'']) 9
      [ConfigItem, TxItem 1650000000000000005 ''tx1'' [(''erc20'', ''Transfer'', ''{}'')]]"
    by (simp add: block_is_def sample_block_def sample_e1 sample_c1)
  have s: "\<not> stopped sample_stream" "pending_events sample_stream = []" by (simp_all add: sample_simps es_defs)
  show ?thesis
    using block_events_reach_the_stream [OF b s(1), of no_cache quiet_rpc sample_sub "()" "()"] s(2)
    by (auto simp: processEventEntry_def sample_sub_def)
qed

theorem unreadable_envelope_hides_the_block_witness:
  "GetEvents sample_proto (sample_block [''e1'', ''??'']) = Ret []"
  by (rule unreadable_envelope_hides_the_block [where good = "[''e1'']" and d = "''??''" and rest = "[]"
        and items = "[TxItem 1650000000000000005 ''tx1'' [(''erc20'', ''Transfer'', ''{}'')]]" and metadata = "[[], [], ''vv'']"])
    (simp_all add: sample_block_def sample_e1, simp add: sample_proto_def only_def)

end
