(* ===== verification/Ws_Server.thy ===== *)
theory Ws_Server
  imports Go_Strconv
begin

text \<open>
  The WebSocket server, \<^verbatim>\<open>internal/ws/wsserver.go\<close> and \<^verbatim>\<open>internal/ws/wsconn.go\<close>.

  Every connection has two goroutines, \<^verbatim>\<open>listen\<close> and \<^verbatim>\<open>sender\<close>; the server has \<^verbatim>\<open>processBroadcasts\<close> and
  \<^verbatim>\<open>processReplies\<close>.  The state holds the maps of the server and where each goroutine is.  A section under a mutex, a read or write of the
  socket and a rendezvous on an unbuffered channel are one step of \<open>ws_step\<close> each.  The peer of the socket
  and the event streams, which offer messages and take responses, are the environment.  \<open>written\<close> and \<open>asked\<close> record the history; no step
  reads them.  Messages are of the type \<open>'m\<close>; \<^verbatim>\<open>UUIDv4\<close> gives a new identifier for every connection.
\<close>

subsection \<open>State\<close>

record webSocketCommandMessage =
  cm_Type :: string
  cm_Topic :: string
  cm_Message :: string

text \<open>
  \<open>AwaitTopic\<close> is the send on \<^verbatim>\<open>s.newTopic\<close> in \<^verbatim>\<open>getTopic\<close>, \<open>Announce\<close> the \<^verbatim>\<open>select\<close> of \<^verbatim>\<open>listenTopic\<close>, \<open>Respond\<close> the one of
  \<^verbatim>\<open>handleAckOrError\<close>; \<open>LClose ts ends\<close> is \<^verbatim>\<open>close\<close> with the topics still to cycle, at the end of the goroutine or not.
\<close>

datatype listener = Reading | AwaitTopic webSocketCommandMessage | Handling webSocketCommandMessage | Announce
  | Respond string "error option" | LClose "string list" bool | LEnded

text \<open>\<open>Selecting\<close> carries the topics of the \<^verbatim>\<open>select\<close> cases, \<open>SBuild\<close> is \<^verbatim>\<open>buildCases\<close>.\<close>

datatype sender = SBuild | Selecting "string list" | SClose "string list" | SEnded

record webSocketConnection =
  c_closed :: bool
  c_topics :: "string list"
  c_listener :: listener
  c_sender :: sender

datatype 'm broadcaster = BBuild | BSelect "string list" | BSend "string list" string 'm "string list"
datatype 'm replier = RIdle | RSend 'm "string list"
datatype origin = FromTopic string | FromBroadcast string | FromReplies

text \<open>
  A topic is its name; \<open>ws_closings\<close> counts how often its closing channel was closed and replaced.  \<open>shutting\<close> is
  the goroutine that runs \<^verbatim>\<open>Close\<close> of the server.
\<close>

record 'm webSocketServer =
  ws_topics :: "string list"
  ws_closings :: "string \<Rightarrow> nat"
  topicMap :: "string \<rightharpoonup> string list"
  replyMap :: "string list"
  ws_connections :: "string list"
  conn :: "string \<rightharpoonup> webSocketConnection"
  broadcaster :: "'m broadcaster"
  replier :: "'m replier"
  shutting :: "(string \<times> string list) option"
  responses :: "(string \<times> error option) list"
  written :: "(string \<times> origin \<times> 'm) list"
  asked :: "string list"

definition NewWebSocketServer :: "'m webSocketServer" where
  "NewWebSocketServer = \<lparr>ws_topics = [], ws_closings = (\<lambda>_. 0), topicMap = Map.empty, replyMap = [], ws_connections = [],
     conn = Map.empty, broadcaster = BBuild, replier = RIdle, shutting = None, responses = [], written = [], asked = []\<rparr>"

subsection \<open>Operations\<close>

definition upd_conn :: "string \<Rightarrow> (webSocketConnection \<Rightarrow> webSocketConnection) \<Rightarrow> 'm webSocketServer \<Rightarrow> 'm webSocketServer" where
  "upd_conn i f s = s\<lparr>conn := (conn s)(i := map_option f (conn s i))\<rparr>"

definition newConnection :: webSocketConnection where
  "newConnection = \<lparr>c_closed = False, c_topics = [], c_listener = Reading, c_sender = SBuild\<rparr>"

definition NewConnection :: "string \<Rightarrow> 'm webSocketServer \<Rightarrow> 'm webSocketServer" where
  "NewConnection i s = s\<lparr>conn := (conn s)(i \<mapsto> newConnection), ws_connections := List.insert i (ws_connections s)\<rparr>"

definition topics_of :: "'m webSocketServer \<Rightarrow> string \<Rightarrow> string list" where
  "topics_of s i = (case conn s i of None \<Rightarrow> [] | Some c \<Rightarrow> c_topics c)"

definition cycleTopic :: "string \<Rightarrow> 'm webSocketServer \<Rightarrow> 'm webSocketServer" where
  "cycleTopic t s = s\<lparr>ws_closings := (ws_closings s)(t := ws_closings s t + 1)\<rparr>"

definition connectionClosed :: "string \<Rightarrow> 'm webSocketServer \<Rightarrow> 'm webSocketServer" where
  "connectionClosed i s = s\<lparr>ws_connections := removeAll i (ws_connections s), replyMap := removeAll i (replyMap s),
     topicMap := (\<lambda>t. if t \<in> set (topics_of s i) then map_option (removeAll i) (topicMap s t) else topicMap s t)\<rparr>"

text \<open>\<^verbatim>\<open>getTopic\<close> up to the signal to the broadcaster, which is due when the first component is true.\<close>

definition getTopic :: "string \<Rightarrow> 'm webSocketServer \<Rightarrow> bool \<times> 'm webSocketServer" where
  "getTopic t s = (if t \<in> set (ws_topics s) then (False, s)
     else (True, s\<lparr>ws_topics := ws_topics s @ [t], topicMap := (topicMap s)(t \<mapsto> [])\<rparr>))"

definition ListenOnTopic :: "string \<Rightarrow> string \<Rightarrow> 'm webSocketServer \<Rightarrow> 'm webSocketServer run" where
  "ListenOnTopic i t s = (case topicMap s t of
     None \<Rightarrow> Panic ''assignment to entry in nil map''
   | Some ids \<Rightarrow> Ret (s\<lparr>topicMap := (topicMap s)(t \<mapsto> List.insert i ids)\<rparr>))"

definition ListenForReplies :: "string \<Rightarrow> 'm webSocketServer \<Rightarrow> 'm webSocketServer" where
  "ListenForReplies i s = s\<lparr>replyMap := List.insert i (replyMap s), asked := List.insert i (asked s)\<rparr>"

text \<open>The section of \<^verbatim>\<open>close\<close> under the mutex of the connection.\<close>

definition mark_closed :: "string \<Rightarrow> 'm webSocketServer \<Rightarrow> 'm webSocketServer" where
  "mark_closed i = upd_conn i (\<lambda>c. c\<lparr>c_closed := True\<rparr>)"

definition set_listener :: "string \<Rightarrow> listener \<Rightarrow> 'm webSocketServer \<Rightarrow> 'm webSocketServer" where
  "set_listener i l = upd_conn i (\<lambda>c. c\<lparr>c_listener := l\<rparr>)"

definition set_sender :: "string \<Rightarrow> sender \<Rightarrow> 'm webSocketServer \<Rightarrow> 'm webSocketServer" where
  "set_sender i x = upd_conn i (\<lambda>c. c\<lparr>c_sender := x\<rparr>)"

definition listenTopic :: "string \<Rightarrow> string \<Rightarrow> 'm webSocketServer \<Rightarrow> 'm webSocketServer run" where
  "listenTopic i t s =
     bind_run (ListenOnTopic i t (upd_conn i (\<lambda>c. c\<lparr>c_topics := List.insert t (c_topics c)\<rparr>) s)) (\<lambda>s'. Ret (set_listener i Announce s'))"

definition EventStreamsWebSocketErrorFromClient :: "string \<Rightarrow> error" where
  "EventStreamsWebSocketErrorFromClient m = ''Error received from WebSocket client: '' @ m"

text \<open>The \<^verbatim>\<open>switch\<close> of \<^verbatim>\<open>listen\<close>.\<close>

definition handle_command :: "string \<Rightarrow> webSocketCommandMessage \<Rightarrow> 'm webSocketServer \<Rightarrow> 'm webSocketServer run" where
  "handle_command i m s =
     (let ty = ToLower (cm_Type m) in
      if ty = ''listen'' then listenTopic i (cm_Topic m) s
      else if ty = ''listenreplies'' then Ret (set_listener i Reading (ListenForReplies i s))
      else if ty = ''ack'' then Ret (set_listener i (Respond (cm_Topic m) None) s)
      else if ty = ''error'' then Ret (set_listener i (Respond (cm_Topic m) (Some (EventStreamsWebSocketErrorFromClient (cm_Message m)))) s)
      else Ret (set_listener i Reading s))"

text \<open>\<^verbatim>\<open>WriteJSON\<close> of a message a sender has taken; when it fails the message is dropped.\<close>

definition WriteJSON :: "string \<Rightarrow> origin \<Rightarrow> 'm \<Rightarrow> bool \<Rightarrow> 'm webSocketServer \<Rightarrow> 'm webSocketServer" where
  "WriteJSON i from m sent s = (if sent then s\<lparr>written := written s @ [(i, from, m)]\<rparr> else s)"

text \<open>The range over a Go map has any order.\<close>

definition getConnListFromMap :: "string list \<Rightarrow> string list \<Rightarrow> bool" where
  "getConnListFromMap tm ids \<longleftrightarrow> distinct ids \<and> set ids = set tm"

definition accepts :: "'m webSocketServer \<Rightarrow> string \<Rightarrow> bool" where
  "accepts s i \<longleftrightarrow> (\<exists>c ts. conn s i = Some c \<and> c_sender c = Selecting ts)"

definition open_conn :: "'m webSocketServer \<Rightarrow> string \<Rightarrow> bool" where
  "open_conn s i \<longleftrightarrow> (\<exists>c. conn s i = Some c \<and> \<not> c_closed c)"

subsection \<open>Steps\<close>

inductive ws_step :: "'m webSocketServer \<Rightarrow> 'm webSocketServer \<Rightarrow> bool" where
  connect: "conn s i = None \<Longrightarrow> ws_step s (NewConnection i s)"
| read: "\<lbrakk>conn s i = Some c; c_listener c = Reading; getTopic (cm_Topic m) s = (new, s')\<rbrakk> \<Longrightarrow>
    ws_step s (set_listener i (if new then AwaitTopic m else Handling m) s')"
| read_error: "\<lbrakk>conn s i = Some c; c_listener c = Reading\<rbrakk> \<Longrightarrow>
    ws_step s (set_listener i (LClose (c_topics c) True) (mark_closed i s))"
| signal: "\<lbrakk>conn s i = Some c; c_listener c = AwaitTopic m; broadcaster s = BSelect ts\<rbrakk> \<Longrightarrow>
    ws_step s (set_listener i (Handling m) (s\<lparr>broadcaster := BBuild\<rparr>))"
| handle: "\<lbrakk>conn s i = Some c; c_listener c = Handling m; handle_command i m s = Ret s'\<rbrakk> \<Longrightarrow> ws_step s s'"
| announce: "\<lbrakk>conn s i = Some c; c_listener c = Announce; c_sender c = Selecting ts\<rbrakk> \<Longrightarrow>
    ws_step s (set_sender i SBuild (set_listener i Reading s))"
| give_up: "\<lbrakk>conn s i = Some c; c_listener c = Announce; c_closed c\<rbrakk> \<Longrightarrow> ws_step s (set_listener i Reading s)"
| pass_on: "\<lbrakk>conn s i = Some c; c_listener c = Respond t err\<rbrakk> \<Longrightarrow>
    ws_step s (set_listener i Reading (s\<lparr>responses := responses s @ [(t, err)]\<rparr>))"
| timeout: "\<lbrakk>conn s i = Some c; c_listener c = Respond t err\<rbrakk> \<Longrightarrow>
    ws_step s (set_listener i (LClose (c_topics c) False) (mark_closed i s))"
| l_cycle: "\<lbrakk>conn s i = Some c; c_listener c = LClose (t # ts) e\<rbrakk> \<Longrightarrow> ws_step s (set_listener i (LClose ts e) (cycleTopic t s))"
| l_closed: "\<lbrakk>conn s i = Some c; c_listener c = LClose [] e\<rbrakk> \<Longrightarrow>
    ws_step s (set_listener i (if e then LEnded else Reading) (connectionClosed i s))"
| s_build: "\<lbrakk>conn s i = Some c; c_sender c = SBuild\<rbrakk> \<Longrightarrow> ws_step s (set_sender i (Selecting (c_topics c)) s)"
| s_stop: "\<lbrakk>conn s i = Some c; c_sender c = Selecting ts; c_closed c\<rbrakk> \<Longrightarrow> ws_step s (set_sender i (SClose (c_topics c)) s)"
| s_cycle: "\<lbrakk>conn s i = Some c; c_sender c = SClose (t # ts)\<rbrakk> \<Longrightarrow> ws_step s (set_sender i (SClose ts) (cycleTopic t s))"
| s_closed: "\<lbrakk>conn s i = Some c; c_sender c = SClose []\<rbrakk> \<Longrightarrow> ws_step s (set_sender i SEnded (connectionClosed i s))"
| shutdown: "\<lbrakk>conn s i = Some c; i \<in> set (ws_connections s); shutting s = None\<rbrakk> \<Longrightarrow>
    ws_step s ((mark_closed i s)\<lparr>shutting := Some (i, c_topics c)\<rparr>)"
| shut_cycle: "shutting s = Some (i, t # ts) \<Longrightarrow> ws_step s ((cycleTopic t s)\<lparr>shutting := Some (i, ts)\<rparr>)"
| shut_closed: "shutting s = Some (i, []) \<Longrightarrow> ws_step s ((connectionClosed i s)\<lparr>shutting := None\<rparr>)"
| deliver: "\<lbrakk>conn s i = Some c; c_sender c = Selecting ts; t \<in> set ts; sent \<longrightarrow> open_conn s i\<rbrakk> \<Longrightarrow>
    ws_step s (WriteJSON i (FromTopic t) m sent s)"
| b_build: "broadcaster s = BBuild \<Longrightarrow> ws_step s (s\<lparr>broadcaster := BSelect (ws_topics s)\<rparr>)"
| broadcast: "\<lbrakk>broadcaster s = BSelect ts; t \<in> set ts; topicMap s t = Some tm; getConnListFromMap tm ids\<rbrakk> \<Longrightarrow>
    ws_step s (s\<lparr>broadcaster := BSend ts t m ids\<rparr>)"
| b_send: "\<lbrakk>broadcaster s = BSend ts t m (i # ids); accepts s i; sent \<longrightarrow> open_conn s i\<rbrakk> \<Longrightarrow>
    ws_step s (WriteJSON i (FromBroadcast t) m sent (s\<lparr>broadcaster := BSend ts t m ids\<rparr>))"
| b_done: "broadcaster s = BSend ts t m [] \<Longrightarrow> ws_step s (s\<lparr>broadcaster := BSelect ts\<rparr>)"
| reply: "\<lbrakk>replier s = RIdle; getConnListFromMap (replyMap s) ids\<rbrakk> \<Longrightarrow> ws_step s (s\<lparr>replier := RSend m ids\<rparr>)"
| r_send: "\<lbrakk>replier s = RSend m (i # ids); accepts s i; sent \<longrightarrow> open_conn s i\<rbrakk> \<Longrightarrow>
    ws_step s (WriteJSON i FromReplies m sent (s\<lparr>replier := RSend m ids\<rparr>))"
| r_done: "replier s = RSend m [] \<Longrightarrow> ws_step s (s\<lparr>replier := RIdle\<rparr>)"

subsection \<open>Lemmas on the operations\<close>

lemmas ws_defs = upd_conn_def newConnection_def NewConnection_def cycleTopic_def connectionClosed_def getTopic_def
  ListenForReplies_def mark_closed_def set_listener_def set_sender_def WriteJSON_def topics_of_def

lemma handle_command_Ret:
  "handle_command i m s = Ret s' \<longleftrightarrow>
    (ToLower (cm_Type m) = ''listen'' \<and> (\<exists>ids. topicMap s (cm_Topic m) = Some ids
       \<and> s' = set_listener i Announce ((upd_conn i (\<lambda>c. c\<lparr>c_topics := List.insert (cm_Topic m) (c_topics c)\<rparr>) s)
                 \<lparr>topicMap := (topicMap s)(cm_Topic m \<mapsto> List.insert i ids)\<rparr>)))
    \<or> (ToLower (cm_Type m) = ''listenreplies'' \<and> s' = set_listener i Reading (ListenForReplies i s))
    \<or> (ToLower (cm_Type m) = ''ack'' \<and> s' = set_listener i (Respond (cm_Topic m) None) s)
    \<or> (ToLower (cm_Type m) = ''error''
       \<and> s' = set_listener i (Respond (cm_Topic m) (Some (EventStreamsWebSocketErrorFromClient (cm_Message m)))) s)
    \<or> (ToLower (cm_Type m) \<notin> {''listen'', ''listenreplies'', ''ack'', ''error''} \<and> s' = set_listener i Reading s)"
  by (auto simp: handle_command_def listenTopic_def ListenOnTopic_def Let_def upd_conn_def split: option.splits)

text \<open>The topics of a connection only grow, and it stays known.\<close>

definition listens :: "'m webSocketServer \<Rightarrow> string \<Rightarrow> string \<Rightarrow> bool" where
  "listens s i t \<longleftrightarrow> t \<in> set (topics_of s i)"

lemma listens_mono: "ws_step s s' \<Longrightarrow> listens s i t \<Longrightarrow> listens s' i t"
  by (induction rule: ws_step.induct)
    (auto simp: listens_def ws_defs handle_command_Ret split: option.splits if_splits)

lemma asked_mono: "ws_step s s' \<Longrightarrow> set (asked s) \<subseteq> set (asked s')"
  by (induction rule: ws_step.induct) (auto simp: ws_defs handle_command_Ret split: if_splits)

subsection \<open>The invariant\<close>

definition inv_topics :: "'m webSocketServer \<Rightarrow> bool" where
  "inv_topics s \<longleftrightarrow> (\<forall>t. t \<in> set (ws_topics s) \<longleftrightarrow> topicMap s t \<noteq> None)
     \<and> (\<forall>i c m. conn s i = Some c \<longrightarrow> c_listener c = AwaitTopic m \<or> c_listener c = Handling m \<longrightarrow> cm_Topic m \<in> set (ws_topics s))"

definition inv_listening :: "'m webSocketServer \<Rightarrow> bool" where
  "inv_listening s \<longleftrightarrow> (\<forall>t ids i. topicMap s t = Some ids \<longrightarrow> i \<in> set ids \<longrightarrow> listens s i t)
     \<and> (\<forall>i c ts. conn s i = Some c \<longrightarrow> c_sender c = Selecting ts \<longrightarrow> set ts \<subseteq> set (c_topics c))
     \<and> set (replyMap s) \<subseteq> set (asked s)"

definition rightly_sent :: "'m webSocketServer \<Rightarrow> string \<times> origin \<times> 'm \<Rightarrow> bool" where
  "rightly_sent s w = (case w of (i, FromTopic t, _) \<Rightarrow> listens s i t | (i, FromBroadcast t, _) \<Rightarrow> listens s i t
     | (i, FromReplies, _) \<Rightarrow> i \<in> set (asked s))"

definition inv_sent :: "'m webSocketServer \<Rightarrow> bool" where
  "inv_sent s \<longleftrightarrow> (\<forall>w\<in>set (written s). rightly_sent s w)
     \<and> (case broadcaster s of BSend _ t _ ids \<Rightarrow> (\<forall>i\<in>set ids. listens s i t) | _ \<Rightarrow> True)
     \<and> (case replier s of RSend _ ids \<Rightarrow> set ids \<subseteq> set (asked s) | RIdle \<Rightarrow> True)"

lemma inv_topics_step: "ws_step s s' \<Longrightarrow> inv_topics s \<Longrightarrow> inv_topics s'"
  by (induction rule: ws_step.induct)
    (auto simp: inv_topics_def ws_defs handle_command_Ret split: if_splits)


lemma topicMap_grows:
  "ws_step s s' \<Longrightarrow> topicMap s' t = Some ids' \<Longrightarrow> i \<in> set ids' \<Longrightarrow>
     (\<exists>ids. topicMap s t = Some ids \<and> i \<in> set ids) \<or> listens s' i t"
  by (induction rule: ws_step.induct)
    (auto simp: listens_def ws_defs handle_command_Ret split: if_splits option.splits)

lemma cases_grow:
  "ws_step s s' \<Longrightarrow> conn s' i = Some c' \<Longrightarrow> c_sender c' = Selecting ts \<Longrightarrow>
     (\<exists>c. conn s i = Some c \<and> c_sender c = Selecting ts \<and> set (c_topics c) \<subseteq> set (c_topics c')) \<or> ts = c_topics c'"
  by (induction rule: ws_step.induct)
    (auto simp: ws_defs handle_command_Ret split: if_splits option.splits)

lemma replyMap_grows: "ws_step s s' \<Longrightarrow> i \<in> set (replyMap s') \<Longrightarrow> i \<in> set (replyMap s) \<or> i \<in> set (asked s')"
  by (induction rule: ws_step.induct) (auto simp: ws_defs handle_command_Ret split: if_splits)

lemma inv_listening_step:
  assumes "ws_step s s'" "inv_listening s"
  shows "inv_listening s'"
  unfolding inv_listening_def
proof (intro conjI allI impI subsetI)
  show "listens s' i t" if "topicMap s' t = Some ids" "i \<in> set ids" for t ids i
    using topicMap_grows [OF assms(1) that] listens_mono [OF assms(1)] assms(2) by (auto simp: inv_listening_def)
  show "x \<in> set (c_topics c)" if "conn s' i = Some c" "c_sender c = Selecting ts" "x \<in> set ts" for i c ts x
    using cases_grow [OF assms(1) that(1,2)] that(3) assms(2) by (fastforce simp: inv_listening_def)
  show "i \<in> set (asked s')" if "i \<in> set (replyMap s')" for i
    using replyMap_grows [OF assms(1) that] asked_mono [OF assms(1)] assms(2) by (auto simp: inv_listening_def)
qed

text \<open>A connection in the maps of the server has a goroutine that will remove it.\<close>

definition gone :: "'m webSocketServer \<Rightarrow> string \<Rightarrow> bool" where
  "gone s i \<longleftrightarrow> (case conn s i of None \<Rightarrow> True | Some c \<Rightarrow> c_listener c = LEnded)"

definition known :: "'m webSocketServer \<Rightarrow> string \<Rightarrow> bool" where
  "known s i \<longleftrightarrow> i \<in> set (ws_connections s) \<or> i \<in> set (replyMap s) \<or> (\<exists>t ids. topicMap s t = Some ids \<and> i \<in> set ids)"

lemma known_grows: "ws_step s s' \<Longrightarrow> known s' i \<Longrightarrow> known s i \<or> \<not> gone s' i"
proof (induction rule: ws_step.induct)
  case (handle s j c m s')
  then show ?case by (auto simp: handle_command_Ret known_def gone_def ws_defs split: if_splits)
qed (auto simp: known_def gone_def ws_defs split: if_splits)

lemma removed_when_gone: "ws_step s s' \<Longrightarrow> inv_listening s \<Longrightarrow> gone s' i \<Longrightarrow> gone s i \<or> \<not> known s' i"
proof (induction rule: ws_step.induct)
  case (handle s j c m s')
  then show ?case by (auto simp: handle_command_Ret known_def gone_def ws_defs split: if_splits option.splits)
next
  case (l_closed s j c e)
  then show ?case
    by (cases "i = j") (fastforce simp: known_def gone_def inv_listening_def listens_def ws_defs split: if_splits option.splits)+
qed (auto simp: gone_def ws_defs split: if_splits option.splits)

lemma rightly_sent_mono: "ws_step s s' \<Longrightarrow> rightly_sent s w \<Longrightarrow> rightly_sent s' w"
  using listens_mono [of s s'] asked_mono [of s s'] by (auto simp: rightly_sent_def split: prod.splits origin.splits)

lemma inv_sent_written:
  "ws_step s s' \<Longrightarrow> inv_listening s \<Longrightarrow> inv_sent s \<Longrightarrow> w \<in> set (written s') \<Longrightarrow> w \<in> set (written s) \<or> rightly_sent s w"
proof (induction rule: ws_step.induct)
  case (deliver s i c ts t sent m)
  then have "t \<in> set (c_topics c)" unfolding inv_listening_def by blast
  with deliver show ?case by (auto simp: WriteJSON_def rightly_sent_def listens_def topics_of_def split: if_splits)
next
  case (handle s i c m s')
  then show ?case by (auto simp: handle_command_Ret ws_defs)
next
  case (b_send s ts t m i ids sent)
  then show ?case by (auto simp: WriteJSON_def rightly_sent_def inv_sent_def split: if_splits)
next
  case (r_send s m i ids sent)
  then show ?case by (auto simp: WriteJSON_def rightly_sent_def inv_sent_def split: if_splits)
qed (auto simp: ws_defs split: if_splits)

lemma inv_sent_broadcaster:
  "ws_step s s' \<Longrightarrow> inv_listening s \<Longrightarrow> inv_sent s \<Longrightarrow> broadcaster s' = BSend ts t m ids \<Longrightarrow> i \<in> set ids \<Longrightarrow> listens s i t"
proof (induction rule: ws_step.induct)
  case (handle s i c m s')
  then show ?case by (auto simp: handle_command_Ret ws_defs inv_sent_def)
qed (auto simp: ws_defs inv_sent_def inv_listening_def getConnListFromMap_def split: if_splits)

lemma inv_sent_replier:
  "ws_step s s' \<Longrightarrow> inv_listening s \<Longrightarrow> inv_sent s \<Longrightarrow> replier s' = RSend m ids \<Longrightarrow> set ids \<subseteq> set (asked s)"
proof (induction rule: ws_step.induct)
  case (handle s i c m s')
  then show ?case by (auto simp: handle_command_Ret ws_defs inv_sent_def)
qed (auto simp: ws_defs inv_sent_def inv_listening_def getConnListFromMap_def split: if_splits)

lemma inv_sent_step:
  assumes "ws_step s s'" "inv_listening s" "inv_sent s"
  shows "inv_sent s'"
  using inv_sent_written [OF assms] inv_sent_broadcaster [OF assms] inv_sent_replier [OF assms]
    rightly_sent_mono [OF assms(1)] listens_mono [OF assms(1)] asked_mono [OF assms(1)] assms(3)
  unfolding inv_sent_def by (auto split: broadcaster.splits replier.splits) (meson subsetD)+

definition ws_inv :: "'m webSocketServer \<Rightarrow> bool" where
  "ws_inv s \<longleftrightarrow> inv_topics s \<and> inv_listening s \<and> inv_sent s \<and> (\<forall>i. gone s i \<longrightarrow> \<not> known s i)"

lemma ws_inv_step: "ws_step s s' \<Longrightarrow> ws_inv s \<Longrightarrow> ws_inv s'"
  unfolding ws_inv_def using inv_topics_step inv_listening_step inv_sent_step known_grows removed_when_gone by metis

lemma ws_inv_init: "ws_inv NewWebSocketServer"
  by (simp add: ws_inv_def inv_topics_def inv_listening_def inv_sent_def known_def NewWebSocketServer_def)

lemma ws_inv_reachable: "ws_step\<^sup>*\<^sup>* NewWebSocketServer s \<Longrightarrow> ws_inv s"
  by (induction rule: rtranclp_induct) (auto intro: ws_inv_init ws_inv_step)

subsection \<open>Properties\<close>


lemma broadcast_sends:
  assumes "broadcaster s = BSend ts t m ids" "\<forall>i\<in>set ids. accepts s i \<and> open_conn s i"
  shows "ws_step\<^sup>*\<^sup>* s (s\<lparr>broadcaster := BSelect ts, written := written s @ map (\<lambda>i. (i, FromBroadcast t, m)) ids\<rparr>)"
  using assms
proof (induction ids arbitrary: s)
  case Nil
  then have "ws_step s (s\<lparr>broadcaster := BSelect ts\<rparr>)" by (intro ws_step.b_done)
  then show ?case by auto
next
  case (Cons i ids)
  let ?s = "WriteJSON i (FromBroadcast t) m True (s\<lparr>broadcaster := BSend ts t m ids\<rparr>)"
  have "ws_step s ?s" using Cons.prems by (intro ws_step.b_send) auto
  moreover have "ws_step\<^sup>*\<^sup>* ?s (?s\<lparr>broadcaster := BSelect ts, written := written ?s @ map (\<lambda>i. (i, FromBroadcast t, m)) ids\<rparr>)"
    using Cons.prems by (intro Cons.IH) (auto simp: WriteJSON_def accepts_def open_conn_def)
  ultimately show ?case by (simp add: WriteJSON_def converse_rtranclp_into_rtranclp)
qed

lemma broadcast_all:
  assumes "broadcaster s = BSelect ts" "t \<in> set ts" "topicMap s t = Some tm" "getConnListFromMap tm ids"
    and "\<forall>i\<in>set tm. accepts s i \<and> open_conn s i"
  shows "ws_step\<^sup>*\<^sup>* s (s\<lparr>broadcaster := BSelect ts, written := written s @ map (\<lambda>i. (i, FromBroadcast t, m)) ids\<rparr>)"
proof -
  have "ws_step s (s\<lparr>broadcaster := BSend ts t m ids\<rparr>)" using assms by (intro ws_step.broadcast)
  moreover have "ws_step\<^sup>*\<^sup>* (s\<lparr>broadcaster := BSend ts t m ids\<rparr>)
      ((s\<lparr>broadcaster := BSend ts t m ids\<rparr>)\<lparr>broadcaster := BSelect ts, written := written s @ map (\<lambda>i. (i, FromBroadcast t, m)) ids\<rparr>)"
    using broadcast_sends [of "s\<lparr>broadcaster := BSend ts t m ids\<rparr>"] assms(4,5)
    by (auto simp: getConnListFromMap_def accepts_def open_conn_def)
  ultimately show ?thesis by (simp add: converse_rtranclp_into_rtranclp)
qed

text \<open>C28: A message that a stream broadcasts on a topic can be written to every connection that listens on the topic, once each, in whatever
  order the map is traversed, as long as the goroutines of these connections are running; then the broadcaster is ready for the
  next message.\<close>

theorem broadcast_reaches_every_listener:
  assumes "broadcaster s = BSelect ts" "t \<in> set ts" "topicMap s t = Some tm" "getConnListFromMap tm ids"
    and "\<forall>i\<in>set tm. accepts s i \<and> open_conn s i"
  shows "ws_step\<^sup>*\<^sup>* s (s\<lparr>broadcaster := BSelect ts, written := written s @ map (\<lambda>i. (i, FromBroadcast t, m)) ids\<rparr>)"
  using assms by (rule broadcast_all)

text \<open>The broadcaster sends to a connection whose sender has returned.\<close>

definition blocked_on :: "'m webSocketServer \<Rightarrow> string \<Rightarrow> bool" where
  "blocked_on s i \<longleftrightarrow> (\<exists>ts t m ids c. broadcaster s = BSend ts t m (i # ids) \<and> conn s i = Some c \<and> c_sender c = SEnded)"

definition broadcasts :: "'m webSocketServer \<Rightarrow> (string \<times> origin \<times> 'm) list" where
  "broadcasts s = filter (\<lambda>(_, from, _). case from of FromBroadcast _ \<Rightarrow> True | _ \<Rightarrow> False) (written s)"

definition awaits :: "'m webSocketServer \<Rightarrow> string \<Rightarrow> bool" where
  "awaits s j \<longleftrightarrow> (\<exists>c m. conn s j = Some c \<and> c_listener c = AwaitTopic m)"

lemma sender_ended_stable: "ws_step s s' \<Longrightarrow> conn s i = Some c \<Longrightarrow> c_sender c = SEnded \<Longrightarrow> \<exists>c'. conn s' i = Some c' \<and> c_sender c' = SEnded"
  by (induction rule: ws_step.induct) (auto simp: ws_defs handle_command_Ret split: if_splits)

lemma blocked_step:
  assumes "ws_step s s'" "blocked_on s i"
  shows "broadcaster s' = broadcaster s \<and> broadcasts s' = broadcasts s \<and> (\<forall>j. awaits s j \<longrightarrow> awaits s' j)"
  using assms
proof (induction rule: ws_step.induct)
  case (handle s j c m s')
  then show ?case by (auto simp: handle_command_Ret blocked_on_def broadcasts_def awaits_def ws_defs)
qed (auto simp: blocked_on_def broadcasts_def awaits_def accepts_def ws_defs split: if_splits)

lemma blocked_stable: "ws_step s s' \<Longrightarrow> blocked_on s i \<Longrightarrow> blocked_on s' i"
  using blocked_step [of s s' i] sender_ended_stable [of s s' i] unfolding blocked_on_def by metis

text \<open>When a connection closes after the broadcaster has listed the listeners of a topic and before it has sent to this one,
  the broadcaster waits for ever: from then on nothing is broadcast on any topic, and a client that names
  a new topic is never served again.\<close>

theorem closed_connection_blocks_broadcasts:
  assumes "ws_step\<^sup>*\<^sup>* s s'" "blocked_on s i"
  shows "broadcaster s' = broadcaster s \<and> broadcasts s' = broadcasts s \<and> (\<forall>j. awaits s j \<longrightarrow> awaits s' j)"
proof -
  have "blocked_on s' i \<and> broadcaster s' = broadcaster s \<and> broadcasts s' = broadcasts s \<and> (\<forall>j. awaits s j \<longrightarrow> awaits s' j)"
    using assms by (induction rule: rtranclp_induct) (auto dest: blocked_step blocked_stable)
  then show ?thesis by blast
qed

subsection \<open>A run\<close>

definition listen_cmd :: webSocketCommandMessage where
  "listen_cmd = \<lparr>cm_Type = ''listen'', cm_Topic = ''t'', cm_Message = []\<rparr>"

text \<open>A client connects and names a topic, \<dots>\<close>

definition run_read :: "nat webSocketServer" where
  "run_read = set_listener ''a'' (AwaitTopic listen_cmd) (snd (getTopic ''t''
     (set_sender ''a'' (Selecting []) (NewConnection ''a'' (NewWebSocketServer\<lparr>broadcaster := BSelect []\<rparr>)))))"

text \<open>\<dots> listens on it, \<dots>\<close>

definition run_handled :: "nat webSocketServer" where
  "run_handled = (let s = set_listener ''a'' (Handling listen_cmd) (run_read\<lparr>broadcaster := BBuild\<rparr>) in
     set_listener ''a'' Announce ((upd_conn ''a'' (\<lambda>c. c\<lparr>c_topics := List.insert ''t'' (c_topics c)\<rparr>) s)
       \<lparr>topicMap := (topicMap s)(''t'' \<mapsto> List.insert ''a'' [])\<rparr>))"

definition run_listening :: "nat webSocketServer" where
  "run_listening = set_sender ''a'' (Selecting [''t''])
     (set_sender ''a'' SBuild (set_listener ''a'' Reading (run_handled\<lparr>broadcaster := BSelect [''t'']\<rparr>)))"

text \<open>\<dots> and closes the connection after a broadcast has begun.\<close>

definition run_blocked :: "nat webSocketServer" where
  "run_blocked = set_sender ''a'' SEnded (connectionClosed ''a'' (set_sender ''a'' (SClose []) (cycleTopic ''t''
     (set_sender ''a'' (SClose [''t'']) (set_listener ''a'' (LClose [''t''] True) (mark_closed ''a''
       (run_listening\<lparr>broadcaster := BSend [''t''] ''t'' 7 [''a'']\<rparr>)))))))"

lemmas run_simps = ws_defs run_read_def run_handled_def run_listening_def run_blocked_def listen_cmd_def NewWebSocketServer_def

lemma run_read_reachable: "ws_step\<^sup>*\<^sup>* NewWebSocketServer run_read"
proof -
  let ?s1 = "NewWebSocketServer\<lparr>broadcaster := BSelect []\<rparr> :: nat webSocketServer"
  let ?s2 = "NewConnection ''a'' ?s1" let ?s3 = "set_sender ''a'' (Selecting []) ?s2"
  have "ws_step NewWebSocketServer ?s1" using ws_step.b_build [of NewWebSocketServer] by (simp add: NewWebSocketServer_def)
  moreover have "ws_step ?s1 ?s2" by (rule ws_step.connect) (simp add: NewWebSocketServer_def)
  moreover have "ws_step ?s2 ?s3" using ws_step.s_build [of ?s2 "''a''"] by (simp add: run_simps)
  moreover have "ws_step ?s3 (set_listener ''a'' (if True then AwaitTopic listen_cmd else Handling listen_cmd) (snd (getTopic ''t'' ?s3)))"
    by (rule ws_step.read [where c = "the (conn ?s3 ''a'')"]) (simp_all add: run_simps)
  then have "ws_step ?s3 run_read" by (simp add: run_read_def)
  ultimately show ?thesis by (meson converse_rtranclp_into_rtranclp rtranclp.rtrancl_refl)
qed

lemma run_handled_reachable: "ws_step\<^sup>*\<^sup>* NewWebSocketServer run_handled"
proof -
  let ?s = "set_listener ''a'' (Handling listen_cmd) (run_read\<lparr>broadcaster := BBuild\<rparr>)"
  have "ws_step run_read ?s" by (rule ws_step.signal [where c = "the (conn run_read ''a'')"]) (simp_all add: run_simps)
  moreover have "handle_command ''a'' listen_cmd ?s = Ret run_handled"
    by (simp add: run_handled_def handle_command_Ret Let_def) (simp add: run_simps ToLower_def lower_char_def)
  then have "ws_step ?s run_handled" by (rule ws_step.handle [where c = "the (conn ?s ''a'')", rotated 2]) (simp_all add: run_simps)
  ultimately show ?thesis using run_read_reachable by (meson rtranclp.rtrancl_into_rtrancl)
qed

lemma run_listening_reachable: "ws_step\<^sup>*\<^sup>* NewWebSocketServer run_listening"
proof -
  let ?s1 = "run_handled\<lparr>broadcaster := BSelect [''t'']\<rparr>"
  let ?s2 = "set_sender ''a'' SBuild (set_listener ''a'' Reading ?s1)"
  have "ws_step run_handled ?s1" using ws_step.b_build [of run_handled] by (simp add: run_simps)
  moreover have "ws_step ?s1 ?s2" by (rule ws_step.announce [where c = "the (conn ?s1 ''a'')"]) (simp_all add: run_simps)
  moreover have "ws_step ?s2 run_listening" using ws_step.s_build [of ?s2 "''a''"] by (simp add: run_listening_def) (simp add: run_simps)
  ultimately show ?thesis using run_handled_reachable by (meson rtranclp.rtrancl_into_rtrancl)
qed

lemma run_blocked_reachable: "ws_step\<^sup>*\<^sup>* NewWebSocketServer run_blocked"
proof -
  let ?s1 = "run_listening\<lparr>broadcaster := BSend [''t''] ''t'' 7 [''a'']\<rparr>"
  let ?s2 = "set_listener ''a'' (LClose [''t''] True) (mark_closed ''a'' ?s1)"
  let ?s3 = "set_sender ''a'' (SClose [''t'']) ?s2" let ?s4 = "set_sender ''a'' (SClose []) (cycleTopic ''t'' ?s3)"
  have "ws_step run_listening ?s1" by (rule ws_step.broadcast [where tm = "[''a'']"]) (simp_all add: run_simps getConnListFromMap_def)
  moreover have "ws_step ?s1 ?s2" using ws_step.read_error [of ?s1 "''a''"] by (simp add: run_simps)
  moreover have "ws_step ?s2 ?s3" using ws_step.s_stop [of ?s2 "''a''" "the (conn ?s2 ''a'')" "[''t'']"] by (simp add: run_simps)
  moreover have "ws_step ?s3 ?s4" by (rule ws_step.s_cycle [where c = "the (conn ?s3 ''a'')"]) (simp_all add: run_simps)
  moreover have "ws_step ?s4 run_blocked" unfolding run_blocked_def by (rule ws_step.s_closed [where c = "the (conn ?s4 ''a'')"]) (simp_all add: run_simps)
  ultimately show ?thesis using run_listening_reachable by (meson rtranclp.rtrancl_into_rtrancl)
qed

definition run_written :: "nat webSocketServer" where
  "run_written = run_listening\<lparr>broadcaster := BSelect [''t''], written := written run_listening @ map (\<lambda>i. (i, FromBroadcast ''t'', 7)) [''a'']\<rparr>"

lemma run_written_reachable: "ws_step\<^sup>*\<^sup>* NewWebSocketServer run_written"
  unfolding run_written_def
  by (rule rtranclp_trans [OF run_listening_reachable broadcast_all [where tm = "[''a'']"]])
    (simp_all add: run_simps getConnListFromMap_def accepts_def open_conn_def)


theorem broadcast_reaches_every_listener_witness:
  "ws_step\<^sup>*\<^sup>* run_listening (run_listening\<lparr>broadcaster := BSelect [''t''], written := [(''a'', FromBroadcast ''t'', 7)]\<rparr>)"
proof -
  have "ws_step\<^sup>*\<^sup>* run_listening (run_listening\<lparr>broadcaster := BSelect [''t''],
      written := written run_listening @ map (\<lambda>i. (i, FromBroadcast ''t'', 7)) [''a'']\<rparr>)"
    by (rule broadcast_reaches_every_listener [where tm = "[''a'']"]) (simp_all add: run_simps getConnListFromMap_def accepts_def open_conn_def)
  then show ?thesis by (simp add: run_simps)
qed

theorem closed_connection_blocks_broadcasts_witness:
  "ws_step\<^sup>*\<^sup>* NewWebSocketServer run_blocked
    \<and> broadcaster (set_listener ''a'' (LClose [] True) (cycleTopic ''t'' run_blocked)) = BSend [''t''] ''t'' 7 [''a'']"
proof -
  have b: "blocked_on run_blocked ''a''" by (simp add: blocked_on_def run_simps)
  have "ws_step run_blocked (set_listener ''a'' (LClose [] True) (cycleTopic ''t'' run_blocked))"
    by (rule ws_step.l_cycle [where c = "the (conn run_blocked ''a'')"]) (simp_all add: run_simps)
  moreover have "broadcaster run_blocked = BSend [''t''] ''t'' 7 [''a'']" by (simp add: run_simps)
  ultimately show ?thesis using closed_connection_blocks_broadcasts [OF r_into_rtranclp b] run_blocked_reachable by metis
qed

end
