(* ===== verification/Rest_Error.thy ===== *)
theory Rest_Error
  imports Go_Strconv
begin

text \<open>
  The errors of the REST layer, \<^verbatim>\<open>internal/rest/utils/resterror.go\<close>.

  \<^verbatim>\<open>NewRestError\<close> hands the text to \<^verbatim>\<open>fmt.Errorf\<close> as a format without arguments, so a percent sign
  in it is read as a verb.  (Argument indexes and starred widths are not modelled.)
\<close>

definition after_flags :: "string \<Rightarrow> string" where
  "after_flags s =
     (let w = dropWhile is_digit (dropWhile (\<lambda>c. c \<in> set ''+-# 0'') s)
      in case w of c # r \<Rightarrow> if c = CHR ''.'' then dropWhile is_digit r else w | [] \<Rightarrow> [])"

lemma after_flags_length: "length (after_flags s) \<le> length s"
proof -
  have "length (dropWhile is_digit (dropWhile (\<lambda>c. c \<in> set ''+-# 0'') s)) \<le> length s"
    by (meson length_dropWhile_le le_trans)
  then show ?thesis unfolding after_flags_def Let_def
    by (auto split: list.splits intro: le_trans [OF length_dropWhile_le] simp del: set_simps)
qed

lemma after_flags_Cons: "after_flags s = v # r \<Longrightarrow> length r < Suc (length s)"
  using after_flags_length [of s] by simp

function Errorf0 :: "string \<Rightarrow> string" where
  "Errorf0 [] = []"
| "Errorf0 (c # cs) =
     (if c \<noteq> CHR ''%'' then c # Errorf0 cs
      else case after_flags cs of
        [] \<Rightarrow> ''%!(NOVERB)''
      | v # r \<Rightarrow> if v = CHR ''%'' then v # Errorf0 r else ''%!'' @ [v] @ ''(MISSING)'' @ Errorf0 r)"
  by pat_completeness auto
termination
  by (relation "measure length") (auto dest: after_flags_Cons)

lemma Errorf0_plain: "CHR ''%'' \<notin> set s \<Longrightarrow> Errorf0 s = s"
  by (induction s) auto

type_synonym 'a rest = "(error \<times> nat) + 'a"

definition NewRestError :: "error \<Rightarrow> nat \<Rightarrow> 'a rest" where
  "NewRestError msg code = Inl (Errorf0 msg, code)"

definition json_error :: error where
  "json_error = ''invalid JSON''"

end
