(* ===== verification/Rest_Params.thy ===== *)
theory Rest_Params
  imports Rest_Error Go_Json
begin

text \<open>
  Requests to the gateway become messages: \<^verbatim>\<open>internal/messages/messages.go\<close>, the payload parser of
  \<^verbatim>\<open>internal/utils/utils.go\<close> and \<^verbatim>\<open>internal/rest/utils/params.go\<close>.

  A decoded body is a \<open>json\<close> object; an absent member and \<^verbatim>\<open>null\<close> are both Go's \<^verbatim>\<open>nil\<close>.  A failed type
  assertion of the source is a \<open>Panic\<close>.  The JSON-schema package is the argument \<open>schema_lib\<close>.
\<close>

subsection \<open>Messages\<close>

record CommonHeaders =
  h_ID :: string
  MsgType :: string
  h_Signer :: string
  h_ChannelID :: string
  ChaincodeName :: string
  PayloadSchema :: "json option"
  h_Context :: "obj option"

record QueryChaincode =
  q_Headers :: CommonHeaders
  q_Function :: string
  q_Args :: "string list"
  StrongRead :: bool

record GetTxByID =
  g_Headers :: CommonHeaders
  g_TxID :: string

record GetBlock =
  b_Headers :: CommonHeaders
  b_Number :: uint64
  b_Hash :: "bytes option"

record SendTransaction =
  t_Headers :: CommonHeaders
  IsInit :: bool
  t_Function :: string
  t_Args :: "string list"
  TransientMap :: "(string \<times> string) list option"

record TxOpts =
  Sync :: bool
  Ack :: bool

definition no_headers :: CommonHeaders where
  "no_headers = \<lparr>h_ID = [], MsgType = [], h_Signer = [], h_ChannelID = [], ChaincodeName = [], PayloadSchema = None, h_Context = None\<rparr>"

subsection \<open>The request\<close>

text \<open>
  What is used of an HTTP request: the body and its length, the parsed form (query parameters) or the error of
  parsing it, the header lookup, and the parameters of the route.
\<close>

record http_req =
  rq_length :: int
  rq_body :: bytes
  rq_form_error :: "error option"
  rq_form :: "(string \<times> string list) list"
  rq_header :: "string \<Rightarrow> string"
  rq_param :: "string \<Rightarrow> string"

definition ParseJSONPayload :: "http_req \<Rightarrow> obj res" where
  "ParseJSONPayload req =
     (if rq_length req > 1024 * 1024 then Inl ''Message exceeds maximum allowable size''
      else if rq_length req = 0 then Inr []
      else case pval (2 * length (rq_body req) + 2) (rq_body req) of
        Some (j, _) \<Rightarrow> (case canon j of
            JObj m \<Rightarrow> Inr m | JNull \<Rightarrow> Inr [] | _ \<Rightarrow> Inl (Errorf0 ''Unable to parse as JSON: %s''))
      | None \<Rightarrow> Inl (Errorf0 ''Unable to parse as JSON: %s''))"

subsection \<open>Type assertions\<close>

definition body_val :: "obj \<Rightarrow> string \<Rightarrow> json" where
  "body_val m k = (case map_of m k of None \<Rightarrow> JNull | Some v \<Rightarrow> v)"

definition as_string :: "json \<Rightarrow> string run" where
  "as_string j = (case j of JStr s \<Rightarrow> Ret s | _ \<Rightarrow> Panic ''interface conversion'')"

definition as_bool :: "json \<Rightarrow> bool run" where
  "as_bool j = (case j of JBool b \<Rightarrow> Ret b | _ \<Rightarrow> Panic ''interface conversion'')"

definition as_map :: "json \<Rightarrow> obj run" where
  "as_map j = (case j of JObj m \<Rightarrow> Ret m | _ \<Rightarrow> Panic ''interface conversion'')"

definition as_array :: "json \<Rightarrow> json list run" where
  "as_array j = (case j of JArr vs \<Rightarrow> Ret vs | _ \<Rightarrow> Panic ''interface conversion'')"

fun map_run :: "('a \<Rightarrow> 'b run) \<Rightarrow> 'a list \<Rightarrow> 'b list run" where
  "map_run f [] = Ret []"
| "map_run f (x # xs) = bind_run (f x) (\<lambda>y. bind_run (map_run f xs) (\<lambda>ys. Ret (y # ys)))"

text \<open>\<open>bindR\<close> goes on after a call that returned no error; \<open>liftR\<close> turns a Go error into a REST error.\<close>

definition bindR :: "('e + 'a) run \<Rightarrow> ('a \<Rightarrow> ('e + 'b) run) \<Rightarrow> ('e + 'b) run" where
  "bindR m f = bind_run m (\<lambda>r. case r of Inl e \<Rightarrow> Ret (Inl e) | Inr x \<Rightarrow> f x)"

definition liftR :: "nat \<Rightarrow> 'a res run \<Rightarrow> 'a rest run" where
  "liftR code m = bind_run m (\<lambda>r. Ret (case r of Inl err \<Rightarrow> NewRestError err code | Inr x \<Rightarrow> Inr x))"

subsection \<open>Special parameters\<close>

definition getQueryParamNoCase :: "string \<Rightarrow> http_req \<Rightarrow> string list" where
  "getQueryParamNoCase name req =
     (case find (\<lambda>e. ToLower (fst e) = ToLower name) (rq_form req) of None \<Rightarrow> [] | Some e \<Rightarrow> snd e)"

text \<open>The prefixes come from the environment; their defaults are taken.\<close>

definition getFlyParam :: "string \<Rightarrow> obj \<Rightarrow> http_req \<Rightarrow> string run" where
  "getFlyParam name body req =
     bind_run (case body_val body ''headers'' of
                 JNull \<Rightarrow> Ret []
               | s \<Rightarrow> bind_run (as_map s) (\<lambda>m. case body_val m name of JNull \<Rightarrow> Ret [] | v \<Rightarrow> as_string v))
       (\<lambda>v0. let vs = getQueryParamNoCase (''fly-'' @ name) req;
                 v1 = (if v0 = [] \<and> vs \<noteq> [] then hd vs else v0)
             in Ret (if v1 = [] then rq_header req (''x-firefly-'' @ name) else v1))"

definition required :: "string \<Rightarrow> error \<Rightarrow> obj \<Rightarrow> http_req \<Rightarrow> string rest run" where
  "required name msg body req = bind_run (getFlyParam name body req) (\<lambda>v.
     Ret (if v = [] then NewRestError msg 400 else Inr v))"

definition ParseForm :: "http_req \<Rightarrow> unit rest run" where
  "ParseForm req = liftR 400 (Ret (case rq_form_error req of Some err \<Rightarrow> Inl err | None \<Rightarrow> Inr ()))"

subsection \<open>Arguments\<close>

record schema_lib =
  load_string :: "string \<Rightarrow> json res"
  load_go :: "json \<Rightarrow> json res"
  check_schema :: "json \<Rightarrow> json \<Rightarrow> string list res"

definition validate :: "schema_lib \<Rightarrow> json \<Rightarrow> string \<Rightarrow> json \<Rightarrow> unit res" where
  "validate lib d name value =
     (case check_schema lib d value of
        Inl err \<Rightarrow> Inl (''failed to validate argument \"'' @ name @ ''\": '' @ err)
      | Inr [] \<Rightarrow> Inr ()
      | Inr errs \<Rightarrow> Inl (''failed to validate argument \"'' @ name @ ''\": ''
                         @ concat (map (\<lambda>e. ''- '' @ e @ [CHR 0x0A]) errs)))"

text \<open>One entry of \<^verbatim>\<open>prefixItems\<close>: the argument of that name, checked and turned into a string.\<close>

definition schema_arg :: "schema_lib \<Rightarrow> obj \<Rightarrow> json \<Rightarrow> string res run" where
  "schema_arg lib argsMap item =
     bind_run (as_map item) (\<lambda>itemDef.
       case body_val itemDef ''name'' of
         JNull \<Rightarrow> Ret (Inl ''property definitions of the \"prefixItems\" in the payload schema must have a \"name\"'')
       | name \<Rightarrow> bind_run (as_string name) (\<lambda>nm. bind_run (as_string (body_val itemDef ''type'')) (\<lambda>propType.
           let raw = body_val argsMap nm; plain = (propType = ''string'' \<or> propType = ''object'');
               entry = (if plain then Inr raw
                        else case raw of
                          JStr s \<Rightarrow> (case json_unmarshal s of Some v \<Rightarrow> Inr v | None \<Rightarrow> Inl json_error)
                        | _ \<Rightarrow> Inl ''invalid object passed'')
           in case entry of
                Inl err \<Rightarrow> Ret (Inl err)
              | Inr e \<Rightarrow> (case validate lib (JObj itemDef) nm e of
                  Inl err \<Rightarrow> Ret (Inl err)
                | Inr _ \<Rightarrow> Ret (if propType = ''object'' then Inr (json_marshal e)
                      else case raw of
                        JStr s \<Rightarrow> Inr s
                      | _ \<Rightarrow> Inl (''argument property '' @ Quote nm @ '' of type '' @ Quote propType
                                 @ '' could not be converted to a string''))))))"

fun schema_args :: "schema_lib \<Rightarrow> obj \<Rightarrow> json list \<Rightarrow> string list res run" where
  "schema_args lib argsMap [] = Ret (Inr [])"
| "schema_args lib argsMap (i # is) =
     bindR (schema_arg lib argsMap i) (\<lambda>a. bindR (schema_args lib argsMap is) (\<lambda>as. Ret (Inr (a # as))))"

definition processArgs :: "schema_lib \<Rightarrow> obj \<Rightarrow> string list res run" where
  "processArgs lib body =
     (let argsVal = body_val body ''args'' in
      if argsVal = JNull then Ret (Inl ''must specify args'')
      else bind_run (case body_val body ''headers'' of JNull \<Rightarrow> Ret JNull
                     | h \<Rightarrow> bind_run (as_map h) (\<lambda>m. Ret (body_val m ''payloadSchema''))) (\<lambda>payloadSchema.
        if payloadSchema \<noteq> JNull then
          (case argsVal of
             JObj argsMap \<Rightarrow>
               bindR (Ret (case payloadSchema of
                        JStr s \<Rightarrow> load_string lib s | JObj m \<Rightarrow> load_go lib (JObj m) | _ \<Rightarrow> Inl ''invalid payload schema''))
                 (\<lambda>schema. bind_run (as_map schema) (\<lambda>schemaMap.
                    bind_run (as_string (body_val schemaMap ''type'')) (\<lambda>rootType.
                      if rootType \<noteq> ''array'' then Ret (Inl ''payload schema must define a root type of \"array\"'')
                      else if body_val schemaMap ''prefixItems'' = JNull
                      then Ret (Inl ''payload schema must define a root type of \"array\" using \"prefixItems\"'')
                      else bind_run (as_array (body_val schemaMap ''prefixItems'')) (schema_args lib argsMap))))
           | _ \<Rightarrow> Ret (Inl ''the \"args\" property must be JSON if a payload schema is provided''))
        else (case argsVal of
                JArr vs \<Rightarrow> bind_run (map_run as_string vs) (\<lambda>ss. Ret (Inr ss))
              | _ \<Rightarrow> Ret (Inl ''no payload schema is specified in the payload's \"headers\", the \"args\" property must be an array of strings''))))"

definition optional_bool :: "json \<Rightarrow> bool rest run" where
  "optional_bool v = (case v of
     JNull \<Rightarrow> Ret (Inr False)
   | JStr s \<Rightarrow> liftR 400 (Ret (ParseBool s))
   | _ \<Rightarrow> bind_run (as_bool v) (\<lambda>b. Ret (Inr b)))"

subsection \<open>Building messages\<close>

definition BuildQueryMessage :: "schema_lib \<Rightarrow> http_req \<Rightarrow> QueryChaincode rest run" where
  "BuildQueryMessage lib req =
     bindR (liftR 400 (Ret (ParseJSONPayload req))) (\<lambda>body.
     bindR (ParseForm req) (\<lambda>_.
     bind_run (getFlyParam ''id'' body req) (\<lambda>msgID.
     bindR (required ''channel'' ''Must specify the channel'' body req) (\<lambda>channel.
     bindR (required ''signer'' ''Must specify the signer'' body req) (\<lambda>signer.
     bindR (required ''chaincode'' ''Must specify the chaincode name'' body req) (\<lambda>chaincode.
     if body_val body ''func'' = JNull then Ret (NewRestError ''Must specify target chaincode function'' 400)
     else bind_run (as_string (body_val body ''func'')) (\<lambda>func.
       if func = [] then Ret (NewRestError ''Target chaincode function must not be empty'' 400)
       else bindR (liftR 400 (processArgs lib body)) (\<lambda>args.
         bindR (optional_bool (body_val body ''strongread'')) (\<lambda>strong.
           Ret (Inr \<lparr>q_Headers = no_headers\<lparr>h_ID := msgID, h_ChannelID := channel, h_Signer := signer, ChaincodeName := chaincode\<rparr>,
                     q_Function = func, q_Args = args, StrongRead = strong\<rparr>))))))))))"

text \<open>The headers of a request without a body.\<close>

definition ledger_headers :: "http_req \<Rightarrow> CommonHeaders rest run" where
  "ledger_headers req =
     bindR (ParseForm req) (\<lambda>_.
     bind_run (getFlyParam ''id'' [] req) (\<lambda>msgID.
     bindR (required ''channel'' ''Must specify the channel'' [] req) (\<lambda>channel.
     bindR (required ''signer'' ''Must specify the signer'' [] req) (\<lambda>signer.
       Ret (Inr (no_headers\<lparr>h_ID := msgID, h_ChannelID := channel, h_Signer := signer\<rparr>))))))"

definition BuildTxByIDMessage :: "http_req \<Rightarrow> GetTxByID rest run" where
  "BuildTxByIDMessage req =
     bindR (ledger_headers req) (\<lambda>h. Ret (Inr \<lparr>g_Headers = h, g_TxID = rq_param req ''txId''\<rparr>))"

definition BuildGetChainInfoMessage :: "http_req \<Rightarrow> CommonHeaders rest run" where
  "BuildGetChainInfoMessage req = ledger_headers req"

fun hex_decode :: "string \<Rightarrow> bytes option" where
  "hex_decode [] = Some []"
| "hex_decode [c] = None"
| "hex_decode (a # b # r) = (case (hex_val a, hex_val b, hex_decode r) of
     (Some x, Some y, Some t) \<Rightarrow> Some (char_of (16 * x + y) # t) | _ \<Rightarrow> None)"

definition BuildGetBlockMessage :: "http_req \<Rightarrow> GetBlock rest run" where
  "BuildGetBlockMessage req =
     bindR (ledger_headers req) (\<lambda>h.
       let blockNumberOrHash = rq_param req ''blockNumber'' in
       Ret (if length blockNumberOrHash = 64
            then (case hex_decode blockNumberOrHash of
                    None \<Rightarrow> NewRestError ''Invalid block hash'' 400
                  | Some b \<Rightarrow> Inr \<lparr>b_Headers = h, b_Number = 0, b_Hash = Some b\<rparr>)
            else (case ParseUint64 blockNumberOrHash of
                    (n, None) \<Rightarrow> Inr \<lparr>b_Headers = h, b_Number = n, b_Hash = None\<rparr>
                  | (_, Some _) \<Rightarrow> NewRestError ''Invalid block number'' 400)))"

definition BuildGetBlockByTxIDMessage :: "http_req \<Rightarrow> GetTxByID rest run" where
  "BuildGetBlockByTxIDMessage req =
     bindR (ledger_headers req) (\<lambda>h. Ret (Inr \<lparr>g_Headers = h\<lparr>h_ID := []\<rparr>, g_TxID = rq_param req ''txId''\<rparr>))"

definition transient_map :: "json \<Rightarrow> (string \<times> string) list option run" where
  "transient_map v = (case v of
     JNull \<Rightarrow> Ret None
   | _ \<Rightarrow> bind_run (as_map v) (\<lambda>m.
       bind_run (map_run (\<lambda>(k, x). bind_run (as_string x) (\<lambda>s. Ret (k, s))) m) (\<lambda>kvs. Ret (Some kvs))))"

definition bool_param :: "string \<Rightarrow> bool \<Rightarrow> obj \<Rightarrow> http_req \<Rightarrow> bool rest run" where
  "bool_param name d body req = bind_run (getFlyParam name body req) (\<lambda>v.
     if v = [] then Ret (Inr d) else liftR 400 (Ret (ParseBool v)))"

definition BuildTxMessage :: "schema_lib \<Rightarrow> http_req \<Rightarrow> (SendTransaction \<times> TxOpts) rest run" where
  "BuildTxMessage lib req =
     bindR (liftR 400 (Ret (ParseJSONPayload req))) (\<lambda>body.
     bindR (ParseForm req) (\<lambda>_.
     bind_run (getFlyParam ''id'' body req) (\<lambda>msgID.
     bindR (required ''channel'' ''Must specify the channel'' body req) (\<lambda>channel.
     bindR (required ''signer'' ''Must specify the signer'' body req) (\<lambda>signer.
     bindR (required ''chaincode'' ''Must specify the chaincode name'' body req) (\<lambda>chaincode.
     bindR (optional_bool (body_val body ''init'')) (\<lambda>isInit.
     bind_run (as_string (body_val body ''func'')) (\<lambda>func.
     if func = [] then Ret (NewRestError ''Must specify target chaincode function'' 400)
     else bindR (liftR 400 (processArgs lib body)) (\<lambda>args.
       bind_run (transient_map (body_val body ''transientMap'')) (\<lambda>transient.
       bindR (bool_param ''sync'' True body req) (\<lambda>sync.
       bindR (bool_param ''noack'' False body req) (\<lambda>noack.
         Ret (Inr (\<lparr>t_Headers = no_headers\<lparr>h_ID := msgID, MsgType := ''SendTransaction'', h_ChannelID := channel, h_Signer := signer,
                                            ChaincodeName := chaincode\<rparr>,
                    IsInit = isInit, t_Function = func, t_Args = args, TransientMap = transient\<rparr>,
                  \<lparr>Sync = sync, Ack = \<not> noack\<rparr>))))))))))))))"

subsection \<open>Running the combinators\<close>

lemma bindR_Ret_Inr: "bindR m f = Ret (Inr y) \<longleftrightarrow> (\<exists>x. m = Ret (Inr x) \<and> f x = Ret (Inr y))"
  by (cases m) (auto simp: bindR_def split: sum.splits)

lemma bindR_simps [simp]:
  "bindR (Ret (Inr x)) f = f x" "bindR (Ret (Inl e)) f = Ret (Inl e)" "bindR (Panic p) f = Panic p" "bindR OutOfFuel f = OutOfFuel"
  by (simp_all add: bindR_def)

lemma liftR_simps [simp]:
  "liftR c (Ret (Inr x)) = Ret (Inr x)" "liftR c (Ret (Inl e)) = Ret (NewRestError e c)" "liftR c (Panic p) = Panic p"
  by (simp_all add: liftR_def)

lemma liftR_Ret_Inr: "liftR c m = Ret (Inr y) \<longleftrightarrow> m = Ret (Inr y)"
  by (cases m) (auto simp: liftR_def NewRestError_def split: sum.splits)

lemma NewRestError_not_Inr [simp]: "NewRestError e c \<noteq> Inr x" "Inr x \<noteq> NewRestError e c"
  by (simp_all add: NewRestError_def)

lemma required_Inr: "required n msg body req = Ret (Inr v) \<longleftrightarrow> getFlyParam n body req = Ret v \<and> v \<noteq> []"
  by (auto simp: required_def bind_run_Ret split: if_splits)

subsection \<open>Properties\<close>

definition body_param :: "obj \<Rightarrow> string \<Rightarrow> json" where
  "body_param body name = (case body_val body ''headers'' of JObj m \<Rightarrow> body_val m name | j \<Rightarrow> j)"

fun first_set :: "string list \<Rightarrow> string" where
  "first_set [] = []"
| "first_set (v # vs) = (if v = [] then first_set vs else v)"

text \<open>The headers of a body are absent or an object, and the parameter in it is absent or a string.\<close>

definition param_typed :: "obj \<Rightarrow> string \<Rightarrow> bool" where
  "param_typed body name = (case body_val body ''headers'' of
     JNull \<Rightarrow> True | JObj m \<Rightarrow> (case body_val m name of JNull \<Rightarrow> True | JStr _ \<Rightarrow> True | _ \<Rightarrow> False) | _ \<Rightarrow> False)"

definition string_of :: "json \<Rightarrow> string" where
  "string_of j = (case j of JStr s \<Rightarrow> s | _ \<Rightarrow> [])"

text \<open>A special parameter is taken from the headers in the body, else from the query, whatever the case
  of its name, else from the HTTP header, in this order; a body with headers of another type ends the
  request with a panic.\<close>

theorem fly_param_precedence:
  "getFlyParam name body req =
     (if param_typed body name
      then Ret (first_set [string_of (body_param body name),
                           case getQueryParamNoCase (''fly-'' @ name) req of [] \<Rightarrow> [] | v # _ \<Rightarrow> v,
                           rq_header req (''x-firefly-'' @ name)])
      else Panic ''interface conversion'')"
  by (cases "body_val body ''headers''"; cases "body_val (case body_val body ''headers'' of JObj m \<Rightarrow> m) name")
     (auto simp: getFlyParam_def param_typed_def body_param_def string_of_def as_map_def as_string_def Let_def split: list.splits)

lemma map_run_as_string: "map_run as_string vs = Ret ss \<longleftrightarrow> vs = map JStr ss"
proof (induction vs arbitrary: ss)
  case (Cons v vs)
  then show ?case by (cases v; cases ss) (auto simp: as_string_def bind_run_Ret)
qed (auto simp: eq_commute)

lemma processArgs_plain:
  "body_val body ''headers'' = JNull \<or> (\<exists>m. body_val body ''headers'' = JObj m \<and> body_val m ''payloadSchema'' = JNull) \<Longrightarrow>
   processArgs lib body = Ret (Inr args) \<longleftrightarrow> body_val body ''args'' = JArr (map JStr args)"
  by (cases "body_val body ''args''") (auto simp: processArgs_def as_map_def bind_run_Ret map_run_as_string Let_def)

lemma BuildTxMessage_InrD:
  assumes "BuildTxMessage lib req = Ret (Inr (m, opts))"
  obtains body where "ParseJSONPayload req = Inr body" "getFlyParam ''channel'' body req = Ret (h_ChannelID (t_Headers m))"
    "getFlyParam ''signer'' body req = Ret (h_Signer (t_Headers m))" "getFlyParam ''chaincode'' body req = Ret (ChaincodeName (t_Headers m))"
    "h_ChannelID (t_Headers m) \<noteq> []" "h_Signer (t_Headers m) \<noteq> []" "ChaincodeName (t_Headers m) \<noteq> []"
    "body_val body ''func'' = JStr (t_Function m)" "t_Function m \<noteq> []" "MsgType (t_Headers m) = ''SendTransaction''"
    "processArgs lib body = Ret (Inr (t_Args m))"
proof -
  have s: "as_string j = Ret x \<longleftrightarrow> j = JStr x" for j x by (cases j) (auto simp: as_string_def)
  show ?thesis using assms that
    unfolding BuildTxMessage_def bindR_Ret_Inr bind_run_Ret liftR_Ret_Inr required_Inr s
    by (auto split: if_splits simp: bindR_Ret_Inr bind_run_Ret liftR_Ret_Inr required_Inr)
qed


definition sample_lib :: schema_lib where
  "sample_lib = \<lparr>load_string = (\<lambda>_. Inl ''no schema''), load_go = Inr, check_schema = (\<lambda>_ _. Inr [])\<rparr>"

definition sample_req :: http_req where
  "sample_req = \<lparr>rq_length = 30, rq_body = ''{\"func\":\"f\",\"args\":[\"a\",\"b\"]}'', rq_form_error = None,
     rq_form = [(''FLY-Channel'', [''ch''])], rq_header = (\<lambda>n. if n = ''x-firefly-signer'' then ''user'' else if n = ''x-firefly-chaincode'' then ''cc'' else []),
     rq_param = (\<lambda>_. [])\<rparr>"

lemma sample_body: "ParseJSONPayload sample_req = Inr [(''args'', JArr [JStr ''a'', JStr ''b'']), (''func'', JStr ''f'')]"
  by code_simp

definition sample_tx :: SendTransaction where
  "sample_tx = \<lparr>t_Headers = no_headers\<lparr>MsgType := ''SendTransaction'', h_ChannelID := ''ch'', h_Signer := ''user'', ChaincodeName := ''cc''\<rparr>,
     IsInit = False, t_Function = ''f'', t_Args = [''a'', ''b''], TransientMap = None\<rparr>"

lemma sample_tx_built: "BuildTxMessage sample_lib sample_req = Ret (Inr (sample_tx, \<lparr>Sync = True, Ack = True\<rparr>))"
  by code_simp


text \<open>A request to query without a function is refused with status 400, while the same request to send a
  transaction ends in a panic of the type assertion.\<close>

theorem missing_function:
  assumes "ParseJSONPayload req = Inr body" "rq_form_error req = None" "body_val body ''func'' = JNull" "body_val body ''init'' = JNull"
    and "\<forall>n \<in> {''id'', ''channel'', ''signer'', ''chaincode''}. \<exists>v. getFlyParam n body req = Ret v \<and> v \<noteq> []"
  shows "BuildQueryMessage lib req = Ret (NewRestError ''Must specify target chaincode function'' 400)
    \<and> BuildTxMessage lib req = Panic ''interface conversion''"
  using assms
  by (auto simp: BuildQueryMessage_def BuildTxMessage_def ParseForm_def required_def optional_bool_def as_string_def)

theorem missing_function_witness:
  "let req = sample_req\<lparr>rq_length := 0, rq_header := (\<lambda>_. ''x'')\<rparr> in
   BuildQueryMessage sample_lib req = Ret (NewRestError ''Must specify target chaincode function'' 400)
    \<and> BuildTxMessage sample_lib req = Panic ''interface conversion''"
  unfolding Let_def
  by (rule missing_function [where body = "[]"])
     (simp_all add: ParseJSONPayload_def sample_req_def body_val_def getFlyParam_def getQueryParamNoCase_def ToLower_def lower_char_def)

end
