(* ===== verification/Auth.thy ===== *)
theory Auth
  imports Prelude
begin

text \<open>
  The authorization checks of the gateway, \<^verbatim>\<open>internal/auth/auth.go\<close>.  The security module is a
  plugin loaded at run time, the argument \<open>sm\<close> (\<open>None\<close> when none is registered).  A Go context is
  reduced to the three values this package stores in it.
\<close>

record 'a SecurityModule =
  VerifyToken :: "string \<Rightarrow> 'a option res"
  AuthRPC :: "'a \<Rightarrow> string \<Rightarrow> string list \<Rightarrow> error option"
  AuthRPCSubscribe :: "'a \<Rightarrow> string \<Rightarrow> string \<Rightarrow> string list \<Rightarrow> error option"
  AuthEventStreams :: "'a \<Rightarrow> error option"
  AuthListAsyncReplies :: "'a \<Rightarrow> error option"
  AuthReadAsyncReplyByUUID :: "'a \<Rightarrow> error option"

record 'a Context =
  ContextKeySystemAuth :: bool
  ContextKeyAuthContext :: "'a option"
  ContextKeyAccessToken :: "string option"

definition Background :: "'a Context" where
  "Background = \<lparr>ContextKeySystemAuth = False, ContextKeyAuthContext = None, ContextKeyAccessToken = None\<rparr>"

definition SecurityModuleNoAuthContext :: error where
  "SecurityModuleNoAuthContext = ''No auth context''"

definition NewSystemAuthContext :: "'a Context" where
  "NewSystemAuthContext = Background\<lparr>ContextKeySystemAuth := True\<rparr>"

definition IsSystemContext :: "'a Context \<Rightarrow> bool" where
  "IsSystemContext ctx = ContextKeySystemAuth ctx"

definition GetAuthContext :: "'a Context \<Rightarrow> 'a option" where
  "GetAuthContext ctx = ContextKeyAuthContext ctx"

definition GetAccessToken :: "'a Context \<Rightarrow> string" where
  "GetAccessToken ctx = (case ContextKeyAccessToken ctx of Some v \<Rightarrow> v | None \<Rightarrow> [])"

definition WithAuthContext :: "'a SecurityModule option \<Rightarrow> 'a Context \<Rightarrow> string \<Rightarrow> 'a Context res" where
  "WithAuthContext sm ctx token = (case sm of
     None \<Rightarrow> Inr ctx
   | Some m \<Rightarrow>
       (case VerifyToken m token of
          Inl err \<Rightarrow> Inl err
        | Inr ctxValue \<Rightarrow>
            Inr (ctx\<lparr>ContextKeyAccessToken := Some token, ContextKeyAuthContext := ctxValue\<rparr>)))"

definition RPC :: "'a SecurityModule option \<Rightarrow> 'a Context \<Rightarrow> string \<Rightarrow> string list \<Rightarrow> error option" where
  "RPC sm ctx method args = (case sm of
     None \<Rightarrow> None
   | Some m \<Rightarrow>
       if IsSystemContext ctx then None
       else (case GetAuthContext ctx of
               None \<Rightarrow> Some SecurityModuleNoAuthContext
             | Some authCtx \<Rightarrow> AuthRPC m authCtx method args))"

definition RPCSubscribe ::
  "'a SecurityModule option \<Rightarrow> 'a Context \<Rightarrow> string \<Rightarrow> string \<Rightarrow> string list \<Rightarrow> error option" where
  "RPCSubscribe sm ctx namespace channel args = (case sm of
     None \<Rightarrow> None
   | Some m \<Rightarrow>
       if IsSystemContext ctx then None
       else (case GetAuthContext ctx of
               None \<Rightarrow> Some SecurityModuleNoAuthContext
             | Some authCtx \<Rightarrow> AuthRPCSubscribe m authCtx namespace channel args))"

definition EventStreams :: "'a SecurityModule option \<Rightarrow> 'a Context \<Rightarrow> error option" where
  "EventStreams sm ctx = (case sm of
     None \<Rightarrow> None
   | Some m \<Rightarrow>
       if IsSystemContext ctx then None
       else (case GetAuthContext ctx of
               None \<Rightarrow> Some SecurityModuleNoAuthContext
             | Some authCtx \<Rightarrow> AuthEventStreams m authCtx))"

definition ListAsyncReplies :: "'a SecurityModule option \<Rightarrow> 'a Context \<Rightarrow> error option" where
  "ListAsyncReplies sm ctx = (case sm of
     None \<Rightarrow> None
   | Some m \<Rightarrow>
       if IsSystemContext ctx then None
       else (case GetAuthContext ctx of
               None \<Rightarrow> Some SecurityModuleNoAuthContext
             | Some authCtx \<Rightarrow> AuthListAsyncReplies m authCtx))"

definition ReadAsyncReplyByUUID :: "'a SecurityModule option \<Rightarrow> 'a Context \<Rightarrow> error option" where
  "ReadAsyncReplyByUUID sm ctx = (case sm of
     None \<Rightarrow> None
   | Some m \<Rightarrow>
       if IsSystemContext ctx then None
       else (case GetAuthContext ctx of
               None \<Rightarrow> Some SecurityModuleNoAuthContext
             | Some authCtx \<Rightarrow> AuthReadAsyncReplyByUUID m authCtx))"

lemmas auth_defs = RPC_def RPCSubscribe_def EventStreams_def ListAsyncReplies_def ReadAsyncReplyByUUID_def
  IsSystemContext_def GetAuthContext_def

text \<open>With a security module registered, a request whose context carries no verified identity
  is refused by every check, a system context passes every check, and a context made from a
  verified token is judged by the module on the identity it returned, for the token it was given.\<close>

theorem auth_checks:
  fixes m :: "'a SecurityModule"
  shows "RPC (Some m) Background method args = Some SecurityModuleNoAuthContext
    \<and> RPCSubscribe (Some m) Background ns ch args = Some SecurityModuleNoAuthContext
    \<and> EventStreams (Some m) Background = Some SecurityModuleNoAuthContext
    \<and> ListAsyncReplies (Some m) Background = Some SecurityModuleNoAuthContext
    \<and> ReadAsyncReplyByUUID (Some m) Background = Some SecurityModuleNoAuthContext
    \<and> RPC (Some m) NewSystemAuthContext method args = None
    \<and> EventStreams (Some m) NewSystemAuthContext = None
    \<and> ListAsyncReplies (Some m) NewSystemAuthContext = None
    \<and> (case WithAuthContext (Some m) Background token of
         Inl e \<Rightarrow> VerifyToken m token = Inl e
       | Inr ctx \<Rightarrow> GetAccessToken ctx = token
           \<and> (case GetAuthContext ctx of
                None \<Rightarrow> EventStreams (Some m) ctx = Some SecurityModuleNoAuthContext
              | Some i \<Rightarrow> VerifyToken m token = Inr (Some i)
                  \<and> RPC (Some m) ctx method args = AuthRPC m i method args
                  \<and> EventStreams (Some m) ctx = AuthEventStreams m i
                  \<and> ListAsyncReplies (Some m) ctx = AuthListAsyncReplies m i
                  \<and> ReadAsyncReplyByUUID (Some m) ctx = AuthReadAsyncReplyByUUID m i))"
  by (auto simp: auth_defs Background_def NewSystemAuthContext_def WithAuthContext_def GetAccessToken_def
      split: sum.splits option.splits)

end
