(* ===== verification/Receipt_Store.thy ===== *)
theory Receipt_Store
  imports Receipts Auth "HOL-Library.Signed_Division"
begin

text \<open>
  The receipt store of the REST gateway, \<^verbatim>\<open>internal/rest/receipt/receiptstore.go\<close>: the processing
  of a reply message into a stored receipt with its retry loop, and the two HTTP queries.

  It works on any implementation of the contract \<open>persistence\<close>.  The clock is an argument: the
  time of arrival, and for the retry loop the time that has passed at each attempt.  The messages
  handed to the WebSocket channel are collected in a list.
\<close>

subsection \<open>HTTP\<close>

record http_response =
  rs_status :: int
  rs_body :: bytes

definition RestErrReply :: "error \<Rightarrow> int \<Rightarrow> http_response" where
  "RestErrReply err status = \<lparr>rs_status = status, rs_body = json_marshal (JObj [(''error'', JStr err)])\<rparr>"

type_synonym form = "(string \<times> string list) list"

definition FormValue :: "form \<Rightarrow> string \<Rightarrow> string" where
  "FormValue f k = (case map_of f k of Some (v # vs) \<Rightarrow> v | _ \<Rightarrow> [])"

definition marshalAndReply :: "json \<Rightarrow> http_response" where
  "marshalAndReply result = \<lparr>rs_status = 200, rs_body = json_marshal_indent result\<rparr>"

subsection \<open>Processing replies\<close>

record receiptConf =
  QueryLimit :: int
  RetryInitialDelayMS :: int
  RetryTimeoutMS :: int

definition defaultReceiptLimit :: int where "defaultReceiptLimit = 10"
definition defaultRetryTimeout :: int where "defaultRetryTimeout = 120 * 1000"
definition defaultRetryInitialDelay :: int where "defaultRetryInitialDelay = 500"

datatype receipt_backend = BackendLevelDB | BackendMongoDB | BackendMemory

definition NewReceiptStore :: "string \<Rightarrow> string \<Rightarrow> receiptConf \<Rightarrow> receipt_backend \<times> receiptConf" where
  "NewReceiptStore levelDBPath mongoURL config =
     ((if levelDBPath \<noteq> [] then BackendLevelDB else if mongoURL \<noteq> [] then BackendMongoDB else BackendMemory),
      config\<lparr>RetryTimeoutMS := (if RetryTimeoutMS config \<le> 0 then defaultRetryTimeout else RetryTimeoutMS config),
             RetryInitialDelayMS := (if RetryInitialDelayMS config \<le> 0 then defaultRetryInitialDelay
                                     else RetryInitialDelayMS config)\<rparr>)"

definition extractHeaders :: "obj \<Rightarrow> obj option" where
  "extractHeaders parsedMsg = (case obj_get parsedMsg ''headers'' of Some (JObj h) \<Rightarrow> Some h | _ \<Rightarrow> None)"

text \<open>
  One attempt after the other until the receipt is stored, is found to be there already, or the
  time is over, which is a panic.  \<open>elapsed n\<close> is the time since the first attempt when attempt
  \<open>n\<close> has failed.
\<close>

fun write_loop ::
  "nat \<Rightarrow> 'p persistence \<Rightarrow> (nat \<Rightarrow> int) \<Rightarrow> int \<Rightarrow> string \<Rightarrow> obj \<Rightarrow> nat \<Rightarrow> 'p \<Rightarrow> 'p run" where
  "write_loop 0 p elapsed timeout requestID receipt attempt s = OutOfFuel"
| "write_loop (Suc f) p elapsed timeout requestID receipt attempt s =
     (case AddReceipt p requestID receipt s of
        (Inr _, s') \<Rightarrow> Ret s'
      | (Inl err, s') \<Rightarrow>
          (case GetReceipt p requestID s' of
             Inr (Some existing) \<Rightarrow> Ret s'
           | _ \<Rightarrow>
               if elapsed (Suc attempt) > timeout
               then Panic (requestID @ '': Failed to insert into receipt store: '' @ err)
               else write_loop f p elapsed timeout requestID receipt (Suc attempt) s'))"

definition writeReceipt ::
  "nat \<Rightarrow> 'p persistence \<Rightarrow> (nat \<Rightarrow> int) \<Rightarrow> receiptConf \<Rightarrow> bool \<Rightarrow> string \<Rightarrow> obj \<Rightarrow> 'p \<times> obj list \<Rightarrow>
   ('p \<times> obj list) run" where
  "writeReceipt fuel p elapsed config ws requestID receipt st =
     bind_run (write_loop fuel p elapsed (RetryTimeoutMS config) requestID receipt 0 (fst st)) (\<lambda>s'.
     Ret (s', if ws then snd st @ [receipt] else snd st))"

definition ProcessReceipt ::
  "nat \<Rightarrow> 'p persistence \<Rightarrow> (nat \<Rightarrow> int) \<Rightarrow> receiptConf \<Rightarrow> bool \<Rightarrow> int \<Rightarrow> bytes \<Rightarrow> 'p \<times> obj list \<Rightarrow>
   ('p \<times> obj list) run" where
  "ProcessReceipt fuel p elapsed config ws nowMS msgBytes st =
     (case json_unmarshal msgBytes of
        Some (JObj parsedMsg) \<Rightarrow>
          (case extractHeaders parsedMsg of
             None \<Rightarrow> Ret st
           | Some headers \<Rightarrow>
               bind_run (GetMapString headers ''requestId'') (\<lambda>requestID.
               if requestID = [] then Ret st
               else bind_run (GetMapString headers ''reqOffset'') (\<lambda>reqOffset.
               bind_run (GetMapString headers ''type'') (\<lambda>msgType.
               bind_run (if msgType = ''Error'' then GetMapString parsedMsg ''errorMessage''
                         else GetMapString parsedMsg ''transactionHash'') (\<lambda>result.
               let receipt = obj_upd ''_id'' (JStr requestID)
                               (obj_upd ''receivedAt'' (JNum (int_str nowMS)) parsedMsg)
               in writeReceipt fuel p elapsed config ws requestID receipt st)))))
      | _ \<Rightarrow> Ret st)"

subsection \<open>Queries\<close>

definition uuidChars :: "string \<Rightarrow> bool" where
  "uuidChars s \<longleftrightarrow> s \<noteq> [] \<and> list_all (\<lambda>c. is_digit c \<or> lower_char c \<in> set ''abcdefghijklmnopqrstuvwxyz'' \<or> c = CHR ''-'') s"

text \<open>\<^verbatim>\<open>isoTime.UnixNano() / int64(time.Millisecond)\<close> on 64-bit integers.\<close>

definition epoch_ms :: "go_time \<Rightarrow> int" where
  "epoch_ms t = sint (word_of_int (UnixNano t) :: go_int) sdiv 1000000"

definition parse_limit :: "receiptConf \<Rightarrow> string \<Rightarrow> int \<Rightarrow> (error \<times> int) + int" where
  "parse_limit config limitStr limit =
     (if limitStr = [] then Inr limit
      else case parse_int 32 limitStr of
        (customLimit, None) \<Rightarrow>
          (if customLimit > QueryLimit config
           then Inl (''Maximum limit is '' @ int_str (QueryLimit config), 400)
           else if 0 < customLimit then Inr customLimit else Inr limit)
      | (_, Some _) \<Rightarrow> Inl (''Invalid 'limit' query parameter'', 400))"

definition parse_skip :: "string \<Rightarrow> (error \<times> int) + int" where
  "parse_skip skipStr =
     (if skipStr = [] then Inr 0
      else case parse_int 32 skipStr of
        (skipI64, err) \<Rightarrow>
          (if err = None \<and> 0 < skipI64 then Inr skipI64
           else Inl (''Invalid 'skip' query parameter'', 400)))"

definition parse_since :: "string \<Rightarrow> (error \<times> int) + int" where
  "parse_since since =
     (if since = [] then Inr 0
      else case parse_rfc3339 since of
        Some isoTime \<Rightarrow> Inr (epoch_ms isoTime)
      | None \<Rightarrow>
          (case parse_int 64 since of
             (v, None) \<Rightarrow> Inr v
           | (_, Some _) \<Rightarrow> Inl (''since cannot be parsed as RFC3339 or millisecond timestamp'', 400)))"

definition store_GetReceipts ::
  "'p persistence \<Rightarrow> receiptConf \<Rightarrow> 'a SecurityModule option \<Rightarrow> 'a Context \<Rightarrow> form \<Rightarrow> 'p \<Rightarrow> http_response run" where
  "store_GetReceipts p config sm ctx form s =
     (if ListAsyncReplies sm ctx \<noteq> None then Ret (RestErrReply ''Unauthorized'' 401)
      else let ids = (case map_of form ''id'' of None \<Rightarrow> [] | Some vs \<Rightarrow> vs);
               limit0 = (if map_of form ''id'' \<noteq> None then 0 else defaultReceiptLimit) in
      if \<not> list_all uuidChars ids then Ret (RestErrReply ''Invalid 'id' query parameter'' 400)
      else case parse_limit config (FormValue form ''limit'') limit0 of
        Inl (e, c) \<Rightarrow> Ret (RestErrReply e c)
      | Inr limit \<Rightarrow>
        (case parse_skip (FormValue form ''skip'') of
           Inl (e, c) \<Rightarrow> Ret (RestErrReply e c)
         | Inr skip \<Rightarrow>
           (case parse_since (FormValue form ''since'') of
              Inl (e, c) \<Rightarrow> Ret (RestErrReply e c)
            | Inr sinceEpochMS \<Rightarrow>
              bind_run (GetReceipts p skip limit ids sinceEpochMS (FormValue form ''from'')
                          (FormValue form ''to'') (FormValue form ''start'') s) (\<lambda>results.
              Ret (case results of
                     Inl err \<Rightarrow> RestErrReply (''Error querying replies: '' @ err) 500
                   | Inr rs \<Rightarrow> marshalAndReply (JArr (map JObj rs)))))))"

definition store_GetReceipt ::
  "'p persistence \<Rightarrow> 'a SecurityModule option \<Rightarrow> 'a Context \<Rightarrow> string \<Rightarrow> 'p \<Rightarrow> http_response" where
  "store_GetReceipt p sm ctx requestID s =
     (if ReadAsyncReplyByUUID sm ctx \<noteq> None then RestErrReply ''Unauthorized'' 401
      else case GetReceipt p requestID s of
        Inl err \<Rightarrow> RestErrReply (''Error querying reply: '' @ err) 500
      | Inr None \<Rightarrow> RestErrReply ''Receipt not available'' 404
      | Inr (Some result) \<Rightarrow> marshalAndReply (JObj result))"

subsection \<open>Properties\<close>

text \<open>The receipt that is made of a reply message.\<close>

definition receipt_of :: "string \<Rightarrow> int \<Rightarrow> obj \<Rightarrow> obj" where
  "receipt_of i nowMS m = obj_upd ''_id'' (JStr i) (obj_upd ''receivedAt'' (JNum (int_str nowMS)) m)"

text \<open>A reply message that carries a request identifier and no null where a string is read.\<close>

definition reply_for :: "string \<Rightarrow> obj \<Rightarrow> bool" where
  "reply_for i m \<longleftrightarrow> i \<noteq> [] \<and>
     (case extractHeaders m of
        None \<Rightarrow> False
      | Some h \<Rightarrow> obj_get h ''requestId'' = Some (JStr i) \<and> obj_get h ''reqOffset'' \<noteq> Some JNull
          \<and> obj_get h ''type'' \<noteq> Some JNull)
     \<and> obj_get m ''errorMessage'' \<noteq> Some JNull \<and> obj_get m ''transactionHash'' \<noteq> Some JNull"

lemma GetMapString_Ret: "obj_get m k \<noteq> Some JNull \<Longrightarrow> \<exists>s. GetMapString m k = Ret s"
  by (auto simp: GetMapString_def split: option.splits json.splits)

lemma ProcessReceipt_reply:
  assumes "json_unmarshal msg = Some (JObj m)" "reply_for i m"
  shows "ProcessReceipt fuel p elapsed config ws nowMS msg st =
    writeReceipt fuel p elapsed config ws i (receipt_of i nowMS m) st"
proof -
  obtain h where h: "extractHeaders m = Some h" "obj_get h ''requestId'' = Some (JStr i)" "i \<noteq> []"
    "obj_get h ''reqOffset'' \<noteq> Some JNull" "obj_get h ''type'' \<noteq> Some JNull"
    using assms(2) by (auto simp: reply_for_def split: option.splits)
  have nn: "obj_get m ''errorMessage'' \<noteq> Some JNull" "obj_get m ''transactionHash'' \<noteq> Some JNull"
    using assms(2) by (simp_all add: reply_for_def)
  obtain o' where o': "GetMapString h ''reqOffset'' = Ret o'" using GetMapString_Ret h by blast
  obtain t where t: "GetMapString h ''type'' = Ret t" using GetMapString_Ret h by blast
  obtain x y where xy: "GetMapString m ''errorMessage'' = Ret x" "GetMapString m ''transactionHash'' = Ret y"
    using GetMapString_Ret nn by blast
  have i: "GetMapString h ''requestId'' = Ret i" by (simp add: GetMapString_def h)
  show ?thesis
    unfolding ProcessReceipt_def
    by (simp add: assms(1) h(1,3) i o' t xy receipt_of_def Let_def)
qed

context receipt_persistence
begin

lemma process_then_get:
  assumes m: "json_unmarshal msg = Some (JObj m)" "reply_for i m"
    and s: "valid s" "fits i (receipt_of i nowMS m)"
    and add: "AddReceipt p i (receipt_of i nowMS m) s = (Inr (), s')"
    and get: "GetReceipt p i s' = Inr x" and auth: "ReadAsyncReplyByUUID sm ctx = None"
  shows "ProcessReceipt (Suc f) p elapsed config ws nowMS msg (s, sent) =
      Ret (s', if ws then sent @ [receipt_of i nowMS m] else sent)
    \<and> store_GetReceipt p sm ctx i s' = marshalAndReply (JObj (receipt_of i nowMS m))"
  using add_get [OF s add get] add get auth
  by (simp add: ProcessReceipt_reply [OF m] writeReceipt_def store_GetReceipt_def)

end

text \<open>C11: a reply message that reaches the gateway is stored under its request identifier and
  then served: \<^verbatim>\<open>GET /replies/:id\<close> by an authorized client answers 200 with the message as it was
  received, extended by its identifier and time of arrival, and the same receipt goes to the
  WebSocket clients.  This holds for every store that fulfils the contract.\<close>

theorem processed_reply_is_served:
  assumes "receipt_persistence p valid fits"
    "json_unmarshal msg = Some (JObj m)" "reply_for i m" "valid s" "fits i (receipt_of i nowMS m)"
    "AddReceipt p i (receipt_of i nowMS m) s = (Inr (), s')" "GetReceipt p i s' = Inr x"
    "ReadAsyncReplyByUUID sm ctx = None"
  shows "ProcessReceipt (Suc f) p elapsed config True nowMS msg (s, sent) = Ret (s', sent @ [receipt_of i nowMS m])
    \<and> store_GetReceipt p sm ctx i s' = \<lparr>rs_status = 200, rs_body = json_marshal_indent (JObj (receipt_of i nowMS m))\<rparr>"
  using receipt_persistence.process_then_get [OF assms(1-8), of f elapsed config True sent]
  by (simp add: marshalAndReply_def)

definition demo_reply :: obj where
  "demo_reply = [(''headers'', JObj [(''requestId'', JStr ''r1''), (''type'', JStr ''TransactionSuccess'')])]"

lemma demo_reply_for: "reply_for ''r1'' demo_reply"
  by (simp add: reply_for_def demo_reply_def extractHeaders_def obj_get_def)

theorem processed_reply_is_served_witness:
  "rs_status (store_GetReceipt mem_persistence None (Background :: unit Context) ''r1''
     \<lparr>MaxDocs = 5, receipts = [receipt_of ''r1'' 17 demo_reply]\<rparr>) = 200"
proof -
  let ?r = "receipt_of ''r1'' 17 demo_reply"
  have u: "json_unmarshal (json_marshal (JObj demo_reply)) = Some (JObj demo_reply)"
    unfolding json_marshal_def by (rule json_unmarshal_enc) (simp_all add: demo_reply_def)
  have f: "id_fits ''r1'' ?r" by (simp add: id_fits_def receipt_of_def)
  have v: "mem_valid (newMemoryReceipts 5)" by (simp add: mem_valid_def newMemoryReceipts_def)
  have a: "AddReceipt mem_persistence ''r1'' ?r (newMemoryReceipts 5) = (Inr (), \<lparr>MaxDocs = 5, receipts = [?r]\<rparr>)"
    by (simp add: mem_persistence_def mem_AddReceipt_def newMemoryReceipts_def)
  have g: "GetReceipt mem_persistence ''r1'' \<lparr>MaxDocs = 5, receipts = [?r]\<rparr> = Inr (Some ?r)"
    by (simp add: mem_persistence_def mem_GetReceipt_def receipt_of_def)
  from processed_reply_is_served [OF mem_receipts.receipt_persistence_axioms u demo_reply_for v f a g,
      of None "Background :: unit Context" 0 int
      "\<lparr>QueryLimit = 10, RetryInitialDelayMS = 500, RetryTimeoutMS = 1000\<rparr>" "[]"]
  show ?thesis by (simp add: ReadAsyncReplyByUUID_def)
qed

text \<open>C12: the retry loop ends once the configured time is over, and it never drops a receipt
  silently: it returns only when the store has accepted the receipt or already holds one under
  the identifier; otherwise it panics.\<close>

theorem write_loop_never_loses_a_receipt:
  assumes "elapsed n > timeout" "attempt < n" "n \<le> attempt + fuel"
  shows "case write_loop fuel p elapsed timeout i r attempt s of
      Ret s' \<Rightarrow> (\<exists>s0. AddReceipt p i r s0 = (Inr (), s')) \<or> (\<exists>x. GetReceipt p i s' = Inr (Some x))
    | Panic e \<Rightarrow> True
    | OutOfFuel \<Rightarrow> False"
  using assms(2,3)
proof (induction fuel arbitrary: attempt s)
  case (Suc f)
  have "elapsed (Suc attempt) > timeout \<or> Suc attempt < n" using assms(1) Suc.prems(1) by (cases "Suc attempt = n") auto
  then show ?case using Suc.IH [of "Suc attempt"] Suc.prems(2)
    by (auto split: prod.splits sum.splits option.splits)
qed simp

definition full_store :: "memoryReceipts persistence" where
  "full_store = \<lparr>GetReceipts = mem_GetReceipts, GetReceipt = mem_GetReceipt,
     AddReceipt = (\<lambda>i r s. (Inl ''disk full'', s))\<rparr>"

theorem write_loop_never_loses_a_receipt_witness:
  "write_loop 3 full_store int 2 ''r1'' [] 0 (newMemoryReceipts 5) \<noteq> OutOfFuel"
  using write_loop_never_loses_a_receipt [of 2 int 3 0 3 full_store "''r1''" "[]" "newMemoryReceipts 5"]
  by (simp del: write_loop.simps split: run.splits)

end
