(* ===== verification/Tx_Processor.thy ===== *)
theory Tx_Processor
  imports Rest_Params Receipt_Store
begin

text \<open>
  The transaction processor: \<^verbatim>\<open>internal/tx/txprocessor.go\<close>, \<^verbatim>\<open>internal/fabric/tx.go\<close> and the reply types of
  \<^verbatim>\<open>internal/messages/messages.go\<close>.

  The processor answers through the interface \<^verbatim>\<open>tx.Context\<close>, here a record of operations on a context \<open>'c\<close> that change
  the state \<open>'w\<close> of whoever sent the message.  The Fabric client is an argument: \<^verbatim>\<open>Invoke\<close> with its receipt and
  its error.
\<close>

subsection \<open>Replies\<close>

record ReplyHeaders =
  rh_Common :: CommonHeaders
  Received :: string
  Elapsed :: string
  ReqOffset :: string
  ReqID :: string

record TransactionReceipt =
  r_Headers :: ReplyHeaders
  r_BlockNumber :: uint64
  r_SignerMSP :: string
  r_Signer :: string
  r_TransactionHash :: string
  r_Status :: string

record ErrorReply =
  e_Headers :: ReplyHeaders
  ErrorMessage :: string
  OriginalMessage :: string
  TXHash :: string

datatype ReplyWithHeaders = ReceiptReply TransactionReceipt | ErrReply ErrorReply

fun reply_headers :: "ReplyWithHeaders \<Rightarrow> ReplyHeaders" where
  "reply_headers (ReceiptReply r) = r_Headers r"
| "reply_headers (ErrReply e) = e_Headers e"

fun with_headers :: "ReplyHeaders \<Rightarrow> ReplyWithHeaders \<Rightarrow> ReplyWithHeaders" where
  "with_headers h (ReceiptReply r) = ReceiptReply (r\<lparr>r_Headers := h\<rparr>)"
| "with_headers h (ErrReply e) = ErrReply (e\<lparr>e_Headers := h\<rparr>)"

definition no_reply_headers :: ReplyHeaders where
  "no_reply_headers = \<lparr>rh_Common = no_headers, Received = [], Elapsed = ''0'', ReqOffset = [], ReqID = []\<rparr>"

definition NewErrorReply :: "error option \<Rightarrow> bytes + json \<Rightarrow> ErrorReply" where
  "NewErrorReply err origMsg =
     \<lparr>e_Headers = no_reply_headers\<lparr>rh_Common := no_headers\<lparr>MsgType := ''Error''\<rparr>\<rparr>,
      ErrorMessage = (case err of None \<Rightarrow> [] | Some e \<Rightarrow> e),
      OriginalMessage = (case origMsg of Inl b \<Rightarrow> b | Inr j \<Rightarrow> json_marshal j), TXHash = []\<rparr>"

text \<open>The JSON members of the structs, in the order of their fields.\<close>

definition common_members :: "CommonHeaders \<Rightarrow> obj" where
  "common_members h =
     omit (h_ID h = []) ''id'' (JStr (h_ID h)) @ omit (MsgType h = []) ''type'' (JStr (MsgType h))
     @ omit (h_Signer h = []) ''signer'' (JStr (h_Signer h)) @ omit (h_ChannelID h = []) ''channel'' (JStr (h_ChannelID h))
     @ omit (ChaincodeName h = []) ''chaincode'' (JStr (ChaincodeName h))
     @ omit (PayloadSchema h = None) ''payloadSchema'' (the (PayloadSchema h))
     @ omit (h_Context h = None \<or> h_Context h = Some []) ''ctx'' (JObj (the (h_Context h)))"

definition send_json :: "SendTransaction \<Rightarrow> json" where
  "send_json m = JObj (omit False ''headers'' (JObj (common_members (t_Headers m))) @ omit False ''init'' (JBool (IsInit m))
     @ omit False ''func'' (JStr (t_Function m)) @ omit (t_Args m = []) ''args'' (JArr (map JStr (t_Args m)))
     @ omit (TransientMap m = None \<or> TransientMap m = Some []) ''transientMap'' (JObj (map (map_prod id JStr) (the (TransientMap m)))))"

definition reply_members :: "ReplyHeaders \<Rightarrow> obj" where
  "reply_members h = common_members (rh_Common h) @ omit False ''timeReceived'' (JStr (Received h))
     @ omit False ''timeElapsed'' (JNum (Elapsed h)) @ omit False ''requestOffset'' (JStr (ReqOffset h))
     @ omit False ''requestId'' (JStr (ReqID h))"

fun reply_json :: "ReplyWithHeaders \<Rightarrow> json" where
  "reply_json (ReceiptReply r) = JObj (omit False ''headers'' (JObj (reply_members (r_Headers r)))
     @ omit False ''blockNumber'' (JNum (FormatUint (r_BlockNumber r))) @ omit False ''signerMSP'' (JStr (r_SignerMSP r))
     @ omit False ''signer'' (JStr (r_Signer r)) @ omit False ''transactionHash'' (JStr (r_TransactionHash r))
     @ omit False ''status'' (JStr (r_Status r)))"
| "reply_json (ErrReply e) = JObj (omit False ''headers'' (JObj (reply_members (e_Headers e)))
     @ omit (ErrorMessage e = []) ''errorMessage'' (JStr (ErrorMessage e))
     @ omit (OriginalMessage e = []) ''requestPayload'' (JStr (OriginalMessage e))
     @ omit (TXHash e = []) ''transactionHash'' (JStr (TXHash e)))"

subsection \<open>Transactions\<close>

record ChaincodeSpec =
  cs_Type :: int
  cs_Name :: string
  cs_Version :: string

record TxReceipt =
  rc_BlockNumber :: uint64
  rc_SignerMSP :: string
  rc_Signer :: string
  rc_ChaincodeSpec :: ChaincodeSpec
  TransactionID :: string
  rc_Status :: int
  SourcePeer :: string
  ResponsePayload :: bytes

definition IsSuccess :: "TxReceipt \<Rightarrow> bool" where
  "IsSuccess r \<longleftrightarrow> rc_Status r = 0"

record Tx =
  tx_ChannelID :: string
  tx_ChaincodeName :: string
  tx_IsInit :: bool
  tx_Function :: string
  tx_Args :: "string list"
  tx_TransientMap :: "(string \<times> string) list option"
  Hash :: string
  tx_Receipt :: "TxReceipt option"
  tx_Signer :: string

definition NewSendTx :: "SendTransaction \<Rightarrow> string \<Rightarrow> Tx" where
  "NewSendTx msg _ = \<lparr>tx_ChannelID = h_ChannelID (t_Headers msg), tx_ChaincodeName = ChaincodeName (t_Headers msg),
     tx_IsInit = IsInit msg, tx_Function = t_Function msg, tx_Args = t_Args msg, tx_TransientMap = TransientMap msg,
     Hash = [], tx_Receipt = None, tx_Signer = h_Signer (t_Headers msg)\<rparr>"

definition GetTXReceipt :: "Tx \<Rightarrow> bool run" where
  "GetTXReceipt tx = (case tx_Receipt tx of None \<Rightarrow> Panic ''nil pointer dereference'' | Some r \<Rightarrow> Ret (rc_BlockNumber r > 0))"

text \<open>\<^verbatim>\<open>rpc.Invoke\<close>: channel, signer, chaincode, function, arguments, transient map and the init flag.\<close>

type_synonym invoke = "string \<Rightarrow> string \<Rightarrow> string \<Rightarrow> string \<Rightarrow> string list \<Rightarrow> (string \<times> string) list option \<Rightarrow> bool \<Rightarrow>
  TxReceipt option \<times> error option"

definition Send :: "Tx \<Rightarrow> invoke \<Rightarrow> Tx \<times> error option" where
  "Send tx rpc = (case rpc (tx_ChannelID tx) (tx_Signer tx) (tx_ChaincodeName tx) (tx_Function tx) (tx_Args tx)
                           (tx_TransientMap tx) (tx_IsInit tx) of
     (receipt, err) \<Rightarrow> (tx\<lparr>tx_Receipt := receipt\<rparr>, err))"

subsection \<open>The processor\<close>

record ('c, 'w) ctx_ops =
  ctx_Headers :: "'c \<Rightarrow> CommonHeaders"
  ctx_Unmarshal :: "'c \<Rightarrow> SendTransaction res run"
  ctx_SendErrorReply :: "'c \<Rightarrow> nat \<Rightarrow> error \<Rightarrow> 'w \<Rightarrow> 'w run"
  ctx_Reply :: "'c \<Rightarrow> ReplyWithHeaders \<Rightarrow> 'w \<Rightarrow> 'w run"

record 'c inflightTx =
  i_id :: int
  i_signer :: string
  i_txContext :: 'c
  i_tx :: "Tx option"

record 'c txProcessor =
  inflightTxs :: "'c inflightTx list"
  highestID :: int
  SendConcurrency :: int
  MaxTXWaitTime :: int
  concurrencySlots :: nat
  goroutines :: "('c \<times> 'c inflightTx \<times> Tx) list"

definition NewTxProcessor :: "int \<Rightarrow> int \<Rightarrow> 'c txProcessor" where
  "NewTxProcessor conc waitTime = \<lparr>inflightTxs = [], highestID = 1000000, SendConcurrency = (if conc = 0 then 1 else conc),
     MaxTXWaitTime = waitTime, concurrencySlots = 0, goroutines = []\<rparr>"

definition addInflightWrapper :: "'c \<Rightarrow> CommonHeaders \<Rightarrow> 'c txProcessor \<Rightarrow> 'c inflightTx \<times> 'c txProcessor" where
  "addInflightWrapper c headers p =
     (let inflight = \<lparr>i_id = highestID p, i_signer = h_Signer headers, i_txContext = c, i_tx = None\<rparr>
      in (inflight, p\<lparr>highestID := highestID p + 1, inflightTxs := inflightTxs p @ [inflight]\<rparr>))"

fun remove_inflight :: "int \<Rightarrow> 'c inflightTx list \<Rightarrow> 'c inflightTx list" where
  "remove_inflight k [] = []"
| "remove_inflight k (a # as) = (if i_id a = k then as else a # remove_inflight k as)"

definition cancelInFlight :: "'c inflightTx \<Rightarrow> 'c txProcessor \<Rightarrow> 'c txProcessor" where
  "cancelInFlight inflight p = p\<lparr>inflightTxs := remove_inflight (i_id inflight) (inflightTxs p)\<rparr>"

text \<open>The list holds pointers: a change of an entry is seen in the list.\<close>

definition set_inflight :: "'c inflightTx \<Rightarrow> 'c txProcessor \<Rightarrow> 'c txProcessor" where
  "set_inflight i p = p\<lparr>inflightTxs := map (\<lambda>j. if i_id j = i_id i then i else j) (inflightTxs p)\<rparr>"

text \<open>\<open>names\<close> is \<^verbatim>\<open>TxValidationCode.String\<close> of the Fabric protocol buffers.\<close>

definition receipt_reply :: "(int \<Rightarrow> string) \<Rightarrow> TxReceipt \<Rightarrow> TransactionReceipt" where
  "receipt_reply names r =
     \<lparr>r_Headers = no_reply_headers\<lparr>rh_Common := no_headers\<lparr>MsgType :=
          (if IsSuccess r then ''TransactionSuccess'' else ''TransactionFailure'')\<rparr>\<rparr>,
      r_BlockNumber = rc_BlockNumber r, r_SignerMSP = rc_SignerMSP r, r_Signer = rc_Signer r,
      r_TransactionHash = TransactionID r, r_Status = names (rc_Status r)\<rparr>"

definition inflight_receipt :: "'c inflightTx \<Rightarrow> TxReceipt run" where
  "inflight_receipt i = (case i_tx i of
     None \<Rightarrow> Panic ''nil pointer dereference''
   | Some tx \<Rightarrow> (case tx_Receipt tx of None \<Rightarrow> Panic ''nil pointer dereference'' | Some r \<Rightarrow> Ret r))"

definition processCompletion ::
  "('c, 'w) ctx_ops \<Rightarrow> (int \<Rightarrow> string) \<Rightarrow> 'c inflightTx \<Rightarrow> 'c txProcessor \<times> 'w \<Rightarrow> ('c txProcessor \<times> 'w) run" where
  "processCompletion ops names inflight st =
     bind_run (inflight_receipt inflight) (\<lambda>receipt.
     bind_run (ctx_Reply ops (i_txContext inflight) (ReceiptReply (receipt_reply names receipt)) (snd st)) (\<lambda>w.
     Ret (cancelInFlight inflight (fst st), w)))"

definition sendAndTrackMining ::
  "('c, 'w) ctx_ops \<Rightarrow> (int \<Rightarrow> string) \<Rightarrow> invoke \<Rightarrow> 'c \<Rightarrow> 'c inflightTx \<Rightarrow> Tx \<Rightarrow> 'c txProcessor \<times> 'w \<Rightarrow> ('c txProcessor \<times> 'w) run" where
  "sendAndTrackMining ops names rpc c inflight tx st =
     (case Send tx rpc of (tx', err) \<Rightarrow>
        let inflight' = inflight\<lparr>i_tx := Some tx'\<rparr>;
            p = set_inflight inflight' (fst st);
            p = (if SendConcurrency p > 1 then p\<lparr>concurrencySlots := concurrencySlots p - 1\<rparr> else p)
        in case err of
             Some e \<Rightarrow> let p = cancelInFlight inflight' p in bind_run (ctx_SendErrorReply ops c 500 e (snd st)) (\<lambda>w. Ret (p, w))
           | None \<Rightarrow> processCompletion ops names inflight' (p, snd st))"

text \<open>
  \<^verbatim>\<open>sendTransactionCommon\<close> sends in the same goroutine, or takes a slot and starts a goroutine.  A full channel makes
  the caller wait: the call is then not enabled (\<open>None\<close>).
\<close>

definition sendTransactionCommon ::
  "('c, 'w) ctx_ops \<Rightarrow> (int \<Rightarrow> string) \<Rightarrow> invoke \<Rightarrow> 'c \<Rightarrow> 'c inflightTx \<Rightarrow> Tx \<Rightarrow> 'c txProcessor \<times> 'w \<Rightarrow>
   ('c txProcessor \<times> 'w) run option" where
  "sendTransactionCommon ops names rpc c inflight tx st =
     (case st of (p, w) \<Rightarrow>
      if SendConcurrency p > 1
      then if int (concurrencySlots p) < SendConcurrency p
           then Some (Ret (p\<lparr>concurrencySlots := concurrencySlots p + 1, goroutines := goroutines p @ [(c, inflight, tx)]\<rparr>, w))
           else None
      else Some (sendAndTrackMining ops names rpc c inflight tx (p, w)))"

definition OnSendTransactionMessage ::
  "('c, 'w) ctx_ops \<Rightarrow> (int \<Rightarrow> string) \<Rightarrow> invoke \<Rightarrow> 'c \<Rightarrow> SendTransaction \<Rightarrow> 'c txProcessor \<times> 'w \<Rightarrow> ('c txProcessor \<times> 'w) run option" where
  "OnSendTransactionMessage ops names rpc c msg st =
     (case addInflightWrapper c (t_Headers msg) (fst st) of (inflight, p) \<Rightarrow>
        let tx = NewSendTx msg (i_signer inflight); inflight' = inflight\<lparr>i_tx := Some tx\<rparr>
        in sendTransactionCommon ops names rpc c inflight' tx (set_inflight inflight' p, snd st))"

definition OnMessage ::
  "('c, 'w) ctx_ops \<Rightarrow> (int \<Rightarrow> string) \<Rightarrow> invoke \<Rightarrow> 'c \<Rightarrow> 'c txProcessor \<times> 'w \<Rightarrow> ('c txProcessor \<times> 'w) run option" where
  "OnMessage ops names rpc c st =
     (let headers = ctx_Headers ops c;
          refuse = (\<lambda>err. Some (bind_run (ctx_SendErrorReply ops c 400 err (snd st)) (\<lambda>w. Ret (fst st, w)))) in
      if MsgType headers = ''SendTransaction''
      then (case ctx_Unmarshal ops c of
              Ret (Inl err) \<Rightarrow> refuse err
            | Ret (Inr msg) \<Rightarrow> OnSendTransactionMessage ops names rpc c msg st
            | Panic e \<Rightarrow> Some (Panic e)
            | OutOfFuel \<Rightarrow> Some OutOfFuel)
      else refuse (''Unknown message type '' @ [squote] @ MsgType headers @ [squote]))"

subsection \<open>The in-flight list\<close>

definition ids :: "'c txProcessor \<Rightarrow> int list" where
  "ids p = map i_id (inflightTxs p)"

text \<open>Identifiers are handed out in increasing order.\<close>

definition fresh :: "'c txProcessor \<Rightarrow> bool" where
  "fresh p \<longleftrightarrow> sorted_wrt (<) (ids p) \<and> (\<forall>k \<in> set (ids p). k < highestID p)"

lemma map_id_remove_inflight [simp]: "map i_id (remove_inflight k xs) = remove1 k (map i_id xs)"
  by (induction xs) auto

lemma remove_inflight_last: "k \<notin> i_id ` set xs \<Longrightarrow> i_id i = k \<Longrightarrow> remove_inflight k (xs @ [i]) = xs"
  by (induction xs) auto

lemma ids_ops [simp]:
  "ids (cancelInFlight i p) = remove1 (i_id i) (ids p)" "ids (set_inflight i p) = ids p"
  "ids (p\<lparr>concurrencySlots := n\<rparr>) = ids p" "ids (p\<lparr>goroutines := g\<rparr>) = ids p"
  by (auto simp: ids_def cancelInFlight_def set_inflight_def)

lemma fresh_cancel [simp]: "fresh p \<Longrightarrow> fresh (cancelInFlight i p)"
  by (auto simp: fresh_def strict_sorted_iff sorted_remove1 distinct_remove1 dest: notin_set_remove1) (simp add: cancelInFlight_def)

lemma fresh_add:
  assumes "fresh p" "addInflightWrapper c h p = (i, p')"
  shows "fresh p'" "ids p' = ids p @ [i_id i]" "i_id i = highestID p" "i_id i \<notin> set (ids p)"
  using assms by (auto simp: fresh_def addInflightWrapper_def ids_def Let_def sorted_wrt_append less_imp_le)

lemma added_ops:
  assumes "fresh p" "i_id k = highestID p" "i_id j = highestID p"
  shows "set_inflight j (p\<lparr>highestID := n, inflightTxs := inflightTxs p @ [k]\<rparr>) = p\<lparr>highestID := n, inflightTxs := inflightTxs p @ [j]\<rparr>"
    and "cancelInFlight j (p\<lparr>highestID := n, inflightTxs := inflightTxs p @ [k]\<rparr>) = p\<lparr>highestID := n\<rparr>"
proof -
  have n: "i_id x \<noteq> highestID p" if "x \<in> set (inflightTxs p)" for x using assms(1) that by (auto simp: fresh_def ids_def)
  then have "map (\<lambda>k. if i_id k = highestID p then j else k) (inflightTxs p) = inflightTxs p" by (auto intro!: map_idI)
  then show "set_inflight j (p\<lparr>highestID := n, inflightTxs := inflightTxs p @ [k]\<rparr>) = p\<lparr>highestID := n, inflightTxs := inflightTxs p @ [j]\<rparr>"
    using assms by (simp add: set_inflight_def)
  show "cancelInFlight j (p\<lparr>highestID := n, inflightTxs := inflightTxs p @ [k]\<rparr>) = p\<lparr>highestID := n\<rparr>"
    using assms remove_inflight_last [of "highestID p" "inflightTxs p" k] n by (force simp: cancelInFlight_def)
qed

subsection \<open>What a message is answered\<close>

text \<open>The specification: the one answer to a message, as a call of its context.\<close>

definition answer :: "('c, 'w) ctx_ops \<Rightarrow> (int \<Rightarrow> string) \<Rightarrow> invoke \<Rightarrow> 'c \<Rightarrow> 'w \<Rightarrow> 'w run" where
  "answer ops names rpc c w =
     (if MsgType (ctx_Headers ops c) \<noteq> ''SendTransaction''
      then ctx_SendErrorReply ops c 400 (''Unknown message type '' @ [squote] @ MsgType (ctx_Headers ops c) @ [squote]) w
      else case ctx_Unmarshal ops c of
        Panic e \<Rightarrow> Panic e
      | OutOfFuel \<Rightarrow> OutOfFuel
      | Ret (Inl err) \<Rightarrow> ctx_SendErrorReply ops c 400 err w
      | Ret (Inr m) \<Rightarrow>
          (case rpc (h_ChannelID (t_Headers m)) (h_Signer (t_Headers m)) (ChaincodeName (t_Headers m)) (t_Function m) (t_Args m)
                    (TransientMap m) (IsInit m) of
             (_, Some e) \<Rightarrow> ctx_SendErrorReply ops c 500 e w
           | (Some r, None) \<Rightarrow> ctx_Reply ops c (ReceiptReply (receipt_reply names r)) w
           | (None, None) \<Rightarrow> Panic ''nil pointer dereference''))"

definition counted :: "('c, 'w) ctx_ops \<Rightarrow> 'c \<Rightarrow> 'c txProcessor \<Rightarrow> 'c txProcessor" where
  "counted ops c p = (if MsgType (ctx_Headers ops c) = ''SendTransaction'' \<and> (\<exists>m. ctx_Unmarshal ops c = Ret (Inr m))
     then p\<lparr>highestID := highestID p + 1\<rparr> else p)"

lemma OnMessage_eq:
  assumes "fresh p" "SendConcurrency p \<le> 1"
  shows "OnMessage ops names rpc c (p, w) = Some (bind_run (answer ops names rpc c w) (\<lambda>w'. Ret (counted ops c p, w')))"
proof (cases "\<exists>m. ctx_Unmarshal ops c = Ret (Inr m)")
  case True
  then obtain m where m: "ctx_Unmarshal ops c = Ret (Inr m)" by blast
  obtain r e where "rpc (h_ChannelID (t_Headers m)) (h_Signer (t_Headers m)) (ChaincodeName (t_Headers m)) (t_Function m) (t_Args m)
                    (TransientMap m) (IsInit m) = (r, e)" by (rule prod.exhaust)
  then show ?thesis using assms m
    by (cases r; cases e) (simp_all add: OnMessage_def answer_def OnSendTransactionMessage_def addInflightWrapper_def sendTransactionCommon_def
        sendAndTrackMining_def Send_def NewSendTx_def processCompletion_def inflight_receipt_def added_ops counted_def Let_def)
qed (auto simp: OnMessage_def answer_def counted_def Let_def split: run.splits sum.splits)

text \<open>C21: Without send concurrency a message is answered exactly once before the processor returns, as the
  specification says: an unknown type and an unreadable message with status 400, a failed submission with
  status 500, a committed transaction with its receipt; and the list of transactions in flight is as before.\<close>

theorem OnMessage_answers_once:
  assumes "fresh p" "SendConcurrency p \<le> 1"
  shows "OnMessage ops names rpc c (p, w) = Some (bind_run (answer ops names rpc c w) (\<lambda>w'. Ret (counted ops c p, w')))"
  using assms by (rule OnMessage_eq)

definition log_ops :: "(SendTransaction, ((nat \<times> error) + ReplyWithHeaders) list) ctx_ops" where
  "log_ops = \<lparr>ctx_Headers = t_Headers, ctx_Unmarshal = (\<lambda>c. Ret (Inr c)), ctx_SendErrorReply = (\<lambda>c code e w. Ret (w @ [Inl (code, e)])),
     ctx_Reply = (\<lambda>c r w. Ret (w @ [Inr r]))\<rparr>"

definition sample_receipt :: TxReceipt where
  "sample_receipt = \<lparr>rc_BlockNumber = 7, rc_SignerMSP = ''Org1MSP'', rc_Signer = ''user'',
     rc_ChaincodeSpec = \<lparr>cs_Type = 1, cs_Name = ''cc'', cs_Version = ''1.0''\<rparr>, TransactionID = ''tx1'', rc_Status = 0,
     SourcePeer = ''peer0'', ResponsePayload = []\<rparr>"

lemma fresh_new [simp]: "fresh (NewTxProcessor n t)"
  by (simp add: fresh_def NewTxProcessor_def ids_def)

theorem OnMessage_answers_once_witness:
  "OnMessage log_ops (\<lambda>_. ''VALID'') (\<lambda>_ _ _ _ _ _ _. (Some sample_receipt, None)) sample_tx (NewTxProcessor 0 60, []) =
     Some (Ret ((NewTxProcessor 0 60)\<lparr>highestID := 1000001\<rparr>, [Inr (ReceiptReply (receipt_reply (\<lambda>_. ''VALID'') sample_receipt))]))"
  by (subst OnMessage_answers_once)
     (simp_all add: NewTxProcessor_def fresh_def ids_def answer_def counted_def log_ops_def sample_tx_def)

end
