(* ===== verification/Sync_Dispatcher.thy ===== *)
theory Sync_Dispatcher
  imports Tx_Processor
begin

text \<open>
  Synchronous requests: \<^verbatim>\<open>internal/rest/sync/syncdispatcher.go\<close> and \<^verbatim>\<open>internal/utils/payload_decoder.go\<close>.

  The responses written to the client are collected in a list, so that writing twice is visible.  The
  calls of the Fabric client are arguments.  The wait for the responder, with its condition variable,
  is the relation \<open>wait_step\<close>.
\<close>

subsection \<open>The responder\<close>

record syncResponder =
  sr_writes :: "http_response list"
  sr_done :: bool

definition respond :: "http_response \<Rightarrow> syncResponder \<Rightarrow> syncResponder" where
  "respond r i = i\<lparr>sr_writes := sr_writes i @ [r], sr_done := True\<rparr>"

definition ReplyWithError :: "error \<Rightarrow> syncResponder \<Rightarrow> syncResponder" where
  "ReplyWithError err i = respond (RestErrReply err 500) i"

text \<open>An embedded interface is a member under the name of its type.\<close>

definition ReplyWithReceiptAndError :: "ReplyWithHeaders \<Rightarrow> error \<Rightarrow> syncResponder \<Rightarrow> syncResponder" where
  "ReplyWithReceiptAndError receipt err i =
     respond \<lparr>rs_status = 500, rs_body = json_marshal_indent (JObj [(''error'', JStr err), (''ReplyWithHeaders'', reply_json receipt)])\<rparr> i"

definition receipt_status :: "ReplyWithHeaders \<Rightarrow> int" where
  "receipt_status receipt = (if MsgType (rh_Common (reply_headers receipt)) \<noteq> ''TransactionSuccess''
     \<and> MsgType (rh_Common (reply_headers receipt)) \<noteq> ''QuerySuccess'' then 500 else 200)"

definition ReplyWithReceipt :: "ReplyWithHeaders \<Rightarrow> syncResponder \<Rightarrow> syncResponder" where
  "ReplyWithReceipt receipt i = respond \<lparr>rs_status = receipt_status receipt, rs_body = json_marshal_indent (reply_json receipt)\<rparr> i"

subsection \<open>The context of a synchronous message\<close>

datatype sync_msg = QueryMsg QueryChaincode | ByIDMsg GetTxByID | SendMsg SendTransaction

record syncTxInflight =
  sy_timeReceived :: string
  sy_msg :: sync_msg

definition sync_Headers :: "syncTxInflight \<Rightarrow> CommonHeaders" where
  "sync_Headers t = (case sy_msg t of QueryMsg q \<Rightarrow> q_Headers q | ByIDMsg g \<Rightarrow> g_Headers g | SendMsg s \<Rightarrow> t_Headers s)"

text \<open>\<^verbatim>\<open>reflect.Value.Set\<close> panics on another type.\<close>

definition sync_Unmarshal :: "syncTxInflight \<Rightarrow> SendTransaction res run" where
  "sync_Unmarshal t = (case sy_msg t of SendMsg s \<Rightarrow> Ret (Inr s) | _ \<Rightarrow> Panic ''reflect.Set: value is not assignable'')"

definition sync_SendErrorReply :: "syncTxInflight \<Rightarrow> nat \<Rightarrow> error \<Rightarrow> syncResponder \<Rightarrow> syncResponder" where
  "sync_SendErrorReply t status err = ReplyWithError err"

definition sync_SendErrorReplyWithTX :: "syncTxInflight \<Rightarrow> nat \<Rightarrow> error \<Rightarrow> string \<Rightarrow> syncResponder \<Rightarrow> syncResponder" where
  "sync_SendErrorReplyWithTX t status err txHash = sync_SendErrorReply t status (''TX '' @ txHash @ '': '' @ err)"

definition sync_stamped :: "string \<Rightarrow> string \<Rightarrow> syncTxInflight \<Rightarrow> ReplyWithHeaders \<Rightarrow> ReplyWithHeaders" where
  "sync_stamped uuid elapsed t r =
     (let h = reply_headers r; req = sync_Headers t in
      with_headers (h\<lparr>rh_Common := (rh_Common h)\<lparr>h_ID := uuid, h_Context := h_Context req\<rparr>, ReqID := h_ID req,
                      Received := sy_timeReceived t, Elapsed := elapsed\<rparr>) r)"

definition sync_Reply :: "string \<Rightarrow> string \<Rightarrow> syncTxInflight \<Rightarrow> ReplyWithHeaders \<Rightarrow> syncResponder \<Rightarrow> syncResponder" where
  "sync_Reply uuid elapsed t replyMessage = ReplyWithReceipt (sync_stamped uuid elapsed t replyMessage)"

definition sync_ops :: "string \<Rightarrow> string \<Rightarrow> (syncTxInflight, syncResponder) ctx_ops" where
  "sync_ops uuid elapsed = \<lparr>ctx_Headers = sync_Headers, ctx_Unmarshal = sync_Unmarshal,
     ctx_SendErrorReply = (\<lambda>t status err i. Ret (sync_SendErrorReply t status err i)),
     ctx_Reply = (\<lambda>t r i. Ret (sync_Reply uuid elapsed t r i))\<rparr>"

text \<open>
  \<^verbatim>\<open>DispatchMsgSync\<close> up to the wait: with the send in the same goroutine the responder is done by then and the
  loop ends at once.
\<close>

definition DispatchMsgSync ::
  "string \<Rightarrow> string \<Rightarrow> (int \<Rightarrow> string) \<Rightarrow> invoke \<Rightarrow> string \<Rightarrow> sync_msg \<Rightarrow> syncTxInflight txProcessor \<Rightarrow>
   (syncTxInflight txProcessor \<times> syncResponder) run option" where
  "DispatchMsgSync uuid elapsed names rpc now msg p =
     OnMessage (sync_ops uuid elapsed) names rpc \<lparr>sy_timeReceived = now, sy_msg = msg\<rparr> (p, \<lparr>sr_writes = [], sr_done = False\<rparr>)"

subsection \<open>Queries\<close>

definition DecodePayload :: "bytes \<Rightarrow> json" where
  "DecodePayload payload = (case json_unmarshal payload of None \<Rightarrow> JStr payload | Some structured \<Rightarrow> structured)"

definition sendReply :: "json \<Rightarrow> http_response" where
  "sendReply content = \<lparr>rs_status = 200, rs_body = json_marshal_indent content\<rparr>"

definition result_json :: "ReplyHeaders \<Rightarrow> json \<Rightarrow> json" where
  "result_json h result = JObj [(''headers'', JObj (reply_members h)), (''result'', result)]"

text \<open>The steps all queries share: a bad request is answered at once, a failed call with status 500.\<close>

definition query_with :: "'m rest run \<Rightarrow> ('m \<Rightarrow> 'r res) \<Rightarrow> ('m \<Rightarrow> 'r \<Rightarrow> json) \<Rightarrow> http_response run" where
  "query_with build call result =
     bind_run build (\<lambda>r. Ret (case r of
       Inl (err, code) \<Rightarrow> RestErrReply err (int code)
     | Inr msg \<Rightarrow> (case call msg of
         Inl err1 \<Rightarrow> RestErrReply err1 500
       | Inr x \<Rightarrow> sendReply (result msg x))))"

definition sync_QueryChaincode ::
  "schema_lib \<Rightarrow> (string \<Rightarrow> string \<Rightarrow> string \<Rightarrow> string \<Rightarrow> string list \<Rightarrow> bool \<Rightarrow> bytes res) \<Rightarrow> http_req \<Rightarrow> http_response run" where
  "sync_QueryChaincode lib Query req = query_with (BuildQueryMessage lib req)
     (\<lambda>msg. Query (h_ChannelID (q_Headers msg)) (h_Signer (q_Headers msg)) (ChaincodeName (q_Headers msg)) (q_Function msg) (q_Args msg) (StrongRead msg))
     (\<lambda>msg result. result_json (no_reply_headers\<lparr>rh_Common := no_headers\<lparr>h_ChannelID := h_ChannelID (q_Headers msg), h_ID := h_ID (q_Headers msg)\<rparr>\<rparr>)
                     (DecodePayload result))"

definition sync_GetTxByID :: "(string \<Rightarrow> string \<Rightarrow> string \<Rightarrow> obj res) \<Rightarrow> http_req \<Rightarrow> http_response run" where
  "sync_GetTxByID QueryTransaction req = query_with (BuildTxByIDMessage req)
     (\<lambda>msg. QueryTransaction (h_ChannelID (g_Headers msg)) (h_Signer (g_Headers msg)) (g_TxID msg))
     (\<lambda>msg result. result_json no_reply_headers (JObj result))"

record BCI =
  Height :: uint64
  CurrentBlockHash :: bytes
  PreviousBlockHash :: bytes

definition sync_GetChainInfo :: "(string \<Rightarrow> string \<Rightarrow> BCI res) \<Rightarrow> http_req \<Rightarrow> http_response run" where
  "sync_GetChainInfo QueryChainInfo req = query_with (BuildGetChainInfoMessage req)
     (\<lambda>h. QueryChainInfo (h_ChannelID h) (h_Signer h))
     (\<lambda>_ b. result_json no_reply_headers (JObj [(''current_block_hash'', JStr (hex_encode (CurrentBlockHash b))),
        (''height'', JNum (FormatUint (Height b))), (''previous_block_hash'', JStr (hex_encode (PreviousBlockHash b)))]))"

text \<open>The decoded blocks, as JSON: the raw block and the block.\<close>

definition block_result :: "json \<times> json \<Rightarrow> json" where
  "block_result b = result_json no_reply_headers (JObj [(''block'', snd b), (''raw'', fst b)])"

definition sync_GetBlock :: "(string \<Rightarrow> string \<Rightarrow> uint64 \<Rightarrow> bytes option \<Rightarrow> (json \<times> json) res) \<Rightarrow> http_req \<Rightarrow> http_response run" where
  "sync_GetBlock QueryBlock req = query_with (BuildGetBlockMessage req)
     (\<lambda>msg. QueryBlock (h_ChannelID (b_Headers msg)) (h_Signer (b_Headers msg)) (b_Number msg) (b_Hash msg)) (\<lambda>_. block_result)"

definition sync_GetBlockByTxID :: "(string \<Rightarrow> string \<Rightarrow> string \<Rightarrow> (json \<times> json) res) \<Rightarrow> http_req \<Rightarrow> http_response run" where
  "sync_GetBlockByTxID QueryBlockByTxID req = query_with (BuildGetBlockByTxIDMessage req)
     (\<lambda>msg. QueryBlockByTxID (h_ChannelID (g_Headers msg)) (h_Signer (g_Headers msg)) (g_TxID msg)) (\<lambda>_. block_result)"

subsection \<open>Waiting for the responder\<close>

text \<open>
  The loop \<^verbatim>\<open>for !done { waiter.Wait() }\<close> against \<^verbatim>\<open>done = true; waiter.Broadcast()\<close> in the goroutine of a
  concurrent send, which does not hold the mutex of the condition variable.  \<^verbatim>\<open>Wait\<close> puts the caller on the notification list
  and only a later broadcast wakes it up.
\<close>

datatype waiter = Checking | Entering | Parked | Finished
datatype replier = Working | Stored | Broadcasted

record wait_state =
  w_done :: bool
  w_waiter :: waiter
  w_replier :: replier

inductive wait_step :: "wait_state \<Rightarrow> wait_state \<Rightarrow> bool" where
  leave: "w_waiter s = Checking \<Longrightarrow> w_done s \<Longrightarrow> wait_step s (s\<lparr>w_waiter := Finished\<rparr>)"
| check: "w_waiter s = Checking \<Longrightarrow> \<not> w_done s \<Longrightarrow> wait_step s (s\<lparr>w_waiter := Entering\<rparr>)"
| suspend: "w_waiter s = Entering \<Longrightarrow> wait_step s (s\<lparr>w_waiter := Parked\<rparr>)"
| set_done: "w_replier s = Working \<Longrightarrow> wait_step s (s\<lparr>w_done := True, w_replier := Stored\<rparr>)"
| broadcast: "w_replier s = Stored \<Longrightarrow>
    wait_step s (s\<lparr>w_replier := Broadcasted, w_waiter := (if w_waiter s = Parked then Checking else w_waiter s)\<rparr>)"

inductive_simps wait_step_simps: "wait_step s t"

definition wait_start :: wait_state where
  "wait_start = \<lparr>w_done = False, w_waiter = Checking, w_replier = Working\<rparr>"

subsection \<open>Properties\<close>

text \<open>The one response to a transaction.\<close>

definition sync_response :: "string \<Rightarrow> string \<Rightarrow> (int \<Rightarrow> string) \<Rightarrow> invoke \<Rightarrow> string \<Rightarrow> SendTransaction \<Rightarrow> http_response run" where
  "sync_response uuid elapsed names rpc now m =
     (if MsgType (t_Headers m) \<noteq> ''SendTransaction''
      then Ret (RestErrReply (''Unknown message type '' @ [squote] @ MsgType (t_Headers m) @ [squote]) 500)
      else case rpc (h_ChannelID (t_Headers m)) (h_Signer (t_Headers m)) (ChaincodeName (t_Headers m)) (t_Function m) (t_Args m)
                    (TransientMap m) (IsInit m) of
        (_, Some e) \<Rightarrow> Ret (RestErrReply e 500)
      | (Some r, None) \<Rightarrow> Ret \<lparr>rs_status = (if IsSuccess r then 200 else 500),
          rs_body = json_marshal_indent (reply_json (sync_stamped uuid elapsed \<lparr>sy_timeReceived = now, sy_msg = SendMsg m\<rparr>
                      (ReceiptReply (receipt_reply names r))))\<rparr>
      | (None, None) \<Rightarrow> Panic ''nil pointer dereference'')"



text \<open>With a concurrent send the wake-up can be lost: the dispatcher reads the flag, the responder sets it and broadcasts
  without holding the mutex, and only then the dispatcher goes to sleep.  The response is written, but
  the dispatcher never returns.\<close>

theorem wake_up_can_be_lost:
  "\<exists>s. wait_step\<^sup>*\<^sup>* wait_start s \<and> w_done s \<and> w_waiter s = Parked \<and> (\<forall>t. \<not> wait_step s t)"
proof -
  let ?s1 = "wait_start\<lparr>w_waiter := Entering\<rparr>"
  let ?s2 = "?s1\<lparr>w_done := True, w_replier := Stored\<rparr>"
  let ?s3 = "?s2\<lparr>w_replier := Broadcasted\<rparr>"
  let ?s4 = "?s3\<lparr>w_waiter := Parked\<rparr>"
  have "wait_step wait_start ?s1" by (simp add: wait_step_simps wait_start_def)
  moreover have "wait_step ?s1 ?s2" by (simp add: wait_step_simps wait_start_def)
  moreover have "wait_step ?s2 ?s3" by (simp add: wait_step_simps wait_start_def)
  moreover have "wait_step ?s3 ?s4" by (simp add: wait_step_simps wait_start_def)
  ultimately have "wait_step\<^sup>*\<^sup>* wait_start ?s4" by (meson converse_rtranclp_into_rtranclp rtranclp.rtrancl_refl)
  moreover have "\<not> wait_step ?s4 t" for t by (simp add: wait_step_simps wait_start_def)
  ultimately show ?thesis by (intro exI [of _ ?s4]) (simp add: wait_start_def)
qed

text \<open>The result of a chaincode query reaches the client: what the chaincode returned as JSON is the member
  \<open>result\<close> of the response, which has status 200; anything that is not JSON is passed on as a string.\<close>

theorem query_result_reaches_client:
  assumes "BuildQueryMessage lib req = Ret (Inr msg)"
    "Query (h_ChannelID (q_Headers msg)) (h_Signer (q_Headers msg)) (ChaincodeName (q_Headers msg)) (q_Function msg) (q_Args msg) (StrongRead msg) = Inr payload"
    "ascii (h_ChannelID (q_Headers msg))" "ascii (h_ID (q_Headers msg))" "json_ok (DecodePayload payload)"
  shows "\<exists>body m. sync_QueryChaincode lib Query req = Ret \<lparr>rs_status = 200, rs_body = body\<rparr>
    \<and> json_unmarshal body = Some (JObj m)
    \<and> obj_get m ''result'' = Some (case json_unmarshal payload of Some v \<Rightarrow> v | None \<Rightarrow> JStr payload)"
proof -
  let ?j = "result_json (no_reply_headers\<lparr>rh_Common := no_headers\<lparr>h_ChannelID := h_ChannelID (q_Headers msg), h_ID := h_ID (q_Headers msg)\<rparr>\<rparr>) (DecodePayload payload)"
  have ok: "json_ok ?j" using assms(3-5)
    by (simp add: result_json_def reply_members_def common_members_def no_reply_headers_def no_headers_def omit_def) code_simp
  obtain m where m: "canon ?j = JObj m" unfolding result_json_def using canon_JObj by blast
  have "canonical (DecodePayload payload)"
    by (auto simp: DecodePayload_def json_unmarshal_canonical split: option.splits)
  then have "obj_get m ''result'' = Some (DecodePayload payload)"
    by (simp add: obj_get_canon [OF m [unfolded result_json_def]] canon_id)
  moreover have "json_unmarshal (json_marshal_indent ?j) = Some (JObj m)"
    using ok m by (simp add: json_unmarshal_def json_marshal_indent_def json_decode_encode del: canon.simps)
  moreover have "sync_QueryChaincode lib Query req = Ret \<lparr>rs_status = 200, rs_body = json_marshal_indent ?j\<rparr>"
    by (simp add: sync_QueryChaincode_def query_with_def assms(1,2) sendReply_def)
  ultimately show ?thesis by (auto simp: DecodePayload_def split: option.splits)
qed

definition sample_query :: QueryChaincode where
  "sample_query = \<lparr>q_Headers = no_headers\<lparr>h_ChannelID := ''ch'', h_Signer := ''user'', ChaincodeName := ''cc''\<rparr>,
     q_Function = ''f'', q_Args = [''a'', ''b''], StrongRead = False\<rparr>"

lemma sample_query_built: "BuildQueryMessage sample_lib sample_req = Ret (Inr sample_query)"
  by code_simp

theorem query_result_reaches_client_witness:
  "\<exists>body m. sync_QueryChaincode sample_lib (\<lambda>_ _ _ _ _ _. Inr ''42'') sample_req = Ret \<lparr>rs_status = 200, rs_body = body\<rparr>
    \<and> json_unmarshal body = Some (JObj m) \<and> obj_get m ''result'' = Some (JNum ''42'')"
proof -
  have u: "json_unmarshal ''42'' = Some (JNum ''42'')" by code_simp
  have "ascii (h_ChannelID (q_Headers sample_query))" "ascii (h_ID (q_Headers sample_query))" "json_ok (DecodePayload ''42'')"
    by code_simp+
  from query_result_reaches_client [OF sample_query_built _ this, of "\<lambda>_ _ _ _ _ _. Inr ''42''"] show ?thesis by (simp add: u)
qed

end
