(* ===== verification/Async_Dispatcher.thy ===== *)
theory Async_Dispatcher
  imports Tx_Processor "HOL-Library.AList"
begin

text \<open>
  Asynchronous requests without Kafka: \<^verbatim>\<open>internal/rest/async/asyncdispatcher.go\<close> and
  \<^verbatim>\<open>internal/rest/async/directhandler.go\<close>, on top of the transaction processor and the receipt store.

  The sequential definitions run a request to its end.  The relation \<open>dstep\<close> interleaves the requests of many
  clients: every step is one critical section of the source (a section under one of the two mutexes, a channel operation, or the call of the
  Fabric client).
\<close>

subsection \<open>The direct handler\<close>

record msgContext =
  mc_timeReceived :: string
  mc_key :: string
  mc_msgID :: string
  mc_msg :: SendTransaction

text \<open>\<open>d_store\<close> is the state of the receipt store with the messages for its WebSocket clients.\<close>

record 'p directHandler =
  d_initialized :: bool
  MaxInFlight :: int
  d_MaxTXWaitTime :: int
  inFlight :: "(string \<times> msgContext) list"
  d_store :: "'p \<times> obj list"

definition newDirectHandler :: "int \<Rightarrow> int \<Rightarrow> 'p \<Rightarrow> 'p directHandler" where
  "newDirectHandler maxInFlight maxWait store = \<lparr>d_initialized = False, MaxInFlight = maxInFlight, d_MaxTXWaitTime = maxWait,
     inFlight = [], d_store = (store, [])\<rparr>"

definition validateHandlerConf :: "'p directHandler \<Rightarrow> 'p directHandler" where
  "validateHandlerConf w =
     (let w = (if d_MaxTXWaitTime w < 10 then w\<lparr>d_MaxTXWaitTime := 10\<rparr> else w)
      in if MaxInFlight w \<le> 0 then w\<lparr>MaxInFlight := 10\<rparr> else w)"

text \<open>
  What a reply reads from its surroundings: a new identifier, the seconds since the message arrived (as JSON writes
  them), the time of day and the clock of the retry loop of the receipt store.
\<close>

record stamp =
  s_uuid :: string
  s_elapsed :: string
  s_nowMS :: int
  s_fuel :: nat
  s_retry :: "nat \<Rightarrow> int"

record 'p receipt_env =
  re_store :: "'p persistence"
  re_conf :: receiptConf
  re_ws :: bool

definition stamped :: "stamp \<Rightarrow> msgContext \<Rightarrow> ReplyWithHeaders \<Rightarrow> ReplyWithHeaders" where
  "stamped s t r =
     (let h = reply_headers r; req = t_Headers (mc_msg t) in
      with_headers (h\<lparr>rh_Common := (rh_Common h)\<lparr>h_ID := s_uuid s, h_Context := h_Context req\<rparr>, ReqID := h_ID req,
                      Received := mc_timeReceived t, Elapsed := s_elapsed s\<rparr>) r)"

definition msg_Reply ::
  "'p receipt_env \<Rightarrow> stamp \<Rightarrow> msgContext \<Rightarrow> ReplyWithHeaders \<Rightarrow> 'p directHandler \<Rightarrow> 'p directHandler run" where
  "msg_Reply E s t replyMessage w =
     (let msgBytes = json_marshal (reply_json (stamped s t replyMessage)) in
      bind_run (ProcessReceipt (s_fuel s) (re_store E) (s_retry s) (re_conf E) (re_ws E) (s_nowMS s) msgBytes (d_store w)) (\<lambda>st.
      Ret (w\<lparr>d_store := st, inFlight := AList.delete (mc_msgID t) (inFlight w)\<rparr>)))"

definition msg_SendErrorReplyWithTX ::
  "'p receipt_env \<Rightarrow> stamp \<Rightarrow> msgContext \<Rightarrow> nat \<Rightarrow> error \<Rightarrow> string \<Rightarrow> 'p directHandler \<Rightarrow> 'p directHandler run" where
  "msg_SendErrorReplyWithTX E s t status err txHash w =
     (let origBytes = json_marshal (send_json (mc_msg t)); errMsg = NewErrorReply (Some err) (Inl origBytes)
      in msg_Reply E s t (ErrReply (errMsg\<lparr>TXHash := txHash\<rparr>)) w)"

definition msg_SendErrorReply ::
  "'p receipt_env \<Rightarrow> stamp \<Rightarrow> msgContext \<Rightarrow> nat \<Rightarrow> error \<Rightarrow> 'p directHandler \<Rightarrow> 'p directHandler run" where
  "msg_SendErrorReply E s t status err = msg_SendErrorReplyWithTX E s t status err []"

definition direct_ops :: "'p receipt_env \<Rightarrow> stamp \<Rightarrow> (msgContext, 'p directHandler) ctx_ops" where
  "direct_ops E s = \<lparr>ctx_Headers = (\<lambda>t. t_Headers (mc_msg t)), ctx_Unmarshal = (\<lambda>t. Ret (Inr (mc_msg t))),
     ctx_SendErrorReply = msg_SendErrorReply E s, ctx_Reply = msg_Reply E s\<rparr>"

text \<open>The first half of \<^verbatim>\<open>dispatchMsg\<close>, under the mutex: the limit and the entry in the map.\<close>

definition register ::
  "string \<Rightarrow> string \<Rightarrow> string \<Rightarrow> SendTransaction \<Rightarrow> 'p directHandler \<Rightarrow> (nat \<times> error) + (msgContext \<times> 'p directHandler)" where
  "register now key msgID msg w =
     (if int (length (inFlight w)) \<ge> MaxInFlight w then Inl (429, ''Too many in-flight transactions'')
      else let c = \<lparr>mc_timeReceived = now, mc_key = key, mc_msgID = msgID, mc_msg = msg\<rparr>
           in Inr (c, w\<lparr>inFlight := AList.update msgID c (inFlight w)\<rparr>))"

type_synonym 's dispatch_result = "((string \<times> nat \<times> error option) \<times> 's) run option"

definition direct_dispatchMsg ::
  "'p receipt_env \<Rightarrow> stamp \<Rightarrow> (int \<Rightarrow> string) \<Rightarrow> invoke \<Rightarrow> string \<Rightarrow> string \<Rightarrow> string \<Rightarrow> SendTransaction \<Rightarrow> bool \<Rightarrow>
   msgContext txProcessor \<times> 'p directHandler \<Rightarrow> (msgContext txProcessor \<times> 'p directHandler) dispatch_result" where
  "direct_dispatchMsg E s names rpc now key msgID msg ack st =
     (case register now key msgID msg (snd st) of
        Inl (code, err) \<Rightarrow> Some (Ret (([], code, Some err), st))
      | Inr (c, w) \<Rightarrow> map_option (\<lambda>r. bind_run r (\<lambda>st'. Ret (([], 200, None), st')))
                        (OnMessage (direct_ops E s) names rpc c (fst st, w)))"

definition run_direct :: "'p directHandler \<Rightarrow> 'p directHandler" where
  "run_direct w = w\<lparr>d_initialized := True\<rparr>"

subsection \<open>The dispatcher\<close>

record AsyncSentMsg =
  Sent :: bool
  Request :: string
  Msg :: string

definition sent_json :: "AsyncSentMsg \<Rightarrow> json" where
  "sent_json m = JObj (omit False ''sent'' (JBool (Sent m)) @ omit False ''id'' (JStr (Request m)) @ omit (Msg m = []) ''msg'' (JStr (Msg m)))"

text \<open>\<open>dispatch\<close> is \<^verbatim>\<open>dispatchMsg\<close> of the handler: key, message identifier, message and the flag for an acknowledgement.\<close>

definition processMsg ::
  "string \<Rightarrow> (string \<Rightarrow> string \<Rightarrow> SendTransaction \<Rightarrow> bool \<Rightarrow> 's \<Rightarrow> 's dispatch_result) \<Rightarrow> SendTransaction \<Rightarrow> bool \<Rightarrow> 's \<Rightarrow>
   ((AsyncSentMsg option \<times> nat \<times> error option) \<times> 's) run option" where
  "processMsg uuid dispatch msg ack st =
     (let h = t_Headers msg in
      if MsgType h \<noteq> ''DeployContract'' \<and> MsgType h \<noteq> ''SendTransaction''
      then Some (Ret ((None, 400, Some (''Invalid message type: '' @ [dquote] @ MsgType h @ [dquote])), st))
      else if h_Signer h = [] then Some (Ret ((None, 400, Some (''Invalid message - missing '' @ [squote] @ ''signer'' @ [squote] @ '' (or not a string)'')), st))
      else let msg' = (if h_ID h = [] then msg\<lparr>t_Headers := h\<lparr>h_ID := uuid\<rparr>\<rparr> else msg); i = h_ID (t_Headers msg')
           in map_option (\<lambda>r. bind_run r (\<lambda>((msgAck, status, err), st'). Ret (case err of
                  Some e \<Rightarrow> (None, status, Some e)
                | None \<Rightarrow> (Some \<lparr>Sent = True, Request = i, Msg = msgAck\<rparr>, 200, None), st')))
                (dispatch (h_ChannelID h) i msg' ack st))"

definition DispatchMsgAsync ::
  "string \<Rightarrow> (string \<Rightarrow> string \<Rightarrow> SendTransaction \<Rightarrow> bool \<Rightarrow> 's \<Rightarrow> 's dispatch_result) \<Rightarrow> SendTransaction \<Rightarrow> bool \<Rightarrow> 's \<Rightarrow>
   ((AsyncSentMsg option \<times> error option) \<times> 's) run option" where
  "DispatchMsgAsync uuid dispatch msg ack st =
     map_option (\<lambda>r. bind_run r (\<lambda>((reply, _, err), st'). Ret ((reply, err), st'))) (processMsg uuid dispatch msg ack st)"

definition HandleReceipts ::
  "'p persistence \<Rightarrow> receiptConf \<Rightarrow> 'a SecurityModule option \<Rightarrow> 'a Context \<Rightarrow> string \<Rightarrow> form \<Rightarrow> string \<Rightarrow> 'p \<Rightarrow> http_response run" where
  "HandleReceipts p config sm ctx path form ident s =
     (if path = ''/receipts'' then store_GetReceipts p config sm ctx form s else Ret (store_GetReceipt p sm ctx ident s))"

end
