(* ===== verification/Async_Steps.thy ===== *)
theory Async_Steps
  imports Async_Dispatcher "HOL-Library.Multiset"
begin

text \<open>
  Concurrent requests to the direct handler: the goroutines of \<^verbatim>\<open>directhandler.go\<close> and \<^verbatim>\<open>txprocessor.go\<close> as
  threads, whose critical sections are the steps of \<open>dstep\<close>.  The fields \<open>accepted\<close> and \<open>answered\<close> record the history; no step
  reads them.
\<close>

subsection \<open>Threads\<close>

datatype thread =
    Registered msgContext
  | Waiting "msgContext inflightTx" Tx
  | Sending "msgContext inflightTx" Tx
  | Returned "msgContext inflightTx" "error option"
  | Failing msgContext error
  | Replied "msgContext inflightTx"

record 'p sys =
  proc :: "msgContext txProcessor"
  handler :: "'p directHandler"
  threads :: "thread list"
  accepted :: "msgContext list"
  answered :: "msgContext list"

definition unknown_type :: "msgContext \<Rightarrow> error" where
  "unknown_type c = ''Unknown message type '' @ [squote] @ MsgType (t_Headers (mc_msg c)) @ [squote]"

definition take_slot :: "msgContext txProcessor \<Rightarrow> msgContext txProcessor option" where
  "take_slot p = (if SendConcurrency p > 1
     then if int (concurrencySlots p) < SendConcurrency p then Some (p\<lparr>concurrencySlots := concurrencySlots p + 1\<rparr>) else None
     else Some p)"

definition give_slot :: "msgContext txProcessor \<Rightarrow> msgContext txProcessor" where
  "give_slot p = (if SendConcurrency p > 1 then p\<lparr>concurrencySlots := concurrencySlots p - 1\<rparr> else p)"

text \<open>The Fabric client returns a receipt or an error; it is free to choose at every call.\<close>

inductive dstep :: "'p receipt_env \<Rightarrow> (int \<Rightarrow> string) \<Rightarrow> 'p sys \<Rightarrow> 'p sys \<Rightarrow> bool" for E names where
  accept: "register now key msgID msg (handler s) = Inr (c, w) \<Longrightarrow>
    dstep E names s (s\<lparr>handler := w, threads := threads s @ [Registered c], accepted := accepted s @ [c]\<rparr>)"
| refuse: "\<lbrakk>threads s = xs @ Registered c # ys; MsgType (t_Headers (mc_msg c)) \<noteq> ''SendTransaction'';
    msg_SendErrorReply E st c 400 (unknown_type c) (handler s) = Ret w\<rbrakk> \<Longrightarrow>
    dstep E names s (s\<lparr>handler := w, threads := xs @ ys, answered := answered s @ [c]\<rparr>)"
| track: "\<lbrakk>threads s = xs @ Registered c # ys; MsgType (t_Headers (mc_msg c)) = ''SendTransaction'';
    addInflightWrapper c (t_Headers (mc_msg c)) (proc s) = (i, p); tx = NewSendTx (mc_msg c) (i_signer i)\<rbrakk> \<Longrightarrow>
    dstep E names s (s\<lparr>proc := set_inflight (i\<lparr>i_tx := Some tx\<rparr>) p, threads := xs @ Waiting (i\<lparr>i_tx := Some tx\<rparr>) tx # ys\<rparr>)"
| start: "\<lbrakk>threads s = xs @ Waiting i tx # ys; take_slot (proc s) = Some p\<rbrakk> \<Longrightarrow>
    dstep E names s (s\<lparr>proc := p, threads := xs @ Sending i tx # ys\<rparr>)"
| return: "\<lbrakk>threads s = xs @ Sending i tx # ys; Send tx rpc = (tx', err); tx_Receipt tx' \<noteq> None \<or> err \<noteq> None\<rbrakk> \<Longrightarrow>
    dstep E names s (s\<lparr>proc := give_slot (set_inflight (i\<lparr>i_tx := Some tx'\<rparr>) (proc s)),
      threads := xs @ Returned (i\<lparr>i_tx := Some tx'\<rparr>) err # ys\<rparr>)"
| cancel: "threads s = xs @ Returned i (Some e) # ys \<Longrightarrow>
    dstep E names s (s\<lparr>proc := cancelInFlight i (proc s), threads := xs @ Failing (i_txContext i) e # ys\<rparr>)"
| failed: "\<lbrakk>threads s = xs @ Failing c e # ys; msg_SendErrorReply E st c 500 e (handler s) = Ret w\<rbrakk> \<Longrightarrow>
    dstep E names s (s\<lparr>handler := w, threads := xs @ ys, answered := answered s @ [c]\<rparr>)"
| reply: "\<lbrakk>threads s = xs @ Returned i None # ys; inflight_receipt i = Ret r;
    msg_Reply E st (i_txContext i) (ReceiptReply (receipt_reply names r)) (handler s) = Ret w\<rbrakk> \<Longrightarrow>
    dstep E names s (s\<lparr>handler := w, threads := xs @ Replied i # ys, answered := answered s @ [i_txContext i]\<rparr>)"
| finish: "threads s = xs @ Replied i # ys \<Longrightarrow>
    dstep E names s (s\<lparr>proc := cancelInFlight i (proc s), threads := xs @ ys\<rparr>)"

definition start_sys :: "int \<Rightarrow> int \<Rightarrow> int \<Rightarrow> 'p \<Rightarrow> 'p sys" where
  "start_sys conc maxInFlight maxWait store = \<lparr>proc = NewTxProcessor conc maxWait,
     handler = run_direct (validateHandlerConf (newDirectHandler maxInFlight maxWait store)),
     threads = [], accepted = [], answered = []\<rparr>"

subsection \<open>The invariant\<close>

fun tracked :: "thread \<Rightarrow> int list" where
  "tracked (Waiting i _) = [i_id i]"
| "tracked (Sending i _) = [i_id i]"
| "tracked (Returned i _) = [i_id i]"
| "tracked (Replied i) = [i_id i]"
| "tracked _ = []"

fun unanswered :: "thread \<Rightarrow> msgContext list" where
  "unanswered (Registered c) = [c]"
| "unanswered (Waiting i _) = [i_txContext i]"
| "unanswered (Sending i _) = [i_txContext i]"
| "unanswered (Returned i _) = [i_txContext i]"
| "unanswered (Failing c _) = [c]"
| "unanswered (Replied _) = []"

fun sending :: "thread \<Rightarrow> nat" where
  "sending (Sending _ _) = 1"
| "sending _ = 0"

definition inv_ids :: "'p sys \<Rightarrow> bool" where
  "inv_ids s \<longleftrightarrow> fresh (proc s) \<and> mset (ids (proc s)) = mset (concat (map tracked (threads s)))"

definition inv_slots :: "'p sys \<Rightarrow> bool" where
  "inv_slots s \<longleftrightarrow> (SendConcurrency (proc s) > 1 \<longrightarrow>
     concurrencySlots (proc s) = sum_list (map sending (threads s)) \<and> int (concurrencySlots (proc s)) \<le> SendConcurrency (proc s))"

definition inv_answers :: "'p sys \<Rightarrow> bool" where
  "inv_answers s \<longleftrightarrow> mset (accepted s) = mset (answered s) + mset (concat (map unanswered (threads s)))"

definition inv_limit :: "'p sys \<Rightarrow> bool" where
  "inv_limit s \<longleftrightarrow> int (length (inFlight (handler s))) \<le> MaxInFlight (handler s) \<and> 0 < MaxInFlight (handler s)
     \<and> fst ` set (inFlight (handler s)) \<subseteq> mc_msgID ` set (concat (map unanswered (threads s)))"

text \<open>A thread that is about to reply has a receipt.\<close>

definition inv_receipts :: "'p sys \<Rightarrow> bool" where
  "inv_receipts s \<longleftrightarrow> (\<forall>i. Returned i None \<in> set (threads s) \<longrightarrow> (\<exists>r. inflight_receipt i = Ret r))"

lemma length_update_le: "length (AList.update k v xs) \<le> Suc (length xs)"
  by (induction xs) (auto split: prod.splits)

lemma msg_Reply_handler:
  "msg_Reply E st c r w = Ret w' \<Longrightarrow> inFlight w' = AList.delete (mc_msgID c) (inFlight w) \<and> MaxInFlight w' = MaxInFlight w"
  by (auto simp: msg_Reply_def Let_def bind_run_Ret)

lemma msg_SendErrorReply_handler:
  "msg_SendErrorReply E st c n e w = Ret w' \<Longrightarrow> inFlight w' = AList.delete (mc_msgID c) (inFlight w) \<and> MaxInFlight w' = MaxInFlight w"
  by (auto simp: msg_SendErrorReply_def msg_SendErrorReplyWithTX_def Let_def dest: msg_Reply_handler)

lemma slot_ops [simp]:
  "ids (give_slot p) = ids p" "fresh (give_slot p) = fresh p" "take_slot p = Some q \<Longrightarrow> ids q = ids p" "take_slot p = Some q \<Longrightarrow> fresh q = fresh p"
  by (auto simp: give_slot_def take_slot_def fresh_def split: if_splits)

lemma fresh_set [simp]: "fresh (set_inflight i p) = fresh p"
  by (simp add: fresh_def) (simp add: set_inflight_def)

lemma step_ids: "dstep E names s t \<Longrightarrow> inv_ids s \<Longrightarrow> inv_ids t"
proof (induction rule: dstep.induct)
  case (track s xs c ys i p tx)
  with fresh_add [of "proc s" c _ i p] show ?case by (simp add: inv_ids_def)
qed (auto simp: inv_ids_def mset_remove1)

lemma step_slots: "dstep E names s t \<Longrightarrow> inv_slots s \<Longrightarrow> inv_slots t"
  by (induction rule: dstep.induct)
     (auto simp: inv_slots_def take_slot_def give_slot_def set_inflight_def cancelInFlight_def addInflightWrapper_def Let_def split: if_splits)

lemma step_answers: "dstep E names s t \<Longrightarrow> inv_answers s \<Longrightarrow> inv_answers t"
  by (induction rule: dstep.induct) (auto simp: inv_answers_def addInflightWrapper_def Let_def)

lemma keys_delete: "fst ` set (AList.delete k xs) = fst ` set xs - {k}"
  using arg_cong [OF delete_keys [of k xs], of set] by simp

lemma limit_delete:
  assumes "inv_limit s" "threads s = xs @ a # ys" "inFlight w = AList.delete (mc_msgID c) (inFlight (handler s))"
    "MaxInFlight w = MaxInFlight (handler s)" "set (unanswered a) \<subseteq> {c}" "unanswered b = []"
  shows "inv_limit (s\<lparr>handler := w, threads := xs @ ys, answered := as\<rparr>)"
    and "inv_limit (s\<lparr>handler := w, threads := xs @ b # ys, answered := as\<rparr>)"
proof -
  have "set (concat (map unanswered (threads s))) \<subseteq> insert c (set (concat (map unanswered (xs @ ys))))"
    using assms(2,5) by auto
  from image_mono [OF this, of mc_msgID]
  have "fst ` set (inFlight (handler s)) \<subseteq> insert (mc_msgID c) (mc_msgID ` set (concat (map unanswered (xs @ ys))))"
    using assms(1) unfolding inv_limit_def image_insert by (meson order_trans)
  then have "fst ` set (inFlight w) \<subseteq> mc_msgID ` set (concat (map unanswered (xs @ ys)))"
    unfolding assms(3) keys_delete by blast
  then show "inv_limit (s\<lparr>handler := w, threads := xs @ ys, answered := as\<rparr>)"
    and "inv_limit (s\<lparr>handler := w, threads := xs @ b # ys, answered := as\<rparr>)"
    using assms length_delete_le [of "mc_msgID c" "inFlight (handler s)"] by (simp_all add: inv_limit_def)
qed

lemma step_limit: "dstep E names s t \<Longrightarrow> inv_limit s \<Longrightarrow> inv_limit t"
proof (induction rule: dstep.induct)
  case (accept now key msgID msg s c w)
  then have w: "w = (handler s)\<lparr>inFlight := AList.update msgID c (inFlight (handler s))\<rparr>" "mc_msgID c = msgID"
    "int (length (inFlight (handler s))) < MaxInFlight (handler s)"
    by (auto simp: register_def Let_def split: if_splits)
  have "fst ` set (AList.update msgID c (inFlight (handler s))) \<subseteq> mc_msgID ` set (concat (map unanswered (threads s @ [Registered c])))"
    using accept w(2) by (subst dom_update) (auto simp: inv_limit_def)
  then show ?case using length_update_le [of msgID c "inFlight (handler s)"] w accept by (simp add: inv_limit_def)
next
  case (refuse s xs c ys st w)
  then show ?case using limit_delete(1) [of s xs "Registered c" ys w c "Replied i"] msg_SendErrorReply_handler by fastforce
next
  case (failed s xs c e ys st w)
  then show ?case using limit_delete(1) [of s xs "Failing c e" ys w c "Replied i"] msg_SendErrorReply_handler by fastforce
next
  case (reply s xs i ys r st w)
  then show ?case using limit_delete(2) [of s xs "Returned i None" ys w "i_txContext i" "Replied i"] msg_Reply_handler by fastforce
qed (auto simp: inv_limit_def addInflightWrapper_def Let_def)

lemma step_receipts: "dstep E names s t \<Longrightarrow> inv_receipts s \<Longrightarrow> inv_receipts t"
proof (induction rule: dstep.induct)
  case (return s xs i tx ys rpc tx' err)
  then show ?case by (auto simp: inv_receipts_def inflight_receipt_def)
qed (auto simp: inv_receipts_def)

definition dinv :: "'p sys \<Rightarrow> bool" where
  "dinv s \<longleftrightarrow> inv_ids s \<and> inv_slots s \<and> inv_answers s \<and> inv_limit s \<and> inv_receipts s"

lemma dinv_start: "dinv (start_sys conc maxInFlight maxWait store)"
  by (simp add: dinv_def inv_ids_def inv_slots_def inv_answers_def inv_limit_def inv_receipts_def start_sys_def fresh_new)
     (simp add: NewTxProcessor_def ids_def run_direct_def validateHandlerConf_def newDirectHandler_def Let_def)

lemma dinv_steps: "(dstep E names)\<^sup>*\<^sup>* s t \<Longrightarrow> dinv s \<Longrightarrow> dinv t"
proof (induction rule: rtranclp_induct)
  case (step t u)
  then show ?case unfolding dinv_def by (meson step_ids step_slots step_answers step_limit step_receipts)
qed

subsection \<open>Properties\<close>


text \<open>How many steps a thread has left.\<close>

fun left_over :: "thread \<Rightarrow> nat" where
  "left_over (Registered _) = 6"
| "left_over (Waiting _ _) = 5"
| "left_over (Sending _ _) = 4"
| "left_over (Returned _ _) = 3"
| "left_over (Failing _ _) = 2"
| "left_over (Replied _) = 1"

definition work :: "'p sys \<Rightarrow> nat" where
  "work s = sum_list (map left_over (threads s))"

definition no_reply :: "'p receipt_env \<Rightarrow> 'p sys \<Rightarrow> bool" where
  "no_reply E s \<longleftrightarrow> (\<exists>c r. c \<in> set (concat (map unanswered (threads s))) \<and> (\<forall>st w. msg_Reply E st c r (handler s) \<noteq> Ret w))"

lemma error_reply: "\<exists>r. \<forall>st w. msg_SendErrorReply E st c n e w = msg_Reply E st c r w"
  by (auto simp: msg_SendErrorReply_def msg_SendErrorReplyWithTX_def Let_def)

lemma advance: "dstep E names s t \<Longrightarrow> work t < work s \<Longrightarrow> (\<exists>t. dstep E names s t \<and> work t < work s) \<or> no_reply E s"
  by blast

text \<open>A thread that is about to answer does so, or its reply is not taken.\<close>

lemma answering:
  assumes "threads s = xs @ a # ys" "c \<in> set (unanswered a)"
    "\<And>st w. msg_Reply E st c r (handler s) = Ret w \<Longrightarrow> \<exists>t. dstep E names s t \<and> work t < work s"
  shows "(\<exists>t. dstep E names s t \<and> work t < work s) \<or> no_reply E s"
proof (cases "\<exists>st w. msg_Reply E st c r (handler s) = Ret w")
  case False
  then have "c \<in> set (concat (map unanswered (threads s))) \<and> (\<forall>st w. msg_Reply E st c r (handler s) \<noteq> Ret w)" using assms(1,2) by auto
  then show ?thesis unfolding no_reply_def by blast
qed (use assms(3) in blast)

lemma answering_error:
  assumes "threads s = xs @ a # ys" "c \<in> set (unanswered a)"
    "\<And>st w. msg_SendErrorReply E st c n e (handler s) = Ret w \<Longrightarrow> \<exists>t. dstep E names s t \<and> work t < work s"
  shows "(\<exists>t. dstep E names s t \<and> work t < work s) \<or> no_reply E s"
proof -
  obtain r where "\<forall>st w. msg_SendErrorReply E st c n e w = msg_Reply E st c r w" using error_reply by blast
  then show ?thesis using answering [OF assms(1,2)] assms(3) by metis
qed

lemma thread_progress:
  assumes "dinv s" "threads s = xs @ a # ys" "\<And>i tx. a = Waiting i tx \<Longrightarrow> take_slot (proc s) \<noteq> None"
  shows "(\<exists>t. dstep E names s t \<and> work t < work s) \<or> no_reply E s"
proof (cases a)
  case (Registered c)
  note a = assms(2) [unfolded Registered]
  obtain i p where ip: "addInflightWrapper c (t_Headers (mc_msg c)) (proc s) = (i, p)" by (rule prod.exhaust)
  show ?thesis
  proof (cases "MsgType (t_Headers (mc_msg c)) = ''SendTransaction''")
    case True
    from dstep.track [OF a True ip refl, of E names] show ?thesis by (rule advance) (simp add: work_def a)
  next
    case False
    show ?thesis by (rule answering_error [OF a]) (auto intro!: exI conjI dstep.refuse [OF a False] simp: work_def a)
  qed
next
  case (Waiting i tx)
  note a = assms(2) [unfolded Waiting]
  obtain p where "take_slot (proc s) = Some p" using assms(3) Waiting by blast
  from dstep.start [OF a this, of E names] show ?thesis by (rule advance) (simp add: work_def a)
next
  case (Sending i tx)
  note a = assms(2) [unfolded Sending]
  have "Send tx (\<lambda>_ _ _ _ _ _ _. (None, Some [])) = (tx\<lparr>tx_Receipt := None\<rparr>, Some [])" by (simp add: Send_def)
  from dstep.return [OF a this, of E names] have "dstep E names s (s\<lparr>proc := give_slot (set_inflight (i\<lparr>i_tx := Some (tx\<lparr>tx_Receipt := None\<rparr>)\<rparr>) (proc s)),
      threads := xs @ Returned (i\<lparr>i_tx := Some (tx\<lparr>tx_Receipt := None\<rparr>)\<rparr>) (Some []) # ys\<rparr>)" by simp
  then show ?thesis by (rule advance) (simp add: work_def a)
next
  case (Returned i e)
  show ?thesis
  proof (cases e)
    case (Some x)
    note a = assms(2) [unfolded Returned Some]
    from dstep.cancel [OF a, of E names] show ?thesis by (rule advance) (simp add: work_def a)
  next
    case None
    note a = assms(2) [unfolded Returned None]
    obtain r where r: "inflight_receipt i = Ret r" using assms(1) a by (auto simp: dinv_def inv_receipts_def)
    show ?thesis by (rule answering [OF a, of "i_txContext i"]) (auto intro!: exI conjI dstep.reply [OF a r] simp: work_def a)
  qed
next
  case (Failing c e)
  note a = assms(2) [unfolded Failing]
  show ?thesis by (rule answering_error [OF a]) (auto intro!: exI conjI dstep.failed [OF a] simp: work_def a)
next
  case (Replied i)
  note a = assms(2) [unfolded Replied]
  from dstep.finish [OF a, of E names] show ?thesis by (rule advance) (simp add: work_def a)
qed

lemma blocked_sends:
  assumes "dinv s" "take_slot (proc s) = None"
  obtains xs i tx ys where "threads s = xs @ Sending i tx # ys"
proof -
  have "1 < SendConcurrency (proc s)" "SendConcurrency (proc s) \<le> int (sum_list (map sending (threads s)))"
    using assms by (auto simp: dinv_def inv_slots_def take_slot_def split: if_splits)
  then have "sum_list (map sending (threads s)) \<noteq> 0" by linarith
  then obtain a where a: "a \<in> set (threads s)" "sending a \<noteq> 0" by (auto simp: sum_list_eq_0_iff)
  from a(2) obtain i tx where "a = Sending i tx" by (cases a) auto
  with a(1) that show ?thesis by (meson split_list)
qed

text \<open>The handler cannot deadlock: as long as a thread is running some thread can take a step that brings it
  nearer to its end, also when all slots are taken, unless the receipt store takes no reply
  from one of the contexts.\<close>

theorem direct_handler_progress:
  assumes "(dstep E names)\<^sup>*\<^sup>* (start_sys conc maxInFlight maxWait store) s" "threads s \<noteq> []"
  shows "(\<exists>t. dstep E names s t \<and> work t < work s) \<or> no_reply E s"
proof -
  have i: "dinv s" using dinv_steps [OF assms(1) dinv_start] .
  obtain a ys where a: "threads s = [] @ a # ys" using assms(2) by (cases "threads s") auto
  show ?thesis
  proof (cases "take_slot (proc s) = None")
    case True
    then obtain xs i tx ys where "threads s = xs @ Sending i tx # ys" using blocked_sends [OF i] by blast
    from thread_progress [OF i this] show ?thesis by simp
  next
    case False
    then show ?thesis by (intro thread_progress [OF i a])
  qed
qed

definition mem_env :: "memoryReceipts receipt_env" where
  "mem_env = \<lparr>re_store = mem_persistence, re_conf = \<lparr>QueryLimit = 10, RetryInitialDelayMS = 500, RetryTimeoutMS = 1000\<rparr>, re_ws = False\<rparr>"

definition sample_ctx :: msgContext where
  "sample_ctx = \<lparr>mc_timeReceived = ''t0'', mc_key = ''ch'', mc_msgID = ''m1'', mc_msg = sample_tx\<lparr>t_Headers := (t_Headers sample_tx)\<lparr>h_ID := ''m1''\<rparr>\<rparr>\<rparr>"

abbreviation sys0 :: "memoryReceipts sys" where
  "sys0 \<equiv> start_sys 0 1 60 (newMemoryReceipts 5)"

definition sys1 :: "memoryReceipts sys" where
  "sys1 = sys0\<lparr>handler := (handler sys0)\<lparr>inFlight := [(''m1'', sample_ctx)]\<rparr>, threads := [Registered sample_ctx], accepted := [sample_ctx]\<rparr>"

lemma sys1_reached: "(dstep mem_env names)\<^sup>*\<^sup>* sys0 sys1"
proof -
  have "register ''t0'' ''ch'' ''m1'' (mc_msg sample_ctx) (handler sys0) = Inr (sample_ctx, (handler sys0)\<lparr>inFlight := [(''m1'', sample_ctx)]\<rparr>)"
    by (simp add: register_def start_sys_def run_direct_def validateHandlerConf_def newDirectHandler_def sample_ctx_def Let_def)
  from dstep.accept [OF this, of mem_env names] have "dstep mem_env names sys0 sys1"
    by (simp add: sys1_def) (simp add: start_sys_def)
  then show ?thesis by blast
qed


theorem direct_handler_progress_witness:
  "(\<exists>t. dstep mem_env (\<lambda>_. ''VALID'') sys1 t \<and> work t < work sys1) \<or> no_reply mem_env sys1"
  by (rule direct_handler_progress [OF sys1_reached]) (simp add: sys1_def)

subsection \<open>What the limits do not limit\<close>

definition sends_only :: "int \<Rightarrow> nat \<Rightarrow> 'p sys \<Rightarrow> bool" where
  "sends_only m n s \<longleftrightarrow> sum_list (map sending (threads s)) = n \<and> length (threads s) = n
     \<and> (\<exists>c. inFlight (handler s) = [] \<or> inFlight (handler s) = [(''x'', c)])
     \<and> MaxInFlight (handler s) = m \<and> SendConcurrency (proc s) \<le> 1"

lemma one_more_send:
  assumes "sends_only m n s" "2 \<le> m"
  shows "\<exists>t. (dstep E names)\<^sup>*\<^sup>* s t \<and> sends_only m (Suc n) t"
proof -
  define c where "c = \<lparr>mc_timeReceived = [], mc_key = [], mc_msgID = ''x'', mc_msg = sample_tx\<rparr>"
  define w where "w = (handler s)\<lparr>inFlight := [(''x'', c)]\<rparr>"
  have "register [] [] ''x'' sample_tx (handler s) = Inr (c, w)"
    using assms by (auto simp: register_def sends_only_def c_def w_def Let_def)
  note s1 = dstep.accept [OF this, of E names]
  obtain i p where ip: "addInflightWrapper c (t_Headers (mc_msg c)) (proc s) = (i, p)" by (rule prod.exhaust)
  then have conc: "SendConcurrency p \<le> 1" using assms by (auto simp: addInflightWrapper_def Let_def sends_only_def)
  define s1 where "s1 = s\<lparr>handler := w, threads := threads s @ [Registered c], accepted := accepted s @ [c]\<rparr>"
  define i' where "i' = i\<lparr>i_tx := Some (NewSendTx (mc_msg c) (i_signer i))\<rparr>"
  define s2 where "s2 = s1\<lparr>proc := set_inflight i' p, threads := threads s @ [Waiting i' (NewSendTx (mc_msg c) (i_signer i))]\<rparr>"
  have "dstep E names s s1" unfolding s1_def by (rule s1)
  moreover have "dstep E names s1 s2" unfolding s2_def i'_def
    by (rule dstep.track [where ys = "[]" and xs = "threads s" and c = c and p = p]) (simp_all add: s1_def ip, simp add: c_def sample_tx_def)
  moreover have "dstep E names s2 (s2\<lparr>proc := proc s2, threads := threads s @ [Sending i' (NewSendTx (mc_msg c) (i_signer i))]\<rparr>)"
    by (rule dstep.start [where ys = "[]"]) (use conc in \<open>simp_all add: s2_def take_slot_def set_inflight_def\<close>)
  ultimately have "(dstep E names)\<^sup>*\<^sup>* s (s2\<lparr>proc := proc s2, threads := threads s @ [Sending i' (NewSendTx (mc_msg c) (i_signer i))]\<rparr>)"
    by (meson converse_rtranclp_into_rtranclp rtranclp.rtrancl_refl)
  moreover have "sends_only m (Suc n) (s2\<lparr>proc := proc s2, threads := threads s @ [Sending i' (NewSendTx (mc_msg c) (i_signer i))]\<rparr>)"
    using assms conc by (auto simp: sends_only_def s2_def s1_def w_def set_inflight_def)
  ultimately show ?thesis by blast
qed

text \<open>The limit of messages in flight counts identifiers, which the client chooses, and a send concurrency of one is not
  enforced between requests: with a limit of at least two, any number of messages under one identifier can be
  sending at the same time while the map holds a single entry.\<close>

theorem limits_can_be_evaded:
  assumes "2 \<le> maxInFlight" "conc \<le> 1"
  shows "\<exists>s. (dstep E names)\<^sup>*\<^sup>* (start_sys conc maxInFlight maxWait store) s
    \<and> sum_list (map sending (threads s)) = n \<and> length (inFlight (handler s)) \<le> 1"
proof -
  have "\<exists>s. (dstep E names)\<^sup>*\<^sup>* (start_sys conc maxInFlight maxWait store) s \<and> sends_only maxInFlight n s"
  proof (induction n)
    case 0
    have "sends_only maxInFlight 0 (start_sys conc maxInFlight maxWait store)"
      using assms by (simp add: sends_only_def start_sys_def run_direct_def validateHandlerConf_def newDirectHandler_def NewTxProcessor_def Let_def)
    then show ?case by blast
  next
    case (Suc n)
    then show ?case using one_more_send assms(1) by (meson rtranclp_trans)
  qed
  then show ?thesis by (auto simp: sends_only_def)
qed

theorem limits_can_be_evaded_witness:
  "\<exists>s. (dstep mem_env (\<lambda>_. ''VALID''))\<^sup>*\<^sup>* (start_sys 1 2 60 (newMemoryReceipts 5)) s
    \<and> sum_list (map sending (threads s)) = 3 \<and> length (inFlight (handler s)) \<le> 1"
  by (rule limits_can_be_evaded) simp_all

end
