(* ===== verification/Async_Receipts.thy ===== *)
theory Async_Receipts
  imports Async_Steps
begin

text \<open>
  From an asynchronous request to its stored receipt: the direct handler, the transaction processor and the receipt
  store composed, for every implementation of the contract \<open>receipt_persistence\<close>.
\<close>

lemma reply_headers_with [simp]: "reply_headers (with_headers h r) = h"
  by (cases r) simp_all

lemma reply_is_for:
  assumes "canon (reply_json r) = JObj m" "ReqID (reply_headers r) = i" "i \<noteq> []"
  shows "reply_for i m"
proof -
  obtain kvs where r: "reply_json r = JObj (omit False ''headers'' (JObj (reply_members (reply_headers r))) @ kvs)"
    "map_of (rev kvs) ''errorMessage'' \<noteq> Some JNull" "map_of (rev kvs) ''transactionHash'' \<noteq> Some JNull" "map_of (rev kvs) ''headers'' = None"
    by (cases r) (auto simp: map_add_def split: if_splits)
  note get = obj_get_canon [OF assms(1) [unfolded r(1)]]
  obtain h where h: "canon (JObj (reply_members (reply_headers r))) = JObj h" using canon_JObj by blast
  note geth = obj_get_canon [OF h]
  have "extractHeaders m = Some h" using h by (simp add: extractHeaders_def get r(4) map_add_def del: canon.simps)
  moreover have "obj_get h ''requestId'' = Some (JStr i)" by (simp add: geth reply_members_def assms(2))
  moreover have "obj_get h ''reqOffset'' = None" by (simp add: geth reply_members_def common_members_def map_add_def)
  moreover have "obj_get h ''type'' \<noteq> Some JNull" by (simp add: geth reply_members_def common_members_def map_add_def)
  moreover have "obj_get m ''errorMessage'' \<noteq> Some JNull" "obj_get m ''transactionHash'' \<noteq> Some JNull"
    using r(2,3) by (auto simp: get map_add_def canon_JNull simp del: canon.simps split: option.splits)
  ultimately show ?thesis using assms(3) by (simp add: reply_for_def)
qed

text \<open>The message that goes to the receipt store, decoded.\<close>

definition decoded :: "ReplyWithHeaders \<Rightarrow> obj" where
  "decoded r = (case canon (reply_json r) of JObj m \<Rightarrow> m | _ \<Rightarrow> [])"

lemma reply_json_obj: "\<exists>kvs. reply_json r = JObj kvs"
  by (cases r) (auto simp del: append.simps)

lemma canon_reply: "canon (reply_json r) = JObj (decoded r)"
proof -
  obtain kvs where "reply_json r = JObj kvs" using reply_json_obj by blast
  moreover obtain m where "canon (JObj kvs) = JObj m" using canon_JObj by blast
  ultimately show ?thesis by (simp add: decoded_def del: canon.simps)
qed

lemma decoded_reply: "json_ok (reply_json r) \<Longrightarrow> json_unmarshal (json_marshal (reply_json r)) = Some (JObj (decoded r))"
  by (simp add: json_unmarshal_def json_marshal_def json_decode_encode canon_reply)

context receipt_persistence
begin

lemma reply_is_stored:
  assumes "re_store E = p" "s_fuel st = Suc f" "h_ID (t_Headers (mc_msg c)) = i" "i \<noteq> []" "json_ok (reply_json (stamped st c r))"
    and "d_store w = (s, sent)" "valid s" "fits i (receipt_of i (s_nowMS st) (decoded (stamped st c r)))"
    and "AddReceipt p i (receipt_of i (s_nowMS st) (decoded (stamped st c r))) s = (Inr (), s')" "GetReceipt p i s' = Inr x"
    and "ReadAsyncReplyByUUID sm ctx = None"
  shows "\<exists>sent'. msg_Reply E st c r w = Ret (w\<lparr>d_store := (s', sent'), inFlight := AList.delete (mc_msgID c) (inFlight w)\<rparr>)"
    and "store_GetReceipt p sm ctx i s' = marshalAndReply (JObj (receipt_of i (s_nowMS st) (decoded (stamped st c r))))"
proof -
  have "reply_for i (decoded (stamped st c r))"
    by (rule reply_is_for [OF canon_reply]) (simp_all add: stamped_def Let_def assms(3,4))
  note served = process_then_get [OF decoded_reply [OF assms(5)] this assms(7-11), of f "s_retry st" "re_conf E" "re_ws E" sent]
  then show "\<exists>sent'. msg_Reply E st c r w = Ret (w\<lparr>d_store := (s', sent'), inFlight := AList.delete (mc_msgID c) (inFlight w)\<rparr>)"
    by (intro exI) (simp add: msg_Reply_def Let_def assms(1,2,6))
  show "store_GetReceipt p sm ctx i s' = marshalAndReply (JObj (receipt_of i (s_nowMS st) (decoded (stamped st c r))))"
    using served by simp
qed

end

definition async_ctx :: "string \<Rightarrow> string \<Rightarrow> string \<Rightarrow> SendTransaction \<Rightarrow> msgContext" where
  "async_ctx now key i msg = \<lparr>mc_timeReceived = now, mc_key = key, mc_msgID = i, mc_msg = msg\<rparr>"

definition success_reply :: "stamp \<Rightarrow> (int \<Rightarrow> string) \<Rightarrow> msgContext \<Rightarrow> TxReceipt \<Rightarrow> ReplyWithHeaders" where
  "success_reply st names c r = stamped st c (ReceiptReply (receipt_reply names r))"

definition success_doc :: "stamp \<Rightarrow> (int \<Rightarrow> string) \<Rightarrow> msgContext \<Rightarrow> TxReceipt \<Rightarrow> obj" where
  "success_doc st names c r = receipt_of (h_ID (t_Headers (mc_msg c))) (s_nowMS st) (decoded (success_reply st names c r))"

lemma success_doc_hash: "obj_get (success_doc st names c r) ''transactionHash'' = Some (JStr (TransactionID r))"
  by (simp add: success_doc_def receipt_of_def success_reply_def stamped_def Let_def receipt_reply_def
      obj_get_canon [OF canon_reply [of "ReceiptReply x" for x, unfolded reply_json.simps]] map_add_def)

text \<open>C23: A transaction that is submitted asynchronously and committed is answered with status 200, and from then on its
  receipt is served under the identifier of the request, with the hash of the transaction, for every store
  that fulfils the contract of receipts; the message is no longer in flight.\<close>

theorem async_receipt_is_served:
  assumes "receipt_persistence (re_store E) valid fits" "s_fuel st = Suc f" "fresh p" "SendConcurrency p \<le> 1"
    and "int (length (inFlight w)) < MaxInFlight w" "d_store w = (s, sent)" "valid s"
    and "MsgType (t_Headers msg) = ''SendTransaction''" "h_ID (t_Headers msg) = i" "i \<noteq> []"
    and "rpc (h_ChannelID (t_Headers msg)) (h_Signer (t_Headers msg)) (ChaincodeName (t_Headers msg)) (t_Function msg) (t_Args msg)
           (TransientMap msg) (IsInit msg) = (Some r, None)"
    and "json_ok (reply_json (success_reply st names (async_ctx now key i msg) r))"
    and "fits i (success_doc st names (async_ctx now key i msg) r)"
    and "AddReceipt (re_store E) i (success_doc st names (async_ctx now key i msg) r) s = (Inr (), s')"
    and "GetReceipt (re_store E) i s' = Inr x" "ReadAsyncReplyByUUID sm ctx = None"
  shows "(\<exists>sent'. direct_dispatchMsg E st names rpc now key i msg ack (p, w) =
      Some (Ret (([], 200, None), (p\<lparr>highestID := highestID p + 1\<rparr>, w\<lparr>inFlight := AList.delete i (inFlight w), d_store := (s', sent')\<rparr>))))
    \<and> store_GetReceipt (re_store E) sm ctx i s' =
      \<lparr>rs_status = 200, rs_body = json_marshal_indent (JObj (success_doc st names (async_ctx now key i msg) r))\<rparr>
    \<and> obj_get (success_doc st names (async_ctx now key i msg) r) ''transactionHash'' = Some (JStr (TransactionID r))"
proof -
  define c where "c = async_ctx now key i msg"
  define w1 where "w1 = w\<lparr>inFlight := AList.update i c (inFlight w)\<rparr>"
  have c: "h_ID (t_Headers (mc_msg c)) = i" "mc_msgID c = i" "mc_msg c = msg" using assms(9) by (simp_all add: c_def async_ctx_def)
  note facts = assms [folded c_def, unfolded success_doc_def success_reply_def c(1)]
  have w1: "d_store w1 = (s, sent)" using assms(6) by (simp add: w1_def)
  note stored = receipt_persistence.reply_is_stored [OF assms(1) refl assms(2) c(1) assms(10) facts(12) w1 assms(7) facts(13-16)]
  then obtain sent' where "msg_Reply E st c (ReceiptReply (receipt_reply names r)) w1 =
      Ret (w1\<lparr>d_store := (s', sent'), inFlight := AList.delete i (inFlight w1)\<rparr>)" using c(2) by auto
  then have "answer (direct_ops E st) names rpc c w1 = Ret (w\<lparr>inFlight := AList.delete i (inFlight w), d_store := (s', sent')\<rparr>)"
    using assms(8,11) by (simp add: answer_def direct_ops_def c(3) w1_def delete_update_same)
  moreover have "counted (direct_ops E st) c p = p\<lparr>highestID := highestID p + 1\<rparr>"
    using assms(8) by (simp add: counted_def direct_ops_def c(3))
  moreover have "register now key i msg w = Inr (c, w1)"
    using assms(5) by (simp add: register_def c_def async_ctx_def w1_def Let_def)
  ultimately have "direct_dispatchMsg E st names rpc now key i msg ack (p, w) =
      Some (Ret (([], 200, None), (p\<lparr>highestID := highestID p + 1\<rparr>, w\<lparr>inFlight := AList.delete i (inFlight w), d_store := (s', sent')\<rparr>)))"
    by (simp add: direct_dispatchMsg_def OnMessage_eq [OF assms(3,4)])
  then show ?thesis using stored(2) success_doc_hash [of st names c r]
    by (auto simp: marshalAndReply_def success_doc_def success_reply_def c_def [symmetric] c(1))
qed

definition sample_stamp :: stamp where
  "sample_stamp = \<lparr>s_uuid = ''u1'', s_elapsed = ''0'', s_nowMS = 5, s_fuel = 1, s_retry = int\<rparr>"

abbreviation sample_doc :: obj where
  "sample_doc \<equiv> success_doc sample_stamp (\<lambda>_. ''VALID'') sample_ctx sample_receipt"

theorem async_receipt_is_served_witness:
  "rs_status (store_GetReceipt mem_persistence None (Background :: unit Context) ''m1'' \<lparr>MaxDocs = 5, receipts = [sample_doc]\<rparr>) = 200
   \<and> obj_get sample_doc ''transactionHash'' = Some (JStr ''tx1'')"
proof -
  have c: "sample_ctx = async_ctx ''t0'' ''ch'' ''m1'' (mc_msg sample_ctx)" by (simp add: sample_ctx_def async_ctx_def)
  have ok: "json_ok (reply_json (success_reply sample_stamp (\<lambda>_. ''VALID'') sample_ctx sample_receipt))" by code_simp
  have a: "AddReceipt mem_persistence ''m1'' sample_doc (newMemoryReceipts 5) = (Inr (), \<lparr>MaxDocs = 5, receipts = [sample_doc]\<rparr>)"
    by (simp add: mem_persistence_def mem_AddReceipt_def newMemoryReceipts_def)
  have i: "h_ID (t_Headers (mc_msg sample_ctx)) = ''m1''" by (simp add: sample_ctx_def)
  have f: "id_fits ''m1'' sample_doc" by (simp add: id_fits_def success_doc_def receipt_of_def i)
  have g: "GetReceipt mem_persistence ''m1'' \<lparr>MaxDocs = 5, receipts = [sample_doc]\<rparr> = Inr (Some sample_doc)"
    by (simp add: mem_persistence_def mem_GetReceipt_def success_doc_def receipt_of_def i)
  have E: "re_store mem_env = mem_persistence" by (simp add: mem_env_def)
  have v: "mem_valid (newMemoryReceipts 5)" by (simp add: mem_valid_def newMemoryReceipts_def)
  from async_receipt_is_served [where E = mem_env and valid = mem_valid and fits = id_fits and st = sample_stamp and f = 0 and p = "NewTxProcessor 1 60"
      and w = "validateHandlerConf (newDirectHandler 1 60 (newMemoryReceipts 5))" and msg = "mc_msg sample_ctx" and i = "''m1''"
      and rpc = "\<lambda>_ _ _ _ _ _ _. (Some sample_receipt, None)" and names = "\<lambda>_. ''VALID''" and now = "''t0''" and key = "''ch''"
      and r = sample_receipt and s = "newMemoryReceipts 5" and sent = "[]" and sm = None and ctx = "Background :: unit Context",
      unfolded E c [symmetric], OF mem_receipts.receipt_persistence_axioms _ fresh_new _ _ _ v _ i _ _ ok f a g]
  show ?thesis
    by (simp add: sample_stamp_def NewTxProcessor_def validateHandlerConf_def newDirectHandler_def Let_def sample_ctx_def sample_tx_def
        sample_receipt_def ReadAsyncReplyByUUID_def)
qed

end
