(* ===== verification/Event_Json.thy ===== *)
theory Event_Json
  imports Event_Stream
begin

text \<open>
  The JSON form of the persisted structures of \<^verbatim>\<open>internal/events\<close> (\<^verbatim>\<open>StreamInfo\<close>,
  \<^verbatim>\<open>SubscriptionInfo\<close>, checkpoints): encoding and decoding of structs by their field tags, and the
  round trip through the bytes of the database.

  A decoder assigns the members of an object to the fields one by one, in the order of the text, as
  \<^verbatim>\<open>encoding/json\<close> does: a name is matched exactly or else without regard to (ASCII) case, unknown names are
  skipped, \<^verbatim>\<open>null\<close> clears a pointer and leaves other fields alone, a repeated object is merged
  into the first.  A value of the wrong type makes the whole decoding fail (\<open>None\<close>); the text of such an error
  is not modelled.
\<close>

subsection \<open>Decoding structs\<close>

type_synonym 's field_dec = "json \<Rightarrow> 's \<Rightarrow> 's option"
type_synonym 's fields = "(string \<times> 's field_dec) list"

definition find_field :: "'s fields \<Rightarrow> string \<Rightarrow> 's field_dec option" where
  "find_field fs k = (case map_of fs k of
     Some f \<Rightarrow> Some f
   | None \<Rightarrow> map_option snd (find (\<lambda>f. ToLower (fst f) = ToLower k) fs))"

fun dec_members :: "'s fields \<Rightarrow> obj \<Rightarrow> 's \<Rightarrow> 's option" where
  "dec_members fs [] s = Some s"
| "dec_members fs ((k, v) # m) s =
     (case find_field fs k of
        None \<Rightarrow> dec_members fs m s
      | Some f \<Rightarrow> (case f v s of None \<Rightarrow> None | Some s' \<Rightarrow> dec_members fs m s'))"

definition dec_struct :: "'s fields \<Rightarrow> json \<Rightarrow> 's \<Rightarrow> 's option" where
  "dec_struct fs j s = (case j of JObj m \<Rightarrow> dec_members fs m s | JNull \<Rightarrow> Some s | _ \<Rightarrow> None)"

definition dec_string :: "((string \<Rightarrow> string) \<Rightarrow> 's \<Rightarrow> 's) \<Rightarrow> 's field_dec" where
  "dec_string upd j s = (case j of JStr x \<Rightarrow> Some (upd (\<lambda>_. x) s) | JNull \<Rightarrow> Some s | _ \<Rightarrow> None)"

definition dec_uint64 :: "((uint64 \<Rightarrow> uint64) \<Rightarrow> 's \<Rightarrow> 's) \<Rightarrow> 's field_dec" where
  "dec_uint64 upd j s = (case j of
     JNum l \<Rightarrow> (case ParseUint64 l of (n, None) \<Rightarrow> Some (upd (\<lambda>_. n) s) | _ \<Rightarrow> None)
   | JNull \<Rightarrow> Some s | _ \<Rightarrow> None)"

definition dec_uint32 :: "((32 word \<Rightarrow> 32 word) \<Rightarrow> 's \<Rightarrow> 's) \<Rightarrow> 's field_dec" where
  "dec_uint32 upd j s = (case j of
     JNum l \<Rightarrow> (case parse_uint 32 l of (n, None) \<Rightarrow> Some (upd (\<lambda>_. word_of_nat n) s) | _ \<Rightarrow> None)
   | JNull \<Rightarrow> Some s | _ \<Rightarrow> None)"

definition dec_int :: "((int \<Rightarrow> int) \<Rightarrow> 's \<Rightarrow> 's) \<Rightarrow> 's field_dec" where
  "dec_int upd j s = (case j of
     JNum l \<Rightarrow> (case parse_int 64 l of (n, None) \<Rightarrow> Some (upd (\<lambda>_. n) s) | _ \<Rightarrow> None)
   | JNull \<Rightarrow> Some s | _ \<Rightarrow> None)"

definition dec_bool_ptr :: "((bool option \<Rightarrow> bool option) \<Rightarrow> 's \<Rightarrow> 's) \<Rightarrow> 's field_dec" where
  "dec_bool_ptr upd j s = (case j of JBool b \<Rightarrow> Some (upd (\<lambda>_. Some b) s) | JNull \<Rightarrow> Some (upd (\<lambda>_. None) s) | _ \<Rightarrow> None)"

text \<open>A pointer to a struct and a struct itself, with the fields \<open>fs\<close>; a new struct starts as \<open>z\<close>.\<close>

definition dec_ptr :: "'t fields \<Rightarrow> 't \<Rightarrow> ('s \<Rightarrow> 't option) \<Rightarrow> (('t option \<Rightarrow> 't option) \<Rightarrow> 's \<Rightarrow> 's) \<Rightarrow> 's field_dec" where
  "dec_ptr fs z get upd j s = (if j = JNull then Some (upd (\<lambda>_. None) s)
     else map_option (\<lambda>t. upd (\<lambda>_. Some t) s) (dec_struct fs j (case get s of None \<Rightarrow> z | Some t \<Rightarrow> t)))"

definition dec_sub :: "'t fields \<Rightarrow> ('s \<Rightarrow> 't) \<Rightarrow> (('t \<Rightarrow> 't) \<Rightarrow> 's \<Rightarrow> 's) \<Rightarrow> 's field_dec" where
  "dec_sub fs get upd j s = map_option (\<lambda>t. upd (\<lambda>_. t) s) (dec_struct fs j (get s))"

text \<open>A Go map as an association list with increasing keys.\<close>

fun assoc_upd :: "string \<Rightarrow> 'v \<Rightarrow> (string \<times> 'v) list \<Rightarrow> (string \<times> 'v) list" where
  "assoc_upd k v [] = [(k, v)]"
| "assoc_upd k v ((k', v') # m) =
     (if k < k' then (k, v) # (k', v') # m else if k = k' then (k, v) # m else (k', v') # assoc_upd k v m)"

fun dec_map :: "(json \<Rightarrow> 'v option) \<Rightarrow> obj \<Rightarrow> (string \<times> 'v) list \<Rightarrow> (string \<times> 'v) list option" where
  "dec_map f [] m = Some m"
| "dec_map f ((k, v) # kvs) m = (case f v of None \<Rightarrow> None | Some x \<Rightarrow> dec_map f kvs (assoc_upd k x m))"

definition str_elem :: "json \<Rightarrow> string option" where
  "str_elem j = (case j of JStr x \<Rightarrow> Some x | JNull \<Rightarrow> Some [] | _ \<Rightarrow> None)"

definition uint_elem :: "json \<Rightarrow> uint64 option" where
  "uint_elem j = (case j of JNum l \<Rightarrow> (case ParseUint64 l of (n, None) \<Rightarrow> Some n | _ \<Rightarrow> None) | JNull \<Rightarrow> Some 0 | _ \<Rightarrow> None)"

definition dec_str_map :: "('s \<Rightarrow> (string \<times> string) list option) \<Rightarrow>
    (((string \<times> string) list option \<Rightarrow> (string \<times> string) list option) \<Rightarrow> 's \<Rightarrow> 's) \<Rightarrow> 's field_dec" where
  "dec_str_map get upd j s = (case j of
     JObj kvs \<Rightarrow> map_option (\<lambda>m. upd (\<lambda>_. Some m) s) (dec_map str_elem kvs (case get s of None \<Rightarrow> [] | Some m \<Rightarrow> m))
   | JNull \<Rightarrow> Some (upd (\<lambda>_. None) s) | _ \<Rightarrow> None)"

subsection \<open>The structures\<close>

definition webhook_fields :: "webhookActionInfo fields" where
  "webhook_fields = [(''url'', dec_string URL_update), (''headers'', dec_str_map Headers Headers_update),
     (''tlsSkipHostVerify'', dec_bool_ptr TLSkipHostVerify_update), (''requestTimeoutSec'', dec_uint32 RequestTimeoutSec_update)]"

definition webhook_json :: "webhookActionInfo \<Rightarrow> json" where
  "webhook_json w = JObj (omit (URL w = []) ''url'' (JStr (URL w))
     @ omit (Headers w = None \<or> Headers w = Some []) ''headers'' (JObj (map (map_prod id JStr) (the (Headers w))))
     @ omit (TLSkipHostVerify w = None) ''tlsSkipHostVerify'' (JBool (the (TLSkipHostVerify w)))
     @ omit (RequestTimeoutSec w = 0) ''requestTimeoutSec'' (JNum (nat_digits (unat (RequestTimeoutSec w)))))"

definition websocket_fields :: "webSocketActionInfo fields" where
  "websocket_fields = [(''topic'', dec_string Topic_update), (''distributionMode'', dec_string DistributionMode_update)]"

definition websocket_json :: "webSocketActionInfo \<Rightarrow> json" where
  "websocket_json w = JObj (omit (Topic w = []) ''topic'' (JStr (Topic w))
     @ omit (DistributionMode w = []) ''distributionMode'' (JStr (DistributionMode w)))"

definition zero_webhook :: webhookActionInfo where
  "zero_webhook = \<lparr>URL = [], Headers = None, TLSkipHostVerify = None, RequestTimeoutSec = 0\<rparr>"

definition zero_websocket :: webSocketActionInfo where
  "zero_websocket = \<lparr>Topic = [], DistributionMode = []\<rparr>"

definition zero_stream :: StreamInfo where
  "zero_stream = \<lparr>st_Created = [], st_ID = [], st_Name = [], st_Path = [], Suspended = None, st_Type = [], BatchSize = 0,
     BatchTimeoutMS = 0, ErrorHandling = [], RetryTimeoutSec = 0, BlockedRetryDelaySec = 0, Webhook = None,
     WebSocket = None, Timestamps = None, TimestampCacheSize = 0\<rparr>"

definition stream_fields :: "StreamInfo fields" where
  "stream_fields = [(''created'', dec_string st_Created_update), (''id'', dec_string st_ID_update),
     (''name'', dec_string st_Name_update), (''path'', dec_string st_Path_update),
     (''suspended'', dec_bool_ptr Suspended_update), (''type'', dec_string st_Type_update),
     (''batchSize'', dec_uint64 BatchSize_update), (''batchTimeoutMS'', dec_uint64 BatchTimeoutMS_update),
     (''errorHandling'', dec_string ErrorHandling_update), (''retryTimeoutSec'', dec_uint64 RetryTimeoutSec_update),
     (''blockedRetryDelaySec'', dec_uint64 BlockedRetryDelaySec_update),
     (''webhook'', dec_ptr webhook_fields zero_webhook Webhook Webhook_update),
     (''websocket'', dec_ptr websocket_fields zero_websocket WebSocket WebSocket_update),
     (''timestamps'', dec_bool_ptr Timestamps_update), (''timestampCacheSize'', dec_int TimestampCacheSize_update)]"

definition stream_json :: "StreamInfo \<Rightarrow> json" where
  "stream_json s = JObj (omit False ''created'' (JStr (st_Created s)) @ omit False ''id'' (JStr (st_ID s))
     @ omit (st_Name s = []) ''name'' (JStr (st_Name s)) @ omit (st_Path s = []) ''path'' (JStr (st_Path s))
     @ omit (Suspended s = None) ''suspended'' (JBool (the (Suspended s))) @ omit False ''type'' (JStr (st_Type s))
     @ omit (BatchSize s = 0) ''batchSize'' (JNum (FormatUint (BatchSize s)))
     @ omit (BatchTimeoutMS s = 0) ''batchTimeoutMS'' (JNum (FormatUint (BatchTimeoutMS s)))
     @ omit (ErrorHandling s = []) ''errorHandling'' (JStr (ErrorHandling s))
     @ omit (RetryTimeoutSec s = 0) ''retryTimeoutSec'' (JNum (FormatUint (RetryTimeoutSec s)))
     @ omit (BlockedRetryDelaySec s = 0) ''blockedRetryDelaySec'' (JNum (FormatUint (BlockedRetryDelaySec s)))
     @ omit (Webhook s = None) ''webhook'' (webhook_json (the (Webhook s)))
     @ omit (WebSocket s = None) ''websocket'' (websocket_json (the (WebSocket s)))
     @ omit (Timestamps s = None) ''timestamps'' (JBool (the (Timestamps s)))
     @ omit (TimestampCacheSize s = 0) ''timestampCacheSize'' (JNum (int_str (TimestampCacheSize s))))"

definition filter_fields :: "persistedFilter fields" where
  "filter_fields = [(''blockType'', dec_string BlockType_update), (''chaincodeId'', dec_string FilterChaincodeID_update),
     (''eventFilter'', dec_string EventFilter_update)]"

definition filter_json :: "persistedFilter \<Rightarrow> json" where
  "filter_json f = JObj (omit (BlockType f = []) ''blockType'' (JStr (BlockType f))
     @ omit (FilterChaincodeID f = []) ''chaincodeId'' (JStr (FilterChaincodeID f))
     @ omit (EventFilter f = []) ''eventFilter'' (JStr (EventFilter f)))"

definition zero_sub :: SubscriptionInfo where
  "zero_sub = \<lparr>CreatedISO8601 = [], sub_ID = [], ChannelID = [], sub_Path = [], Summary = [], sub_Name = [], Stream = [],
     Signer = [], FromBlock = [], Filter = \<lparr>BlockType = [], FilterChaincodeID = [], EventFilter = []\<rparr>, PayloadType = []\<rparr>"

definition sub_fields :: "SubscriptionInfo fields" where
  "sub_fields = [(''created'', dec_string CreatedISO8601_update), (''id'', dec_string sub_ID_update),
     (''channel'', dec_string ChannelID_update), (''path'', dec_string sub_Path_update), (''name'', dec_string sub_Name_update),
     (''stream'', dec_string Stream_update), (''signer'', dec_string Signer_update), (''fromBlock'', dec_string FromBlock_update),
     (''filter'', dec_sub filter_fields Filter Filter_update), (''payloadType'', dec_string PayloadType_update)]"

definition sub_json :: "SubscriptionInfo \<Rightarrow> json" where
  "sub_json i = JObj (omit False ''created'' (JStr (CreatedISO8601 i)) @ omit (sub_ID i = []) ''id'' (JStr (sub_ID i))
     @ omit (ChannelID i = []) ''channel'' (JStr (ChannelID i)) @ omit False ''path'' (JStr (sub_Path i))
     @ omit False ''name'' (JStr (sub_Name i)) @ omit False ''stream'' (JStr (Stream i)) @ omit False ''signer'' (JStr (Signer i))
     @ omit (FromBlock i = []) ''fromBlock'' (JStr (FromBlock i)) @ omit False ''filter'' (filter_json (Filter i))
     @ omit (PayloadType i = []) ''payloadType'' (JStr (PayloadType i)))"

type_synonym checkpoint = "(string \<times> uint64) list"

definition checkpoint_json :: "checkpoint \<Rightarrow> json" where
  "checkpoint_json c = JObj (map (map_prod id (\<lambda>n. JNum (FormatUint n))) c)"

text \<open>
  \<^verbatim>\<open>json.Unmarshal\<close> into a struct, and \<^verbatim>\<open>Decoder.Decode\<close>, which reads the first value of the input
  and ignores what follows it.
\<close>

definition unmarshal_struct :: "'s fields \<Rightarrow> 's \<Rightarrow> bytes \<Rightarrow> 's option" where
  "unmarshal_struct fs z b = (case json_decode b of None \<Rightarrow> None | Some j \<Rightarrow> dec_struct fs j z)"

definition decode_struct :: "'s fields \<Rightarrow> 's \<Rightarrow> bytes \<Rightarrow> 's option" where
  "decode_struct fs z b = (case pval (2 * length b + 2) b of None \<Rightarrow> None | Some (j, _) \<Rightarrow> dec_struct fs j z)"

definition unmarshal_checkpoint :: "bytes \<Rightarrow> checkpoint option option" where
  "unmarshal_checkpoint b = (case json_decode b of
     Some (JObj kvs) \<Rightarrow> map_option Some (dec_map uint_elem kvs [])
   | Some JNull \<Rightarrow> Some None
   | _ \<Rightarrow> None)"

subsection \<open>Reading back what was written\<close>

text \<open>
  One segment of an encoded object: the field gets the value, also where the segment is omitted because
  the value is the one the field has anyway.
\<close>

lemma dec_struct_JObj: "dec_struct fs (JObj m) s = dec_members fs m s"
  by (simp add: dec_struct_def)

lemma seg_string:
  "find_field fs k = Some (dec_string upd) \<Longrightarrow> (c \<Longrightarrow> upd (\<lambda>_. x) s = s) \<Longrightarrow>
   dec_members fs (omit c k (JStr x) @ r) s = dec_members fs r (upd (\<lambda>_. x) s)"
  by (simp add: omit_def dec_string_def)

lemma seg_uint64:
  "find_field fs k = Some (dec_uint64 upd) \<Longrightarrow> (c \<Longrightarrow> upd (\<lambda>_. x) s = s) \<Longrightarrow>
   dec_members fs (omit c k (JNum (FormatUint x)) @ r) s = dec_members fs r (upd (\<lambda>_. x) s)"
  by (simp add: omit_def dec_uint64_def)

lemma seg_uint32:
  "find_field fs k = Some (dec_uint32 upd) \<Longrightarrow> (c \<Longrightarrow> upd (\<lambda>_. x) s = s) \<Longrightarrow>
   dec_members fs (omit c k (JNum (nat_digits (unat x))) @ r) s = dec_members fs r (upd (\<lambda>_. x) s)"
  using unsigned_less [of x, where ?'a = nat] by (simp add: omit_def dec_uint32_def parse_uint_nat_digits)

lemma seg_int:
  "find_field fs k = Some (dec_int upd) \<Longrightarrow> (c \<Longrightarrow> upd (\<lambda>_. x) s = s) \<Longrightarrow> int64_range x \<Longrightarrow>
   dec_members fs (omit c k (JNum (int_str x)) @ r) s = dec_members fs r (upd (\<lambda>_. x) s)"
  by (simp add: omit_def dec_int_def parse_int_int_str int64_range_def)

lemma seg_bool_ptr:
  "find_field fs k = Some (dec_bool_ptr upd) \<Longrightarrow> (x = None \<Longrightarrow> upd (\<lambda>_. x) s = s) \<Longrightarrow>
   dec_members fs (omit (x = None) k (JBool (the x)) @ r) s = dec_members fs r (upd (\<lambda>_. x) s)"
  by (auto simp: omit_def dec_bool_ptr_def)

lemma seg_ptr:
  "find_field fs k = Some (dec_ptr gs z get upd) \<Longrightarrow> (x = None \<Longrightarrow> upd (\<lambda>_. x) s = s) \<Longrightarrow> get s = None \<Longrightarrow>
   (\<And>t. x = Some t \<Longrightarrow> dec_struct gs (enc_t t) z = Some t \<and> enc_t t \<noteq> JNull) \<Longrightarrow>
   dec_members fs (omit (x = None) k (enc_t (the x)) @ r) s = dec_members fs r (upd (\<lambda>_. x) s)"
  by (auto simp: omit_def dec_ptr_def)

lemma seg_sub:
  "find_field fs k = Some (dec_sub gs get upd) \<Longrightarrow> dec_struct gs j (get s) = Some t \<Longrightarrow>
   dec_members fs (omit False k j @ r) s = dec_members fs r (upd (\<lambda>_. t) s)"
  by (auto simp: omit_def dec_sub_def)

lemma assoc_upd_snoc: "sorted_wrt (<) (map fst m @ [k]) \<Longrightarrow> assoc_upd k v m = m @ [(k, v)]"
  by (induction k v m rule: assoc_upd.induct) (auto simp: sorted_wrt_append dest: less_not_sym)

lemma dec_map_enc:
  "(\<And>x. f (g x) = Some x) \<Longrightarrow> sorted_wrt (<) (map fst (m @ kvs)) \<Longrightarrow> dec_map f (map (map_prod id g) kvs) m = Some (m @ kvs)"
proof (induction kvs arbitrary: m)
  case (Cons a kvs)
  obtain k v where a: "a = (k, v)" by (cases a)
  have "assoc_upd k v m = m @ [(k, v)]" using Cons.prems(2) a by (intro assoc_upd_snoc) (auto simp: sorted_wrt_append)
  then show ?case using Cons.IH [of "m @ [(k, v)]"] Cons.prems a by simp
qed simp

definition header_ok :: "webhookActionInfo \<Rightarrow> bool" where
  "header_ok w \<longleftrightarrow> (case Headers w of None \<Rightarrow> True | Some hs \<Rightarrow> hs \<noteq> [] \<and> sorted_wrt (<) (map fst hs)
     \<and> list_all (\<lambda>(k, v). ascii k \<and> ascii v) hs)"

lemma seg_headers:
  assumes "find_field fs k = Some (dec_str_map get upd)" "x = None \<Longrightarrow> upd (\<lambda>_. x) s = s" "get s = None"
    "\<And>hs. x = Some hs \<Longrightarrow> hs \<noteq> [] \<and> sorted_wrt (<) (map fst hs)"
  shows "dec_members fs (omit (x = None \<or> x = Some []) k (JObj (map (map_prod id JStr) (the x))) @ r) s = dec_members fs r (upd (\<lambda>_. x) s)"
proof (cases x)
  case None
  then show ?thesis using assms by (simp add: omit_def)
next
  case (Some hs)
  then have "dec_map str_elem (map (map_prod id JStr) hs) [] = Some hs"
    using assms(4) dec_map_enc [of str_elem JStr "[]" hs] by (simp add: str_elem_def)
  then show ?thesis using Some assms by (simp add: omit_def dec_str_map_def)
qed

lemma webhook_find:
  "find_field webhook_fields ''url'' = Some (dec_string URL_update)"
  "find_field webhook_fields ''headers'' = Some (dec_str_map Headers Headers_update)"
  "find_field webhook_fields ''tlsSkipHostVerify'' = Some (dec_bool_ptr TLSkipHostVerify_update)"
  "find_field webhook_fields ''requestTimeoutSec'' = Some (dec_uint32 RequestTimeoutSec_update)"
  by (simp_all add: find_field_def webhook_fields_def)

lemma dec_webhook: "header_ok w \<Longrightarrow> dec_struct webhook_fields (webhook_json w) zero_webhook = Some w"
proof -
  assume "header_ok w"
  then have h: "\<And>hs. Headers w = Some hs \<Longrightarrow> hs \<noteq> [] \<and> sorted_wrt (<) (map fst hs)" by (simp add: header_ok_def)
  have "dec_struct webhook_fields (webhook_json w) zero_webhook
      = Some \<lparr>URL = URL w, Headers = Headers w, TLSkipHostVerify = TLSkipHostVerify w, RequestTimeoutSec = RequestTimeoutSec w\<rparr>"
    by (simp add: dec_struct_def webhook_json_def zero_webhook_def seg_string [OF webhook_find(1)]
        seg_headers [OF webhook_find(2) _ _ h] seg_bool_ptr [OF webhook_find(3)]
        seg_uint32 [OF webhook_find(4), where r = "[]", unfolded append_Nil2])
  then show ?thesis by simp
qed

lemma websocket_find:
  "find_field websocket_fields ''topic'' = Some (dec_string Topic_update)"
  "find_field websocket_fields ''distributionMode'' = Some (dec_string DistributionMode_update)"
  by (simp_all add: find_field_def websocket_fields_def)

lemma dec_websocket: "dec_struct websocket_fields (websocket_json w) zero_websocket = Some w"
  by (simp add: dec_struct_def websocket_json_def zero_websocket_def seg_string [OF websocket_find(1)]
        seg_string [OF websocket_find(2), where r = "[]", unfolded append_Nil2])

lemma stream_find:
  "find_field stream_fields ''created'' = Some (dec_string st_Created_update)"
  "find_field stream_fields ''id'' = Some (dec_string st_ID_update)"
  "find_field stream_fields ''name'' = Some (dec_string st_Name_update)"
  "find_field stream_fields ''path'' = Some (dec_string st_Path_update)"
  "find_field stream_fields ''suspended'' = Some (dec_bool_ptr Suspended_update)"
  "find_field stream_fields ''type'' = Some (dec_string st_Type_update)"
  "find_field stream_fields ''batchSize'' = Some (dec_uint64 BatchSize_update)"
  "find_field stream_fields ''batchTimeoutMS'' = Some (dec_uint64 BatchTimeoutMS_update)"
  "find_field stream_fields ''errorHandling'' = Some (dec_string ErrorHandling_update)"
  "find_field stream_fields ''retryTimeoutSec'' = Some (dec_uint64 RetryTimeoutSec_update)"
  "find_field stream_fields ''blockedRetryDelaySec'' = Some (dec_uint64 BlockedRetryDelaySec_update)"
  "find_field stream_fields ''webhook'' = Some (dec_ptr webhook_fields zero_webhook Webhook Webhook_update)"
  "find_field stream_fields ''websocket'' = Some (dec_ptr websocket_fields zero_websocket WebSocket WebSocket_update)"
  "find_field stream_fields ''timestamps'' = Some (dec_bool_ptr Timestamps_update)"
  "find_field stream_fields ''timestampCacheSize'' = Some (dec_int TimestampCacheSize_update)"
  by (simp_all add: find_field_def stream_fields_def)

lemmas stream_segs = stream_find(1,2,3,4,6,9) [THEN seg_string] stream_find(7,8,10,11) [THEN seg_uint64]
  stream_find(5,14) [THEN seg_bool_ptr] seg_int [OF stream_find(15), where r = "[]", unfolded append_Nil2]

definition stream_ok :: "StreamInfo \<Rightarrow> bool" where
  "stream_ok s \<longleftrightarrow> int64_range (TimestampCacheSize s) \<and> (case Webhook s of None \<Rightarrow> True | Some w \<Rightarrow> header_ok w)"

lemma dec_stream: "stream_ok s \<Longrightarrow> dec_struct stream_fields (stream_json s) zero_stream = Some s"
proof -
  assume ok: "stream_ok s"
  then have w: "\<And>w. Webhook s = Some w \<Longrightarrow> dec_struct webhook_fields (webhook_json w) zero_webhook = Some w \<and> webhook_json w \<noteq> JNull"
    by (simp add: stream_ok_def dec_webhook) (simp add: webhook_json_def)
  have v: "\<And>w. WebSocket s = Some w \<Longrightarrow> dec_struct websocket_fields (websocket_json w) zero_websocket = Some w \<and> websocket_json w \<noteq> JNull"
    by (simp add: dec_websocket) (simp add: websocket_json_def)
  have "dec_struct stream_fields (stream_json s) zero_stream
    = Some \<lparr>st_Created = st_Created s, st_ID = st_ID s, st_Name = st_Name s, st_Path = st_Path s, Suspended = Suspended s,
        st_Type = st_Type s, BatchSize = BatchSize s, BatchTimeoutMS = BatchTimeoutMS s, ErrorHandling = ErrorHandling s,
        RetryTimeoutSec = RetryTimeoutSec s, BlockedRetryDelaySec = BlockedRetryDelaySec s, Webhook = Webhook s,
        WebSocket = WebSocket s, Timestamps = Timestamps s, TimestampCacheSize = TimestampCacheSize s\<rparr>"
    using ok by (simp add: dec_struct_def stream_json_def zero_stream_def stream_segs
        seg_ptr [OF stream_find(12) _ _ w] seg_ptr [OF stream_find(13) _ _ v] stream_ok_def)
  then show ?thesis by simp
qed

lemma filter_find:
  "find_field filter_fields ''blockType'' = Some (dec_string BlockType_update)"
  "find_field filter_fields ''chaincodeId'' = Some (dec_string FilterChaincodeID_update)"
  "find_field filter_fields ''eventFilter'' = Some (dec_string EventFilter_update)"
  by (simp_all add: find_field_def filter_fields_def)

lemma dec_filter:
  "dec_struct filter_fields (filter_json f) \<lparr>BlockType = [], FilterChaincodeID = [], EventFilter = []\<rparr> = Some f"
  by (simp add: dec_struct_def filter_json_def filter_find(1,2) [THEN seg_string]
        seg_string [OF filter_find(3), where r = "[]", unfolded append_Nil2])

lemma sub_find:
  "find_field sub_fields ''created'' = Some (dec_string CreatedISO8601_update)"
  "find_field sub_fields ''id'' = Some (dec_string sub_ID_update)"
  "find_field sub_fields ''channel'' = Some (dec_string ChannelID_update)"
  "find_field sub_fields ''path'' = Some (dec_string sub_Path_update)"
  "find_field sub_fields ''name'' = Some (dec_string sub_Name_update)"
  "find_field sub_fields ''stream'' = Some (dec_string Stream_update)"
  "find_field sub_fields ''signer'' = Some (dec_string Signer_update)"
  "find_field sub_fields ''fromBlock'' = Some (dec_string FromBlock_update)"
  "find_field sub_fields ''payloadType'' = Some (dec_string PayloadType_update)"
  "find_field sub_fields ''filter'' = Some (dec_sub filter_fields Filter Filter_update)"
  by (simp_all add: find_field_def sub_fields_def)

lemma dec_sub_info: "dec_struct sub_fields (sub_json i) zero_sub = Some (i\<lparr>Summary := []\<rparr>)"
  by (cases i) (simp add: dec_struct_JObj sub_json_def zero_sub_def sub_find(1-8) [THEN seg_string] dec_filter
        seg_sub [OF sub_find(10), where j = "filter_json f" and t = f for f]
        seg_string [OF sub_find(9), where r = "[]", unfolded append_Nil2])

subsection \<open>Through the bytes\<close>

lemma json_ok_omit [simp]: "json_ok (JObj (omit c k v @ m)) \<longleftrightarrow> (c \<or> ascii k \<and> json_ok v) \<and> json_ok (JObj m)"
  by (simp add: omit_def)

lemma json_ok_omit1 [simp]: "json_ok (JObj (omit c k v)) \<longleftrightarrow> c \<or> ascii k \<and> json_ok v"
  by (simp add: omit_def)

definition stream_ascii :: "StreamInfo \<Rightarrow> bool" where
  "stream_ascii s \<longleftrightarrow> ascii (st_Created s) \<and> ascii (st_ID s) \<and> ascii (st_Name s) \<and> ascii (st_Path s) \<and> ascii (st_Type s)
     \<and> ascii (ErrorHandling s) \<and> (case Webhook s of None \<Rightarrow> True | Some w \<Rightarrow> ascii (URL w))
     \<and> (case WebSocket s of None \<Rightarrow> True | Some w \<Rightarrow> ascii (Topic w) \<and> ascii (DistributionMode w))"

lemma json_ok_digits [simp]: "json_ok (JNum (nat_digits n))"
  by (auto simp: valid_num_nat_digits list_all_iff num_char_def)

lemma json_ok_JStr [simp]: "ascii s \<Longrightarrow> json_ok (JStr s)" by simp

lemma webhook_json_ok: "header_ok w \<Longrightarrow> ascii (URL w) \<Longrightarrow> json_ok (webhook_json w)"
  using json_ok_digits [of "unat (RequestTimeoutSec w)"]
  by (auto simp: webhook_json_def header_ok_def list_all_iff simp del: json_ok.simps(1,4) split: option.splits)
     (auto simp: list_all_iff)

lemma stream_json_ok: "stream_ok s \<Longrightarrow> stream_ascii s \<Longrightarrow> json_ok (stream_json s)"
  using webhook_json_ok
  by (auto simp: stream_json_def stream_ok_def stream_ascii_def websocket_json_def simp del: json_ok.simps(1,4) split: option.splits)

definition sub_ascii :: "SubscriptionInfo \<Rightarrow> bool" where
  "sub_ascii i \<longleftrightarrow> list_all ascii [CreatedISO8601 i, sub_ID i, ChannelID i, sub_Path i, sub_Name i, Stream i, Signer i, FromBlock i,
     PayloadType i, BlockType (Filter i), FilterChaincodeID (Filter i), EventFilter (Filter i)]"

lemma sub_json_ok: "sub_ascii i \<Longrightarrow> json_ok (sub_json i)"
  by (simp add: sub_json_def filter_json_def sub_ascii_def del: json_ok.simps(1,4))

lemma unmarshal_stream:
  "stream_ok s \<Longrightarrow> stream_ascii s \<Longrightarrow> unmarshal_struct stream_fields zero_stream (json_marshal_indent (stream_json s)) = Some s"
  by (simp add: unmarshal_struct_def json_marshal_indent_def json_decode_encode stream_json_ok dec_stream)

lemma unmarshal_sub:
  "sub_ascii i \<Longrightarrow> unmarshal_struct sub_fields zero_sub (json_marshal_indent (sub_json i)) = Some (i\<lparr>Summary := []\<rparr>)"
  by (simp add: unmarshal_struct_def json_marshal_indent_def json_decode_encode sub_json_ok dec_sub_info)

definition checkpoint_ok :: "checkpoint \<Rightarrow> bool" where
  "checkpoint_ok c \<longleftrightarrow> sorted_wrt (<) (map fst c) \<and> list_all (ascii \<circ> fst) c"

lemma unmarshal_checkpoint_json:
  "checkpoint_ok c \<Longrightarrow> unmarshal_checkpoint (json_marshal_indent (checkpoint_json c)) = Some (Some c)"
proof -
  assume ok: "checkpoint_ok c"
  have "json_ok (checkpoint_json c)"
    using ok json_ok_FormatUint by (auto simp: checkpoint_json_def checkpoint_ok_def list_all_iff simp del: json_ok.simps(1))
  moreover have "dec_map uint_elem (map (map_prod id (\<lambda>n. JNum (FormatUint n))) c) [] = Some c"
    using ok dec_map_enc [of uint_elem "\<lambda>n. JNum (FormatUint n)" "[]" c] by (simp add: checkpoint_ok_def uint_elem_def)
  ultimately show ?thesis
    by (simp add: unmarshal_checkpoint_def json_marshal_indent_def json_decode_encode) (simp add: checkpoint_json_def)
qed

end
