(* ===== verification/Subscription_Manager.thy ===== *)
theory Subscription_Manager
  imports Rest_Error Subscription Event_Actions Event_Json Kvstore "HOL-Library.AList"
begin

text \<open>
  The subscription manager, \<^verbatim>\<open>internal/events/submanager.go\<close>, the poller of
  \<^verbatim>\<open>eventstream.go\<close> that works on its behalf.

  The manager keeps the streams and the subscriptions in maps and in the key-value store.  A Go map is
  an association list; where the source ranges over one, the model takes its order.  The key-value store,
  the RPC client, the LRU cache, the URL parser and SHA-256 are fields of the
  environment \<open>sm_env\<close>; new UUIDs, the time and request bodies are arguments of the operations.  Requests are
  handled one at a time.
\<close>

subsection \<open>The manager\<close>

record ('d, 'i, 'c, 'r) sm_env =
  kv :: "('d, 'i) KVStore"
  rpc :: "('c, 'r) RPCClient"
  lru_new :: "int \<Rightarrow> error option"
  wsChannels :: bool
  parse_url :: "string \<Rightarrow> string option"
  sha256_hex :: "string \<Rightarrow> string"

record ('d, 'c, 'r) subscriptionMGR =
  db :: 'd
  client :: 'c
  subscriptions :: "(string \<times> 'r subscription) list"
  streams :: "(string \<times> eventStream) list"
  closed :: bool

definition NewSubscriptionManager :: "'d \<Rightarrow> 'c \<Rightarrow> ('d, 'c, 'r) subscriptionMGR" where
  "NewSubscriptionManager d c = \<lparr>db = d, client = c, subscriptions = [], streams = [], closed = False\<rparr>"

definition streamByID :: "string \<Rightarrow> ('d, 'c, 'r) subscriptionMGR \<Rightarrow> eventStream res" where
  "streamByID k m = (case map_of (streams m) k of
     None \<Rightarrow> Inl (''Stream with ID '' @ [squote] @ k @ [squote] @ '' not found'') | Some a \<Rightarrow> Inr a)"

definition subscriptionByID :: "string \<Rightarrow> ('d, 'c, 'r) subscriptionMGR \<Rightarrow> 'r subscription res" where
  "subscriptionByID k m = (case map_of (subscriptions m) k of
     None \<Rightarrow> Inl (''Subscription with ID '' @ [squote] @ k @ [squote] @ '' not found'') | Some s \<Rightarrow> Inr s)"

definition subscriptionsForStream :: "string \<Rightarrow> ('d, 'c, 'r) subscriptionMGR \<Rightarrow> 'r subscription list" where
  "subscriptionsForStream k m = filter (\<lambda>s. Stream (info s) = k) (map snd (subscriptions m))"

definition getStreams :: "('d, 'c, 'r) subscriptionMGR \<Rightarrow> StreamInfo list" where
  "getStreams m = map (spec \<circ> snd) (streams m)"

definition getSubscriptions :: "('d, 'c, 'r) subscriptionMGR \<Rightarrow> SubscriptionInfo list" where
  "getSubscriptions m = map (info \<circ> snd) (subscriptions m)"

definition calculateLookupKey :: "('d, 'i, 'c, 'r) sm_env \<Rightarrow> SubscriptionInfo \<Rightarrow> string" where
  "calculateLookupKey E i =
     ''sub-idx-'' @ sha256_hex E (ChannelID i @ ''-'' @ FilterChaincodeID (Filter i) @ ''-'' @ BlockType (Filter i)
                                  @ ''-'' @ EventFilter (Filter i))"

definition validateFromBlock :: "string \<Rightarrow> error option" where
  "validateFromBlock fromBlock =
     (if fromBlock \<noteq> [] \<and> fromBlock \<noteq> ''newest'' \<and> snd (Atoi fromBlock) \<noteq> None
      then Some (''invalid initial block: must be an integer, an empty string or 'newest'' @ [squote]) else None)"

subsection \<open>Persistence\<close>

definition kv_put :: "('d, 'i, 'c, 'r) sm_env \<Rightarrow> string \<Rightarrow> bytes \<Rightarrow> (('d, 'c, 'r) subscriptionMGR, unit) op" where
  "kv_put E k v m = (let (r, d) = Put (kv E) k v (db m) in (r, m\<lparr>db := d\<rparr>))"

definition kv_delete :: "('d, 'i, 'c, 'r) sm_env \<Rightarrow> string \<Rightarrow> (('d, 'c, 'r) subscriptionMGR, unit) op" where
  "kv_delete E k m = (let (r, d) = Delete (kv E) k (db m) in (r, m\<lparr>db := d\<rparr>))"

definition storeStream :: "('d, 'i, 'c, 'r) sm_env \<Rightarrow> StreamInfo \<Rightarrow> (('d, 'c, 'r) subscriptionMGR, unit) op" where
  "storeStream E s =
     chk (kv_put E (st_ID s) (json_marshal_indent (stream_json s))) (\<lambda>err. ''Failed to store stream: '' @ err) ok"

definition storeSubscription ::
  "('d, 'i, 'c, 'r) sm_env \<Rightarrow> SubscriptionInfo \<Rightarrow> string \<Rightarrow> (('d, 'c, 'r) subscriptionMGR, unit) op" where
  "storeSubscription E i lookupKey =
     chk (kv_put E (sub_ID i) (json_marshal_indent (sub_json i))) (\<lambda>err. ''Failed to store subscription: '' @ err) (\<lambda>_.
     chk (kv_put E lookupKey (sub_ID i)) (\<lambda>err. ''Failed to store subscription lookup key: '' @ err) ok)"

definition loadCheckpoint :: "('d, 'i, 'c, 'r) sm_env \<Rightarrow> string \<Rightarrow> ('d, 'c, 'r) subscriptionMGR \<Rightarrow> checkpoint option res" where
  "loadCheckpoint E streamID m =
     (case Get (kv E) (''cp-'' @ streamID) (db m) of
        Inl err \<Rightarrow> if err = ErrorNotFound then Inr (Some []) else Inl err
      | Inr b \<Rightarrow> (case unmarshal_checkpoint b of None \<Rightarrow> Inl json_error | Some c \<Rightarrow> Inr c))"

definition storeCheckpoint ::
  "('d, 'i, 'c, 'r) sm_env \<Rightarrow> string \<Rightarrow> checkpoint \<Rightarrow> (('d, 'c, 'r) subscriptionMGR, unit) op" where
  "storeCheckpoint E streamID c = kv_put E (''cp-'' @ streamID) (json_marshal_indent (checkpoint_json c))"

definition deleteCheckpoint :: "('d, 'i, 'c, 'r) sm_env \<Rightarrow> string \<Rightarrow> ('d, 'c, 'r) subscriptionMGR \<Rightarrow> ('d, 'c, 'r) subscriptionMGR" where
  "deleteCheckpoint E streamID m = snd (kv_delete E (''cp-'' @ streamID) m)"

subsection \<open>Streams\<close>

definition set_stream :: "string \<Rightarrow> eventStream \<Rightarrow> ('d, 'c, 'r) subscriptionMGR \<Rightarrow> ('d, 'c, 'r) subscriptionMGR" where
  "set_stream k a m = m\<lparr>streams := AList.update k a (streams m)\<rparr>"

definition set_sub :: "'r subscription \<Rightarrow> ('d, 'c, 'r) subscriptionMGR \<Rightarrow> ('d, 'c, 'r) subscriptionMGR" where
  "set_sub s m = m\<lparr>subscriptions := AList.update (sub_ID (info s)) s (subscriptions m)\<rparr>"

text \<open>\<open>rest_of\<close> is the common \<^verbatim>\<open>if err != nil { return nil, NewRestError(err.Error(), code) }\<close>.\<close>

definition rest_of :: "nat \<Rightarrow> ('a \<Rightarrow> 'b) \<Rightarrow> 'a res \<times> 'm \<Rightarrow> 'b rest \<times> 'm" where
  "rest_of code f r = (case r of (Inl err, m) \<Rightarrow> (NewRestError err code, m) | (Inr x, m) \<Rightarrow> (Inr (f x), m))"

definition addStream ::
  "('d, 'i, 'c, 'r) sm_env \<Rightarrow> string \<Rightarrow> StreamInfo \<Rightarrow> ('d, 'c, 'r) subscriptionMGR
   \<Rightarrow> (StreamInfo res \<times> ('d, 'c, 'r) subscriptionMGR) run" where
  "addStream E uuid s0 m =
     (let k = ''es-'' @ uuid; s = s0\<lparr>st_ID := k, st_Path := ''/eventstreams/'' @ k\<rparr> in
      bind_run (newEventStream (lru_new E) (wsChannels E) s) (\<lambda>r. Ret (case r of
        Inl err \<Rightarrow> (Inl err, m)
      | Inr a \<Rightarrow> chk (storeStream E (spec a)) id (\<lambda>_. ok (spec a)) (set_stream k a m))))"

definition unknown_errorHandling :: error where
  "unknown_errorHandling = ''Unknown errorHandling type. Must be an empty string, 'skip' or 'block'' @ [squote]"

definition AddStream ::
  "('d, 'i, 'c, 'r) sm_env \<Rightarrow> string \<Rightarrow> bytes \<Rightarrow> ('d, 'c, 'r) subscriptionMGR
   \<Rightarrow> (StreamInfo rest \<times> ('d, 'c, 'r) subscriptionMGR) run" where
  "AddStream E uuid body m =
     (case decode_struct stream_fields zero_stream body of
        None \<Rightarrow> Ret (NewRestError (''Invalid event stream specification: '' @ json_error) 400, m)
      | Some s \<Rightarrow>
          (let st = ToLower (st_Type s); eh = ToLower (ErrorHandling s) in
           if st \<noteq> ''webhook'' \<and> st \<noteq> ''websocket''
           then Ret (NewRestError (''Unknown action type '' @ [squote] @ st_Type s @ [squote]) 400, m)
           else bind_run (if st = ''webhook'' then Ret (validateWebhookConfig (parse_url E) (Webhook s))
                          else validateWebsocketConfig (WebSocket s)) (\<lambda>bad.
             case bad of
               Some err \<Rightarrow> Ret (NewRestError err 400, m)
             | None \<Rightarrow>
                 if ErrorHandling s \<noteq> [] \<and> eh \<noteq> ''block'' \<and> eh \<noteq> ''skip'' then Ret (NewRestError unknown_errorHandling 500, m)
                 else if Suspended s \<noteq> None then Ret (NewRestError (''Can not set 'suspended'' @ [squote]) 500, m)
                 else bind_run (addStream E uuid (s\<lparr>st_Type := st, ErrorHandling := eh\<rparr>) m) (\<lambda>r. Ret (rest_of 500 id r)))))"

definition updateStream ::
  "('d, 'i, 'c, 'r) sm_env \<Rightarrow> round list list \<Rightarrow> eventStream \<Rightarrow> StreamInfo \<Rightarrow> ('d, 'c, 'r) subscriptionMGR
   \<Rightarrow> (StreamInfo res \<times> ('d, 'c, 'r) subscriptionMGR) run" where
  "updateStream E rss a s m =
     bind_run (update s rss a) (\<lambda>(r, a'). Ret (let m1 = set_stream (st_ID (spec a)) a' m in case r of
        Inl err \<Rightarrow> (Inl err, m1)
      | Inr updatedSpec \<Rightarrow> chk (storeStream E updatedSpec) id (\<lambda>_. ok updatedSpec) m1))"

definition UpdateStream ::
  "('d, 'i, 'c, 'r) sm_env \<Rightarrow> round list list \<Rightarrow> string \<Rightarrow> bytes \<Rightarrow> ('d, 'c, 'r) subscriptionMGR
   \<Rightarrow> (StreamInfo rest \<times> ('d, 'c, 'r) subscriptionMGR) run" where
  "UpdateStream E rss streamID body m =
     (case streamByID streamID m of
        Inl err \<Rightarrow> Ret (NewRestError err 404, m)
      | Inr a \<Rightarrow>
     (case decode_struct stream_fields zero_stream body of
        None \<Rightarrow> Ret (NewRestError (''Invalid event stream specification: '' @ json_error) 400, m)
      | Some s \<Rightarrow>
          (let et = ToLower (st_Type s); eh = ToLower (ErrorHandling s);
               s1 = (if et = ''webhook'' \<or> et = ''websocket'' then s\<lparr>st_Type := et\<rparr> else s) in
           if et = ''webhook'' \<and> Webhook s = None then Panic ''invalid memory address or nil pointer dereference''
           else if et = ''webhook'' \<and> parse_url E (URL (the (Webhook s))) = None
           then Ret (NewRestError ''Invalid URL in webhook action'' 400, m)
           else if ErrorHandling s \<noteq> [] \<and> eh \<noteq> ''block'' \<and> eh \<noteq> ''skip'' then Ret (NewRestError unknown_errorHandling 400, m)
           else if Suspended s \<noteq> None then Ret (NewRestError (''Can not set 'suspended'' @ [squote]) 500, m)
           else bind_run (updateStream E rss a (s1\<lparr>ErrorHandling := eh\<rparr>) m) (\<lambda>r. Ret (rest_of 500 id r)))))"

definition suspendStream :: "('d, 'i, 'c, 'r) sm_env \<Rightarrow> eventStream \<Rightarrow> (('d, 'c, 'r) subscriptionMGR, unit) op" where
  "suspendStream E a m = (let a' = suspend a in storeStream E (spec a') (set_stream (st_ID (spec a)) a' m))"

definition resumeStream :: "('d, 'i, 'c, 'r) sm_env \<Rightarrow> eventStream \<Rightarrow> (('d, 'c, 'r) subscriptionMGR, unit) op" where
  "resumeStream E a m = (case resume a of
     (Inl err, _) \<Rightarrow> (Inl err, m)
   | (Inr _, a') \<Rightarrow> storeStream E (spec a') (set_stream (st_ID (spec a)) a' m))"

subsection \<open>Subscriptions\<close>

text \<open>The defaults \<^verbatim>\<open>addSubscription\<close> fills in.\<close>

definition complete_info :: "string \<Rightarrow> string \<Rightarrow> SubscriptionInfo \<Rightarrow> SubscriptionInfo" where
  "complete_info uuid now i0 = (let k = ''sb-'' @ uuid; f = Filter i0 in
     i0\<lparr>CreatedISO8601 := now, sub_ID := k, sub_Path := ''/subscriptions/'' @ k,
        FromBlock := (if FromBlock i0 = [] then ''newest'' else FromBlock i0),
        Filter := f\<lparr>BlockType := (if BlockType f = [] then ''tx'' else BlockType f),
                    EventFilter := (if EventFilter f = [] \<and> FilterChaincodeID f \<noteq> [] then ''.*'' else EventFilter f)\<rparr>\<rparr>)"

definition addSubscription ::
  "('d, 'i, 'c, 'r) sm_env \<Rightarrow> string \<Rightarrow> string \<Rightarrow> SubscriptionInfo \<Rightarrow> ('d, 'c, 'r) subscriptionMGR
   \<Rightarrow> SubscriptionInfo rest \<times> ('d, 'c, 'r) subscriptionMGR" where
  "addSubscription E uuid now i0 m =
     (let i = complete_info uuid now i0; subscriptionKey = calculateLookupKey E i
      in case Get (kv E) subscriptionKey (db m) of
        Inr _ \<Rightarrow> (NewRestError ''A subscription with the same channel ID, chaincode ID, block type and event filter already exists'' 400, m)
      | Inl _ \<Rightarrow>
          (case streamByID (Stream i) m of
             Inl err \<Rightarrow> (NewRestError err 500, m)
           | Inr _ \<Rightarrow>
               (let sub = newSubscription i
                in rest_of 200 (\<lambda>_. info sub) (storeSubscription E (info sub) subscriptionKey (set_sub sub m)))))"

text \<open>
  \<^verbatim>\<open>addSubscription\<close> pairs the error of \<^verbatim>\<open>storeSubscription\<close> with the status 200, as the source does.
\<close>

definition AddSubscription ::
  "('d, 'i, 'c, 'r) sm_env \<Rightarrow> string \<Rightarrow> string \<Rightarrow> bytes \<Rightarrow> ('d, 'c, 'r) subscriptionMGR
   \<Rightarrow> SubscriptionInfo rest \<times> ('d, 'c, 'r) subscriptionMGR" where
  "AddSubscription E uuid now body m =
     (case decode_struct sub_fields zero_sub body of
        None \<Rightarrow> (NewRestError (''Invalid event subscription specification: '' @ json_error) 400, m)
      | Some i \<Rightarrow>
          (let pt = PayloadType i; bt = BlockType (Filter i) in
           if ChannelID i = [] then (NewRestError ''Missing required parameter \"channel\"'' 400, m)
           else if Stream i = [] then (NewRestError ''Missing required parameter \"stream\"'' 400, m)
           else if Signer i = [] then (NewRestError ''Missing required parameter \"signer\"'' 400, m)
           else if pt \<noteq> [] \<and> pt \<noteq> ''string'' \<and> pt \<noteq> ''json''
           then (NewRestError ''Parameter \"payloadType\" must be an empty string, \"string\" or \"json\"'' 400, m)
           else if bt \<noteq> [] \<and> bt \<noteq> ''tx'' \<and> bt \<noteq> ''config''
           then (NewRestError ''Parameter \"filter.blockType\" must be an empty string, \"tx\" or \"config\"'' 400, m)
           else case validateFromBlock (FromBlock i) of
             Some err \<Rightarrow> (NewRestError err 400, m)
           | None \<Rightarrow> addSubscription E uuid now i m))"

definition resetSubscription ::
  "('d, 'i, 'c, 'r) sm_env \<Rightarrow> 'r subscription \<Rightarrow> string \<Rightarrow> (('d, 'c, 'r) subscriptionMGR, unit) op" where
  "resetSubscription E s initialBlock m =
     (let newest = (initialBlock = [] \<or> initialBlock = ''newest'') in
      if \<not> newest \<and> snd (ParseUint64 initialBlock) \<noteq> None then (Inl ''FromBlock cannot be parsed as a BigInt'', m)
      else let s' = s\<lparr>info := (info s)\<lparr>FromBlock := (if newest then ''newest'' else initialBlock)\<rparr>\<rparr>
           in case storeSubscription E (info s') (calculateLookupKey E (info s')) (set_sub s' m) of
                (Inl err, m') \<Rightarrow> (Inl err, m')
              | (Inr _, m') \<Rightarrow> (Inr (), set_sub (requestReset s') m'))"

definition deleteSubscription ::
  "('d, 'i, 'c, 'r) sm_env \<Rightarrow> 'r subscription \<Rightarrow> (('d, 'c, 'r) subscriptionMGR, unit) op" where
  "deleteSubscription E s m =
     (let (s', c) = unsubscribe (rpc E) True s (client m);
          m1 = m\<lparr>subscriptions := AList.delete (sub_ID (info s)) (subscriptions m), client := c\<rparr>
      in chk (kv_delete E (sub_ID (info s))) id (\<lambda>_. kv_delete E (calculateLookupKey E (info s))) m1)"

definition deleteStream ::
  "('d, 'i, 'c, 'r) sm_env \<Rightarrow> eventStream \<Rightarrow> (('d, 'c, 'r) subscriptionMGR, unit) op" where
  "deleteStream E a m =
     (let k = st_ID (spec a);
          m1 = fold (\<lambda>s m'. snd (deleteSubscription E s m')) (subscriptionsForStream k m) m;
          m2 = m1\<lparr>streams := AList.delete k (streams m1)\<rparr>
      in chk (kv_delete E k) id (\<lambda>_ m3. (Inr (), deleteCheckpoint E k m3)) m2)"

definition flag_result :: "string \<Rightarrow> string \<Rightarrow> (string \<times> string) list" where
  "flag_result k flag = [(''id'', k), (flag, ''true'')]"

definition with_stream ::
  "string \<Rightarrow> (eventStream \<Rightarrow> (('d, 'c, 'r) subscriptionMGR, unit) op) \<Rightarrow> string \<Rightarrow> ('d, 'c, 'r) subscriptionMGR
   \<Rightarrow> (string \<times> string) list rest \<times> ('d, 'c, 'r) subscriptionMGR" where
  "with_stream flag f streamID m = (case streamByID streamID m of
     Inl err \<Rightarrow> (NewRestError err 404, m)
   | Inr a \<Rightarrow> rest_of 500 (\<lambda>_. flag_result streamID flag) (f a m))"

definition DeleteStream where "DeleteStream E = with_stream ''deleted'' (deleteStream E)"
definition SuspendStream where "SuspendStream E = with_stream ''suspended'' (suspendStream E)"
definition ResumeStream where "ResumeStream E = with_stream ''resumed'' (resumeStream E)"

definition StreamByID :: "string \<Rightarrow> ('d, 'c, 'r) subscriptionMGR \<Rightarrow> StreamInfo rest" where
  "StreamByID k m = (case streamByID k m of Inl err \<Rightarrow> NewRestError err 404 | Inr a \<Rightarrow> Inr (spec a))"

definition SubscriptionByID :: "string \<Rightarrow> ('d, 'c, 'r) subscriptionMGR \<Rightarrow> SubscriptionInfo rest" where
  "SubscriptionByID k m = (case subscriptionByID k m of Inl err \<Rightarrow> NewRestError err 404 | Inr s \<Rightarrow> Inr (info s))"

definition reset_fields :: "string fields" where
  "reset_fields = [(''initialBlock'', dec_string (\<lambda>f s. f s))]"

definition ResetSubscription ::
  "('d, 'i, 'c, 'r) sm_env \<Rightarrow> string \<Rightarrow> bytes \<Rightarrow> ('d, 'c, 'r) subscriptionMGR
   \<Rightarrow> (string \<times> string) list rest \<times> ('d, 'c, 'r) subscriptionMGR" where
  "ResetSubscription E k body m =
     (case subscriptionByID k m of
        Inl err \<Rightarrow> (NewRestError err 404, m)
      | Inr s \<Rightarrow>
          (case decode_struct reset_fields [] body of
             None \<Rightarrow> (NewRestError (''Failed to parse request body. '' @ json_error) 400, m)
           | Some initialBlock \<Rightarrow>
               (case validateFromBlock initialBlock of
                  Some err \<Rightarrow> (NewRestError err 400, m)
                | None \<Rightarrow> rest_of 500 (\<lambda>_. flag_result (sub_ID (info s)) ''reset'') (resetSubscription E s initialBlock m))))"

definition DeleteSubscription ::
  "('d, 'i, 'c, 'r) sm_env \<Rightarrow> string \<Rightarrow> ('d, 'c, 'r) subscriptionMGR
   \<Rightarrow> (string \<times> string) list rest \<times> ('d, 'c, 'r) subscriptionMGR" where
  "DeleteSubscription E k m =
     (case subscriptionByID k m of
        Inl err \<Rightarrow> (NewRestError err 404, m)
      | Inr s \<Rightarrow> rest_of 500 (\<lambda>_. flag_result (sub_ID (info s)) ''deleted'') (deleteSubscription E s m))"

subsection \<open>Recovery\<close>

text \<open>The entries an iterator yields; the loop bodies below do not touch the database.\<close>

fun collect :: "('d, 'i) KVStore \<Rightarrow> nat \<Rightarrow> 'i \<Rightarrow> table run" where
  "collect s 0 i = OutOfFuel"
| "collect s (Suc n) i = (case Next s i of
     (False, _) \<Rightarrow> Ret []
   | (True, i') \<Rightarrow> bind_run (collect s n i') (\<lambda>t. Ret ((Key s i', Value s i') # t)))"

definition recovered_spec :: "StreamInfo \<Rightarrow> StreamInfo" where
  "recovered_spec s =
     s\<lparr>Suspended := (if Suspended s = None then Some False else Suspended s),
       Timestamps := (if Timestamps s = None then Some False else Timestamps s),
       Webhook := map_option (\<lambda>w. w\<lparr>TLSkipHostVerify := (if TLSkipHostVerify w = None then Some False else TLSkipHostVerify w)\<rparr>) (Webhook s)\<rparr>"

fun recoverStreams_loop ::
  "('d, 'i, 'c, 'r) sm_env \<Rightarrow> table \<Rightarrow> ('d, 'c, 'r) subscriptionMGR \<Rightarrow> ('d, 'c, 'r) subscriptionMGR run" where
  "recoverStreams_loop E [] m = Ret m"
| "recoverStreams_loop E ((k, v) # t) m =
     (if \<not> HasPrefix k ''es-'' then recoverStreams_loop E t m
      else case unmarshal_struct stream_fields zero_stream v of
        None \<Rightarrow> recoverStreams_loop E t m
      | Some s \<Rightarrow> bind_run (newEventStream (lru_new E) (wsChannels E) (recovered_spec s)) (\<lambda>r. case r of
          Inl _ \<Rightarrow> recoverStreams_loop E t m
        | Inr a \<Rightarrow> recoverStreams_loop E t (set_stream (st_ID s) a m)))"

definition recoverStreams where
  "recoverStreams E fuel m = bind_run (collect (kv E) fuel (NewIterator (kv E) (db m))) (\<lambda>t. recoverStreams_loop E t m)"

fun recoverSubscriptions_loop ::
  "table \<Rightarrow> ('d, 'c, 'r) subscriptionMGR \<Rightarrow> ('d, 'c, 'r) subscriptionMGR" where
  "recoverSubscriptions_loop [] m = m"
| "recoverSubscriptions_loop ((k, v) # t) m =
     (if \<not> HasPrefix k ''sb-'' then recoverSubscriptions_loop t m
      else case unmarshal_struct sub_fields zero_sub v of
        None \<Rightarrow> recoverSubscriptions_loop t m
      | Some i \<Rightarrow> (case streamByID (Stream i) m of
          Inl _ \<Rightarrow> recoverSubscriptions_loop t m
        | Inr _ \<Rightarrow> recoverSubscriptions_loop t (set_sub (restoreSubscription i) m)))"

definition recoverSubscriptions where
  "recoverSubscriptions E fuel m =
     bind_run (collect (kv E) fuel (NewIterator (kv E) (db m))) (\<lambda>t. Ret (recoverSubscriptions_loop t m))"

definition Init where
  "Init E fuel m = bind_run (recoverStreams E fuel m) (recoverSubscriptions E fuel)"

definition Close_sm :: "('d, 'i, 'c, 'r) sm_env \<Rightarrow> ('d, 'c, 'r) subscriptionMGR \<Rightarrow> ('d, 'c, 'r) subscriptionMGR" where
  "Close_sm E m =
     m\<lparr>streams := map (map_prod id stop) (streams m),
       client := fold (\<lambda>s. close_sub (rpc E) (snd s)) (subscriptions m) (client m),
       db := (if closed m then db m else snd (Close (kv E) (db m))), closed := True\<rparr>"

subsection \<open>The poller\<close>

text \<open>
  The part of a round of \<^verbatim>\<open>eventPoller\<close> that concerns one subscription of the stream \<open>k\<close>.
  Errors are logged and forgotten.
\<close>

definition poll_sub ::
  "('d, 'i, 'c, 'r) sm_env \<Rightarrow> string \<Rightarrow> 'r subscription \<Rightarrow> checkpoint \<times> ('d, 'c, 'r) subscriptionMGR
   \<Rightarrow> checkpoint \<times> ('d, 'c, 'r) subscriptionMGR" where
  "poll_sub E k s0 = (\<lambda>(cp0, m).
     let sid = sub_ID (info s0);
         (s, c, cp) = (if resetRequested s0
                       then (let (s', c') = unsubscribe (rpc E) False s0 (client m) in (s', c', AList.delete sid cp0))
                       else (s0, client m, cp0))
     in case map_of (streams m) k of
          None \<Rightarrow> (cp, set_sub s (m\<lparr>client := c\<rparr>))
        | Some a \<Rightarrow>
          if filterStale s \<and> \<not> deleting s then
            (let (r, c1, a1) = (case map_of cp sid of
                   Some blockHeight \<Rightarrow>
                     if blockHeight = 0 then setInitialBlockHeight (rpc E) s (c, a)
                     else (Inr blockHeight, c, setCheckpointBlockHeight blockHeight s a)
                 | None \<Rightarrow> setInitialBlockHeight (rpc E) s (c, a))
             in case r of
                  Inl _ \<Rightarrow> (cp, set_sub s (set_stream k a1 (m\<lparr>client := c1\<rparr>)))
                | Inr blockHeight \<Rightarrow>
                    (let (_, s', c2) = restartFilter (rpc E) blockHeight s c1
                     in (cp, set_sub s' (set_stream k a1 (m\<lparr>client := c2\<rparr>)))))
          else (cp, set_sub s (m\<lparr>client := c\<rparr>)))"

definition record_marks :: "eventStream \<Rightarrow> 'r subscription list \<Rightarrow> checkpoint \<Rightarrow> bool \<times> checkpoint" where
  "record_marks a subs cp = fold (\<lambda>s (changed, c).
     let sid = sub_ID (info s); i1 = (case map_of c sid of None \<Rightarrow> 0 | Some n \<Rightarrow> n); i2 = blockHWM s a
     in (changed \<or> i1 = 0 \<or> i1 \<noteq> i2, assoc_upd sid i2 c)) subs (False, cp)"

definition poll_round ::
  "('d, 'i, 'c, 'r) sm_env \<Rightarrow> string \<Rightarrow> checkpoint option \<times> ('d, 'c, 'r) subscriptionMGR
   \<Rightarrow> checkpoint option \<times> ('d, 'c, 'r) subscriptionMGR" where
  "poll_round E k = (\<lambda>(cp0, m).
     let loaded = (if cp0 = None \<or> cp0 = Some [] then loadCheckpoint E k m else Inr cp0);
         subs = subscriptionsForStream k m;
         blocked = (case map_of (streams m) k of None \<Rightarrow> True | Some a \<Rightarrow> isBlocked a);
         (cp1, m1) = (case loaded of
            Inl _ \<Rightarrow> (None, m)
          | Inr cp \<Rightarrow>
              if blocked then (cp, m)
              else let (cp', m') = fold (poll_sub E k) subs (case cp of None \<Rightarrow> [] | Some c \<Rightarrow> c, m)
                   in (if cp = None then None else Some cp', m'))
     in case (cp1, map_of (streams m1) k) of
          (Some cp, Some a) \<Rightarrow>
            (let (changed, cp2) = record_marks a subs cp
             in (Some cp2, if changed then snd (storeCheckpoint E k cp2 m1) else m1))
        | _ \<Rightarrow> (cp1, m1))"

definition markAllSubscriptionsStale ::
  "('d, 'i, 'c, 'r) sm_env \<Rightarrow> string \<Rightarrow> ('d, 'c, 'r) subscriptionMGR \<Rightarrow> ('d, 'c, 'r) subscriptionMGR" where
  "markAllSubscriptionsStale E k m =
     fold (\<lambda>s m'. let (s', c) = markFilterStale (rpc E) True s (client m') in set_sub s' (m'\<lparr>client := c\<rparr>))
       (subscriptionsForStream k m) m"

end
