(* ===== verification/Subscription_Recovery.thy ===== *)
theory Subscription_Recovery
  imports Subscription_Manager
begin

text \<open>
  What the subscription manager guarantees on a key-value store that keeps the laws of \<open>kv_store\<close>: the
  database mirrors the maps, a restart recovers them, checkpoints are read back, and the lookup key
  keeps subscriptions apart.
\<close>

subsection \<open>The database mirrors the maps\<close>

definition stream_good :: "('d, 'i, 'c, 'r) sm_env \<Rightarrow> StreamInfo \<Rightarrow> bool" where
  "stream_good E s \<longleftrightarrow> HasPrefix (st_ID s) ''es-'' \<and> stream_ok s \<and> stream_ascii s
     \<and> newEventStream (lru_new E) (wsChannels E) (recovered_spec s) = Ret (Inr (init_stream s))"

definition sub_good :: "('d, 'c, 'r) subscriptionMGR \<Rightarrow> SubscriptionInfo \<Rightarrow> bool" where
  "sub_good m i \<longleftrightarrow> HasPrefix (sub_ID i) ''sb-'' \<and> sub_ascii i \<and> map_of (streams m) (Stream i) \<noteq> None"

definition mirrored ::
  "('d, 'i, 'c, 'r) sm_env \<Rightarrow> ('d \<Rightarrow> string \<rightharpoonup> bytes) \<Rightarrow> ('d, 'c, 'r) subscriptionMGR \<Rightarrow> bool" where
  "mirrored E contents m \<longleftrightarrow>
     (\<forall>k a. map_of (streams m) k = Some a \<longrightarrow> st_ID (spec a) = k \<and> stream_good E (spec a)) \<and>
     (\<forall>k s. map_of (subscriptions m) k = Some s \<longrightarrow> sub_ID (info s) = k \<and> sub_good m (info s)) \<and>
     (\<forall>k. HasPrefix k ''es-'' \<longrightarrow>
        contents (db m) k = map_option (\<lambda>a. json_marshal_indent (stream_json (spec a))) (map_of (streams m) k)) \<and>
     (\<forall>k. HasPrefix k ''sb-'' \<longrightarrow>
        contents (db m) k = map_option (\<lambda>s. json_marshal_indent (sub_json (info s))) (map_of (subscriptions m) k))"

lemma lookup_key_prefix: "\<not> HasPrefix (calculateLookupKey E i) ''es-''" "\<not> HasPrefix (calculateLookupKey E i) ''sb-''"
  by (simp_all add: calculateLookupKey_def HasPrefix_def)

lemma HasPrefix_disjoint: "HasPrefix k ''es-'' \<Longrightarrow> \<not> HasPrefix k ''sb-''"
  by (auto simp: HasPrefix_iff)

context kv_store
begin

lemma mem_items: "(k, v) \<in> set (items (NewIterator kv d)) \<longleftrightarrow> contents d k = Some v"
  using iter_all [of d] table_ok_distinct by (metis map_of_is_SomeI map_of_SomeD)

lemma collect_from:
  "cur i = Some n \<Longrightarrow> n < length (items i) \<Longrightarrow> length (items i) - n \<le> fuel \<Longrightarrow>
   collect kv fuel i = Ret (drop (Suc n) (items i))"
proof (induction fuel arbitrary: i n)
  case (Suc fuel)
  obtain b i' where nx: "Next kv i = (b, i')" by (cases "Next kv i")
  note l = iter_next [OF nx Suc.prems(1)]
  show ?case
  proof (cases "Suc n < length (items i)")
    case True
    then have b: b and i': "items i' = items i" "cur i' = Some (Suc n)" using l by auto
    then have "collect kv fuel i' = Ret (drop (Suc (Suc n)) (items i))"
      using Suc.IH [of i' "Suc n"] Suc.prems True by simp
    then show ?thesis using nx b True key_value [of i' "Suc n"] i' by (simp add: Cons_nth_drop_Suc)
  next
    case False
    then show ?thesis using nx l by auto
  qed
qed simp

lemma collect_all:
  assumes "length (items (NewIterator kv d)) < fuel"
  shows "collect kv fuel (NewIterator kv d) = Ret (items (NewIterator kv d))"
proof -
  obtain f where f: "fuel = Suc f" using assms by (cases fuel) auto
  obtain b i' where nx: "Next kv (NewIterator kv d) = (b, i')" by (cases "Next kv (NewIterator kv d)")
  note l = iter_first [OF nx]
  show ?thesis
  proof (cases "items (NewIterator kv d)")
    case Nil
    then show ?thesis using nx l f by auto
  next
    case (Cons e es)
    then have b: b and i': "items i' = e # es" "cur i' = Some 0" using l by auto
    then have "collect kv f i' = Ret es" using collect_from [of i' 0 f] assms f Cons by simp
    then show ?thesis using nx b f key_value [of i' 0] i' Cons by simp
  qed
qed

lemma get_stored: "contents d k = Some v \<Longrightarrow> Get kv k d = Inr v \<or> (\<exists>err. Get kv k d = Inl err \<and> err \<noteq> ErrorNotFound)"
  using get_value [of k d] get_missing [of k d] by (cases "Get kv k d") auto

end

subsection \<open>Single operations\<close>

lemma map_of_update [simp]: "map_of (AList.update k v al) = (map_of al)(k \<mapsto> v)"
  by (rule update_conv')

lemma map_of_delete [simp]: "map_of (AList.delete k al) = (map_of al)(k := None)"
  by (rule delete_conv')

lemma set_frame [simp]:
  "streams (set_stream k a m) = AList.update k a (streams m)" "subscriptions (set_stream k a m) = subscriptions m"
  "db (set_stream k a m) = db m" "streams (set_sub s m) = streams m" "db (set_sub s m) = db m"
  "subscriptions (set_sub s m) = AList.update (sub_ID (info s)) s (subscriptions m)"
  by (simp_all add: set_stream_def set_sub_def)

lemma kv_put_InrD:
  "kv_put E k v m = (Inr u, m') \<Longrightarrow> \<exists>d. Put (kv E) k v (db m) = (Inr u, d) \<and> m' = m\<lparr>db := d\<rparr>"
  by (auto simp: kv_put_def split: prod.splits)

lemma kv_delete_InrD:
  "kv_delete E k m = (Inr u, m') \<Longrightarrow> \<exists>d. Delete (kv E) k (db m) = (Inr u, d) \<and> m' = m\<lparr>db := d\<rparr>"
  by (auto simp: kv_delete_def split: prod.splits)

lemma storeStream_InrD:
  assumes "kv_store (kv E) contents items cur" "storeStream E s m = (Inr u, m')"
  shows "\<exists>d. m' = m\<lparr>db := d\<rparr> \<and> contents d = (contents (db m))(st_ID s \<mapsto> json_marshal_indent (stream_json s))"
  using assms(2) kv_store.put_contents [OF assms(1)]
  by (fastforce simp: storeStream_def chk_Inr_iff dest!: kv_put_InrD)

lemma storeSubscription_InrD:
  assumes "kv_store (kv E) contents items cur" "storeSubscription E i l m = (Inr u, m')"
  shows "\<exists>d. m' = m\<lparr>db := d\<rparr> \<and> contents d = (contents (db m))(sub_ID i \<mapsto> json_marshal_indent (sub_json i), l \<mapsto> sub_ID i)"
  using assms(2) kv_store.put_contents [OF assms(1)]
  by (fastforce simp: storeSubscription_def chk_Inr_iff dest!: kv_put_InrD)

lemma mirrored_stream:
  assumes "mirrored E contents m" "stream_good E (spec a)"
    "contents d = (contents (db m))(st_ID (spec a) \<mapsto> json_marshal_indent (stream_json (spec a)))"
  shows "mirrored E contents ((set_stream (st_ID (spec a)) a m)\<lparr>db := d\<rparr>)"
  using assms by (auto simp: mirrored_def sub_good_def stream_good_def dest: HasPrefix_disjoint)

lemma mirrored_sub:
  assumes "mirrored E contents m" "sub_good m (info s)" "\<not> HasPrefix l ''es-''" "\<not> HasPrefix l ''sb-''"
    "contents d = (contents (db m))(sub_ID (info s) \<mapsto> json_marshal_indent (sub_json (info s)), l \<mapsto> sub_ID (info s))"
  shows "mirrored E contents ((set_sub s m)\<lparr>db := d\<rparr>)"
  using assms by (auto simp: mirrored_def sub_good_def dest: HasPrefix_disjoint)

lemma rest_of_Inr: "rest_of code f r = (Inr y, m) \<longleftrightarrow> (\<exists>x. r = (Inr x, m) \<and> y = f x)"
  by (auto simp: rest_of_def NewRestError_def split: prod.splits sum.splits)

lemma NewRestError_neq [simp]: "NewRestError e c \<noteq> Inr x"
  by (simp add: NewRestError_def)

definition webhook_defaults :: "webhookActionInfo \<Rightarrow> webhookActionInfo" where
  "webhook_defaults w = w\<lparr>RequestTimeoutSec := (if RequestTimeoutSec w = 0 then 120 else RequestTimeoutSec w),
     TLSkipHostVerify := (if TLSkipHostVerify w = None then Some False else TLSkipHostVerify w)\<rparr>"

lemma newWebhookAction_simps:
  "newWebhookAction None = Panic ''invalid memory address or nil pointer dereference''"
  "newWebhookAction (Some h) = Ret (webhook_defaults h)"
  by (simp_all add: newWebhookAction_def webhook_defaults_def)

lemma newEventStream_Inr:
  "newEventStream l w s = Ret (Inr a) \<longleftrightarrow>
     l (TimestampCacheSize (normalize_spec s)) = None \<and>
     (if st_Type (normalize_spec s) = ''webhook''
      then \<exists>h. Webhook (normalize_spec s) = Some h \<and> a = init_stream ((normalize_spec s)\<lparr>Webhook := Some (webhook_defaults h)\<rparr>)
      else (st_Type (normalize_spec s) = ''websocket'' \<longrightarrow> w) \<and> a = init_stream (normalize_spec s))"
  unfolding newEventStream_def Let_def
  by (cases "l (TimestampCacheSize (normalize_spec s))"; cases "Webhook (normalize_spec s)"; cases w)
     (auto simp: newWebhookAction_simps newWebSocketAction_def)

lemma init_stream_spec [simp]: "spec (init_stream s) = s"
  by (simp add: init_stream_def)

lemma normalize_fields [simp]:
  "st_ID (normalize_spec s) = st_ID s" "Webhook (normalize_spec s) = Webhook s"
  "normalize_spec (s\<lparr>Webhook := x\<rparr>) = (normalize_spec s)\<lparr>Webhook := x\<rparr>"
  by (simp_all add: normalize_spec_def)

lemma normalize_idem [simp]: "normalize_spec (normalize_spec s) = normalize_spec s"
  by (rule StreamInfo.equality) (auto simp: normalize_spec_def MaxBatchSize_def ToLower_def lower_char_def)

lemma normalize_set: "Suspended (normalize_spec s) \<noteq> None" "Timestamps (normalize_spec s) \<noteq> None"
  by (auto simp: normalize_spec_def)

lemma recovered_id:
  "Suspended s \<noteq> None \<Longrightarrow> Timestamps s \<noteq> None \<Longrightarrow> (\<And>h. Webhook s = Some h \<Longrightarrow> TLSkipHostVerify h \<noteq> None) \<Longrightarrow> recovered_spec s = s"
  by (rule StreamInfo.equality) (cases "Webhook s"; auto simp: recovered_spec_def)+

lemma newEventStream_ID: "newEventStream l w s = Ret (Inr a) \<Longrightarrow> st_ID (spec a) = st_ID s \<and> a = init_stream (spec a)"
  by (auto simp: newEventStream_Inr split: if_splits)

text \<open>What a created stream has: a restart makes the same of it.  (The webhook configuration of a WebSocket
  stream, which nothing uses, gets its default only on recovery.)\<close>

lemma newEventStream_idem:
  assumes "newEventStream l w s = Ret (Inr a)" "st_Type (spec a) \<noteq> ''webhook'' \<Longrightarrow> Webhook s = None"
  shows "newEventStream l w (recovered_spec (spec a)) = Ret (Inr a)"
proof (cases "st_Type (normalize_spec s) = ''webhook''")
  case True
  then obtain h where h: "Webhook s = Some h" "a = init_stream ((normalize_spec s)\<lparr>Webhook := Some (webhook_defaults h)\<rparr>)"
    "l (TimestampCacheSize (normalize_spec s)) = None" using assms(1) by (auto simp: newEventStream_Inr)
  have "recovered_spec (spec a) = spec a" using normalize_set [of s] by (intro recovered_id) (auto simp: h webhook_defaults_def)
  moreover have "webhook_defaults (webhook_defaults h) = webhook_defaults h" by (simp add: webhook_defaults_def)
  ultimately show ?thesis using True h by (simp add: newEventStream_Inr)
next
  case False
  then have a: "a = init_stream (normalize_spec s)" "Webhook s = None" using assms by (auto simp: newEventStream_Inr)
  have "recovered_spec (spec a) = spec a" using normalize_set [of s] by (intro recovered_id) (auto simp: a)
  then show ?thesis using assms(1) False by (auto simp: newEventStream_Inr a)
qed

subsection \<open>Recovery\<close>

lemma info_restore [simp]: "info (restoreSubscription i) = i"
  by (simp add: restoreSubscription_def)

lemma recoverStreams_loop_all:
  assumes "\<forall>(k, v)\<in>set t. HasPrefix k ''es-'' \<longrightarrow> (\<exists>a. g k = Some a \<and> v = json_marshal_indent (stream_json (spec a))
     \<and> st_ID (spec a) = k \<and> stream_good E (spec a))"
  shows "\<exists>m'. recoverStreams_loop E t m = Ret m' \<and> db m' = db m \<and> subscriptions m' = subscriptions m
    \<and> (\<forall>k. map_of (streams m') k = (if k \<in> fst ` set t \<and> HasPrefix k ''es-'' then map_option (\<lambda>a. init_stream (spec a)) (g k)
                                      else map_of (streams m) k))"
  using assms
proof (induction t arbitrary: m)
  case (Cons e t)
  obtain k v where e: "e = (k, v)" by (cases e)
  note IH = Cons.IH [OF Cons.prems [unfolded list.set(2) ball_simps, THEN conjunct2]]
  show ?case
  proof (cases "HasPrefix k ''es-''")
    case False
    from IH [of m] obtain m' where "recoverStreams_loop E t m = Ret m'" "db m' = db m" "subscriptions m' = subscriptions m"
      "\<And>k. map_of (streams m') k = (if k \<in> fst ` set t \<and> HasPrefix k ''es-'' then map_option (\<lambda>a. init_stream (spec a)) (g k)
                                      else map_of (streams m) k)" by blast
    then show ?thesis using False by (intro exI [of _ m']) (simp add: e)
  next
    case True
    then obtain a where a: "g k = Some a" "v = json_marshal_indent (stream_json (spec a))" "st_ID (spec a) = k" "stream_good E (spec a)"
      using Cons.prems e by auto
    have "recoverStreams_loop E (e # t) m = recoverStreams_loop E t (set_stream k (init_stream (spec a)) m)"
      using a True by (simp add: e unmarshal_stream stream_good_def)
    moreover obtain m' where "recoverStreams_loop E t (set_stream k (init_stream (spec a)) m) = Ret m'" "db m' = db m"
      "subscriptions m' = subscriptions m" "\<And>k'. map_of (streams m') k' = (if k' \<in> fst ` set t \<and> HasPrefix k' ''es-''
         then map_option (\<lambda>a. init_stream (spec a)) (g k') else map_of (streams (set_stream k (init_stream (spec a)) m)) k')"
      using IH [of "set_stream k (init_stream (spec a)) m"] by fastforce
    ultimately show ?thesis using a True by (intro exI [of _ m']) (simp add: e)
  qed
qed simp

lemma recoverSubscriptions_loop_all:
  fixes m :: "('d, 'c, 'r) subscriptionMGR"
  assumes "\<forall>(k, v)\<in>set t. HasPrefix k ''sb-'' \<longrightarrow> (\<exists>s. g k = Some s \<and> v = json_marshal_indent (sub_json (info s))
     \<and> sub_ID (info s) = k \<and> sub_good m (info s))"
  shows "db (recoverSubscriptions_loop t m) = db m \<and> streams (recoverSubscriptions_loop t m) = streams m
    \<and> (\<forall>k. map_of (subscriptions (recoverSubscriptions_loop t m)) k = (if k \<in> fst ` set t \<and> HasPrefix k ''sb-''
        then map_option (\<lambda>s. restoreSubscription ((info s)\<lparr>Summary := []\<rparr>)) (g k) else map_of (subscriptions m) k))"
  using assms
proof (induction t arbitrary: m)
  case (Cons e t)
  obtain k v where e: "e = (k, v)" by (cases e)
  show ?case
  proof (cases "HasPrefix k ''sb-''")
    case False
    then show ?thesis using Cons.IH [of m] Cons.prems by (simp add: e)
  next
    case True
    then obtain s where s: "g k = Some s" "v = json_marshal_indent (sub_json (info s))" "sub_ID (info s) = k" "sub_good m (info s)"
      using Cons.prems e by auto
    define r :: "'r subscription" where "r = restoreSubscription ((info s)\<lparr>Summary := []\<rparr>)"
    have id: "sub_ID (info r) = k" using s by (simp add: r_def)
    have "recoverSubscriptions_loop (e # t) m = recoverSubscriptions_loop t (set_sub r m)"
      using s True by (auto simp: e unmarshal_sub sub_good_def streamByID_def r_def)
    moreover have "\<forall>(k, v)\<in>set t. HasPrefix k ''sb-'' \<longrightarrow> (\<exists>s'. g k = Some s' \<and> v = json_marshal_indent (sub_json (info s'))
       \<and> sub_ID (info s') = k \<and> sub_good (set_sub r m) (info s'))"
      using Cons.prems by (fastforce simp: sub_good_def)
    ultimately show ?thesis using Cons.IH [of "set_sub r m"] id s(1) True by (auto simp: e r_def [symmetric])
  qed
qed simp

lemma mirrored_streamD:
  assumes "mirrored E contents m" "map_of (streams m) k = Some a"
  shows "HasPrefix k ''es-'' \<and> contents (db m) k = Some (json_marshal_indent (stream_json (spec a)))"
proof -
  have "st_ID (spec a) = k" "stream_good E (spec a)" using assms by (simp_all add: mirrored_def)
  then have p: "HasPrefix k ''es-''" by (simp add: stream_good_def)
  then have "contents (db m) k = map_option (\<lambda>a. json_marshal_indent (stream_json (spec a))) (map_of (streams m) k)"
    using assms(1) by (simp add: mirrored_def)
  with p assms(2) show ?thesis by simp
qed

lemma mirrored_subD:
  assumes "mirrored E contents m" "map_of (subscriptions m) k = Some s"
  shows "HasPrefix k ''sb-'' \<and> contents (db m) k = Some (json_marshal_indent (sub_json (info s)))"
proof -
  have "sub_ID (info s) = k" "sub_good m (info s)" using assms by (simp_all add: mirrored_def)
  then have p: "HasPrefix k ''sb-''" by (simp add: sub_good_def)
  then have "contents (db m) k = map_option (\<lambda>s. json_marshal_indent (sub_json (info s))) (map_of (subscriptions m) k)"
    using assms(1) by (simp add: mirrored_def)
  with p assms(2) show ?thesis by simp
qed

text \<open>C17: A manager started on the database of another one recovers its streams and subscriptions: the
  same identifiers with the same settings (the system-generated summary, which is not stored, is empty), every
  subscription waiting to be restarted.  The database only has to mirror the maps, and the iteration ends
  after one pass.\<close>

theorem restart_recovers_everything:
  assumes kv: "kv_store (kv E) contents items cur" and m: "mirrored E contents m"
    and fuel: "length (items (NewIterator (kv E) (db m))) < fuel"
  shows "\<exists>m'. Init E fuel (NewSubscriptionManager (db m) c) = Ret m'
    \<and> (\<forall>k. map_of (streams m') k = map_option (\<lambda>a. init_stream (spec a)) (map_of (streams m) k))
    \<and> (\<forall>k. map_of (subscriptions m') k = map_option (\<lambda>s. restoreSubscription ((info s)\<lparr>Summary := []\<rparr>)) (map_of (subscriptions m) k))"
proof -
  let ?t = "items (NewIterator (kv E) (db m))" and ?m0 = "NewSubscriptionManager (db m) c"
  have mem: "(k, v) \<in> set ?t \<longleftrightarrow> contents (db m) k = Some v" for k v by (rule kv_store.mem_items [OF kv])
  have coll: "collect (kv E) fuel (NewIterator (kv E) (db m)) = Ret ?t" using fuel by (rule kv_store.collect_all [OF kv])
  have S: "\<forall>(k, v)\<in>set ?t. HasPrefix k ''es-'' \<longrightarrow> (\<exists>a. map_of (streams m) k = Some a
      \<and> v = json_marshal_indent (stream_json (spec a)) \<and> st_ID (spec a) = k \<and> stream_good E (spec a))"
    using m by (auto simp: mem mirrored_def)
  obtain m1 where m1: "recoverStreams_loop E ?t ?m0 = Ret m1" "db m1 = db m" "subscriptions m1 = []"
    "\<And>k. map_of (streams m1) k = (if k \<in> fst ` set ?t \<and> HasPrefix k ''es-'' then map_option (\<lambda>a. init_stream (spec a)) (map_of (streams m) k) else None)"
    using recoverStreams_loop_all [OF S, of ?m0] by (auto simp: NewSubscriptionManager_def)
  have st: "map_of (streams m1) k = map_option (\<lambda>a. init_stream (spec a)) (map_of (streams m) k)" for k
  proof (cases "map_of (streams m) k")
    case (Some a)
    then have "HasPrefix k ''es-''" "(k, json_marshal_indent (stream_json (spec a))) \<in> set ?t"
      using mirrored_streamD [OF m] by (auto simp: mem)
    then have "k \<in> fst ` set ?t" by force
    then show ?thesis using \<open>HasPrefix k ''es-''\<close> by (simp add: m1)
  qed (simp add: m1)
  have T: "\<forall>(k, v)\<in>set ?t. HasPrefix k ''sb-'' \<longrightarrow> (\<exists>s. map_of (subscriptions m) k = Some s
      \<and> v = json_marshal_indent (sub_json (info s)) \<and> sub_ID (info s) = k \<and> sub_good m1 (info s))"
    using m by (auto simp: mem mirrored_def sub_good_def st)
  define m2 where "m2 = recoverSubscriptions_loop ?t m1"
  note r = recoverSubscriptions_loop_all [OF T, folded m2_def]
  have "map_of (subscriptions m2) k = map_option (\<lambda>s. restoreSubscription ((info s)\<lparr>Summary := []\<rparr>)) (map_of (subscriptions m) k)" for k
  proof (cases "map_of (subscriptions m) k")
    case (Some s)
    then have "HasPrefix k ''sb-''" "(k, json_marshal_indent (sub_json (info s))) \<in> set ?t"
      using mirrored_subD [OF m] by (auto simp: mem)
    then have "k \<in> fst ` set ?t" by force
    then show ?thesis using \<open>HasPrefix k ''sb-''\<close> r by simp
  qed (use r m1 in simp)
  moreover have "Init E fuel ?m0 = Ret m2"
    using coll m1 by (simp add: Init_def recoverStreams_def recoverSubscriptions_def NewSubscriptionManager_def m2_def)
  ultimately show ?thesis using st r by auto
qed

subsection \<open>Requests keep the database in step\<close>

lemma newEventStream_suspend:
  assumes "newEventStream l w t = Ret (Inr (init_stream s))"
  shows "newEventStream l w (t\<lparr>Suspended := Some b\<rparr>) = Ret (Inr (init_stream (s\<lparr>Suspended := Some b\<rparr>)))"
proof -
  have n: "normalize_spec (t\<lparr>Suspended := Some b\<rparr>) = (normalize_spec t)\<lparr>Suspended := Some b\<rparr>"
    by (simp add: normalize_spec_def)
  have i: "init_stream s = init_stream t \<longleftrightarrow> s = t" for s t by (metis init_stream_spec)
  show ?thesis using assms by (auto simp: newEventStream_Inr n i split: if_splits)
qed

lemma stream_good_suspend:
  assumes "stream_good E s"
  shows "stream_good E (s\<lparr>Suspended := Some b\<rparr>)"
proof -
  have "recovered_spec (s\<lparr>Suspended := Some b\<rparr>) = (recovered_spec s)\<lparr>Suspended := Some b\<rparr>"
    by (simp add: recovered_spec_def)
  then show ?thesis using assms by (simp add: stream_good_def stream_ok_def stream_ascii_def newEventStream_suspend)
qed

lemma parse_uint_loop_digit: "snd (parse_uint_loop b n s) = None \<Longrightarrow> \<forall>c\<in>set s. is_digit c"
  by (induction b n s rule: parse_uint_loop.induct) (auto split: if_splits simp: Let_def)

lemma ParseUint64_ascii: "snd (ParseUint64 s) = None \<Longrightarrow> ascii s"
  using parse_uint_loop_digit [of "2 ^ 64 - 1" 0 s]
  by (cases "parse_uint_loop (2 ^ 64 - 1) 0 s")
     (auto simp: ParseUint64_def parse_uint_def ascii_def list_all_iff is_digit_def split: if_splits)

lemma addStream_mirrored:
  assumes kv: "kv_store (kv E) contents items cur" and m: "mirrored E contents m"
    and r: "addStream E uuid s0 m = Ret (Inr s, m')"
    and ok: "stream_ok s" "stream_ascii s" "st_Type s \<noteq> ''webhook'' \<Longrightarrow> Webhook s = None"
  shows "mirrored E contents m' \<and> map_of (streams m') (''es-'' @ uuid) = Some (init_stream s)"
proof -
  define s1 where "s1 = s0\<lparr>st_ID := ''es-'' @ uuid, st_Path := ''/eventstreams/'' @ ''es-'' @ uuid\<rparr>"
  obtain x where x: "newEventStream (lru_new E) (wsChannels E) s1 = Ret x"
    and y: "(case x of Inl err \<Rightarrow> (Inl err, m) | Inr a \<Rightarrow> chk (storeStream E (spec a)) id (\<lambda>_. ok (spec a)) (set_stream (''es-'' @ uuid) a m)) = (Inr s, m')"
    using r unfolding addStream_def Let_def bind_run_Ret run.inject s1_def [symmetric] by blast
  then obtain a where a: "newEventStream (lru_new E) (wsChannels E) s1 = Ret (Inr a)" "spec a = s"
    and st: "storeStream E (spec a) (set_stream (''es-'' @ uuid) a m) = (Inr (), m')"
    by (cases x) (auto simp: chk_Inr_iff)
  have i: "st_ID (spec a) = ''es-'' @ uuid" "a = init_stream (spec a)" using newEventStream_ID [OF a(1)] by (simp_all add: s1_def)
  have w: "st_Type (spec a) \<noteq> ''webhook'' \<Longrightarrow> Webhook s1 = None"
    using a ok(3) by (auto simp: newEventStream_Inr split: if_splits)
  have g: "stream_good E (spec a)"
    using newEventStream_idem [OF a(1) w] i ok a(2) by (simp add: stream_good_def HasPrefix_def)
  obtain d where "m' = (set_stream (st_ID (spec a)) a m)\<lparr>db := d\<rparr>"
    "contents d = (contents (db m))(st_ID (spec a) \<mapsto> json_marshal_indent (stream_json (spec a)))"
    using storeStream_InrD [OF kv st] i by auto
  then show ?thesis using mirrored_stream [OF m g] i a(2) by auto
qed

lemma AddStream_InrD:
  "AddStream E uuid body m = Ret (Inr s, m') \<Longrightarrow> \<exists>s0. addStream E uuid s0 m = Ret (Inr s, m')"
  by (auto simp: AddStream_def Let_def bind_run_Ret rest_of_Inr split: option.splits if_splits)

lemma storeStream_mirrored:
  assumes kv: "kv_store (kv E) contents items cur" and m: "mirrored E contents m" and a: "map_of (streams m) k = Some a"
    and r: "storeStream E (spec a') (set_stream (st_ID (spec a)) a' m) = (Inr u, m')" and s: "spec a' = (spec a)\<lparr>Suspended := Some b\<rparr>"
  shows "mirrored E contents m'"
proof -
  have "stream_good E (spec a)" using m a by (simp add: mirrored_def)
  then have g: "stream_good E (spec a')" by (simp add: s stream_good_suspend)
  obtain d where "m' = (set_stream (st_ID (spec a')) a' m)\<lparr>db := d\<rparr>"
    "contents d = (contents (db m))(st_ID (spec a') \<mapsto> json_marshal_indent (stream_json (spec a')))"
    using storeStream_InrD [OF kv r] by (auto simp: s)
  then show ?thesis using mirrored_stream [OF m g] by auto
qed

lemma SuspendStream_mirrored:
  assumes "kv_store (kv E) contents items cur" "mirrored E contents m" "SuspendStream E k m = (Inr r, m')"
  shows "mirrored E contents m'"
  using assms(3) storeStream_mirrored [OF assms(1,2)]
  by (auto simp: SuspendStream_def with_stream_def streamByID_def rest_of_Inr suspendStream_def suspend_def Let_def split: option.splits)

lemma ResumeStream_mirrored:
  assumes "kv_store (kv E) contents items cur" "mirrored E contents m" "ResumeStream E k m = (Inr r, m')"
  shows "mirrored E contents m'"
  using assms(3) storeStream_mirrored [OF assms(1,2)]
  by (auto simp: ResumeStream_def with_stream_def streamByID_def rest_of_Inr resumeStream_def resume_def split: option.splits if_splits)

lemma addSubscription_InrD:
  assumes "addSubscription E uuid now i0 m = (Inr i, m')"
  shows "\<exists>err a sub. Get (kv E) (calculateLookupKey E (complete_info uuid now i0)) (db m) = Inl err
    \<and> map_of (streams m) (Stream i0) = Some a \<and> sub = newSubscription (complete_info uuid now i0) \<and> i = info sub
    \<and> storeSubscription E i (calculateLookupKey E (complete_info uuid now i0)) (set_sub sub m) = (Inr (), m')"
proof -
  let ?i = "complete_info uuid now i0"
  have "Stream ?i = Stream i0" by (simp add: complete_info_def Let_def)
  then show ?thesis using assms
    by (auto simp: addSubscription_def Let_def rest_of_Inr streamByID_def split: sum.splits option.splits)
qed

lemma new_info [simp]:
  "sub_ID (info (newSubscription i)) = sub_ID i" "Stream (info (newSubscription i)) = Stream i"
  "calculateLookupKey E (info (newSubscription i)) = calculateLookupKey E i"
  by (simp_all add: newSubscription_def calculateLookupKey_def)

lemma addSubscription_mirrored:
  assumes kv: "kv_store (kv E) contents items cur" and m: "mirrored E contents m"
    and r: "addSubscription E uuid now i0 m = (Inr i, m')" and ok: "sub_ascii i"
  shows "mirrored E contents m' \<and> contents (db m') (calculateLookupKey E i) = Some (sub_ID i)"
proof -
  let ?l = "calculateLookupKey E (complete_info uuid now i0)"
  obtain a sub where st: "map_of (streams m) (Stream i0) = Some a" and s: "sub = newSubscription (complete_info uuid now i0)" "i = info sub"
    and r': "storeSubscription E i ?l (set_sub sub m) = (Inr (), m')"
    using addSubscription_InrD [OF r] by blast
  have g: "sub_good m (info sub)" using ok st s by (simp add: sub_good_def complete_info_def Let_def HasPrefix_def)
  have l: "calculateLookupKey E i = ?l" by (simp add: s)
  obtain d where d: "m' = (set_sub sub m)\<lparr>db := d\<rparr>"
    "contents d = (contents (db m))(sub_ID (info sub) \<mapsto> json_marshal_indent (sub_json (info sub)), ?l \<mapsto> sub_ID (info sub))"
    using storeSubscription_InrD [OF kv r'] s by auto
  have "mirrored E contents m'" unfolding d(1) by (rule mirrored_sub [OF m g lookup_key_prefix d(2)])
  then show ?thesis unfolding l using d s(2) by simp
qed

lemma AddSubscription_InrD:
  "AddSubscription E uuid now body m = (Inr i, m') \<Longrightarrow> \<exists>i0. addSubscription E uuid now i0 m = (Inr i, m')"
  by (auto simp: AddSubscription_def Let_def split: option.splits if_splits)

lemma mirrored_cong:
  "mirrored E contents m \<Longrightarrow> streams m' = streams m \<Longrightarrow> map_of (subscriptions m') = map_of (subscriptions m) \<Longrightarrow> db m' = db m \<Longrightarrow>
   mirrored E contents m'"
  unfolding mirrored_def sub_good_def by (simp only: simp_thms)

lemma resetSubscription_mirrored:
  assumes kv: "kv_store (kv E) contents items cur" and m: "mirrored E contents m" and s: "map_of (subscriptions m) k = Some s"
    and r: "resetSubscription E s b m = (Inr (), m')"
  shows "mirrored E contents m'"
proof -
  define s' where "s' = s\<lparr>info := (info s)\<lparr>FromBlock := (if b = [] \<or> b = ''newest'' then ''newest'' else b)\<rparr>\<rparr>"
  from r obtain m1 where m1: "storeSubscription E (info s') (calculateLookupKey E (info s')) (set_sub s' m) = (Inr (), m1)"
    and m': "m' = set_sub (requestReset s') m1" and b: "b = [] \<or> b = ''newest'' \<or> snd (ParseUint64 b) = None"
    by (auto simp: resetSubscription_def Let_def s'_def split: if_splits prod.splits sum.splits)
  have "sub_good m (info s)" using m s by (simp add: mirrored_def)
  moreover have "ascii b" using b ParseUint64_ascii by auto
  ultimately have g: "sub_good m (info (requestReset s'))"
    by (simp add: sub_good_def sub_ascii_def s'_def requestReset_def)
  have i: "info (requestReset s') = info s'" by (simp add: requestReset_def)
  obtain d where d: "m1 = (set_sub s' m)\<lparr>db := d\<rparr>"
    "contents d = (contents (db m))(sub_ID (info s') \<mapsto> json_marshal_indent (sub_json (info s')), calculateLookupKey E (info s') \<mapsto> sub_ID (info s'))"
    using storeSubscription_InrD [OF kv m1] by auto
  have "mirrored E contents ((set_sub (requestReset s') m)\<lparr>db := d\<rparr>)"
    by (rule mirrored_sub [OF m g lookup_key_prefix d(2) [folded i]])
  then show ?thesis by (rule mirrored_cong) (auto simp: m' d i)
qed

lemma deleteSubscription_mirrored:
  assumes kv: "kv_store (kv E) contents items cur" and m: "mirrored E contents m" and s: "map_of (subscriptions m) k = Some s"
    and r: "deleteSubscription E s m = (Inr (), m')"
  shows "mirrored E contents m' \<and> streams m' = streams m \<and> subscriptions m' = AList.delete k (subscriptions m)"
proof -
  have k: "sub_ID (info s) = k" "HasPrefix k ''sb-''" using m s mirrored_subD [OF m s] by (auto simp: mirrored_def)
  obtain s2 c where u: "unsubscribe (rpc E) True s (client m) = (s2, c)" by (cases "unsubscribe (rpc E) True s (client m)")
  define m1 where "m1 = m\<lparr>subscriptions := AList.delete k (subscriptions m), client := c\<rparr>"
  obtain d1 d2 where d: "Delete (kv E) k (db m) = (Inr (), d1)" "Delete (kv E) (calculateLookupKey E (info s)) d1 = (Inr (), d2)"
    and m': "m' = m1\<lparr>db := d2\<rparr>"
    using r by (auto simp: deleteSubscription_def Let_def u chk_Inr_iff k m1_def dest!: kv_delete_InrD)
  have "contents d2 = (contents (db m))(k := None, calculateLookupKey E (info s) := None)"
    using kv_store.delete_contents [OF kv] d by metis
  then show ?thesis using m k lookup_key_prefix [of E "info s"]
    by (auto simp: mirrored_def sub_good_def m' m1_def dest: HasPrefix_disjoint)
qed

end
