(* ===== verification/Subscription_Properties.thy ===== *)
theory Subscription_Properties
  imports Subscription_Recovery
begin

text \<open>
  The properties of the subscription manager and of the poller, with a manager on the in-memory database as the
  running example.
\<close>

subsection \<open>The example\<close>

definition sample_env :: "(table, table \<times> nat option, unit, nat) sm_env" where
  "sample_env = \<lparr>kv = NewLDBKeyValueStore mem_ldb, rpc = quiet_rpc, lru_new = (\<lambda>_. None), wsChannels = True,
     parse_url = Some, sha256_hex = id\<rparr>"

lemma sample_kv: "kv_store (kv sample_env) map_of fst snd"
  using mem_db.wrapped.kv_store_axioms by (simp add: sample_env_def)

definition fresh_mgr :: "(table, unit, nat) subscriptionMGR" where
  "fresh_mgr = NewSubscriptionManager [] ()"

lemma fresh_mirrored: "mirrored E map_of fresh_mgr"
  by (simp add: mirrored_def fresh_mgr_def NewSubscriptionManager_def)

definition one_stream :: "(table, unit, nat) subscriptionMGR" where
  "one_stream = (let s = (normalize_spec sample_spec)\<lparr>st_ID := ''es-1'', st_Path := ''/eventstreams/es-1''\<rparr>
     in fresh_mgr\<lparr>streams := [(''es-1'', init_stream s)], db := [(''es-1'', json_marshal_indent (stream_json s))]\<rparr>)"

lemma sample_add: "addStream sample_env ''1'' sample_spec fresh_mgr = Ret (Inr ((normalize_spec sample_spec)\<lparr>st_ID := ''es-1'', st_Path := ''/eventstreams/es-1''\<rparr>), one_stream)"
proof -
  have n: "normalize_spec (sample_spec\<lparr>st_ID := ''es-1'', st_Path := ''/eventstreams/es-1''\<rparr>)
      = (normalize_spec sample_spec)\<lparr>st_ID := ''es-1'', st_Path := ''/eventstreams/es-1''\<rparr>"
    by (simp add: normalize_spec_def)
  have "st_Type (normalize_spec sample_spec) = ''websocket''"
    by code_simp
  then show ?thesis
    by (simp add: Let_def addStream_def n newEventStream_def newWebSocketAction_def sample_env_def storeStream_def chk_def kv_put_def
        NewLDBKeyValueStore_def levelDB_Put_def mem_ldb_def set_stream_def one_stream_def fresh_mgr_def NewSubscriptionManager_def)
qed

lemma one_stream_mirrored: "mirrored sample_env map_of one_stream"
proof -
  have "stream_ok (normalize_spec sample_spec)" "stream_ascii (normalize_spec sample_spec)" "Webhook (normalize_spec sample_spec) = None"
    by (simp_all add: stream_ok_def stream_ascii_def normalize_spec_def sample_spec_def int64_range_def ToLower_def lower_char_def)
  then show ?thesis using addStream_mirrored [OF sample_kv fresh_mirrored sample_add]
    by (simp add: stream_ok_def stream_ascii_def)
qed

theorem restart_recovers_everything_witness:
  "\<exists>m'. Init sample_env 5 (NewSubscriptionManager (db one_stream) ()) = Ret m'
     \<and> map_option (\<lambda>a. st_ID (spec a)) (map_of (streams m') ''es-1'') = Some ''es-1''"
proof -
  have "length (fst (NewIterator (kv sample_env) (db one_stream))) < 5"
    by (simp add: sample_env_def NewLDBKeyValueStore_def levelDB_NewIterator_def mem_ldb_def mem_table_def one_stream_def Let_def)
  from restart_recovers_everything [OF sample_kv one_stream_mirrored this, of "()"]
  show ?thesis by (auto simp: one_stream_def Let_def)
qed

subsection \<open>Requests\<close>

text \<open>The requests that succeed.  (Texts are ASCII; a WebSocket stream carries no webhook configuration.)\<close>

inductive request_step :: "('d, 'i, 'c, 'r) sm_env \<Rightarrow> ('d, 'c, 'r) subscriptionMGR \<Rightarrow> ('d, 'c, 'r) subscriptionMGR \<Rightarrow> bool" for E where
  add_stream: "\<lbrakk>AddStream E uuid body m = Ret (Inr s, m'); stream_ok s; stream_ascii s; st_Type s \<noteq> ''webhook'' \<longrightarrow> Webhook s = None\<rbrakk> \<Longrightarrow>
    request_step E m m'"
| suspend_stream: "SuspendStream E k m = (Inr r, m') \<Longrightarrow> request_step E m m'"
| resume_stream: "ResumeStream E k m = (Inr r, m') \<Longrightarrow> request_step E m m'"
| add_sub: "AddSubscription E uuid now body m = (Inr i, m') \<Longrightarrow> sub_ascii i \<Longrightarrow> request_step E m m'"
| reset_sub: "ResetSubscription E k body m = (Inr r, m') \<Longrightarrow> request_step E m m'"
| delete_sub: "DeleteSubscription E k m = (Inr r, m') \<Longrightarrow> request_step E m m'"

lemma request_step_mirrored:
  assumes kv: "kv_store (kv E) contents items cur"
  shows "request_step E m m' \<Longrightarrow> mirrored E contents m \<Longrightarrow> mirrored E contents m'"
proof (induction rule: request_step.induct)
  case (add_stream uuid body m s m')
  then show ?case using AddStream_InrD addStream_mirrored [OF kv add_stream.prems] by blast
next
  case (add_sub uuid now body m i m')
  then show ?case using AddSubscription_InrD addSubscription_mirrored [OF kv add_sub.prems] by blast
next
  case (reset_sub k body m r m')
  then obtain s b where "map_of (subscriptions m) k = Some s" "resetSubscription E s b m = (Inr (), m')"
    by (auto simp: ResetSubscription_def subscriptionByID_def rest_of_Inr split: option.splits)
  then show ?case by (rule resetSubscription_mirrored [OF kv reset_sub.prems])
next
  case (delete_sub k m r m')
  then obtain s where "map_of (subscriptions m) k = Some s" "deleteSubscription E s m = (Inr (), m')"
    by (auto simp: DeleteSubscription_def subscriptionByID_def rest_of_Inr split: option.splits)
  then show ?case using deleteSubscription_mirrored [OF kv delete_sub.prems] by blast
qed (auto intro: SuspendStream_mirrored [OF kv] ResumeStream_mirrored [OF kv])



subsection \<open>The lookup key\<close>

definition key_text :: "SubscriptionInfo \<Rightarrow> string" where
  "key_text i = ChannelID i @ ''-'' @ FilterChaincodeID (Filter i) @ ''-'' @ BlockType (Filter i) @ ''-'' @ EventFilter (Filter i)"

lemma lookup_key_text: "key_text i = key_text j \<Longrightarrow> calculateLookupKey E i = calculateLookupKey E j"
  by (simp add: calculateLookupKey_def key_text_def)

text \<open>Once a subscription is stored, a second one with the same composite key is refused with
  status 400 and changes nothing, as long as the database can be read.  The composite key joins
  its parts with hyphens, so this also hits subscriptions that differ in every part, such as the chaincode
  \<^verbatim>\<open>c\<close> on channel \<^verbatim>\<open>a-b\<close> and the chaincode \<^verbatim>\<open>b-c\<close> on channel \<^verbatim>\<open>a\<close>.\<close>

theorem duplicate_subscription_is_refused:
  assumes kv: "kv_store (kv E) contents items cur" and m: "mirrored E contents m"
    and r: "addSubscription E uuid now i0 m = (Inr i, m')" and ok: "sub_ascii i"
    and same: "key_text (complete_info uuid2 now2 j0) = key_text i"
    and readable: "\<And>k err. Get (kv E) k (db m') = Inl err \<Longrightarrow> err = ErrorNotFound"
  shows "addSubscription E uuid2 now2 j0 m' =
    (NewRestError ''A subscription with the same channel ID, chaincode ID, block type and event filter already exists'' 400, m')"
proof -
  have "contents (db m') (calculateLookupKey E (complete_info uuid2 now2 j0)) = Some (sub_ID i)"
    using addSubscription_mirrored [OF kv m r ok] lookup_key_text [OF same, of E] by simp
  from kv_store.get_stored [OF kv this] readable
  have "Get (kv E) (calculateLookupKey E (complete_info uuid2 now2 j0)) (db m') = Inr (sub_ID i)" by blast
  then show ?thesis by (simp add: addSubscription_def Let_def)
qed

definition request_a :: SubscriptionInfo where
  "request_a = sample_sub\<lparr>ChannelID := ''a-b'', Stream := ''es-1'', Filter := \<lparr>BlockType = [], FilterChaincodeID = ''c'', EventFilter = []\<rparr>\<rparr>"

definition request_b :: SubscriptionInfo where
  "request_b = sample_sub\<lparr>ChannelID := ''a'', Stream := ''es-1'', Filter := \<lparr>BlockType = [], FilterChaincodeID = ''b-c'', EventFilter = []\<rparr>\<rparr>"

theorem duplicate_subscription_is_refused_witness:
  "\<exists>i m'. addSubscription sample_env ''1'' ''now'' request_a one_stream = (Inr i, m')
     \<and> fst (addSubscription sample_env ''2'' ''now'' request_b m') =
       NewRestError ''A subscription with the same channel ID, chaincode ID, block type and event filter already exists'' 400"
proof -
  let ?i = "info (newSubscription (complete_info ''1'' ''now'' request_a) :: nat subscription)"
  have "\<exists>m'. addSubscription sample_env ''1'' ''now'' request_a one_stream = (Inr ?i, m')"
    by (simp add: addSubscription_def Let_def sample_env_def NewLDBKeyValueStore_def levelDB_Get_def levelDB_Put_def mem_ldb_def
        one_stream_def storeSubscription_def chk_def kv_put_def set_sub_def rest_of_def streamByID_def calculateLookupKey_def
        complete_info_def request_a_def)
  then obtain m' where r: "addSubscription sample_env ''1'' ''now'' request_a one_stream = (Inr ?i, m')" by blast
  have ok: "sub_ascii ?i" by (simp add: sub_ascii_def newSubscription_def complete_info_def request_a_def sample_sub_def Let_def)
  have same: "key_text (complete_info ''2'' ''now'' request_b) = key_text ?i"
    by (simp add: key_text_def newSubscription_def complete_info_def request_a_def request_b_def Let_def)
  have "Get (kv sample_env) k (db m') = Inl err \<Longrightarrow> err = ErrorNotFound" for k err
    by (auto simp: sample_env_def NewLDBKeyValueStore_def levelDB_Get_def mem_ldb_def split: option.splits)
  from duplicate_subscription_is_refused [OF sample_kv one_stream_mirrored r ok same this] r show ?thesis by auto
qed

subsection \<open>Checkpoints and the poller\<close>

text \<open>A stored checkpoint is read back unchanged, or the database reports an error.\<close>

theorem checkpoint_read_back:
  assumes "kv_store (kv E) contents items cur" and "checkpoint_ok cp" and "storeCheckpoint E k cp m = (Inr (), m')"
  shows "loadCheckpoint E k m' = Inr (Some cp) \<or> (\<exists>err. loadCheckpoint E k m' = Inl err)"
proof -
  obtain d where d: "Put (kv E) (''cp-'' @ k) (json_marshal_indent (checkpoint_json cp)) (db m) = (Inr (), d)" "m' = m\<lparr>db := d\<rparr>"
    using assms(3) kv_put_InrD by (fastforce simp: storeCheckpoint_def)
  then have "contents (db m') (''cp-'' @ k) = Some (json_marshal_indent (checkpoint_json cp))"
    using kv_store.put_contents [OF assms(1)] by simp
  from kv_store.get_stored [OF assms(1) this] show ?thesis
    by (auto simp: loadCheckpoint_def unmarshal_checkpoint_json [OF assms(2)])
qed

theorem checkpoint_read_back_witness:
  "\<exists>m'. storeCheckpoint sample_env ''es-1'' [(''sb-1'', 8)] one_stream = (Inr (), m')
     \<and> (loadCheckpoint sample_env ''es-1'' m' = Inr (Some [(''sb-1'', 8)]) \<or> (\<exists>err. loadCheckpoint sample_env ''es-1'' m' = Inl err))"
proof -
  have "\<exists>m'. storeCheckpoint sample_env ''es-1'' [(''sb-1'', 8)] one_stream = (Inr (), m')"
    by (simp add: storeCheckpoint_def kv_put_def sample_env_def NewLDBKeyValueStore_def levelDB_Put_def mem_ldb_def)
  moreover have "checkpoint_ok [(''sb-1'', 8)]" by (simp add: checkpoint_ok_def)
  ultimately show ?thesis using checkpoint_read_back [OF sample_kv] by blast
qed

lemma assoc_upd_map_of: "map_of (assoc_upd k v m) = (map_of m)(k \<mapsto> v)"
  by (induction k v m rule: assoc_upd.induct) auto

lemma record_marks_fold:
  "fold (\<lambda>s (changed, c).
     let sid = sub_ID (info s); i1 = (case map_of c sid of None \<Rightarrow> 0 | Some n \<Rightarrow> n); i2 = blockHWM s a
     in (changed \<or> i1 = 0 \<or> i1 \<noteq> i2, assoc_upd sid i2 c)) subs (b, cp) = (b', cp') \<Longrightarrow>
   map_of cp' sid = (if \<exists>s\<in>set subs. sub_ID (info s) = sid then Some (hwm a sid) else map_of cp sid)"
proof (induction subs arbitrary: b cp)
  case (Cons s subs)
  then show ?case by (fastforce simp: Let_def assoc_upd_map_of blockHWM_def)
qed simp

text \<open>The checkpoint a round of the poller works out maps every subscription of the stream to its
  high-water mark and keeps all other entries.\<close>

theorem checkpoint_records_the_marks:
  "map_of (snd (record_marks a subs cp)) sid
     = (if sid \<in> (\<lambda>s. sub_ID (info s)) ` set subs then Some (hwm a sid) else map_of cp sid)"
  using record_marks_fold [of a subs False cp _ _ sid]
  by (cases "record_marks a subs cp") (auto simp: record_marks_def image_iff)

text \<open>Where a subscription is restarted: a pending filter starts at the checkpoint when there is one and the
  mark is set to it; after a requested reset the checkpoint is dropped, the old registration is
  given up, and the filter starts at the block the user asked for.\<close>

theorem poller_starts_where_it_should:
  assumes "map_of (streams m) k = Some a" and "\<not> deleting s" and "sid = sub_ID (info s)"
  shows "\<not> resetRequested s \<Longrightarrow> filterStale s \<Longrightarrow> map_of cp sid = Some h \<Longrightarrow> h \<noteq> 0 \<Longrightarrow>
      SubscribeEvent (rpc E) (info s) h (client m) = (Inr reg, c) \<Longrightarrow>
      poll_sub E k s (cp, m) = (cp, set_sub (s\<lparr>registration := Some reg, filterStale := False\<rparr>)
                                     (set_stream k (a\<lparr>hwm := (hwm a)(sid := h)\<rparr>) (m\<lparr>client := c\<rparr>)))"
    and "resetRequested s \<Longrightarrow> FromBlock (info s) = FormatUint n \<Longrightarrow>
      SubscribeEvent (rpc E) (info s) n (if filterStale s \<or> registration s = None then client m else Unregister (rpc E) (registration s) (client m)) = (Inr reg, c) \<Longrightarrow>
      poll_sub E k s (cp, m) = (AList.delete sid cp,
         set_sub (s\<lparr>registration := Some reg, filterStale := False, deleting := False, resetRequested := False\<rparr>)
           (set_stream k a (m\<lparr>client := c\<rparr>)))"
proof -
  show "\<not> resetRequested s \<Longrightarrow> filterStale s \<Longrightarrow> map_of cp sid = Some h \<Longrightarrow> h \<noteq> 0 \<Longrightarrow>
      SubscribeEvent (rpc E) (info s) h (client m) = (Inr reg, c) \<Longrightarrow>
      poll_sub E k s (cp, m) = (cp, set_sub (s\<lparr>registration := Some reg, filterStale := False\<rparr>)
                                     (set_stream k (a\<lparr>hwm := (hwm a)(sid := h)\<rparr>) (m\<lparr>client := c\<rparr>)))"
    using assms by (simp add: poll_sub_def setCheckpointBlockHeight_def initBlockHWM_def restartFilter_def markFilterStale_def)
  have "FormatUint n \<noteq> []" by (simp add: FormatUint_def)
  moreover have "FormatUint n \<noteq> ''newest''"
  proof
    assume "FormatUint n = ''newest''"
    then have "ParseUint64 ''newest'' = (n, None)" using ParseUint64_FormatUint [of n] by simp
    then show False by (simp add: ParseUint64_def parse_uint_def is_digit_def)
  qed
  ultimately show "resetRequested s \<Longrightarrow> FromBlock (info s) = FormatUint n \<Longrightarrow>
      SubscribeEvent (rpc E) (info s) n (if filterStale s \<or> registration s = None then client m else Unregister (rpc E) (registration s) (client m)) = (Inr reg, c) \<Longrightarrow>
      poll_sub E k s (cp, m) = (AList.delete sid cp,
         set_sub (s\<lparr>registration := Some reg, filterStale := False, deleting := False, resetRequested := False\<rparr>)
           (set_stream k a (m\<lparr>client := c\<rparr>)))"
    using assms by (cases s; cases "filterStale s"; cases "registration s")
      (simp_all add: poll_sub_def unsubscribe_def markFilterStale_def setInitialBlockHeight_def restartFilter_def)
qed

definition stale_sub :: "nat subscription" where
  "stale_sub = restoreSubscription (sample_sub\<lparr>FromBlock := ''5''\<rparr>)"

theorem poller_starts_where_it_should_witness:
  "fst (poll_sub sample_env ''es-1'' stale_sub ([(''sub1'', 9)], one_stream)) = [(''sub1'', 9)] \<and>
   fst (poll_sub sample_env ''es-1'' (requestReset stale_sub) ([(''sub1'', 9)], one_stream)) = []"
proof -
  have s: "map_of (streams one_stream) ''es-1'' = Some (snd (hd (streams one_stream)))" by (simp add: one_stream_def Let_def)
  have f: "FormatUint 5 = ''5''" by code_simp
  have "poll_sub sample_env ''es-1'' stale_sub ([(''sub1'', 9)], one_stream) = ([(''sub1'', 9)],
      set_sub (stale_sub\<lparr>registration := Some 1, filterStale := False\<rparr>) (set_stream ''es-1''
        ((snd (hd (streams one_stream)))\<lparr>hwm := (hwm (snd (hd (streams one_stream))))(''sub1'' := 9)\<rparr>) (one_stream\<lparr>client := ()\<rparr>)))"
    by (rule poller_starts_where_it_should(1) [OF s])
       (simp_all add: stale_sub_def restoreSubscription_def sample_sub_def sample_env_def quiet_rpc_def)
  moreover have "poll_sub sample_env ''es-1'' (requestReset stale_sub) ([(''sub1'', 9)], one_stream) = (AList.delete ''sub1'' [(''sub1'', 9)],
      set_sub ((requestReset stale_sub)\<lparr>registration := Some 1, filterStale := False, deleting := False, resetRequested := False\<rparr>)
        (set_stream ''es-1'' (snd (hd (streams one_stream))) (one_stream\<lparr>client := ()\<rparr>)))"
    by (rule poller_starts_where_it_should(2) [OF s, where n = 5])
       (simp_all add: stale_sub_def restoreSubscription_def sample_sub_def sample_env_def quiet_rpc_def requestReset_def f)
  ultimately show ?thesis by simp
qed

text \<open>A negative start block passes the check of the request but not the poller: a subscription
  made with it is accepted and its filter is never started.\<close>

theorem negative_block_is_accepted_and_never_starts:
  assumes "n \<le> 2 ^ 63" and "FromBlock (info s) = CHR ''-'' # nat_digits n" and "map_of (streams m) k = Some a"
    and "map_of cp (sub_ID (info s)) = None" and "\<not> resetRequested s" and "filterStale s" and "\<not> deleting s"
  shows "validateFromBlock (FromBlock (info s)) = None
    \<and> (\<exists>m'. poll_sub E k s (cp, m) = (cp, m') \<and> map_of (subscriptions m') (sub_ID (info s)) = Some s)"
proof -
  have "snd (parse_int 64 (CHR ''-'' # nat_digits n)) = None"
    using assms(1) by (simp add: parse_int_def split_sign_def parse_uint_nat_digits)
  then have "snd (Atoi (CHR ''-'' # nat_digits n)) = None" by (auto simp: Atoi_def split: prod.splits)
  moreover have "snd (ParseUint64 (CHR ''-'' # nat_digits n)) \<noteq> None"
    by (simp add: ParseUint64_def parse_uint_def is_digit_def)
  ultimately show ?thesis using assms
    by (auto simp: validateFromBlock_def poll_sub_def setInitialBlockHeight_def split: prod.splits option.splits)
qed

theorem negative_block_is_accepted_and_never_starts_witness:
  "validateFromBlock ''-1'' = None \<and>
   (\<exists>m'. poll_sub sample_env ''es-1'' (stale_sub\<lparr>info := sample_sub\<lparr>FromBlock := ''-1''\<rparr>\<rparr>) ([], one_stream) = ([], m')
      \<and> map_of (subscriptions m') ''sub1'' = Some (stale_sub\<lparr>info := sample_sub\<lparr>FromBlock := ''-1''\<rparr>\<rparr>))"
proof -
  have s: "map_of (streams one_stream) ''es-1'' = Some (snd (hd (streams one_stream)))" by (simp add: one_stream_def Let_def)
  have "nat_digits 1 = ''1''" by code_simp
  then show ?thesis
    using negative_block_is_accepted_and_never_starts [of 1 "stale_sub\<lparr>info := sample_sub\<lparr>FromBlock := ''-1''\<rparr>\<rparr>" one_stream "''es-1''" _ "[]" sample_env] s
    by (simp add: stale_sub_def restoreSubscription_def sample_sub_def)
qed

text \<open>A message that contains a percent sign is not passed on as it is, because it is used as a format;
  one without is.\<close>

theorem rest_error_text:
  "(CHR ''%'' \<notin> set msg \<longrightarrow> NewRestError msg code = (Inl (msg, code) :: nat rest))
   \<and> NewRestError ''Stream with ID '50%' not found'' 404 = (Inl (''Stream with ID '50%!'(MISSING) not found'', 404) :: nat rest)"
proof
  show "CHR ''%'' \<notin> set msg \<longrightarrow> NewRestError msg code = (Inl (msg, code) :: nat rest)"
    by (simp add: NewRestError_def Errorf0_plain)
  show "NewRestError ''Stream with ID '50%' not found'' 404 = (Inl (''Stream with ID '50%!'(MISSING) not found'', 404) :: nat rest)"
    by code_simp
qed

theorem rest_error_text_witness:
  "NewRestError ''Unauthorized'' 401 = (Inl (''Unauthorized'', 401) :: nat rest)"
  using rest_error_text [of "''Unauthorized''" 401] by simp

subsection \<open>Deleting a stream\<close>

definition kv_deletes :: "('d, 'i, 'c, 'r) sm_env \<Rightarrow> bool" where
  "kv_deletes E \<longleftrightarrow> (\<forall>k d. fst (Delete (kv E) k d) = Inr ())"

lemma deleteSubscription_ok: "kv_deletes E \<Longrightarrow> \<exists>m'. deleteSubscription E s m = (Inr (), m')"
  by (auto simp: kv_deletes_def deleteSubscription_def chk_def kv_delete_def Let_def split: prod.splits sum.splits)
     (metis fst_conv sum.distinct(1))+

lemma delete_all_subs:
  assumes kv: "kv_store (kv E) contents items cur" and d: "kv_deletes E"
  shows "mirrored E contents m \<Longrightarrow> distinct (map (\<lambda>s. sub_ID (info s)) subs) \<Longrightarrow>
    (\<forall>s\<in>set subs. map_of (subscriptions m) (sub_ID (info s)) = Some s) \<Longrightarrow>
    mirrored E contents (fold (\<lambda>s m'. snd (deleteSubscription E s m')) subs m)
    \<and> streams (fold (\<lambda>s m'. snd (deleteSubscription E s m')) subs m) = streams m
    \<and> (\<forall>k. map_of (subscriptions (fold (\<lambda>s m'. snd (deleteSubscription E s m')) subs m)) k
         = (if \<exists>s\<in>set subs. sub_ID (info s) = k then None else map_of (subscriptions m) k))"
proof (induction subs arbitrary: m)
  case (Cons s subs)
  obtain m1 where r: "deleteSubscription E s m = (Inr (), m1)" using deleteSubscription_ok [OF d] by blast
  have s: "map_of (subscriptions m) (sub_ID (info s)) = Some s" using Cons.prems by simp
  note m1 = deleteSubscription_mirrored [OF kv Cons.prems(1) s r]
  have "\<forall>t\<in>set subs. map_of (subscriptions m1) (sub_ID (info t)) = Some t"
    using Cons.prems(2,3) m1 by (auto simp: image_iff)
  with Cons.IH [of m1] Cons.prems(2) m1 r show ?case by auto
qed simp

lemma stream_subs:
  assumes m: "mirrored E contents m" and distinct: "distinct (map fst (subscriptions m))"
  shows "\<forall>s\<in>set (subscriptionsForStream k m). map_of (subscriptions m) (sub_ID (info s)) = Some s"
    and "distinct (map (\<lambda>s. sub_ID (info s)) (subscriptionsForStream k m))"
    and "(\<exists>s\<in>set (subscriptionsForStream k m). sub_ID (info s) = x) \<longleftrightarrow> (\<exists>s. map_of (subscriptions m) x = Some s \<and> Stream (info s) = k)"
proof -
  let ?subs = "subscriptionsForStream k m"
  have ids: "sub_ID (info s) = x" if "(x, s) \<in> set (subscriptions m)" for x s
    using m that distinct by (auto simp: mirrored_def)
  show subs: "\<forall>s\<in>set ?subs. map_of (subscriptions m) (sub_ID (info s)) = Some s"
    using ids distinct by (auto simp: subscriptionsForStream_def)
  have "map (\<lambda>s. sub_ID (info s)) (map snd (subscriptions m)) = map fst (subscriptions m)" using ids by auto
  then have "distinct (map (\<lambda>s. sub_ID (info s)) (map snd (subscriptions m)))" using distinct by (simp only:)
  then show "distinct (map (\<lambda>s. sub_ID (info s)) ?subs)"
    unfolding subscriptionsForStream_def by (rule distinct_map_filter)
  have "\<exists>s\<in>set ?subs. sub_ID (info s) = x" if ex: "\<exists>s. map_of (subscriptions m) x = Some s \<and> Stream (info s) = k"
  proof -
    obtain s where s: "(x, s) \<in> set (subscriptions m)" "Stream (info s) = k" using ex by (auto dest: map_of_SomeD)
    then have "s \<in> set ?subs" by (force simp: subscriptionsForStream_def)
    then show ?thesis using ids [OF s(1)] by blast
  qed
  with subs show "(\<exists>s\<in>set ?subs. sub_ID (info s) = x) \<longleftrightarrow> (\<exists>s. map_of (subscriptions m) x = Some s \<and> Stream (info s) = k)"
    by (auto simp: subscriptionsForStream_def)
qed

lemma mirrored_drop_stream:
  assumes m: "mirrored E contents m" and k: "HasPrefix k ''es-''" and none: "\<And>x s. map_of (subscriptions m) x = Some s \<Longrightarrow> Stream (info s) \<noteq> k"
    and c: "contents d = (contents (db m))(k := None, ''cp-'' @ k := None)"
  shows "mirrored E contents (m\<lparr>streams := AList.delete k (streams m), db := d\<rparr>)"
  unfolding mirrored_def
proof (intro conjI allI impI)
  let ?m' = "m\<lparr>streams := AList.delete k (streams m), db := d\<rparr>"
  have cp: "\<not> HasPrefix (''cp-'' @ k) ''es-''" "\<not> HasPrefix (''cp-'' @ k) ''sb-''" by (simp_all add: HasPrefix_def)
  show "st_ID (spec b) = x" "stream_good E (spec b)" if "map_of (streams ?m') x = Some b" for x b
    using m that by (auto simp: mirrored_def split: if_splits)
  show "sub_ID (info s) = x" "sub_good ?m' (info s)" if s: "map_of (subscriptions ?m') x = Some s" for x s
  proof -
    have "map_of (subscriptions m) x = Some s" using s by simp
    then have "sub_ID (info s) = x" "sub_good m (info s)" "Stream (info s) \<noteq> k" using m none by (auto simp: mirrored_def)
    then show "sub_ID (info s) = x" "sub_good ?m' (info s)" by (simp_all add: sub_good_def)
  qed
  show "contents (db ?m') x = map_option (\<lambda>a. json_marshal_indent (stream_json (spec a))) (map_of (streams ?m') x)" if "HasPrefix x ''es-''" for x
    using m c cp that by (auto simp: mirrored_def)
  show "contents (db ?m') x = map_option (\<lambda>s. json_marshal_indent (sub_json (info s))) (map_of (subscriptions ?m') x)" if "HasPrefix x ''sb-''" for x
    using m c cp k HasPrefix_disjoint [OF k] that by (auto simp: mirrored_def)
qed



end
