(* ===== verification/Router.thy ===== *)
theory Router
  imports Sync_Dispatcher Async_Receipts Subscription_Properties
begin

text \<open>
  The routes of the REST gateway, \<^verbatim>\<open>internal/rest/router.go\<close>.

  The dispatchers and the identity client are interfaces of the router and arguments here; the subscription
  manager is the model of \<open>Subscription_Manager\<close>, absent when no event database is configured.  A handler returns the
  response; one that writes nothing leaves the empty response with status 200 of Go's HTTP server.
\<close>

definition errEventSupportMissing :: error where
  "errEventSupportMissing = ''Event support is not configured on this gateway''"

definition empty_response :: http_response where
  "empty_response = \<lparr>rs_status = 200, rs_body = []\<rparr>"

subsection \<open>Authorization of a request\<close>

definition SplitN2 :: "char \<Rightarrow> string \<Rightarrow> string list" where
  "SplitN2 sep s = (case dropWhile (\<lambda>c. c \<noteq> sep) s of [] \<Rightarrow> [s] | _ # r \<Rightarrow> [takeWhile (\<lambda>c. c \<noteq> sep) s, r])"

definition bearer_token :: "string \<Rightarrow> string" where
  "bearer_token authorization = (case SplitN2 (CHR '' '') authorization of
     [scheme, token] \<Rightarrow> if ToLower scheme = ''bearer'' then token else []
   | _ \<Rightarrow> [])"

definition newAccessTokenContextHandler ::
  "'a SecurityModule option \<Rightarrow> ('a Context \<Rightarrow> 's \<Rightarrow> (http_response \<times> 's) run option) \<Rightarrow> string \<Rightarrow> 'a Context \<Rightarrow> 's \<Rightarrow> (http_response \<times> 's) run option" where
  "newAccessTokenContextHandler sm ServeHTTP authorization ctx st =
     (case WithAuthContext sm ctx (bearer_token authorization) of
        Inl err \<Rightarrow> Some (Ret (RestErrReply ''Unauthorized'' 401, st))
      | Inr authCtx \<Rightarrow> ServeHTTP authCtx st)"

subsection \<open>Transactions\<close>

definition restAsyncReply :: "AsyncSentMsg \<Rightarrow> http_response" where
  "restAsyncReply asyncResponse = \<lparr>rs_status = 202, rs_body = json_marshal (sent_json asyncResponse)\<rparr>"

definition async_response :: "bool \<Rightarrow> AsyncSentMsg option \<times> error option \<Rightarrow> http_response" where
  "async_response ack r = (case r of
     (_, Some err) \<Rightarrow> RestErrReply err 500
   | (Some m, None) \<Rightarrow> if ack then restAsyncReply m else empty_response
   | (None, None) \<Rightarrow> empty_response)"

definition sendTransaction ::
  "schema_lib \<Rightarrow> (SendTransaction \<Rightarrow> 's \<Rightarrow> (http_response \<times> 's) run option)
   \<Rightarrow> (SendTransaction \<Rightarrow> bool \<Rightarrow> 's \<Rightarrow> ((AsyncSentMsg option \<times> error option) \<times> 's) run option) \<Rightarrow> http_req \<Rightarrow> 's \<Rightarrow> (http_response \<times> 's) run option" where
  "sendTransaction lib DispatchSync DispatchAsync req st =
     (case BuildTxMessage lib req of
        Panic e \<Rightarrow> Some (Panic e)
      | OutOfFuel \<Rightarrow> Some OutOfFuel
      | Ret (Inl (err, code)) \<Rightarrow> Some (Ret (RestErrReply err (int code), st))
      | Ret (Inr (msg, opts)) \<Rightarrow>
          if Sync opts then DispatchSync msg st
          else map_option (\<lambda>r. bind_run r (\<lambda>(reply, st'). Ret (async_response (Ack opts) reply, st'))) (DispatchAsync msg (Ack opts) st))"

definition statusHandler :: http_response where
  "statusHandler = \<lparr>rs_status = 200, rs_body = json_marshal (JObj [(''ok'', JBool True)])\<rparr>"

subsection \<open>Identities\<close>

text \<open>All handlers of identities answer the same way; the client is an argument.\<close>

definition identity_reply :: "json rest \<Rightarrow> http_response" where
  "identity_reply r = (case r of Inl (err, code) \<Rightarrow> RestErrReply err (int code) | Inr j \<Rightarrow> marshalAndReply j)"

record 'q identity_client =
  Register :: "'q \<Rightarrow> json rest"
  Modify :: "'q \<Rightarrow> json rest"
  Enroll :: "'q \<Rightarrow> json rest"
  Reenroll :: "'q \<Rightarrow> json rest"
  Revoke :: "'q \<Rightarrow> json rest"
  ListIds :: "'q \<Rightarrow> json rest"
  GetId :: "'q \<Rightarrow> json rest"

definition registerUser where "registerUser c q = identity_reply (Register c q)"
definition modifyUser where "modifyUser c q = identity_reply (Modify c q)"
definition enrollUser where "enrollUser c q = identity_reply (Enroll c q)"
definition reenrollUser where "reenrollUser c q = identity_reply (Reenroll c q)"
definition revokeUser where "revokeUser c q = identity_reply (Revoke c q)"
definition listUsers where "listUsers c q = identity_reply (ListIds c q)"
definition getUser where "getUser c q = identity_reply (GetId c q)"

subsection \<open>Event streams and subscriptions\<close>

definition event_reply :: "('x \<Rightarrow> json) \<Rightarrow> 'x rest \<times> 'm \<Rightarrow> http_response \<times> 'm option" where
  "event_reply j r = ((case fst r of Inl (err, code) \<Rightarrow> RestErrReply err (int code) | Inr x \<Rightarrow> marshalAndReply (j x)), Some (snd r))"

text \<open>Without a subscription manager every route answers 405.\<close>

definition with_manager :: "('m \<Rightarrow> (http_response \<times> 'm option) run) \<Rightarrow> 'm option \<Rightarrow> (http_response \<times> 'm option) run" where
  "with_manager f sm = (case sm of None \<Rightarrow> Ret (RestErrReply errEventSupportMissing 405, None) | Some m \<Rightarrow> f m)"

definition flags_json :: "(string \<times> string) list \<Rightarrow> json" where
  "flags_json kvs = canon (JObj (map (map_prod id JStr) kvs))"

definition createStream where
  "createStream E uuid body = with_manager (\<lambda>m. bind_run (AddStream E uuid body m) (\<lambda>r. Ret (event_reply stream_json r)))"
definition route_updateStream where
  "route_updateStream E rss streamId body = with_manager (\<lambda>m. bind_run (UpdateStream E rss streamId body m) (\<lambda>r. Ret (event_reply stream_json r)))"
definition listStreams where
  "listStreams = with_manager (\<lambda>m. Ret (marshalAndReply (JArr (map stream_json (getStreams m))), Some m))"
definition getStream where
  "getStream streamId = with_manager (\<lambda>m. Ret (event_reply stream_json (StreamByID streamId m, m)))"
definition route_deleteStream where
  "route_deleteStream E streamId = with_manager (\<lambda>m. Ret (event_reply flags_json (DeleteStream E streamId m)))"
definition route_suspendStream where
  "route_suspendStream E streamId = with_manager (\<lambda>m. Ret (event_reply flags_json (SuspendStream E streamId m)))"
definition route_resumeStream where
  "route_resumeStream E streamId = with_manager (\<lambda>m. Ret (event_reply flags_json (ResumeStream E streamId m)))"
definition createSubscription where
  "createSubscription E uuid now body = with_manager (\<lambda>m. Ret (event_reply sub_json (AddSubscription E uuid now body m)))"
definition listSubscription where
  "listSubscription = with_manager (\<lambda>m. Ret (marshalAndReply (JArr (map sub_json (getSubscriptions m))), Some m))"
definition getSubscription where
  "getSubscription k = with_manager (\<lambda>m. Ret (event_reply sub_json (SubscriptionByID k m, m)))"
definition route_deleteSubscription where
  "route_deleteSubscription E k = with_manager (\<lambda>m. Ret (event_reply flags_json (DeleteSubscription E k m)))"
definition route_resetSubscription where
  "route_resetSubscription E k body = with_manager (\<lambda>m. Ret (event_reply flags_json (ResetSubscription E k body m)))"

subsection \<open>Properties\<close>

text \<open>A security module sees exactly the bearer token of the request, and the empty token when there is none: a
  token it refuses ends the request with status 401 before any handler runs, and the handlers of an accepted one
  find the token and the verified identity in the context.\<close>

theorem bearer_token_is_verified:
  assumes "CHR '' '' \<notin> set scheme"
  shows "newAccessTokenContextHandler (Some M) h (scheme @ CHR '' '' # token) ctx st =
    (let t = (if ToLower scheme = ''bearer'' then token else []) in
     case VerifyToken M t of
       Inl err \<Rightarrow> Some (Ret (RestErrReply ''Unauthorized'' 401, st))
     | Inr identity \<Rightarrow> h (ctx\<lparr>ContextKeyAccessToken := Some t, ContextKeyAuthContext := identity\<rparr>) st)"
proof -
  have "dropWhile (\<lambda>c. c \<noteq> CHR '' '') (scheme @ CHR '' '' # token) = CHR '' '' # token"
    "takeWhile (\<lambda>c. c \<noteq> CHR '' '') (scheme @ CHR '' '' # token) = scheme"
    using assms by (auto simp: dropWhile_append takeWhile_append)
  then show ?thesis
    by (auto simp: newAccessTokenContextHandler_def bearer_token_def SplitN2_def WithAuthContext_def split: sum.splits)
qed

text \<open>A request that is refused because too many messages are in flight is answered with status 500: the status 429 of the
  handler is dropped by the asynchronous dispatcher.\<close>

theorem too_many_in_flight_is_500:
  assumes "BuildTxMessage lib req = Ret (Inr (msg, opts))" "\<not> Sync opts"
    "MaxInFlight w \<le> int (length (directHandler.inFlight w))"
  shows "sendTransaction lib sync (DispatchMsgAsync uuid (direct_dispatchMsg E s names call now)) req (p, w) =
    Some (Ret (RestErrReply ''Too many in-flight transactions'' 500, (p, w)))"
proof -
  have "MsgType (t_Headers msg) = ''SendTransaction''" "h_Signer (t_Headers msg) \<noteq> []"
    using assms(1) by (auto elim: BuildTxMessage_InrD)
  then show ?thesis using assms
    by (simp add: sendTransaction_def DispatchMsgAsync_def processMsg_def direct_dispatchMsg_def register_def async_response_def Let_def)
qed

lemma rest_of_Inl: "rest_of code f r = (Inl (e, c), m) \<Longrightarrow> c = code"
  by (auto simp: rest_of_def NewRestError_def split: prod.splits sum.splits)

lemma AddStream_status: "AddStream E uuid body m = Ret (Inl (e, c), m') \<Longrightarrow> c = 400 \<or> c = 500"
  by (auto simp: AddStream_def NewRestError_def Let_def bind_run_Ret split: option.splits if_splits dest: rest_of_Inl)

lemma storeStream_streams: "storeStream E s m = (r, m') \<Longrightarrow> streams m' = streams m"
  by (auto simp: storeStream_def chk_def kv_put_def split: prod.splits sum.splits)

lemma addStream_found:
  assumes "addStream E uuid s0 m = Ret (Inr s, m')"
  obtains a where "map_of (streams m') (''es-'' @ uuid) = Some a" "spec a = s"
proof -
  obtain x where "(case x of Inl err \<Rightarrow> (Inl err, m) | Inr a \<Rightarrow> chk (storeStream E (spec a)) id (\<lambda>_. ok (spec a)) (set_stream (''es-'' @ uuid) a m)) = (Inr s, m')"
    using assms unfolding addStream_def Let_def bind_run_Ret by auto
  then obtain a where "spec a = s" "storeStream E (spec a) (set_stream (''es-'' @ uuid) a m) = (Inr (), m')"
    by (cases x) (auto simp: chk_Inr_iff)
  then show ?thesis using that [of a] storeStream_streams [of E "spec a"] by (simp add: set_stream_def update_conv')
qed

text \<open>A stream that was created is served by the next request for it, with the same settings.\<close>

theorem created_stream_is_served:
  assumes "createStream E uuid body (Some m) = Ret (\<lparr>rs_status = 200, rs_body = b\<rparr>, sm)"
  shows "getStream (''es-'' @ uuid) sm = Ret (\<lparr>rs_status = 200, rs_body = b\<rparr>, sm)"
proof -
  obtain r m' where r: "AddStream E uuid body m = Ret (r, m')" "event_reply stream_json (r, m') = (\<lparr>rs_status = 200, rs_body = b\<rparr>, sm)"
    using assms by (auto simp: createStream_def with_manager_def bind_run_Ret)
  then obtain s where s: "r = Inr s"
    using AddStream_status [of E uuid body m] by (cases r) (force simp: event_reply_def RestErrReply_def)+
  then obtain s0 where "addStream E uuid s0 m = Ret (Inr s, m')" using r AddStream_InrD by blast
  then obtain a where "map_of (streams m') (''es-'' @ uuid) = Some a" "spec a = s" by (rule addStream_found)
  then show ?thesis using r s
    by (auto simp: getStream_def with_manager_def event_reply_def StreamByID_def streamByID_def)
qed

subsection \<open>Examples\<close>

definition sample_module :: "unit SecurityModule" where
  "sample_module = \<lparr>VerifyToken = (\<lambda>t. if t = ''abc'' then Inr (Some ()) else Inl ''bad token''), AuthRPC = (\<lambda>_ _ _. None),
     AuthRPCSubscribe = (\<lambda>_ _ _ _. None), AuthEventStreams = (\<lambda>_. None), AuthListAsyncReplies = (\<lambda>_. None), AuthReadAsyncReplyByUUID = (\<lambda>_. None)\<rparr>"

lemma ToLower_Bearer: "ToLower ''Bearer'' = ''bearer''"
  by code_simp

theorem bearer_token_is_verified_witness:
  "newAccessTokenContextHandler (Some sample_module) (\<lambda>ctx n. Some (Ret (statusHandler, n + length (GetAccessToken ctx)))) ''Bearer abc'' Background 0 =
     Some (Ret (statusHandler, 3))"
  using bearer_token_is_verified [of "''Bearer''" sample_module "\<lambda>ctx n. Some (Ret (statusHandler, n + length (GetAccessToken ctx)))" "''abc''" Background 0]
  by (simp add: sample_module_def ToLower_Bearer GetAccessToken_def)

definition async_req :: http_req where
  "async_req = sample_req\<lparr>rq_header := (\<lambda>n. if n = ''x-firefly-sync'' then ''false'' else rq_header sample_req n)\<rparr>"

lemma async_req_built: "BuildTxMessage sample_lib async_req = Ret (Inr (sample_tx, \<lparr>Sync = False, Ack = True\<rparr>))"
  by code_simp

definition full_handler :: "memoryReceipts directHandler" where
  "full_handler = (newDirectHandler 1 60 (newMemoryReceipts 5))\<lparr>directHandler.inFlight := [(''m1'', sample_ctx)]\<rparr>"

theorem too_many_in_flight_is_500_witness:
  "sendTransaction sample_lib (\<lambda>_ _. None)
     (DispatchMsgAsync ''u1'' (direct_dispatchMsg mem_env sample_stamp (\<lambda>_. []) (\<lambda>_ _ _ _ _ _ _. (None, Some [])) ''t1'')) async_req (NewTxProcessor 1 60, full_handler) =
     Some (Ret (RestErrReply ''Too many in-flight transactions'' 500, (NewTxProcessor 1 60, full_handler)))"
  by (rule too_many_in_flight_is_500 [OF async_req_built]) (simp_all add: full_handler_def newDirectHandler_def)

abbreviation stream_body :: bytes where
  "stream_body \<equiv> ''{\"type\":\"websocket\",\"websocket\":{\"topic\":\"t\"}}''"

lemma stream_body_decoded: "decode_struct stream_fields zero_stream stream_body =
    Some (zero_stream\<lparr>st_Type := ''websocket'', WebSocket := Some \<lparr>Topic = ''t'', DistributionMode = []\<rparr>\<rparr>)"
  by code_simp

lemma sample_created: "\<exists>s m'. AddStream sample_env ''1'' stream_body fresh_mgr = Ret (Inr s, m')"
proof -
  have "ToLower ''websocket'' = ''websocket''" "ToLower [] = []" by code_simp+
  then show ?thesis unfolding AddStream_def stream_body_decoded
    by (simp add: zero_stream_def validateWebsocketConfig_def Let_def addStream_def newEventStream_def
        normalize_spec_def newWebSocketAction_def sample_env_def storeStream_def chk_def kv_put_def NewLDBKeyValueStore_def levelDB_Put_def mem_ldb_def
        rest_of_def)
qed

theorem created_stream_is_served_witness:
  "\<exists>b sm. createStream sample_env ''1'' stream_body (Some fresh_mgr) = Ret (\<lparr>rs_status = 200, rs_body = b\<rparr>, sm)
     \<and> getStream ''es-1'' sm = Ret (\<lparr>rs_status = 200, rs_body = b\<rparr>, sm)"
proof -
  obtain s m' where "AddStream sample_env ''1'' stream_body fresh_mgr = Ret (Inr s, m')" using sample_created by blast
  then have c: "createStream sample_env ''1'' stream_body (Some fresh_mgr) = Ret (\<lparr>rs_status = 200, rs_body = json_marshal_indent (stream_json s)\<rparr>, Some m')"
    by (simp add: createStream_def with_manager_def event_reply_def marshalAndReply_def)
  then show ?thesis using created_stream_is_served [OF c] by auto
qed

end
