(* ===== verification/Kafka_Handler.thy ===== *)
theory Kafka_Handler
  imports Async_Dispatcher
begin

text \<open>
  The handler of asynchronous requests over Kafka, \<^verbatim>\<open>internal/rest/async/kafkahandler.go\<close>.

  The producer of the Sarama package is its interface: the messages put on its input, and the reports it
  delivers on its channels of successes and errors, which are the steps of \<open>kstep\<close>.
\<close>

record ProducerMessage =
  pm_Topic :: string
  pm_Key :: string
  pm_Value :: bytes
  pm_Metadata :: "string option"
  pm_Headers :: "(string \<times> string) list"
  pm_Partition :: int
  pm_Offset :: int

record kafkaHandler =
  TopicOut :: string
  pendingMsgs :: "string list"
  successMsgs :: "(string \<times> ProducerMessage) list"
  failedMsgs :: "(string \<times> error) list"
  k_finished :: bool
  producer_input :: "ProducerMessage list"

definition newKafkaHandler :: "string \<Rightarrow> kafkaHandler" where
  "newKafkaHandler topicOut = \<lparr>TopicOut = topicOut, pendingMsgs = [], successMsgs = [], failedMsgs = [], k_finished = False, producer_input = []\<rparr>"

definition setMsgPending :: "string \<Rightarrow> kafkaHandler \<Rightarrow> kafkaHandler" where
  "setMsgPending msgID w = w\<lparr>pendingMsgs := List.insert msgID (pendingMsgs w)\<rparr>"

text \<open>One look of \<^verbatim>\<open>waitForSend\<close> at the maps: the result, or a wait for the next broadcast.\<close>

definition waitForSend :: "string \<Rightarrow> kafkaHandler \<Rightarrow> (ProducerMessage res \<times> kafkaHandler) option" where
  "waitForSend msgID w =
     (case map_of (failedMsgs w) msgID of
        Some err \<Rightarrow> Some (Inl err, w\<lparr>failedMsgs := AList.delete msgID (failedMsgs w)\<rparr>)
      | None \<Rightarrow> (case map_of (successMsgs w) msgID of
          Some msg \<Rightarrow> Some (Inr msg, w\<lparr>successMsgs := AList.delete msgID (successMsgs w)\<rparr>)
        | None \<Rightarrow> None))"

text \<open>The bodies of the loops over the reports; a report without its message or metadata is a panic.\<close>

definition on_error :: "error \<Rightarrow> ProducerMessage option \<Rightarrow> kafkaHandler \<Rightarrow> kafkaHandler run" where
  "on_error err m w = (case m of
     None \<Rightarrow> Panic ''Error did not contain message and metadata''
   | Some msg \<Rightarrow> (case pm_Metadata msg of
       None \<Rightarrow> Panic ''Error did not contain message and metadata''
     | Some msgID \<Rightarrow> Ret (if msgID \<in> set (pendingMsgs w)
         then w\<lparr>pendingMsgs := removeAll msgID (pendingMsgs w), failedMsgs := AList.update msgID err (failedMsgs w)\<rparr> else w)))"

definition on_success :: "ProducerMessage \<Rightarrow> kafkaHandler \<Rightarrow> kafkaHandler run" where
  "on_success msg w = (case pm_Metadata msg of
     None \<Rightarrow> Panic ''Sent message did not contain metadata''
   | Some msgID \<Rightarrow> Ret (if msgID \<in> set (pendingMsgs w)
       then w\<lparr>pendingMsgs := removeAll msgID (pendingMsgs w), successMsgs := AList.update msgID msg (successMsgs w)\<rparr> else w))"

definition produced :: "string \<Rightarrow> string \<Rightarrow> string \<Rightarrow> SendTransaction \<Rightarrow> kafkaHandler \<Rightarrow> ProducerMessage" where
  "produced accessToken key msgID msg w =
     \<lparr>pm_Topic = TopicOut w, pm_Key = key, pm_Value = json_marshal (send_json msg), pm_Metadata = Some msgID,
      pm_Headers = (if accessToken \<noteq> [] then [(''fly-accesstoken'', accessToken)] else []), pm_Partition = 0, pm_Offset = 0\<rparr>"

text \<open>\<^verbatim>\<open>dispatchMsg\<close> up to the wait, and its answer to what the wait returned.\<close>

definition kafka_send :: "string \<Rightarrow> string \<Rightarrow> string \<Rightarrow> SendTransaction \<Rightarrow> bool \<Rightarrow> kafkaHandler \<Rightarrow> kafkaHandler" where
  "kafka_send accessToken key msgID msg ack w =
     (let w1 = (if ack then setMsgPending msgID w else w)
      in w1\<lparr>producer_input := producer_input w1 @ [produced accessToken key msgID msg w1]\<rparr>)"

definition kafka_ack :: "ProducerMessage res \<Rightarrow> string \<times> nat \<times> error option" where
  "kafka_ack r = (case r of
     Inl err \<Rightarrow> ([], 502, Some (''Failed to deliver message to Kafka: '' @ err))
   | Inr m \<Rightarrow> (pm_Topic m @ '':'' @ int_str (pm_Partition m) @ '':'' @ int_str (pm_Offset m), 200, None))"

text \<open>The whole of \<^verbatim>\<open>dispatchMsg\<close>, where \<open>reports\<close> is what the loops have done to the maps by the time the wait ends.\<close>

definition kafka_dispatchMsg ::
  "'a Context \<Rightarrow> (kafkaHandler \<Rightarrow> kafkaHandler) \<Rightarrow> string \<Rightarrow> string \<Rightarrow> SendTransaction \<Rightarrow> bool \<Rightarrow> kafkaHandler \<Rightarrow> kafkaHandler dispatch_result" where
  "kafka_dispatchMsg ctx reports key msgID msg ack w =
     (let w1 = kafka_send (GetAccessToken ctx) key msgID msg ack w in
      if ack then map_option (\<lambda>(r, w2). Ret (kafka_ack r, w2)) (waitForSend msgID (reports w1))
      else Some (Ret (([], 200, None), w1)))"

text \<open>A reply that arrives on the input topic goes to the receipt store, and its offset is marked whatever happened.\<close>

definition consume ::
  "'p receipt_env \<Rightarrow> stamp \<Rightarrow> bytes \<Rightarrow> int \<Rightarrow> ('p \<times> obj list) \<times> int list \<Rightarrow> (('p \<times> obj list) \<times> int list) run" where
  "consume E s value off st =
     bind_run (ProcessReceipt (s_fuel s) (re_store E) (s_retry s) (re_conf E) (re_ws E) (s_nowMS s) value (fst st)) (\<lambda>d.
     Ret (d, snd st @ [off]))"

definition k_isInitialized :: "bool \<Rightarrow> kafkaHandler \<Rightarrow> bool" where
  "k_isInitialized producer_ready w \<longleftrightarrow> k_finished w \<or> producer_ready"

subsection \<open>Concurrent requests\<close>

text \<open>
  The requests that wait for an acknowledgement, with the report they were given.  Every message on the input
  of the producer gets one report.  With \<open>u\<close> set no request is made under the identifier of one that is still
  waiting.
\<close>

record ksys =
  k_handler :: kafkaHandler
  k_waiting :: "string list"
  k_acked :: "(string \<times> ProducerMessage res) list"

inductive kstep :: "bool \<Rightarrow> ksys \<Rightarrow> ksys \<Rightarrow> bool" for u where
  send: "(u \<Longrightarrow> msgID \<notin> set (k_waiting s)) \<Longrightarrow>
    kstep u s (s\<lparr>k_handler := kafka_send token key msgID msg True (k_handler s), k_waiting := k_waiting s @ [msgID]\<rparr>)"
| succeed: "\<lbrakk>producer_input (k_handler s) = xs @ m # ys; on_success (m\<lparr>pm_Partition := p, pm_Offset := n\<rparr>) (k_handler s) = Ret w\<rbrakk> \<Longrightarrow>
    kstep u s (s\<lparr>k_handler := w\<lparr>producer_input := xs @ ys\<rparr>\<rparr>)"
| fail: "\<lbrakk>producer_input (k_handler s) = xs @ m # ys; on_error err (Some m) (k_handler s) = Ret w\<rbrakk> \<Longrightarrow>
    kstep u s (s\<lparr>k_handler := w\<lparr>producer_input := xs @ ys\<rparr>\<rparr>)"
| wake: "\<lbrakk>k_waiting s = xs @ msgID # ys; waitForSend msgID (k_handler s) = Some (r, w)\<rbrakk> \<Longrightarrow>
    kstep u s (s\<lparr>k_handler := w, k_waiting := xs @ ys, k_acked := k_acked s @ [(msgID, r)]\<rparr>)"

definition kstart :: "string \<Rightarrow> ksys" where
  "kstart topicOut = \<lparr>k_handler = newKafkaHandler topicOut, k_waiting = [], k_acked = []\<rparr>"

subsection \<open>Properties\<close>

lemma keys_update: "fst ` set (AList.update k v xs) = insert k (fst ` set xs)"
  by (simp add: dom_update)

lemma set_update_subset: "set (AList.update k v xs) \<subseteq> insert (k, v) (set xs)"
  by (induction xs) (auto split: if_splits)

lemma set_delete: "set (AList.delete k xs) = {e \<in> set xs. fst e \<noteq> k}"
  by (auto simp: AList.delete_eq)

lemma keys_delete_map: "fst ` set (AList.delete k xs) = fst ` set xs - {k}"
  by (auto simp: set_delete)

text \<open>Every waiting request is in exactly one place: its message at the producer, its success or its failure.\<close>

definition places :: "kafkaHandler \<Rightarrow> string set" where
  "places w = set (pendingMsgs w) \<union> fst ` set (successMsgs w) \<union> fst ` set (failedMsgs w)"

definition kinv :: "ksys \<Rightarrow> bool" where
  "kinv s \<longleftrightarrow> (let w = k_handler s in
     distinct (k_waiting s) \<and> set (k_waiting s) = places w
     \<and> distinct (map pm_Metadata (producer_input w)) \<and> pm_Metadata ` set (producer_input w) = Some ` set (pendingMsgs w)
     \<and> set (pendingMsgs w) \<inter> (fst ` set (successMsgs w) \<union> fst ` set (failedMsgs w)) = {}
     \<and> fst ` set (successMsgs w) \<inter> fst ` set (failedMsgs w) = {})"

definition labelled :: "ksys \<Rightarrow> bool" where
  "labelled s \<longleftrightarrow> (\<forall>(k, m) \<in> set (successMsgs (k_handler s)). pm_Metadata m = Some k)
     \<and> (\<forall>(k, r) \<in> set (k_acked s). \<forall>m. r = Inr m \<longrightarrow> pm_Metadata m = Some k)"

lemma labelled_update:
  assumes "\<forall>(k, m) \<in> set ss. pm_Metadata m = Some k" "pm_Metadata m = Some k"
  shows "\<forall>(k, m) \<in> set (AList.update k m ss). pm_Metadata m = Some k"
  using assms set_update_subset [of k m ss] by blast

lemma step_labelled: "kstep u s t \<Longrightarrow> labelled s \<Longrightarrow> labelled t"
proof (induction rule: kstep.induct)
  case (succeed s xs m ys n p w)
  obtain k where k: "pm_Metadata m = Some k" using succeed by (auto simp: on_success_def split: option.splits)
  then have "successMsgs w = (if k \<in> set (pendingMsgs (k_handler s))
      then AList.update k (m\<lparr>pm_Partition := p, pm_Offset := n\<rparr>) (successMsgs (k_handler s)) else successMsgs (k_handler s))"
    using succeed(2) by (auto simp: on_success_def)
  then have "\<forall>(k, m) \<in> set (successMsgs w). pm_Metadata m = Some k"
    using succeed(3) k labelled_update [of "successMsgs (k_handler s)" "m\<lparr>pm_Partition := p, pm_Offset := n\<rparr>" k]
    by (simp add: labelled_def)
  then show ?case using succeed(3) by (simp add: labelled_def)
next
  case (wake s xs msgID ys r w)
  then show ?case by (auto simp: labelled_def waitForSend_def set_delete split: option.splits dest: map_of_SomeD)
qed (auto simp: labelled_def kafka_send_def setMsgPending_def on_error_def Let_def split: option.splits if_splits)

lemma reported:
  assumes "kinv s" "producer_input (k_handler s) = xs @ m # ys"
  obtains k where "pm_Metadata m = Some k" "k \<in> set (pendingMsgs (k_handler s))"
proof -
  have "pm_Metadata m \<in> pm_Metadata ` set (producer_input (k_handler s))" using assms(2) by simp
  then show ?thesis using assms(1) that unfolding kinv_def Let_def by auto
qed

text \<open>A report moves the identifier from the pending ones to the successes or failures.\<close>

lemma report_kinv:
  assumes "kinv s" "producer_input (k_handler s) = xs @ m # ys" "pm_Metadata m = Some k" "k \<in> set (pendingMsgs (k_handler s))"
    "w = (k_handler s)\<lparr>pendingMsgs := removeAll k (pendingMsgs (k_handler s)), successMsgs := ss, failedMsgs := fs\<rparr>"
    "fst ` set ss \<union> fst ` set fs = insert k (fst ` set (successMsgs (k_handler s)) \<union> fst ` set (failedMsgs (k_handler s)))"
    "fst ` set ss \<inter> fst ` set fs = {}"
  shows "kinv (s\<lparr>k_handler := w\<lparr>producer_input := xs @ ys\<rparr>\<rparr>)"
proof -
  have d: "distinct (map pm_Metadata (xs @ m # ys))" "pm_Metadata ` set (xs @ m # ys) = Some ` set (pendingMsgs (k_handler s))"
    using assms(1,2) unfolding kinv_def Let_def by simp_all
  have "Some k \<notin> pm_Metadata ` set (xs @ ys)" using d(1) assms(3) by (simp add: image_Un)
  moreover have "pm_Metadata ` set (xs @ m # ys) = insert (Some k) (pm_Metadata ` set (xs @ ys))" using assms(3) by auto
  ultimately have "pm_Metadata ` set (xs @ ys) = pm_Metadata ` set (xs @ m # ys) - {Some k}" by simp
  then have "pm_Metadata ` set (xs @ ys) = Some ` set (removeAll k (pendingMsgs (k_handler s)))" unfolding d(2) by auto
  moreover have "set (k_waiting s) = set (removeAll k (pendingMsgs (k_handler s))) \<union> (fst ` set ss \<union> fst ` set fs)"
    using assms(1,4) unfolding assms(6) kinv_def Let_def places_def by auto
  moreover have "set (removeAll k (pendingMsgs (k_handler s))) \<inter> (fst ` set ss \<union> fst ` set fs) = {}"
    using assms(1) unfolding assms(6) kinv_def Let_def by auto
  ultimately show ?thesis using assms(1,7) d unfolding assms(5) kinv_def Let_def places_def by (simp add: Un_assoc)
qed

lemma wake_kinv:
  assumes "kinv s" "k_waiting s = xs @ k # ys" "w = (k_handler s)\<lparr>successMsgs := ss, failedMsgs := fs\<rparr>" "k \<notin> set (pendingMsgs (k_handler s))"
    "fst ` set ss = fst ` set (successMsgs (k_handler s)) - {k}" "fst ` set fs = fst ` set (failedMsgs (k_handler s)) - {k}"
  shows "kinv (s\<lparr>k_handler := w, k_waiting := xs @ ys, k_acked := as\<rparr>)"
proof -
  have fs: "distinct (xs @ k # ys)" "set (xs @ k # ys) = places (k_handler s)" using assms(1,2) by (simp_all add: kinv_def Let_def)
  have "set (xs @ ys) = places (k_handler s) - {k}" using fs by auto
  moreover have "places w = places (k_handler s) - {k}" using assms(4) unfolding assms(3) places_def by (auto simp: assms(5,6))
  ultimately show ?thesis using assms(1) fs(1) unfolding kinv_def Let_def assms(3) by (simp add: assms(5,6)) blast
qed

lemma step_kinv: "kstep True s t \<Longrightarrow> kinv s \<Longrightarrow> kinv t"
proof (induction rule: kstep.induct)
  case (send msgID s token key msg)
  then have "msgID \<notin> places (k_handler s)" by (simp add: kinv_def Let_def)
  then have "msgID \<notin> set (pendingMsgs (k_handler s))" "msgID \<notin> fst ` set (successMsgs (k_handler s))" "msgID \<notin> fst ` set (failedMsgs (k_handler s))"
    by (auto simp: places_def)
  with send show ?case
    by (auto simp: kinv_def Let_def kafka_send_def setMsgPending_def produced_def places_def)
next
  case (succeed s xs m ys n p w)
  obtain k where k: "pm_Metadata m = Some k" "k \<in> set (pendingMsgs (k_handler s))" by (rule reported [OF succeed(3,1)])
  have "k \<notin> fst ` set (failedMsgs (k_handler s))" using succeed(3) k(2) unfolding kinv_def Let_def by blast
  then show ?case using succeed(2) k succeed(3)
    by (intro report_kinv [OF succeed(3,1) k, where fs = "failedMsgs (k_handler s)"
          and ss = "AList.update k (m\<lparr>pm_Partition := p, pm_Offset := n\<rparr>) (successMsgs (k_handler s))"])
       (auto simp: on_success_def keys_update kinv_def Let_def)
next
  case (fail s xs m ys err w)
  obtain k where k: "pm_Metadata m = Some k" "k \<in> set (pendingMsgs (k_handler s))" by (rule reported [OF fail(3,1)])
  have "k \<notin> fst ` set (successMsgs (k_handler s))" using fail(3) k(2) unfolding kinv_def Let_def by blast
  then show ?case using fail(2) k fail(3)
    by (intro report_kinv [OF fail(3,1) k, where ss = "successMsgs (k_handler s)" and fs = "AList.update k err (failedMsgs (k_handler s))"])
       (auto simp: on_error_def keys_update kinv_def Let_def)
next
  case (wake s xs msgID ys r w)
  let ?h = "k_handler s"
  have m: "msgID \<in> fst ` set xs" if "map_of xs msgID = Some v" for xs :: "(string \<times> 'v) list" and v
    using that by (force dest: map_of_SomeD)
  show ?case
  proof (cases "map_of (failedMsgs ?h) msgID")
    case (Some e)
    with wake(2) have w: "w = ?h\<lparr>successMsgs := successMsgs ?h, failedMsgs := AList.delete msgID (failedMsgs ?h)\<rparr>" by (simp add: waitForSend_def)
    show ?thesis using wake(3) m [OF Some]
      by (intro wake_kinv [OF wake(3,1) w]) (auto simp: keys_delete_map kinv_def Let_def)
  next
    case None
    with wake(2) obtain r where r: "map_of (successMsgs ?h) msgID = Some r"
      "w = ?h\<lparr>successMsgs := AList.delete msgID (successMsgs ?h), failedMsgs := failedMsgs ?h\<rparr>" by (auto simp: waitForSend_def split: option.splits)
    show ?thesis using wake(3) m [OF r(1)]
      by (intro wake_kinv [OF wake(3,1) r(2)]) (auto simp: keys_delete_map kinv_def Let_def)
  qed
qed

lemma kstart_inv: "kinv (kstart topicOut)" "labelled (kstart topicOut)"
  by (simp_all add: kinv_def labelled_def kstart_def newKafkaHandler_def places_def)

lemma ksteps_inv: "(kstep True)\<^sup>*\<^sup>* s t \<Longrightarrow> kinv s \<Longrightarrow> labelled s \<Longrightarrow> kinv t \<and> labelled t"
  by (induction rule: rtranclp_induct) (auto intro: step_kinv step_labelled)

text \<open>C25: As long as no two waiting requests share an identifier, no acknowledgement is lost or given to the wrong request:
  for every request that waits the report has arrived and the next look finds it, or its message is still at
  the producer; and every acknowledgement is for the message of its request.\<close>

theorem kafka_acknowledgements:
  assumes "(kstep True)\<^sup>*\<^sup>* (kstart topicOut) s" "k \<in> set (k_waiting s)"
  shows "((\<exists>r w. waitForSend k (k_handler s) = Some (r, w)) \<or> Some k \<in> pm_Metadata ` set (producer_input (k_handler s)))
    \<and> ((k', Inr m) \<in> set (k_acked s) \<longrightarrow> pm_Metadata m = Some k')"
proof -
  have i: "kinv s" "labelled s" using ksteps_inv [OF assms(1) kstart_inv] by auto
  then have "k \<in> places (k_handler s)" using assms(2) by (simp add: kinv_def Let_def)
  then consider "k \<in> set (pendingMsgs (k_handler s))" | "map_of (failedMsgs (k_handler s)) k \<noteq> None"
    | "map_of (failedMsgs (k_handler s)) k = None" "map_of (successMsgs (k_handler s)) k \<noteq> None"
    unfolding places_def map_of_eq_None_iff by blast
  then have "(\<exists>r w. waitForSend k (k_handler s) = Some (r, w)) \<or> Some k \<in> pm_Metadata ` set (producer_input (k_handler s))"
  proof cases
    case 1
    then show ?thesis using i(1) by (simp add: kinv_def Let_def)
  qed (auto simp: waitForSend_def)
  then show ?thesis using i(2) by (auto simp: labelled_def)
qed

definition kafka_sample :: ksys where
  "kafka_sample = (kstart ''out'')\<lparr>k_handler := kafka_send [] ''ch'' ''m1'' sample_tx True (newKafkaHandler ''out''), k_waiting := [''m1'']\<rparr>"

lemma kafka_sample_reached: "(kstep True)\<^sup>*\<^sup>* (kstart ''out'') kafka_sample"
proof -
  have "kstep True (kstart ''out'') ((kstart ''out'')\<lparr>k_handler := kafka_send [] ''ch'' ''m1'' sample_tx True (k_handler (kstart ''out'')),
      k_waiting := k_waiting (kstart ''out'') @ [''m1'']\<rparr>)" by (rule kstep.send) (simp add: kstart_def)
  then show ?thesis by (auto simp: kafka_sample_def kstart_def)
qed

theorem kafka_acknowledgements_witness:
  "(\<exists>r w. waitForSend ''m1'' (k_handler kafka_sample) = Some (r, w)) \<or> Some ''m1'' \<in> pm_Metadata ` set (producer_input (k_handler kafka_sample))"
  using kafka_acknowledgements [OF kafka_sample_reached, of "''m1''"] by (simp add: kafka_sample_def)

text \<open>Two requests under one identifier share one acknowledgement: after both messages were sent and reported, the
  second request waits for ever, with nothing left at the producer that could wake it.\<close>

theorem shared_identifier_never_acknowledged:
  "\<exists>s. (kstep False)\<^sup>*\<^sup>* (kstart topicOut) s \<and> k_waiting s = [''x''] \<and> producer_input (k_handler s) = []
    \<and> waitForSend ''x'' (k_handler s) = None"
proof -
  let ?s0 = "kstart topicOut"
  let ?w1 = "kafka_send [] [] ''x'' sample_tx True (k_handler ?s0)"
  let ?s1 = "?s0\<lparr>k_handler := ?w1, k_waiting := [''x'']\<rparr>"
  let ?s2 = "?s1\<lparr>k_handler := kafka_send [] [] ''x'' sample_tx True ?w1, k_waiting := [''x'', ''x'']\<rparr>"
  let ?m = "produced [] [] ''x'' sample_tx (newKafkaHandler topicOut)"
  let ?s3 = "?s2\<lparr>k_handler := (newKafkaHandler topicOut)\<lparr>successMsgs := [(''x'', ?m)], producer_input := [?m]\<rparr>\<rparr>"
  let ?s4 = "?s3\<lparr>k_handler := (newKafkaHandler topicOut)\<lparr>successMsgs := [(''x'', ?m)]\<rparr>\<rparr>"
  let ?s5 = "?s4\<lparr>k_handler := newKafkaHandler topicOut, k_waiting := [''x''], k_acked := [(''x'', Inr ?m)]\<rparr>"
  have w2: "kafka_send [] [] ''x'' sample_tx True ?w1 = (newKafkaHandler topicOut)\<lparr>pendingMsgs := [''x''], producer_input := [?m, ?m]\<rparr>"
    by (simp add: kafka_send_def setMsgPending_def kstart_def newKafkaHandler_def produced_def)
  have "kstep False ?s0 ?s1" using kstep.send [of False "''x''" ?s0 "[]" "[]" sample_tx] by (simp add: kstart_def)
  moreover have "kstep False ?s1 ?s2" using kstep.send [of False "''x''" ?s1 "[]" "[]" sample_tx] by simp
  moreover have "kstep False ?s2 ?s3"
    using kstep.succeed [of ?s2 "[]" ?m "[?m]" 0 0, where u = False] unfolding w2
    by (simp add: on_success_def newKafkaHandler_def produced_def)
  moreover have "kstep False ?s3 ?s4"
    using kstep.succeed [of ?s3 "[]" ?m "[]" 0 0, where u = False]
    by (simp add: on_success_def newKafkaHandler_def produced_def)
  moreover have "kstep False ?s4 ?s5"
    using kstep.wake [of ?s4 "[]" "''x''" "[''x'']" "Inr ?m" "newKafkaHandler topicOut" False]
    by (simp add: waitForSend_def newKafkaHandler_def kstart_def)
  ultimately have "(kstep False)\<^sup>*\<^sup>* ?s0 ?s5" by (meson converse_rtranclp_into_rtranclp rtranclp.rtrancl_refl)
  then show ?thesis by (intro exI [of _ ?s5]) (simp add: waitForSend_def newKafkaHandler_def)
qed

end
