(* ===== verification/Receipt_MongoDB.thy ===== *)
theory Receipt_MongoDB
  imports Receipts "HOL-Library.Multiset"
begin

text \<open>
  The receipt store in MongoDB, \<^verbatim>\<open>internal/rest/receipt/mongodb.go\<close>.

  The driver \<^verbatim>\<open>mgo\<close> is a record of the operations that are used of it, on the state \<open>'d\<close> of the database; the locale \<open>mongo_driver\<close> holds what its
  documentation says of them.  From it the store fulfils the contract \<open>receipt_persistence\<close>.
\<close>

subsection \<open>Filters\<close>

datatype cond = Eq json | InIds "string list" | Gt int

type_synonym bson_filter = "(string \<times> cond) list"

definition int_of :: "json option \<Rightarrow> int option" where
  "int_of v = (case v of Some (JNum l) \<Rightarrow> (case parse_int 64 l of (n, None) \<Rightarrow> Some n | _ \<Rightarrow> None) | _ \<Rightarrow> None)"

fun holds :: "cond \<Rightarrow> json option \<Rightarrow> bool" where
  "holds (Eq j) v \<longleftrightarrow> v = Some j"
| "holds (InIds xs) v \<longleftrightarrow> (case v of Some (JStr x) \<Rightarrow> x \<in> set xs | _ \<Rightarrow> False)"
| "holds (Gt n) v \<longleftrightarrow> (case int_of v of Some m \<Rightarrow> n < m | None \<Rightarrow> False)"

definition matches :: "bson_filter \<Rightarrow> obj \<Rightarrow> bool" where
  "matches f r \<longleftrightarrow> list_all (\<lambda>(k, c). holds c (obj_get r k)) f"

text \<open>Documents without a time of receipt sort lowest.\<close>

definition received :: "obj \<Rightarrow> int" where
  "received r = (case int_of (obj_get r ''receivedAt'') of Some n \<Rightarrow> n | None \<Rightarrow> - (2 ^ 63) - 1)"

definition window :: "int option \<Rightarrow> int option \<Rightarrow> 'a list \<Rightarrow> 'a list" where
  "window limit skip xs = (let ys = (case skip of None \<Rightarrow> xs | Some n \<Rightarrow> drop (nat n) xs) in case limit of None \<Rightarrow> ys | Some n \<Rightarrow> take (nat n) ys)"

subsection \<open>The store\<close>

datatype mgo_error = ErrNotFound | MgoError error

record 'd mongo =
  mg_Connect :: "string \<Rightarrow> int \<Rightarrow> ('d, unit) op"
  mg_Create :: "bool \<Rightarrow> int \<Rightarrow> ('d, unit) op"
  mg_EnsureIndex :: "string \<Rightarrow> ('d, unit) op"
  mg_Insert :: "obj \<Rightarrow> ('d, unit) op"
  mg_All :: "bson_filter \<Rightarrow> string \<Rightarrow> int option \<Rightarrow> int option \<Rightarrow> 'd \<Rightarrow> mgo_error + obj list"
  mg_One :: "bson_filter \<Rightarrow> 'd \<Rightarrow> mgo_error + obj"

record mongoConf =
  mg_URL :: string
  mg_Database :: string
  mg_Collection :: string
  ConnectTimeoutMS :: int
  mg_MaxDocs :: int
  mg_QueryLimit :: int

text \<open>\<^verbatim>\<open>utils.AllOrNoneReqd\<close>: parameters that must be given together.\<close>

definition AllOrNoneReqd :: "string list \<Rightarrow> bool" where
  "AllOrNoneReqd opts \<longleftrightarrow> \<not> (filter (\<lambda>opt. opt \<noteq> []) opts \<noteq> [] \<and> filter (\<lambda>opt. opt = []) opts \<noteq> [])"

definition mongo_ValidateConf :: "mongoConf \<Rightarrow> unit res \<times> mongoConf" where
  "mongo_ValidateConf c =
     (if \<not> AllOrNoneReqd [mg_URL c, mg_Database c, mg_Collection c]
      then (Inl ''MongoDB URL, Database and Collection name must be specified to enable the receipt store'', c)
      else (Inr (), if mg_QueryLimit c < 1 then c\<lparr>mg_QueryLimit := 100\<rparr> else c))"

text \<open>An error of \<^verbatim>\<open>Create\<close> is taken for a collection that exists already.\<close>

definition mongo_Init :: "'d mongo \<Rightarrow> mongoConf \<times> 'd \<Rightarrow> unit res \<times> mongoConf \<times> 'd" where
  "mongo_Init I = (\<lambda>(c, d).
     let c' = (if ConnectTimeoutMS c \<le> 0 then c\<lparr>ConnectTimeoutMS := 10000\<rparr> else c) in
     case mg_Connect I (mg_URL c') (ConnectTimeoutMS c') d of
       (Inl err, d1) \<Rightarrow> (Inl (''Unable to connect to MongoDB: '' @ err), (c', d1))
     | (Inr (), d1) \<Rightarrow>
         (let d2 = snd (mg_Create I (mg_MaxDocs c' > 0) (mg_MaxDocs c') d1) in
          case mg_EnsureIndex I ''receivedAt'' d2 of
            (Inl err, d3) \<Rightarrow> (Inl (''Unable to create index: '' @ err), (c', d3))
          | (Inr (), d3) \<Rightarrow> (Inr (), (c', d3))))"

definition mongo_AddReceipt :: "'d mongo \<Rightarrow> string \<Rightarrow> obj \<Rightarrow> ('d, unit) op" where
  "mongo_AddReceipt I requestID receipt = mg_Insert I receipt"

definition mongo_filter :: "string list \<Rightarrow> int \<Rightarrow> string \<Rightarrow> string \<Rightarrow> bson_filter" where
  "mongo_filter ids sinceEpochMS from to =
     (if ids \<noteq> [] then [(''_id'', InIds ids)] else []) @ (if sinceEpochMS > 0 then [(''receivedAt'', Gt sinceEpochMS)] else [])
     @ (if from \<noteq> [] then [(''from'', Eq (JStr from))] else []) @ (if to \<noteq> [] then [(''to'', Eq (JStr to))] else [])"

definition mongo_GetReceipts ::
  "'d mongo \<Rightarrow> int \<Rightarrow> int \<Rightarrow> string list \<Rightarrow> int \<Rightarrow> string \<Rightarrow> string \<Rightarrow> string \<Rightarrow> 'd \<Rightarrow> obj list res run" where
  "mongo_GetReceipts I skip limit ids sinceEpochMS from to start d =
     (if limit < 0 then Panic ''runtime error: makeslice: cap out of range''
      else case mg_All I (mongo_filter ids sinceEpochMS from to) ''-receivedAt''
                 (if limit > 0 then Some limit else None) (if skip > 0 then Some skip else None) d of
             Inl ErrNotFound \<Rightarrow> Ret (Inr [])
           | Inl (MgoError err) \<Rightarrow> Ret (Inl err)
           | Inr results \<Rightarrow> Ret (Inr results))"

definition mongo_GetReceipt :: "'d mongo \<Rightarrow> string \<Rightarrow> 'd \<Rightarrow> obj option res" where
  "mongo_GetReceipt I requestID d = (case mg_One I [(''_id'', Eq (JStr requestID))] d of
     Inl ErrNotFound \<Rightarrow> Inr None | Inl (MgoError err) \<Rightarrow> Inl err | Inr result \<Rightarrow> Inr (Some result))"

definition mongo_persistence :: "'d mongo \<Rightarrow> 'd persistence" where
  "mongo_persistence I = \<lparr>GetReceipts = mongo_GetReceipts I, GetReceipt = mongo_GetReceipt I, AddReceipt = mongo_AddReceipt I\<rparr>"

subsection \<open>What is documented of the driver\<close>

text \<open>
  The documents of the collection are \<open>docs\<close>, oldest first; a capped collection drops the oldest ones.  No two documents share
  their \<^verbatim>\<open>_id\<close>.  A query finds documents that match its filter; the order of documents with the same sort key is not fixed.
\<close>

locale mongo_driver =
  fixes I :: "'d mongo" and docs :: "'d \<Rightarrow> obj list"
  assumes insert: "mg_Insert I r d = (Inr (), d') \<Longrightarrow> \<exists>n. docs d' = drop n (docs d) @ [r]"
    and unique: "mg_Insert I r d = (Inr (), d') \<Longrightarrow> q \<in> set (docs d) \<Longrightarrow> obj_get q ''_id'' \<noteq> obj_get r ''_id''"
    and one: "mg_One I f d = Inr r \<Longrightarrow> r \<in> set (docs d) \<and> matches f r"
    and none: "mg_One I f d = Inl ErrNotFound \<Longrightarrow> q \<in> set (docs d) \<Longrightarrow> \<not> matches f q"
    and all: "mg_All I f ''-receivedAt'' limit skip d = Inr rs \<Longrightarrow>
      \<exists>qs. mset qs = mset (filter (matches f) (docs d)) \<and> sorted_wrt (\<lambda>a b. received b \<le> received a) qs \<and> rs = window limit skip qs"
    and all_none: "mg_All I f ''-receivedAt'' limit skip d = Inl ErrNotFound \<Longrightarrow> filter (matches f) (docs d) = []"

definition mongo_valid :: "('d \<Rightarrow> obj list) \<Rightarrow> 'd \<Rightarrow> bool" where
  "mongo_valid docs d \<longleftrightarrow> distinct (map (\<lambda>r. obj_get r ''_id'') (docs d))"

lemma matches_id: "matches [(''_id'', Eq (JStr i))] r \<longleftrightarrow> id_fits i r"
  by (simp add: matches_def id_fits_def)

lemma found_id: "mongo_GetReceipt I i d = Inr (Some x) \<longleftrightarrow> mg_One I [(''_id'', Eq (JStr i))] d = Inr x"
  by (auto simp: mongo_GetReceipt_def split: sum.splits mgo_error.splits)

lemma missing_id: "mongo_GetReceipt I i d = Inr None \<longleftrightarrow> mg_One I [(''_id'', Eq (JStr i))] d = Inl ErrNotFound"
  by (auto simp: mongo_GetReceipt_def split: sum.splits mgo_error.splits)

sublocale mongo_driver \<subseteq> store: receipt_persistence "mongo_persistence I" "mongo_valid docs" id_fits
proof
  fix d i r d'
  assume v: "mongo_valid docs d" and f: "id_fits i r" and "AddReceipt (mongo_persistence I) i r d = (Inr (), d')"
  then have a: "mg_Insert I r d = (Inr (), d')" by (simp add: mongo_persistence_def mongo_AddReceipt_def)
  obtain n where n: "docs d' = drop n (docs d) @ [r]" using insert [OF a] by blast
  have old: "q \<in> set (docs d)" if "q \<in> set (drop n (docs d))" for q using that by (meson in_set_dropD)
  show "mongo_valid docs d'"
    using v unique [OF a] old n by (fastforce simp: mongo_valid_def simp flip: drop_map dest: in_set_dropD)
  show "y = Some r" if "GetReceipt (mongo_persistence I) i d' = Inr y" for y
  proof (cases y)
    case None
    with that none [of "[(''_id'', Eq (JStr i))]" d' r] n f show ?thesis
      by (simp add: mongo_persistence_def missing_id matches_id)
  next
    case (Some q)
    with that one [of "[(''_id'', Eq (JStr i))]" d' q] have "q \<in> set (docs d')" "id_fits i q"
      by (simp_all add: mongo_persistence_def found_id matches_id)
    with n f unique [OF a, of q] old Some show ?thesis by (auto simp: id_fits_def)
  qed
  fix j q x
  assume "i \<noteq> j" and g: "GetReceipt (mongo_persistence I) j d' = Inr (Some x)"
  then have "x \<in> set (docs d')" "id_fits j x"
    using one [of "[(''_id'', Eq (JStr j))]" d' x] by (simp_all add: mongo_persistence_def found_id matches_id)
  with n f \<open>i \<noteq> j\<close> old have x: "x \<in> set (docs d)" "id_fits j x" by (auto simp: id_fits_def)
  have "z = x" if "z \<in> set (docs d)" "id_fits j z" for z
    using v x that by (auto simp: mongo_valid_def distinct_map id_fits_def inj_on_def)
  then have "mg_One I [(''_id'', Eq (JStr j))] d = Inr x \<or> (\<exists>e. mg_One I [(''_id'', Eq (JStr j))] d = Inl (MgoError e))"
    using x none [of "[(''_id'', Eq (JStr j))]" d x] one [of "[(''_id'', Eq (JStr j))]" d] unfolding matches_id
    by (metis mgo_error.exhaust obj_sumE)
  then show "GetReceipt (mongo_persistence I) j d = Inr (Some x) \<or> (\<exists>e. GetReceipt (mongo_persistence I) j d = Inl e)"
    by (auto simp: mongo_persistence_def mongo_GetReceipt_def)
qed

subsection \<open>Properties\<close>

text \<open>What a request asks for.\<close>

definition wanted :: "string list \<Rightarrow> int \<Rightarrow> string \<Rightarrow> string \<Rightarrow> obj \<Rightarrow> bool" where
  "wanted ids sinceEpochMS from to r \<longleftrightarrow>
     (ids = [] \<or> (\<exists>i. i \<in> set ids \<and> id_fits i r)) \<and> (sinceEpochMS \<le> 0 \<or> (\<exists>n. int_of (obj_get r ''receivedAt'') = Some n \<and> sinceEpochMS < n))
     \<and> (from = [] \<or> obj_get r ''from'' = Some (JStr from)) \<and> (to = [] \<or> obj_get r ''to'' = Some (JStr to))"

lemma matches_wanted: "matches (mongo_filter ids sinceEpochMS from to) r \<longleftrightarrow> wanted ids sinceEpochMS from to r"
  by (auto simp: matches_def mongo_filter_def wanted_def id_fits_def split: option.splits json.splits)

context mongo_driver
begin

lemma fulfils: "receipt_persistence (mongo_persistence I) (mongo_valid docs) id_fits"
  by unfold_locales

lemma query:
  assumes "mongo_GetReceipts I skip limit ids sinceEpochMS from to start d = Ret (Inr rs)" "0 < limit" "0 \<le> skip"
  shows "\<exists>qs. mset qs = mset (filter (wanted ids sinceEpochMS from to) (docs d))
    \<and> sorted_wrt (\<lambda>a b. received b \<le> received a) qs \<and> rs = take (nat limit) (drop (nat skip) qs)"
proof -
  let ?f = "mongo_filter ids sinceEpochMS from to" and ?skip = "if skip > 0 then Some skip else None"
  have f: "filter (matches ?f) (docs d) = filter (wanted ids sinceEpochMS from to) (docs d)"
    by (rule filter_cong) (simp_all add: matches_wanted)
  have w: "window (Some limit) ?skip qs = take (nat limit) (drop (nat skip) qs)" for qs :: "obj list"
    using assms(3) by (cases "skip = 0") (simp_all add: window_def)
  consider "mg_All I ?f ''-receivedAt'' (Some limit) ?skip d = Inr rs" | "mg_All I ?f ''-receivedAt'' (Some limit) ?skip d = Inl ErrNotFound" "rs = []"
    using assms(1,2) by (auto simp: mongo_GetReceipts_def split: sum.splits mgo_error.splits if_splits)
  then show ?thesis
  proof cases
    case 1
    then show ?thesis using all [OF 1] by (metis f w)
  next
    case 2
    then show ?thesis using all_none [OF 2(1)] f by (intro exI [of _ "[]"]) simp
  qed
qed

end

text \<open>A query of the MongoDB store returns a page of the receipts that the request asks for: there is an arrangement of exactly those receipts of the
  collection that have one of the identifiers, the sender, the recipient and a later time than asked for, newest first, of which the result
  is the part after \<open>skip\<close> of at most \<open>limit\<close> receipts.\<close>

theorem mongo_query_newest_first:
  assumes "mongo_driver I docs"
    and "mongo_GetReceipts I skip limit ids sinceEpochMS from to start d = Ret (Inr rs)" "0 < limit" "0 \<le> skip"
  shows "\<exists>qs. mset qs = mset (filter (wanted ids sinceEpochMS from to) (docs d))
    \<and> sorted_wrt (\<lambda>a b. received b \<le> received a) qs \<and> rs = take (nat limit) (drop (nat skip) qs)"
  using mongo_driver.query [OF assms] .

text \<open>C34: Whatever driver behaves as documented, the MongoDB store fulfils the contract of a receipt store: a receipt that was added is found under its
  identifier unless the database reports an error, and an addition neither changes nor invents what is found under another identifier.\<close>

theorem mongo_fulfils_the_contract:
  assumes "mongo_driver I docs"
  shows "receipt_persistence (mongo_persistence I) (mongo_valid docs) id_fits"
  using mongo_driver.fulfils [OF assms] .

subsection \<open>An example\<close>

text \<open>A collection that is the list of its documents.\<close>

definition list_mongo :: "obj list mongo" where
  "list_mongo = \<lparr>mg_Connect = (\<lambda>_ _ d. (Inr (), d)), mg_Create = (\<lambda>_ _ d. (Inr (), d)), mg_EnsureIndex = (\<lambda>_ d. (Inr (), d)),
     mg_Insert = (\<lambda>r d. if list_all (\<lambda>q. obj_get q ''_id'' \<noteq> obj_get r ''_id'') d then (Inr (), d @ [r]) else (Inl ''duplicate key'', d)),
     mg_All = (\<lambda>f _ limit skip d. Inr (window limit skip (sort_key (\<lambda>r. - received r) (filter (matches f) d)))),
     mg_One = (\<lambda>f d. case find (matches f) d of None \<Rightarrow> Inl ErrNotFound | Some r \<Rightarrow> Inr r)\<rparr>"

interpretation list_mongo: mongo_driver list_mongo "\<lambda>d. d"
proof
  show "\<exists>n. d' = drop n d @ [r]" if "mg_Insert list_mongo r d = (Inr (), d')" for r d d'
    using that by (intro exI [of _ 0]) (auto simp: list_mongo_def split: if_splits)
  show "obj_get q ''_id'' \<noteq> obj_get r ''_id''" if "mg_Insert list_mongo r d = (Inr (), d')" "q \<in> set d" for r d d' q
    using that by (auto simp: list_mongo_def list_all_iff split: if_splits)
  show "r \<in> set d \<and> matches f r" if "mg_One list_mongo f d = Inr r" for f d r
    using that by (auto simp: list_mongo_def find_Some_iff split: option.splits)
  show "\<not> matches f q" if "mg_One list_mongo f d = Inl ErrNotFound" "q \<in> set d" for f d q
    using that by (auto simp: list_mongo_def find_None_iff split: option.splits)
  show "\<exists>qs. mset qs = mset (filter (matches f) d) \<and> sorted_wrt (\<lambda>a b. received b \<le> received a) qs \<and> rs = window limit skip qs"
    if "mg_All list_mongo f ''-receivedAt'' limit skip d = Inr rs" for f limit skip d rs
    using that sorted_sort_key [of "\<lambda>r. - received r" "filter (matches f) d"]
    by (intro exI [of _ "sort_key (\<lambda>r. - received r) (filter (matches f) d)"]) (simp add: list_mongo_def sorted_map)
qed (simp add: list_mongo_def)

definition sample_receipt :: "string \<Rightarrow> int \<Rightarrow> obj" where
  "sample_receipt i t = [(''_id'', JStr i), (''from'', JStr ''bob''), (''receivedAt'', JNum (int_str t))]"

theorem mongo_query_newest_first_witness:
  "\<exists>qs. mset qs = mset (filter (wanted [] 5 ''bob'' []) [sample_receipt ''a'' 6, sample_receipt ''b'' 4, sample_receipt ''c'' 9])
    \<and> sorted_wrt (\<lambda>a b. received b \<le> received a) qs \<and> [sample_receipt ''c'' 9] = take (nat 1) (drop (nat 0) qs)"
proof (rule mongo_query_newest_first [where start = "[]", OF list_mongo.mongo_driver_axioms])
  have p: "int_of (Some (JNum (int_str n))) = Some n" if "int64_range n" for n
    using that by (simp add: int_of_def parse_int_int_str int64_range_def)
  then have r: "received (sample_receipt i t) = t" if "int64_range t" for i t
    using that by (simp add: received_def sample_receipt_def obj_get_def)
  have k: "obj_get (sample_receipt i t) ''receivedAt'' = Some (JNum (int_str t))" "obj_get (sample_receipt i t) ''from'' = Some (JStr ''bob'')" for i t
    by (simp_all add: sample_receipt_def obj_get_def)
  show "mongo_GetReceipts list_mongo 0 1 [] 5 ''bob'' [] [] [sample_receipt ''a'' 6, sample_receipt ''b'' 4, sample_receipt ''c'' 9] =
      Ret (Inr [sample_receipt ''c'' 9])"
    by (simp add: mongo_GetReceipts_def list_mongo_def mongo_filter_def matches_def window_def r p k int64_range_def)
qed simp_all

theorem mongo_fulfils_the_contract_witness:
  "mongo_GetReceipt list_mongo ''b'' (snd (mongo_AddReceipt list_mongo ''b'' (sample_receipt ''b'' 4) [sample_receipt ''a'' 6])) =
     Inr (Some (sample_receipt ''b'' 4))"
proof -
  let ?d = "[sample_receipt ''a'' 6, sample_receipt ''b'' 4]"
  have a: "mongo_AddReceipt list_mongo ''b'' (sample_receipt ''b'' 4) [sample_receipt ''a'' 6] = (Inr (), ?d)"
    by (simp add: mongo_AddReceipt_def list_mongo_def sample_receipt_def obj_get_def)
  obtain y where y: "mongo_GetReceipt list_mongo ''b'' ?d = Inr y"
    by (cases "find (matches [(''_id'', Eq (JStr ''b''))]) ?d") (auto simp: mongo_GetReceipt_def list_mongo_def)
  from receipt_persistence.add_get [OF mongo_fulfils_the_contract [OF list_mongo.mongo_driver_axioms], of "[sample_receipt ''a'' 6]" "''b''"
      "sample_receipt ''b'' 4" ?d y] a y
  show ?thesis by (simp add: mongo_persistence_def mongo_valid_def id_fits_def sample_receipt_def obj_get_def)
qed

end
