(* ===== verification/Kafka_Bridge.thy ===== *)
theory Kafka_Bridge
  imports Kafka_Handler Receipt_MongoDB
begin

text \<open>
  The bridge to Kafka: the start of producer and consumer in \<^verbatim>\<open>internal/kafka/common.go\<close>, the TLS settings of
  \<^verbatim>\<open>internal/utils/tlsutils.go\<close>, and the consumer group of \<^verbatim>\<open>internal/kafka/client.go\<close>, whose goroutines are the steps of \<open>cstep\<close>.

  Sarama is a record of the operations that make a client, a consumer and a producer, on a state \<open>'w\<close>.  Settings of the Sarama client that are constants in the source
  are left out of the record of its settings.
\<close>

subsection \<open>TLS settings\<close>

record TLSConfig =
  ClientCertsFile :: string
  ClientKeyFile :: string
  CACertsFile :: string
  tls_Enabled :: bool
  InsecureSkipVerify :: bool

record 'x tls_settings =
  Certificates :: "'x list"
  RootCAs :: "bytes option"
  t_InsecureSkipVerify :: bool

text \<open>Files that cannot be loaded are logged only: the result is nil without an error, as for TLS that is not enabled.\<close>

definition CreateTLSConfiguration ::
  "(string \<Rightarrow> string \<Rightarrow> 'x res) \<Rightarrow> (string \<Rightarrow> bytes res) \<Rightarrow> TLSConfig \<Rightarrow> 'x tls_settings option res" where
  "CreateTLSConfiguration LoadX509KeyPair ReadFile tlsConfig =
     (if \<not> AllOrNoneReqd [ClientCertsFile tlsConfig, ClientKeyFile tlsConfig]
      then Inl ''Client private key and certificate must both be provided for mutual auth''
      else let mutualAuth = (ClientCertsFile tlsConfig \<noteq> [] \<and> ClientKeyFile tlsConfig \<noteq> []) in
      if \<not> tls_Enabled tlsConfig then Inr None
      else case (if mutualAuth then map_sum id (\<lambda>cert. [cert]) (LoadX509KeyPair (ClientCertsFile tlsConfig) (ClientKeyFile tlsConfig)) else Inr []) of
             Inl err \<Rightarrow> Inr None
           | Inr clientCerts \<Rightarrow>
               (case (if CACertsFile tlsConfig \<noteq> [] then map_sum id Some (ReadFile (CACertsFile tlsConfig)) else Inr None) of
                  Inl err \<Rightarrow> Inr None
                | Inr caCerts \<Rightarrow> Inr (Some \<lparr>Certificates = clientCerts, RootCAs = caCerts,
                    t_InsecureSkipVerify = InsecureSkipVerify tlsConfig\<rparr>)))"

subsection \<open>Starting the bridge\<close>

record KafkaConf =
  Brokers :: "string list"
  kc_ClientID :: string
  ConsumerGroup :: string
  TopicIn :: string
  kc_TopicOut :: string
  FlushFrequency :: go_int
  FlushMessages :: int
  FlushBytes :: int
  SASL_Username :: string
  SASL_Password :: string
  kc_TLS :: TLSConfig

definition kafka_ValidateConf :: "KafkaConf \<Rightarrow> unit res" where
  "kafka_ValidateConf kconf =
     (if kc_TopicOut kconf = [] then Inl ''No output topic specified for bridge to send events to''
      else if TopicIn kconf = [] then Inl ''No input topic specified for bridge to listen to''
      else if ConsumerGroup kconf = [] then Inl ''No consumer group specified''
      else if \<not> AllOrNoneReqd [SASL_Username kconf, SASL_Password kconf] then Inl ''Username and Password must both be provided for SASL''
      else Inr ())"

record 'x sarama_Config =
  sc_SASL :: "(string \<times> string) option"
  sc_FlushFrequency :: go_int
  sc_FlushMessages :: int
  sc_FlushBytes :: int
  sc_TLS :: "'x tls_settings option"
  sc_ClientID :: string

record ('w, 'x, 'l, 'c, 'p) kafka_env =
  ke_LoadX509KeyPair :: "string \<Rightarrow> string \<Rightarrow> 'x res"
  ke_ReadFile :: "string \<Rightarrow> bytes res"
  ke_UUIDv4 :: string
  NewClient :: "string list \<Rightarrow> 'x sarama_Config \<Rightarrow> ('w, 'l) op"
  NewConsumer :: "'l \<Rightarrow> string \<Rightarrow> string list \<Rightarrow> ('w, 'c) op"
  NewProducer :: "'l \<Rightarrow> ('w, 'p) op"

record ('l, 'c, 'p) kafkaCommon =
  kk_client :: "'l option"
  kk_consumer :: "'c option"
  kk_producer :: "'p option"
  consumerWG :: nat
  producerWG :: nat

definition NewKafkaCommon :: "('l, 'c, 'p) kafkaCommon" where
  "NewKafkaCommon = \<lparr>kk_client = None, kk_consumer = None, kk_producer = None, consumerWG = 0, producerWG = 0\<rparr>"

definition sarama_conf :: "('w, 'x, 'l, 'c, 'p) kafka_env \<Rightarrow> KafkaConf \<Rightarrow> 'x tls_settings option \<Rightarrow> 'x sarama_Config" where
  "sarama_conf E conf tls =
     \<lparr>sc_SASL = (if SASL_Username conf \<noteq> [] \<and> SASL_Password conf \<noteq> [] then Some (SASL_Username conf, SASL_Password conf) else None),
      sc_FlushFrequency = FlushFrequency conf * 1000000, sc_FlushMessages = FlushMessages conf, sc_FlushBytes = FlushBytes conf,
      sc_TLS = tls, sc_ClientID = (if kc_ClientID conf = [] then ke_UUIDv4 E else kc_ClientID conf)\<rparr>"

text \<open>Errors of the TLS settings and of the client are dropped: \<^verbatim>\<open>connect\<close> returns nil without a client.\<close>

definition connect :: "('w, 'x, 'l, 'c, 'p) kafka_env \<Rightarrow> KafkaConf \<Rightarrow> (('l, 'c, 'p) kafkaCommon \<times> 'w, unit) op" where
  "connect E conf = (\<lambda>(k, w).
     if Brokers conf = [] \<or> hd (Brokers conf) = [] then (Inl ''No Kafka brokers configured'', (k, w))
     else case CreateTLSConfiguration (ke_LoadX509KeyPair E) (ke_ReadFile E) (kc_TLS conf) of
            Inl err \<Rightarrow> (Inr (), (k, w))
          | Inr tlsConfig \<Rightarrow> (case NewClient E (Brokers conf) (sarama_conf E conf tlsConfig) w of
              (Inl err, w') \<Rightarrow> (Inr (), (k\<lparr>kk_client := None\<rparr>, w'))
            | (Inr l, w') \<Rightarrow> (Inr (), (k\<lparr>kk_client := Some l\<rparr>, w'))))"

definition createConsumer where
  "createConsumer E conf = (\<lambda>(k, w). case deref (kk_client k) of
     Ret l \<Rightarrow> (case NewConsumer E l (ConsumerGroup conf) [TopicIn conf] w of
         (Inl err, w') \<Rightarrow> (Ret (Inl err), (k\<lparr>kk_consumer := None\<rparr>, w'))
       | (Inr c, w') \<Rightarrow> (Ret (Inr ()), (k\<lparr>kk_consumer := Some c\<rparr>, w')))
   | Panic p \<Rightarrow> (Panic p, (k, w)) | OutOfFuel \<Rightarrow> (OutOfFuel, (k, w)))"

definition createProducer where
  "createProducer E = (\<lambda>(k, w). case deref (kk_client k) of
     Ret l \<Rightarrow> (case NewProducer E l w of
         (Inl err, w') \<Rightarrow> (Ret (Inl err), (k\<lparr>kk_producer := None\<rparr>, w'))
       | (Inr p, w') \<Rightarrow> (Ret (Inr ()), (k\<lparr>kk_producer := Some p\<rparr>, w')))
   | Panic p \<Rightarrow> (Panic p, (k, w)) | OutOfFuel \<Rightarrow> (OutOfFuel, (k, w)))"

text \<open>Two goroutines each: the errors and messages of the consumer, the errors and successes of the producer.\<close>

definition startConsumer :: "('l, 'c, 'p) kafkaCommon \<Rightarrow> ('l, 'c, 'p) kafkaCommon" where
  "startConsumer k = k\<lparr>consumerWG := consumerWG k + 2\<rparr>"

definition startProducer :: "('l, 'c, 'p) kafkaCommon \<Rightarrow> ('l, 'c, 'p) kafkaCommon" where
  "startProducer k = k\<lparr>producerWG := producerWG k + 2\<rparr>"

text \<open>\<^verbatim>\<open>Start\<close> returns, with an error or without, or goes on to serve until a signal comes.\<close>

datatype start_end = Returned "error option" | Serving

definition Start where
  "Start E conf x = (case connect E conf x of
     (Inl err, y) \<Rightarrow> (Ret (Returned None), y)
   | (Inr _, y) \<Rightarrow> (case createConsumer E conf y of
       (Panic p, z) \<Rightarrow> (Panic p, z)
     | (OutOfFuel, z) \<Rightarrow> (OutOfFuel, z)
     | (Ret (Inl err), z) \<Rightarrow> (Ret (Returned None), z)
     | (Ret (Inr _), z) \<Rightarrow> (case createProducer E z of
         (Panic p, u) \<Rightarrow> (Panic p, u)
       | (OutOfFuel, u) \<Rightarrow> (OutOfFuel, u)
       | (Ret (Inl err), u) \<Rightarrow> (Ret (Returned None), u)
       | (Ret (Inr _), (k, w)) \<Rightarrow> (Ret Serving, (startProducer (startConsumer k), w)))))"

text \<open>After a signal producer and consumer are closed, and \<^verbatim>\<open>Start\<close> returns once the four goroutines have ended.\<close>

definition after_signal :: "('l, 'c, 'p) kafkaCommon \<Rightarrow> start_end" where
  "after_signal k = (if producerWG k = 0 \<and> consumerWG k = 0 then Returned None else Serving)"

text \<open>\<^verbatim>\<open>run\<close> of the handler.\<close>

definition kafka_run where
  "kafka_run E conf (x :: ('l, 'c, 'p) kafkaCommon \<times> 'w) h = (case Start E conf x of
     (Ret (Returned err), y) \<Rightarrow> (Ret (Returned err), (y, h\<lparr>k_finished := True\<rparr>))
   | (r, y) \<Rightarrow> (r, (y, h)))"

subsection \<open>The consumer group\<close>

text \<open>
  The places of \<^verbatim>\<open>consumerGoRoutine\<close>: at the test of the loop, before the group is assigned, inside \<^verbatim>\<open>Consume\<close>, waiting for the errors to be
  passed on, sleeping, and ended with its channels closed.
\<close>

datatype place = Check | Creating | Consuming | Draining | Pause | Done

record 'm saramaKafkaConsumerGroupHandler =
  cg_closed :: bool
  cg_place :: place
  cg_set :: bool
  group_closed :: bool
  cg_session :: bool
  cg_claims :: nat
  forwarding :: bool
  chan_open :: bool
  cg_messages :: "'m list"
  cg_errors :: "error list"
  cg_marked :: "'m list"

definition newSaramaKafkaConsumerGroupHandler :: "'m saramaKafkaConsumerGroupHandler" where
  "newSaramaKafkaConsumerGroupHandler = \<lparr>cg_closed = False, cg_place = Check, cg_set = False, group_closed = False, cg_session = False,
     cg_claims = 0, forwarding = False, chan_open = True, cg_messages = [], cg_errors = [], cg_marked = []\<rparr>"

definition cg_Setup :: "'m saramaKafkaConsumerGroupHandler \<Rightarrow> 'm saramaKafkaConsumerGroupHandler" where
  "cg_Setup h = h\<lparr>cg_session := True\<rparr>"

definition cg_Cleanup :: "'m saramaKafkaConsumerGroupHandler \<Rightarrow> 'm saramaKafkaConsumerGroupHandler" where
  "cg_Cleanup h = h\<lparr>cg_session := False\<rparr>"

text \<open>\<^verbatim>\<open>Close\<close> closes the group that is assigned at that time, if any.\<close>

definition cg_Close :: "'m saramaKafkaConsumerGroupHandler \<Rightarrow> 'm saramaKafkaConsumerGroupHandler" where
  "cg_Close h = h\<lparr>cg_closed := True, group_closed := group_closed h \<or> cg_set h\<rparr>"

definition MarkOffset :: "'m \<Rightarrow> 'm saramaKafkaConsumerGroupHandler \<Rightarrow> 'm saramaKafkaConsumerGroupHandler" where
  "MarkOffset msg h = (if cg_session h then h\<lparr>cg_marked := cg_marked h @ [msg]\<rparr> else h)"

text \<open>
  Of Sarama the steps take over what it documents of \<^verbatim>\<open>Consume\<close>: it runs \<^verbatim>\<open>Setup\<close>, a \<^verbatim>\<open>ConsumeClaim\<close> for each claim and \<^verbatim>\<open>Cleanup\<close> after all of them
  have ended, and then returns; and that the channel of errors ends when the group is closed.
\<close>

inductive cstep :: "'m saramaKafkaConsumerGroupHandler \<Rightarrow> 'm saramaKafkaConsumerGroupHandler \<Rightarrow> bool" where
  enter: "cg_place h = Check \<Longrightarrow> \<not> cg_closed h \<Longrightarrow> cstep h (h\<lparr>cg_place := Creating\<rparr>)"
| leave: "cg_place h = Check \<Longrightarrow> cg_closed h \<Longrightarrow> cstep h (h\<lparr>cg_place := Done, chan_open := False\<rparr>)"
| create_failed: "cg_place h = Creating \<Longrightarrow> cstep h (h\<lparr>cg_set := False, cg_place := Pause\<rparr>)"
| created: "cg_place h = Creating \<Longrightarrow> cstep h (h\<lparr>cg_set := True, group_closed := False, forwarding := True, cg_place := Consuming\<rparr>)"
| session_starts: "cg_place h = Consuming \<Longrightarrow> \<not> cg_session h \<Longrightarrow> \<not> group_closed h \<Longrightarrow> cstep h (cg_Setup h)"
| claim: "cg_place h = Consuming \<Longrightarrow> cg_session h \<Longrightarrow> cstep h (h\<lparr>cg_claims := cg_claims h + 1\<rparr>)"
| message: "0 < cg_claims h \<Longrightarrow> cstep h (h\<lparr>cg_messages := cg_messages h @ [m]\<rparr>)"
| claim_end: "0 < cg_claims h \<Longrightarrow> cstep h (h\<lparr>cg_claims := cg_claims h - 1\<rparr>)"
| cleanup: "cg_place h = Consuming \<Longrightarrow> cg_session h \<Longrightarrow> cg_claims h = 0 \<Longrightarrow> cstep h (cg_Cleanup h)"
| returned: "cg_place h = Consuming \<Longrightarrow> \<not> cg_session h \<Longrightarrow>
    cstep h (h\<lparr>cg_place := Draining, group_closed := group_closed h \<or> \<not> cg_closed h\<rparr>)"
| forward: "forwarding h \<Longrightarrow> cstep h (h\<lparr>cg_errors := cg_errors h @ [err]\<rparr>)"
| forward_end: "forwarding h \<Longrightarrow> group_closed h \<Longrightarrow> cstep h (h\<lparr>forwarding := False\<rparr>)"
| drained: "cg_place h = Draining \<Longrightarrow> \<not> forwarding h \<Longrightarrow> cstep h (h\<lparr>cg_set := False, cg_place := Pause\<rparr>)"
| resume: "cg_place h = Pause \<Longrightarrow> cstep h (h\<lparr>cg_place := Check\<rparr>)"
| close: "cstep h (cg_Close h)"
| mark: "msg \<in> set (cg_messages h) \<Longrightarrow> cstep h (MarkOffset msg h)"

definition cinv :: "'m saramaKafkaConsumerGroupHandler \<Rightarrow> bool" where
  "cinv h \<longleftrightarrow> (chan_open h \<longleftrightarrow> cg_place h \<noteq> Done) \<and> (cg_place h = Done \<longrightarrow> cg_closed h)
     \<and> (0 < cg_claims h \<longrightarrow> cg_session h) \<and> (cg_session h \<longrightarrow> cg_place h = Consuming)
     \<and> (forwarding h \<longrightarrow> cg_place h = Consuming \<or> cg_place h = Draining)
     \<and> (cg_set h \<longleftrightarrow> cg_place h = Consuming \<or> cg_place h = Draining)
     \<and> set (cg_marked h) \<subseteq> set (cg_messages h)"

lemmas cg_defs = newSaramaKafkaConsumerGroupHandler_def cg_Setup_def cg_Cleanup_def cg_Close_def MarkOffset_def

lemma cinv_step: "cstep h h' \<Longrightarrow> cinv h \<Longrightarrow> cinv h'"
  by (induction rule: cstep.induct) (auto simp: cinv_def cg_defs)

lemma cinv_reachable: "cstep\<^sup>*\<^sup>* newSaramaKafkaConsumerGroupHandler h \<Longrightarrow> cinv h"
proof (induction rule: rtranclp_induct)
  case base
  then show ?case by (simp add: cinv_def cg_defs)
qed (rule cinv_step)


text \<open>From a state in which no open group is left over, the goroutine can come to its end.\<close>

lemma claims_end: "\<exists>h'. cstep\<^sup>*\<^sup>* h h' \<and> h' = h\<lparr>cg_claims := 0\<rparr>"
proof (induction "cg_claims h" arbitrary: h)
  case 0
  then have "h\<lparr>cg_claims := 0\<rparr> = h" by simp
  then show ?case by auto
next
  case (Suc n)
  then have "cstep h (h\<lparr>cg_claims := cg_claims h - 1\<rparr>)" by (intro cstep.claim_end) simp
  moreover have "\<exists>h'. cstep\<^sup>*\<^sup>* (h\<lparr>cg_claims := cg_claims h - 1\<rparr>) h' \<and> h' = h\<lparr>cg_claims := 0\<rparr>"
    using Suc(1) [of "h\<lparr>cg_claims := cg_claims h - 1\<rparr>"] Suc(2) [symmetric] by simp
  ultimately show ?case by (meson converse_rtranclp_into_rtranclp)
qed

lemma check_ends: "cg_place h = Check \<or> cg_place h = Pause \<Longrightarrow> cg_closed h \<Longrightarrow> \<exists>h'. cstep\<^sup>*\<^sup>* h h' \<and> cg_place h' = Done"
proof -
  assume p: "cg_place h = Check \<or> cg_place h = Pause" and c: "cg_closed h"
  let ?g = "h\<lparr>cg_place := Check\<rparr>"
  have "cstep\<^sup>*\<^sup>* h ?g"
  proof (cases "cg_place h = Check")
    case True
    then have "?g = h" by simp
    then show ?thesis by simp
  qed (use p in \<open>auto intro: cstep.resume\<close>)
  moreover have "cstep ?g (?g\<lparr>cg_place := Done, chan_open := False\<rparr>)" using c by (intro cstep.leave) simp_all
  ultimately show ?thesis by (intro exI [of _ "?g\<lparr>cg_place := Done, chan_open := False\<rparr>"]) simp
qed

lemma draining_ends:
  assumes "cg_place h = Draining" "cg_closed h" "group_closed h"
  shows "\<exists>h'. cstep\<^sup>*\<^sup>* h h' \<and> cg_place h' = Done"
proof -
  let ?g = "h\<lparr>forwarding := False\<rparr>"
  have "cstep\<^sup>*\<^sup>* h ?g"
  proof (cases "forwarding h")
    case True
    then show ?thesis using assms(3) by (auto intro: cstep.forward_end)
  next
    case False
    then have "?g = h" by simp
    then show ?thesis by simp
  qed
  moreover have "cstep ?g (?g\<lparr>cg_set := False, cg_place := Pause\<rparr>)" using assms by (intro cstep.drained) simp_all
  moreover obtain h' where "cstep\<^sup>*\<^sup>* (?g\<lparr>cg_set := False, cg_place := Pause\<rparr>) h'" "cg_place h' = Done"
    using check_ends [of "?g\<lparr>cg_set := False, cg_place := Pause\<rparr>"] assms(2) by auto
  ultimately show ?thesis by (meson rtranclp.rtrancl_into_rtrancl rtranclp_trans)
qed

lemma consuming_ends:
  assumes "cg_place h = Consuming" "cg_closed h" "group_closed h"
  shows "\<exists>h'. cstep\<^sup>*\<^sup>* h h' \<and> cg_place h' = Done"
proof -
  let ?g = "h\<lparr>cg_claims := 0\<rparr>"
  let ?f = "?g\<lparr>cg_session := False\<rparr>"
  let ?e = "?f\<lparr>cg_place := Draining, group_closed := group_closed ?f \<or> \<not> cg_closed ?f\<rparr>"
  have "cstep\<^sup>*\<^sup>* h ?g" using claims_end [of h] by blast
  moreover have "cstep\<^sup>*\<^sup>* ?g ?f"
  proof (cases "cg_session h")
    case True
    then show ?thesis using cstep.cleanup [of ?g] assms(1) by (auto simp: cg_Cleanup_def)
  next
    case False
    then have "?f = ?g" by simp
    then show ?thesis by simp
  qed
  moreover have "cstep ?f ?e" using assms by (intro cstep.returned) simp_all
  moreover obtain h' where "cstep\<^sup>*\<^sup>* ?e h'" "cg_place h' = Done" using draining_ends [of ?e] assms by auto
  ultimately show ?thesis by (meson rtranclp.rtrancl_into_rtrancl rtranclp_trans)
qed

text \<open>C36: Whenever \<^verbatim>\<open>Close\<close> is called while a group is assigned or none is being made, the goroutine of the consumer can run to its end and closes its channels, so that the
  loops over its messages and errors end.  The one place where this fails is between the test of the loop and the assignment of the new group.\<close>

theorem close_ends_the_consumer:
  assumes "cstep\<^sup>*\<^sup>* newSaramaKafkaConsumerGroupHandler h" "cg_place h \<noteq> Creating"
  shows "\<exists>h'. cstep\<^sup>*\<^sup>* (cg_Close h) h' \<and> cg_place h' = Done \<and> \<not> chan_open h'"
proof -
  have i: "cinv (cg_Close h)" and r: "cstep\<^sup>*\<^sup>* newSaramaKafkaConsumerGroupHandler (cg_Close h)"
    using cinv_step [OF cstep.close cinv_reachable [OF assms(1)]] assms(1) cstep.close [of h] by auto
  have c: "cg_closed (cg_Close h)" by (simp add: cg_Close_def)
  have g: "group_closed (cg_Close h)" if "cg_place h = Consuming \<or> cg_place h = Draining"
    using that cinv_reachable [OF assms(1)] by (auto simp: cinv_def cg_Close_def)
  have p: "cg_place (cg_Close h) = cg_place h" by (simp add: cg_Close_def)
  have "\<exists>h'. cstep\<^sup>*\<^sup>* (cg_Close h) h' \<and> cg_place h' = Done"
    using check_ends [of "cg_Close h"] draining_ends [of "cg_Close h"] consuming_ends [of "cg_Close h"] c g p assms(2)
    by (cases "cg_place h") auto
  then obtain h' where h': "cstep\<^sup>*\<^sup>* (cg_Close h) h'" "cg_place h' = Done" by blast
  then have "cinv h'" using r by (meson cinv_reachable rtranclp_trans)
  with h' show ?thesis by (auto simp: cinv_def)
qed

text \<open>C37: A call of \<^verbatim>\<open>Close\<close> can be lost: when it comes after the test of the loop and before the new group is assigned, the consumer ends up with an open group and still
  passes on messages, although it is closed.\<close>

theorem close_can_be_lost:
  "\<exists>h :: 'm saramaKafkaConsumerGroupHandler. cstep\<^sup>*\<^sup>* newSaramaKafkaConsumerGroupHandler h \<and> cg_closed h \<and> cg_place h = Consuming \<and> \<not> group_closed h
     \<and> cstep h (h\<lparr>cg_messages := cg_messages h @ [m]\<rparr>)"
proof -
  define a where "a = (newSaramaKafkaConsumerGroupHandler :: 'm saramaKafkaConsumerGroupHandler)\<lparr>cg_place := Creating\<rparr>"
  define b where "b = cg_Close a"
  define c where "c = b\<lparr>cg_set := True, group_closed := False, forwarding := True, cg_place := Consuming\<rparr>"
  define d where "d = cg_Setup c"
  define e where "e = d\<lparr>cg_claims := cg_claims d + 1\<rparr>"
  have "cstep newSaramaKafkaConsumerGroupHandler a" unfolding a_def by (rule cstep.enter) (simp_all add: cg_defs)
  moreover have "cstep a b" unfolding b_def by (rule cstep.close)
  moreover have "cstep b c" unfolding c_def by (rule cstep.created) (simp add: b_def a_def cg_defs)
  moreover have "cstep c d" unfolding d_def by (rule cstep.session_starts) (simp_all add: c_def b_def a_def cg_defs)
  moreover have "cstep d e" unfolding e_def by (rule cstep.claim) (simp_all add: d_def c_def cg_defs)
  ultimately have "cstep\<^sup>*\<^sup>* newSaramaKafkaConsumerGroupHandler e" by (meson converse_rtranclp_into_rtranclp r_into_rtranclp)
  moreover have "cg_closed e" "cg_place e = Consuming" "\<not> group_closed e" by (simp_all add: e_def d_def c_def b_def a_def cg_defs)
  moreover have "cstep e (e\<lparr>cg_messages := cg_messages e @ [m]\<rparr>)" by (rule cstep.message) (simp add: e_def)
  ultimately show ?thesis by blast
qed

subsection \<open>Properties of the start\<close>

text \<open>C38: TLS that is asked for is dropped silently: when the certificate and key or the CA certificates of enabled TLS cannot be loaded, the bridge connects to the
  brokers all the same, with the settings of a client without TLS.\<close>

theorem kafka_connects_without_tls:
  assumes "tls_Enabled (kc_TLS conf)" "ClientCertsFile (kc_TLS conf) \<noteq> []" "ClientKeyFile (kc_TLS conf) \<noteq> []"
    and "ke_LoadX509KeyPair E (ClientCertsFile (kc_TLS conf)) (ClientKeyFile (kc_TLS conf)) = Inl err
      \<or> CACertsFile (kc_TLS conf) \<noteq> [] \<and> ke_ReadFile E (CACertsFile (kc_TLS conf)) = Inl err"
    and "Brokers conf = b # bs" "b \<noteq> []"
    and "NewClient E (b # bs) (sarama_conf E conf None) w = (Inr l, w')"
  shows "connect E conf (k, w) = (Inr (), (k\<lparr>kk_client := Some l\<rparr>, w'))"
proof -
  have "CreateTLSConfiguration (ke_LoadX509KeyPair E) (ke_ReadFile E) (kc_TLS conf) = Inr None"
    using assms(1-4) by (auto simp: CreateTLSConfiguration_def AllOrNoneReqd_def split: sum.splits)
  then show ?thesis using assms(5-7) by (simp add: connect_def)
qed

text \<open>\<^verbatim>\<open>Start\<close> on every branch: it never returns an error, and a client that could not be made is dereferenced.\<close>

theorem kafka_start_outcome:
  "fst (Start E conf (NewKafkaCommon, w)) =
     (if Brokers conf = [] \<or> hd (Brokers conf) = [] then Ret (Returned None)
      else case CreateTLSConfiguration (ke_LoadX509KeyPair E) (ke_ReadFile E) (kc_TLS conf) of
        Inl _ \<Rightarrow> Panic ''invalid memory address or nil pointer dereference''
      | Inr tls \<Rightarrow> (case NewClient E (Brokers conf) (sarama_conf E conf tls) w of
          (Inl _, _) \<Rightarrow> Panic ''invalid memory address or nil pointer dereference''
        | (Inr l, w1) \<Rightarrow> (case NewConsumer E l (ConsumerGroup conf) [TopicIn conf] w1 of
            (Inl _, _) \<Rightarrow> Ret (Returned None)
          | (Inr c, w2) \<Rightarrow> (case NewProducer E l w2 of (Inl _, _) \<Rightarrow> Ret (Returned None) | (Inr p, _) \<Rightarrow> Ret Serving))))"
  by (simp add: Start_def connect_def createConsumer_def createProducer_def NewKafkaCommon_def deref_def split: sum.split prod.split)

subsection \<open>Examples\<close>

definition sample_env :: "(nat, nat, nat, nat, nat) kafka_env" where
  "sample_env = \<lparr>ke_LoadX509KeyPair = (\<lambda>_ _. Inr 0), ke_ReadFile = (\<lambda>_. Inl ''no such file''), ke_UUIDv4 = ''uuid'',
     NewClient = (\<lambda>_ sc n. (Inr (if sc_TLS sc = None then 0 else 1), n + 1)), NewConsumer = (\<lambda>_ _ _ n. (Inr n, n + 1)), NewProducer = (\<lambda>_ n. (Inl ''no broker'', n))\<rparr>"

definition sample_kafka :: KafkaConf where
  "sample_kafka = \<lparr>Brokers = [''broker:9093''], kc_ClientID = ''gateway'', ConsumerGroup = ''g'', TopicIn = ''in'', kc_TopicOut = ''out'', FlushFrequency = 0,
     FlushMessages = 0, FlushBytes = 0, SASL_Username = [], SASL_Password = [],
     kc_TLS = \<lparr>ClientCertsFile = ''cert.pem'', ClientKeyFile = ''key.pem'', CACertsFile = ''ca.pem'', tls_Enabled = True, InsecureSkipVerify = False\<rparr>\<rparr>"

theorem kafka_connects_without_tls_witness:
  "connect sample_env sample_kafka (NewKafkaCommon, 7) = (Inr (), (NewKafkaCommon\<lparr>kk_client := Some 0\<rparr>, 8))"
  by (rule kafka_connects_without_tls [where b = "''broker:9093''" and bs = "[]" and err = "''no such file''"])
    (simp_all add: sample_env_def sample_kafka_def sarama_conf_def)

definition sample_group :: "nat saramaKafkaConsumerGroupHandler" where
  "sample_group = \<lparr>cg_closed = False, cg_place = Consuming, cg_set = True, group_closed = False, cg_session = True,
     cg_claims = 0, forwarding = True, chan_open = True, cg_messages = [], cg_errors = [], cg_marked = []\<rparr>"

lemma sample_group_reachable: "cstep\<^sup>*\<^sup>* newSaramaKafkaConsumerGroupHandler sample_group"
proof -
  let ?a = "newSaramaKafkaConsumerGroupHandler\<lparr>cg_place := Creating\<rparr>"
  let ?b = "?a\<lparr>cg_set := True, group_closed := False, forwarding := True, cg_place := Consuming\<rparr>"
  have "cstep newSaramaKafkaConsumerGroupHandler ?a" by (rule cstep.enter) (simp_all add: cg_defs)
  moreover have "cstep ?a ?b" by (rule cstep.created) simp
  moreover have "cstep ?b (cg_Setup ?b)" by (rule cstep.session_starts) (simp_all add: cg_defs)
  moreover have "cg_Setup ?b = sample_group" by (simp add: cg_defs sample_group_def)
  ultimately show ?thesis by (metis (no_types, lifting) converse_rtranclp_into_rtranclp r_into_rtranclp)
qed


theorem close_ends_the_consumer_witness: "\<exists>h'. cstep\<^sup>*\<^sup>* (cg_Close sample_group) h' \<and> cg_place h' = Done \<and> \<not> chan_open h'"
  by (rule close_ends_the_consumer [OF sample_group_reachable]) (simp add: sample_group_def)

end
