(* ===== verification/Client_Cache.thy ===== *)
theory Client_Cache
  imports Block_Decoder
begin

text \<open>
  The clients of Fabric that the gateway keeps for each signer: \<^verbatim>\<open>internal/fabric/client/ledger.go\<close> and
  \<^verbatim>\<open>internal/fabric/client/eventsubscriber.go\<close>.

  A client of the Fabric SDK is of an opaque type, its constructor an operation on the state \<open>'w\<close> of the SDK.  The locale
  \<open>signer_cache\<close> is the contract that all wrappers fulfil: a client is taken from the cache or made, and an update of a signer drops his clients.
\<close>

subsection \<open>Caches\<close>

text \<open>
  \<^verbatim>\<open>map[string]map[string]*Client\<close>; an entry that is nil counts as absent.  \<open>cached s k create\<close> is the body that the
  wrappers share: the inner map is made when it is missing, and the client when it is missing there.
\<close>

type_synonym 'c cache = "string \<rightharpoonup> (string \<rightharpoonup> 'c)"

definition inner :: "'c cache \<Rightarrow> string \<Rightarrow> (string \<rightharpoonup> 'c)" where
  "inner m s = (case m s of None \<Rightarrow> Map.empty | Some cs \<Rightarrow> cs)"

definition cached :: "string \<Rightarrow> string \<Rightarrow> ('w, 'c) op \<Rightarrow> ('c cache \<times> 'w, 'c) op" where
  "cached s k create = (\<lambda>(m, w). let m1 = m(s \<mapsto> inner m s) in
     case inner m s k of
       Some c \<Rightarrow> (Inr c, (m1, w))
     | None \<Rightarrow> (case create w of
         (Inl err, w') \<Rightarrow> (Inl err, (m1, w'))
       | (Inr c, w') \<Rightarrow> (Inr c, (m1(s \<mapsto> (inner m s)(k \<mapsto> c)), w'))))"

definition drop_signer :: "string \<Rightarrow> 'c cache \<Rightarrow> 'c cache" where
  "drop_signer signer m = m(signer := None)"

lemma inner_upd [simp]: "inner (m(s \<mapsto> cs)) s' = (if s' = s then cs else inner m s')"
  by (simp add: inner_def)

lemma inner_drop [simp]: "inner (drop_signer s m) s' = (if s' = s then Map.empty else inner m s')"
  by (simp add: inner_def drop_signer_def)

lemma inner_fun_upd: "inner (m(s \<mapsto> cs)) = (inner m)(s := cs)"
  by (rule ext) simp

lemma cached_hit: "inner m s k = Some c \<Longrightarrow> \<exists>m'. cached s k create (m, w) = (Inr c, (m', w)) \<and> inner m' = inner m"
  by (simp add: cached_def Let_def inner_fun_upd)

lemma cached_miss:
  assumes "inner m s k = None" "cached s k create (m, w) = (r, (m', w'))"
  shows "create w = (r, w') \<and> inner m' = (case r of Inl _ \<Rightarrow> inner m | Inr c \<Rightarrow> (inner m)(s := (inner m s)(k \<mapsto> c)))"
  using assms by (auto simp: cached_def Let_def inner_fun_upd split: prod.splits sum.splits)

subsection \<open>The contract\<close>

text \<open>What happens to a cache: a client is handed out, or a signer is updated.\<close>

datatype ('a, 'c) use = Got string 'a 'c | Renewed string

inductive history ::
  "(string \<Rightarrow> 'a \<Rightarrow> ('m \<times> 'w, 'c) op) \<Rightarrow> (string \<Rightarrow> 'm \<Rightarrow> 'm) \<Rightarrow> 'm \<times> 'w \<Rightarrow> ('a, 'c) use list \<Rightarrow> 'm \<times> 'w \<Rightarrow> bool"
  for get SignerUpdated x where
  start: "history get SignerUpdated x [] x"
| got: "history get SignerUpdated x us y \<Longrightarrow> get s a y = (Inr c, z) \<Longrightarrow> history get SignerUpdated x (us @ [Got s a c]) z"
| failed: "history get SignerUpdated x us y \<Longrightarrow> get s a y = (Inl err, z) \<Longrightarrow> history get SignerUpdated x us z"
| renewed: "history get SignerUpdated x us (m, w) \<Longrightarrow> history get SignerUpdated x (us @ [Renewed s]) (SignerUpdated s m, w)"
| elsewhere: "history get SignerUpdated x us (m, w) \<Longrightarrow> history get SignerUpdated x us (m, w')"

text \<open>The client \<open>c\<close> was made for the signer \<open>s\<close> and a request of the key \<open>k\<close>, after his last update.\<close>

definition made_for ::
  "('a \<Rightarrow> string) \<Rightarrow> (string \<Rightarrow> 'a \<Rightarrow> ('w, 'c) op) \<Rightarrow> ('a, 'c) use list \<Rightarrow> string \<Rightarrow> string \<Rightarrow> 'c \<Rightarrow> bool" where
  "made_for key create us s k c \<longleftrightarrow>
     (\<exists>pre a post v v'. us = pre @ Got s a c # post \<and> Renewed s \<notin> set post \<and> key a = k \<and> create s a v = (Inr c, v'))"

locale signer_cache =
  fixes lookup :: "'m \<Rightarrow> string \<Rightarrow> string \<Rightarrow> 'c option"
    and key :: "'a \<Rightarrow> string"
    and create :: "string \<Rightarrow> 'a \<Rightarrow> ('w, 'c) op"
    and get :: "string \<Rightarrow> 'a \<Rightarrow> ('m \<times> 'w, 'c) op"
    and SignerUpdated :: "string \<Rightarrow> 'm \<Rightarrow> 'm"
  assumes hit: "lookup m s (key a) = Some c \<Longrightarrow> get s a (m, w) = (r, (m', w')) \<Longrightarrow>
      lookup m' = lookup m \<and> (\<forall>c'. r = Inr c' \<longrightarrow> c' = c)"
    and miss: "lookup m s (key a) = None \<Longrightarrow> get s a (m, w) = (Inr c, (m', w')) \<Longrightarrow>
      (\<exists>v v'. create s a v = (Inr c, v')) \<and> lookup m' = (lookup m)(s := (lookup m s)(key a \<mapsto> c))"
    and miss_failed: "lookup m s (key a) = None \<Longrightarrow> get s a (m, w) = (Inl err, (m', w')) \<Longrightarrow> lookup m' = lookup m"
    and updated: "lookup (SignerUpdated s m) s' k = (if s' = s then None else lookup m s' k)"
begin

lemma made_for_later: "made_for key create us s k c \<Longrightarrow> u \<noteq> Renewed s \<Longrightarrow> made_for key create (us @ [u]) s k c"
proof -
  assume "made_for key create us s k c" and u: "u \<noteq> Renewed s"
  then obtain pre a post v v' where "us = pre @ Got s a c # post" "Renewed s \<notin> set post" "key a = k" "create s a v = (Inr c, v')"
    unfolding made_for_def by blast
  with u show ?thesis unfolding made_for_def
    by (intro exI [of _ pre] exI [of _ a] exI [of _ "post @ [u]"] exI [of _ v] exI [of _ v']) auto
qed

lemma made_now: "create s a v = (Inr c, v') \<Longrightarrow> made_for key create (us @ [Got s a c]) s (key a) c"
  unfolding made_for_def by (rule exI [of _ us]) auto

lemma cache_is_current:
  assumes "history get SignerUpdated (m0, w0) us x" "\<And>s k. lookup m0 s k = None"
  shows "\<forall>s k c. lookup (fst x) s k = Some c \<longrightarrow> made_for key create us s k c"
  using assms(1)
proof (induction rule: history.induct)
  case start
  then show ?case using assms(2) by simp
next
  case (got us y s a c z)
  obtain m w m' w' where y: "y = (m, w)" "z = (m', w')" by (cases y, cases z)
  show ?case
  proof (cases "lookup m s (key a)")
    case None
    then obtain v v' where "create s a v = (Inr c, v')" "lookup m' = (lookup m)(s := (lookup m s)(key a \<mapsto> c))"
      using miss [of m s a w c m' w'] got.hyps(2) y by blast
    with got.IH y made_now [of s a v c v' us] show ?thesis by (auto intro: made_for_later)
  next
    case (Some c')
    then have "lookup m' = lookup m" using hit [of m s a c' w "Inr c" m' w'] got.hyps(2) y by blast
    with got.IH y show ?thesis by (auto intro: made_for_later)
  qed
next
  case (failed us y s a err z)
  obtain m w m' w' where y: "y = (m, w)" "z = (m', w')" by (cases y, cases z)
  have "lookup m' = lookup m"
    using hit [of m s a _ w "Inl err" m' w'] miss_failed [of m s a w err m' w'] failed.hyps(2) y by (cases "lookup m s (key a)") auto
  with failed.IH y show ?case by simp
next
  case (renewed us m w s)
  then show ?case by (auto simp: updated intro: made_for_later split: if_splits)
qed simp

lemma client_is_current:
  assumes "history get SignerUpdated (m0, w0) us (m, w)" "\<And>s k. lookup m0 s k = None" "get s a (m, w) = (Inr c, (m', w'))"
  shows "made_for key create (us @ [Got s a c]) s (key a) c"
proof (cases "lookup m s (key a)")
  case None
  then show ?thesis using miss [of m s a w c m' w'] assms(3) made_now by blast
next
  case (Some d)
  then have "c = d" using hit [of m s a d w "Inr c" m' w'] assms(3) by blast
  moreover have "made_for key create us s (key a) d" using cache_is_current [OF assms(1,2)] Some by simp
  ultimately show ?thesis using made_for_later by blast
qed

end

text \<open>Every wrapper that works with \<open>cached\<close> fulfils the contract.\<close>

lemma cached_signer_cache: "signer_cache inner key create (\<lambda>s a. cached s (key a) (create s a)) drop_signer"
proof
  show "inner m' = inner m \<and> (\<forall>c'. r = Inr c' \<longrightarrow> c' = c)"
    if "inner m s (key a) = Some c" "cached s (key a) (create s a) (m, w) = (r, (m', w'))" for m s a c w r m' w'
    using cached_hit [OF that(1), of "create s a" w] that(2) by auto
  show "(\<exists>v v'. create s a v = (Inr c, v')) \<and> inner m' = (inner m)(s := (inner m s)(key a \<mapsto> c))"
    if "inner m s (key a) = None" "cached s (key a) (create s a) (m, w) = (Inr c, (m', w'))" for m s a w c m' w'
    using cached_miss [OF that] by auto
  show "inner m' = inner m"
    if "inner m s (key a) = None" "cached s (key a) (create s a) (m, w) = (Inl err, (m', w'))" for m s a w err m' w'
    using cached_miss [OF that] by auto
qed simp

subsection \<open>The ledger client\<close>

text \<open>The constructor is given the channel, the organisation and the user of the \<^verbatim>\<open>ChannelContext\<close>; \<open>'i\<close> is the type of the chain information.\<close>

record ('w, 'l, 'i) ledger_sdk =
  ledgerClientCreator :: "string \<Rightarrow> string \<Rightarrow> string \<Rightarrow> ('w, 'l) op"
  lc_QueryInfo :: "'l \<Rightarrow> ('w, 'i) op"
  lc_QueryBlock :: "'l \<Rightarrow> uint64 \<Rightarrow> ('w, pb_Block) op"
  lc_QueryBlockByHash :: "'l \<Rightarrow> bytes \<Rightarrow> ('w, pb_Block) op"
  lc_QueryBlockByTxID :: "'l \<Rightarrow> string \<Rightarrow> ('w, pb_Block) op"
  lc_QueryTransaction :: "'l \<Rightarrow> string \<Rightarrow> ('w, pb_Envelope) op"

definition getLedgerClient :: "('w, 'l, 'i) ledger_sdk \<Rightarrow> string \<Rightarrow> string \<Rightarrow> string \<Rightarrow> ('l cache \<times> 'w, 'l) op" where
  "getLedgerClient L org channelID signer = cached signer channelID (ledgerClientCreator L channelID org signer)"

definition ledger_SignerUpdated :: "string \<Rightarrow> 'l cache \<Rightarrow> 'l cache" where
  "ledger_SignerUpdated signer ledgerClients = drop_signer signer ledgerClients"

text \<open>The queries get the client first; the decoder of the result may panic.\<close>

definition with_ledger ::
  "('w, 'l, 'i) ledger_sdk \<Rightarrow> string \<Rightarrow> string \<Rightarrow> string \<Rightarrow> ('l \<Rightarrow> ('w, 'b) op) \<Rightarrow> ('b \<Rightarrow> 'r res run) \<Rightarrow>
   'l cache \<times> 'w \<Rightarrow> 'r res run \<times> 'l cache \<times> 'w" where
  "with_ledger L org channelID signer query decode x = (case getLedgerClient L org channelID signer x of
     (Inl err, y) \<Rightarrow> (Ret (Inl (''Failed to get channel client. '' @ err)), y)
   | (Inr client, (m, w)) \<Rightarrow> (case query client w of
       (Inl err, w') \<Rightarrow> (Ret (Inl err), (m, w'))
     | (Inr result, w') \<Rightarrow> (decode result, (m, w'))))"

definition queryChainInfo where
  "queryChainInfo L org channelID signer = with_ledger L org channelID signer (lc_QueryInfo L) (\<lambda>i. Ret (Inr i))"

definition queryBlock where
  "queryBlock P L org channelID signer blockNumber blockhash = with_ledger L org channelID signer
     (\<lambda>client. case blockhash of None \<Rightarrow> lc_QueryBlock L client blockNumber | Some h \<Rightarrow> lc_QueryBlockByHash L client h) (DecodeBlock P)"

definition queryBlockByTxID where
  "queryBlockByTxID P L org channelID signer txID =
     with_ledger L org channelID signer (\<lambda>client. lc_QueryBlockByTxID L client txID) (DecodeBlock P)"

definition queryTransaction where
  "queryTransaction P L org channelID signer txID =
     with_ledger L org channelID signer (\<lambda>client. lc_QueryTransaction L client txID) (DecodeBlockDataEnvelope P)"

interpretation ledger: signer_cache inner "\<lambda>ch. ch" "\<lambda>s ch. ledgerClientCreator L ch org s" "\<lambda>s ch. getLedgerClient L org ch s" ledger_SignerUpdated
  for L :: "('w, 'l, 'i) ledger_sdk" and org
  using cached_signer_cache [of "\<lambda>ch. ch" "\<lambda>s ch. ledgerClientCreator L ch org s"]
  by (simp add: getLedgerClient_def ledger_SignerUpdated_def [abs_def])

subsection \<open>The event client\<close>

record ('w, 'e, 'r) event_sdk =
  eventClientCreator :: "string \<Rightarrow> string \<Rightarrow> string \<Rightarrow> uint64 \<Rightarrow> string \<Rightarrow> ('w, 'e) op"
  RegisterChaincodeEvent :: "'e \<Rightarrow> string \<Rightarrow> string \<Rightarrow> ('w, 'r) op"
  RegisterBlockEvent :: "'e \<Rightarrow> nat list option \<Rightarrow> ('w, 'r) op"

definition GetKeyForEventClient :: "string \<Rightarrow> string \<Rightarrow> string" where
  "GetKeyForEventClient channelID chaincodeID = channelID @ ''-'' @ chaincodeID"

definition getEventClient ::
  "('w, 'e, 'r) event_sdk \<Rightarrow> string \<Rightarrow> string \<Rightarrow> string \<Rightarrow> uint64 \<Rightarrow> string \<Rightarrow> ('e cache \<times> 'w, 'e) op" where
  "getEventClient V org channelID signer since chaincodeID =
     cached signer (GetKeyForEventClient channelID chaincodeID) (eventClientCreator V channelID org signer since chaincodeID)"

definition event_SignerUpdated :: "string \<Rightarrow> 'e cache \<Rightarrow> 'e cache" where
  "event_SignerUpdated signer eventClients = drop_signer signer eventClients"

text \<open>The header types of the block filter; none at all is a nil filter.\<close>

definition block_filter :: "string \<Rightarrow> nat list option" where
  "block_filter blockType = (if blockType = ''tx'' then Some [3] else if blockType = ''config'' then Some [1, 2] else None)"

record ('e, 'r) RegistrationWrapper =
  rw_registration :: 'r
  rw_eventClient :: 'e

datatype notifier = BlockNotifier | ChaincodeNotifier

definition subscribeEvent ::
  "('w, 'e, 'r) event_sdk \<Rightarrow> string \<Rightarrow> SubscriptionInfo \<Rightarrow> uint64 \<Rightarrow>
   ('e cache \<times> 'w, ('e, 'r) RegistrationWrapper \<times> notifier) op" where
  "subscribeEvent V org subInfo since =
     chk (getEventClient V org (ChannelID subInfo) (Signer subInfo) since (FilterChaincodeID (Filter subInfo)))
       (\<lambda>err. ''Failed to get event client. '' @ err) (\<lambda>client (m, w).
     if FilterChaincodeID (Filter subInfo) \<noteq> [] then
       (case RegisterChaincodeEvent V client (FilterChaincodeID (Filter subInfo)) (EventFilter (Filter subInfo)) w of
          (Inl err, w') \<Rightarrow> (Inl (''Failed to subscribe to chaincode '' @ FilterChaincodeID (Filter subInfo) @ '' events. '' @ err), (m, w'))
        | (Inr reg, w') \<Rightarrow> (Inr (\<lparr>rw_registration = reg, rw_eventClient = client\<rparr>, ChaincodeNotifier), (m, w')))
     else
       (case RegisterBlockEvent V client (block_filter (BlockType (Filter subInfo))) w of
          (Inl err, w') \<Rightarrow> (Inl (''Failed to subscribe to block events. '' @ err), (m, w'))
        | (Inr reg, w') \<Rightarrow> (Inr (\<lparr>rw_registration = reg, rw_eventClient = client\<rparr>, BlockNotifier), (m, w'))))"

text \<open>A request for an event client: the channel, the first block and the chaincode.\<close>

type_synonym event_request = "string \<times> uint64 \<times> string"

definition event_key_of :: "event_request \<Rightarrow> string" where
  "event_key_of a = GetKeyForEventClient (fst a) (snd (snd a))"

definition event_create :: "('w, 'e, 'r) event_sdk \<Rightarrow> string \<Rightarrow> string \<Rightarrow> event_request \<Rightarrow> ('w, 'e) op" where
  "event_create V org s a = eventClientCreator V (fst a) org s (fst (snd a)) (snd (snd a))"

definition event_get :: "('w, 'e, 'r) event_sdk \<Rightarrow> string \<Rightarrow> string \<Rightarrow> event_request \<Rightarrow> ('e cache \<times> 'w, 'e) op" where
  "event_get V org s a = getEventClient V org (fst a) s (fst (snd a)) (snd (snd a))"

lemma event_get_cached: "event_get V org s a = cached s (event_key_of a) (event_create V org s a)"
  by (simp add: event_get_def getEventClient_def event_key_of_def event_create_def)

interpretation events: signer_cache inner event_key_of "event_create V org" "event_get V org" event_SignerUpdated
  for V :: "('w, 'e, 'r) event_sdk" and org
  using cached_signer_cache [of event_key_of "event_create V org"]
  by (simp add: event_get_cached [abs_def] event_SignerUpdated_def [abs_def])

subsection \<open>Properties\<close>


text \<open>Event clients are shared by channel and chaincode alone: as long as the signer is not updated, a second subscription whose channel and
  chaincode give the same key gets the client of the first.  No client is made for it, whatever its first block is, and also when it is
  the channel that differs.\<close>

theorem event_client_is_shared:
  assumes "getEventClient V org ch signer since cc (m, w) = (Inr client, (m', w'))"
    and "GetKeyForEventClient ch2 cc2 = GetKeyForEventClient ch cc"
  shows "\<exists>m2. getEventClient V org ch2 signer since2 cc2 (m', v) = (Inr client, (m2, v))"
proof -
  let ?k = "GetKeyForEventClient ch cc"
  have "inner m' signer ?k = Some client"
  proof (cases "inner m signer ?k")
    case None
    with assms(1) cached_miss [OF None] show ?thesis unfolding getEventClient_def by fastforce
  next
    case (Some c)
    with assms(1) cached_hit [OF Some, of "eventClientCreator V ch org signer since cc" w] show ?thesis
      by (auto simp: getEventClient_def)
  qed
  then show ?thesis using cached_hit assms(2) unfolding getEventClient_def by metis
qed

text \<open>A subscription without a chaincode ignores its event filter, and the kind of its notifications depends on the chaincode alone.\<close>

theorem event_filter_needs_a_chaincode:
  assumes "FilterChaincodeID (Filter i) = []"
  shows "subscribeEvent V org (i\<lparr>Filter := (Filter i)\<lparr>EventFilter := e\<rparr>\<rparr>) since = subscribeEvent V org i since"
  using assms by (simp add: subscribeEvent_def)

text \<open>The SDK for the examples numbers the clients that it makes and notes what they were made for.\<close>

definition counting_ledger :: "(nat, nat \<times> string \<times> string, nat) ledger_sdk" where
  "counting_ledger = \<lparr>ledgerClientCreator = (\<lambda>ch org s n. (Inr (n, ch, s), n + 1)), lc_QueryInfo = (\<lambda>_ n. (Inr n, n)),
     lc_QueryBlock = (\<lambda>_ _ n. (Inl ''no block'', n)), lc_QueryBlockByHash = (\<lambda>_ _ n. (Inl ''no block'', n)),
     lc_QueryBlockByTxID = (\<lambda>_ _ n. (Inl ''no block'', n)), lc_QueryTransaction = (\<lambda>_ _ n. (Inl ''no transaction'', n))\<rparr>"

definition counting_events :: "(nat, nat \<times> string \<times> uint64, nat) event_sdk" where
  "counting_events = \<lparr>eventClientCreator = (\<lambda>ch org s since cc n. (Inr (n, ch, since), n + 1)),
     RegisterChaincodeEvent = (\<lambda>_ _ _ n. (Inr n, n + 1)), RegisterBlockEvent = (\<lambda>_ _ n. (Inr n, n + 1))\<rparr>"


theorem event_client_is_shared_witness:
  "\<exists>m. getEventClient counting_events ''Org1'' ''a'' ''bob'' 500 ''b-c''
        (Map.empty(''bob'' \<mapsto> Map.empty(''a-b-c'' \<mapsto> (0, ''a-b'', 1))), 1) = (Inr (0, ''a-b'', 1), (m, 1))"
proof -
  have "getEventClient counting_events ''Org1'' ''a-b'' ''bob'' 1 ''c'' (Map.empty, 0) =
      (Inr (0, ''a-b'', 1), (Map.empty(''bob'' \<mapsto> Map.empty(''a-b-c'' \<mapsto> (0, ''a-b'', 1))), 1))"
    by (simp add: getEventClient_def cached_def counting_events_def inner_def Let_def GetKeyForEventClient_def)
  then show ?thesis by (rule event_client_is_shared) (simp add: GetKeyForEventClient_def)
qed

end
