(* ===== verification/Fabric_Rpc.thy ===== *)
theory Fabric_Rpc
  imports Client_Cache Tx_Processor
begin

text \<open>
  The RPC client of the gateway in its two modes: \<^verbatim>\<open>client_common.go\<close>, \<^verbatim>\<open>client_ccp.go\<close> (a static connection profile),
  \<^verbatim>\<open>client_gateway_clientside.go\<close> (the gateway of the SDK), \<^verbatim>\<open>invokehandler.go\<close> and \<^verbatim>\<open>rpc.go\<close> of
  \<^verbatim>\<open>internal/fabric/client\<close>.

  The Fabric SDK is a set of operations on its state \<open>'w\<close>.  An error that the SDK builds from a code and a message is represented by the message.
\<close>

subsection \<open>Common parts\<close>

datatype cfg_value = CString string | CList "cfg_value list" | COther

text \<open>A configuration is what the provider returns: backends with a lookup each.\<close>

type_synonym config = "(string \<Rightarrow> cfg_value option) list res"

definition as_cstring :: "cfg_value \<Rightarrow> string run" where
  "as_cstring v = (case v of CString s \<Rightarrow> Ret s | _ \<Rightarrow> Panic ''interface conversion: interface {} is not string'')"

definition getOrgFromConfig :: "config \<Rightarrow> string res run" where
  "getOrgFromConfig config = (case config of
     Inl err \<Rightarrow> Ret (Inl err)
   | Inr configBackend \<Rightarrow>
       if length configBackend \<noteq> 1 then Ret (Inl ''Invalid config file'')
       else (case hd configBackend ''client.organization'' of
         None \<Rightarrow> Ret (Inl ''No client organization defined in the config'')
       | Some value \<Rightarrow> bind_run (as_cstring value) (\<lambda>s. Ret (Inr s))))"

definition getFirstPeerEndpointFromConfig :: "config \<Rightarrow> string res run" where
  "getFirstPeerEndpointFromConfig config =
     chk_run (getOrgFromConfig config) id (\<lambda>org.
     case (case config of Inl _ \<Rightarrow> None | Inr cs \<Rightarrow> hd cs (''organizations.'' @ org @ ''.peers'')) of
       None \<Rightarrow> Ret (Inl (''No peers list found in the organization '' @ org))
     | Some (CList []) \<Rightarrow> Ret (Inl (''Peers list for organization '' @ org @ '' is empty''))
     | Some (CList (p # _)) \<Rightarrow> bind_run (as_cstring p) (\<lambda>s. Ret (Inr s))
     | Some _ \<Rightarrow> Panic ''interface conversion: interface {} is not []interface {}'')"

record TxStatusEvent =
  te_TxID :: string
  te_TxValidationCode :: int
  te_BlockNumber :: uint64
  te_SourceURL :: string

definition no_status :: TxStatusEvent where
  "no_status = \<lparr>te_TxID = [], te_TxValidationCode = 0, te_BlockNumber = 0, te_SourceURL = []\<rparr>"

record IdentityIdentifier =
  id_MSPID :: string
  id_ID :: string

definition newReceipt :: "TxStatusEvent option \<Rightarrow> IdentityIdentifier \<Rightarrow> TxReceipt run" where
  "newReceipt status signerID = bind_run (deref status) (\<lambda>st.
     Ret \<lparr>rc_BlockNumber = te_BlockNumber st, rc_SignerMSP = id_MSPID signerID, rc_Signer = id_ID signerID,
          rc_ChaincodeSpec = \<lparr>cs_Type = 0, cs_Name = [], cs_Version = []\<rparr>, TransactionID = te_TxID st,
          rc_Status = te_TxValidationCode st, SourcePeer = te_SourceURL st, ResponsePayload = []\<rparr>)"

definition convertStringMap :: "(string \<times> string) list option \<Rightarrow> (string \<times> bytes) list" where
  "convertStringMap m = (case m of None \<Rightarrow> [] | Some kvs \<Rightarrow> kvs)"

definition convertStringArray :: "string list \<Rightarrow> bytes list" where
  "convertStringArray args = map (\<lambda>v. v) args"

text \<open>The store of the user credentials: \<open>identityConfig\<close> holds the path of the store and the organisation.\<close>

definition newUserstore ::
  "(string \<times> string) res \<Rightarrow> (string \<Rightarrow> 'v res) \<Rightarrow> ('v \<Rightarrow> 's res) \<Rightarrow> 's res" where
  "newUserstore identityConfig keyvaluestore_New NewCertFileUserStore1 = (case identityConfig of
     Inl err \<Rightarrow> Inl (''Failed to load identity configurations: '' @ err)
   | Inr (path, org) \<Rightarrow>
       if path = [] then Inl ''User credentials store path is empty''
       else (case keyvaluestore_New path of
         Inl err \<Rightarrow> Inl (''Key-value store creation failed. '' @ path)
       | Inr v \<Rightarrow> (case NewCertFileUserStore1 v of
           Inl err \<Rightarrow> Inl (''User credentials store creation failed. '' @ err)
         | Inr userStore \<Rightarrow> Inr userStore)))"

text \<open>The queries and subscriptions that both modes share hand the request on to the ledger client and the event client.\<close>

definition common_QueryChainInfo where
  "common_QueryChainInfo L org channelID signer x = (case queryChainInfo L org channelID signer x of
     (Ret (Inl err), y) \<Rightarrow> (Ret (Inl err), y) | (r, y) \<Rightarrow> (r, y))"

definition common_QueryBlock where
  "common_QueryBlock P L org channelID signer blockNumber blockhash x = (case queryBlock P L org channelID signer blockNumber blockhash x of
     (Ret (Inl err), y) \<Rightarrow> (Ret (Inl err), y) | (r, y) \<Rightarrow> (r, y))"

definition common_QueryBlockByTxID where
  "common_QueryBlockByTxID P L org channelID signer txID x = (case queryBlockByTxID P L org channelID signer txID x of
     (Ret (Inl err), y) \<Rightarrow> (Ret (Inl err), y) | (r, y) \<Rightarrow> (r, y))"

definition common_QueryTransaction where
  "common_QueryTransaction P L org channelID signer txID x = (case queryTransaction P L org channelID signer txID x of
     (Ret (Inl err), y) \<Rightarrow> (Ret (Inl err), y) | (r, y) \<Rightarrow> (r, y))"

definition common_SubscribeEvent where
  "common_SubscribeEvent V org subInfo since x = (case subscribeEvent V org subInfo since x of
     (Inl err, y) \<Rightarrow> (Inl err, y) | (Inr reg, y) \<Rightarrow> (Inr reg, y))"

definition common_Unregister :: "('e \<Rightarrow> 'r \<Rightarrow> 'w \<Rightarrow> 'w) \<Rightarrow> ('e, 'r) RegistrationWrapper \<Rightarrow> 'w \<Rightarrow> 'w" where
  "common_Unregister client_Unregister regWrapper = client_Unregister (rw_eventClient regWrapper) (rw_registration regWrapper)"

text \<open>The signing identities, with the error that the callers single out.\<close>

datatype id_error = ErrUserNotFound | OtherIdError error

type_synonym 'w identities = "string \<Rightarrow> 'w \<Rightarrow> (id_error + IdentityIdentifier) \<times> 'w"

definition id_error_text :: "id_error \<Rightarrow> error" where
  "id_error_text e = (case e of ErrUserNotFound \<Rightarrow> ''user not found'' | OtherIdError err \<Rightarrow> err)"

subsection \<open>Sending and waiting for the commit\<close>

datatype notice = Committed "TxStatusEvent option" | TimedOut

record ('w, 'p, 'g, 't) tx_service =
  RegisterTxStatusEvent :: "string \<Rightarrow> ('w, 'g) op"
  UnregisterTx :: "'g \<Rightarrow> 'w \<Rightarrow> 'w"
  CreateTransaction :: "'p \<Rightarrow> ('w, 't) op"
  SendTransactionOp :: "'t \<Rightarrow> ('w, unit) op"
  await_status :: "'g \<Rightarrow> 'w \<Rightarrow> notice \<times> 'w"

record 'p RequestContext =
  rq_TransactionID :: string
  rq_Proposal :: 'p
  rq_Error :: "error option"
  rq_TxValidationCode :: int

definition createAndSendTransaction :: "('w, 'p, 'g, 't) tx_service \<Rightarrow> 'p \<Rightarrow> ('w, unit) op" where
  "createAndSendTransaction S proposal =
     chk (CreateTransaction S proposal) (\<lambda>err. ''Create Transaction failed: '' @ err) (\<lambda>tx.
     chk (SendTransactionOp S tx) (\<lambda>err. ''Send Transaction failed: '' @ err) ok)"

text \<open>
  \<^verbatim>\<open>TxSubmitAndListenHandler.Handle\<close>: the result is the request context, and the status event that the
  handler was made with is updated in place.  The registration is removed on every path after it was made.
\<close>

definition Handle ::
  "('w, 'p, 'g, 't) tx_service \<Rightarrow> 'p RequestContext \<Rightarrow> 'w \<times> TxStatusEvent \<Rightarrow> 'p RequestContext \<times> 'w \<times> TxStatusEvent" where
  "Handle S rc = (\<lambda>(w, ev).
     case RegisterTxStatusEvent S (rq_TransactionID rc) w of
       (Inl err, w1) \<Rightarrow>
         (rc\<lparr>rq_Error := Some (''Error registering for TxStatus event for transaction '' @ rq_TransactionID rc @ ''. '' @ err)\<rparr>, w1, ev)
     | (Inr reg, w1) \<Rightarrow> (case createAndSendTransaction S (rq_Proposal rc) w1 of
         (Inl err, w2) \<Rightarrow> (rc\<lparr>rq_Error := Some (''CreateAndSendTransaction failed. '' @ err)\<rparr>, UnregisterTx S reg w2, ev)
       | (Inr _, w2) \<Rightarrow> (case await_status S reg w2 of
           (TimedOut, w3) \<Rightarrow> (rc\<lparr>rq_Error := Some ''Execute didn't receive block event''\<rparr>, UnregisterTx S reg w3, ev)
         | (Committed None, w3) \<Rightarrow> (rc\<lparr>rq_Error := Some ''channel closed due to unregister''\<rparr>, UnregisterTx S reg w3, ev)
         | (Committed (Some st), w3) \<Rightarrow>
             (let rc1 = rc\<lparr>rq_TxValidationCode := te_TxValidationCode st\<rparr>;
                  ev1 = ev\<lparr>te_TxID := te_TxID st, te_TxValidationCode := te_TxValidationCode st,
                           te_BlockNumber := te_BlockNumber st, te_SourceURL := te_SourceURL st\<rparr>
              in (if te_TxValidationCode st \<noteq> 0 then rc1\<lparr>rq_Error := Some ''received invalid transaction''\<rparr> else rc1,
                  UnregisterTx S reg w3, ev1)))))"

subsection \<open>The static connection profile\<close>

record request =
  req_ChaincodeID :: string
  req_Fcn :: string
  req_Args :: "bytes list"
  req_TransientMap :: "(string \<times> bytes) list"
  req_IsInit :: bool

text \<open>\<open>InvokeHandler\<close> runs the chain of handlers of the SDK that ends in the given one.\<close>

record ('w, 'c, 'p) channel_sdk =
  channelCreator :: "string \<Rightarrow> string \<Rightarrow> string \<Rightarrow> ('w, 'c) op"
  cc_Query :: "'c \<Rightarrow> request \<Rightarrow> string option \<Rightarrow> ('w, bytes) op"
  InvokeHandler :: "'c \<Rightarrow> ('p RequestContext \<Rightarrow> 'w \<times> TxStatusEvent \<Rightarrow> 'p RequestContext \<times> 'w \<times> TxStatusEvent) \<Rightarrow> request \<Rightarrow>
    ('w \<times> TxStatusEvent, bytes) op"

record 'c ccpClientWrapper =
  channelClient :: 'c
  ccp_signer :: IdentityIdentifier

definition ccp_create :: "('w, 'c, 'p) channel_sdk \<Rightarrow> string \<Rightarrow> string \<Rightarrow> IdentityIdentifier \<Rightarrow> ('w, 'c ccpClientWrapper) op" where
  "ccp_create S org channelID i = chk (channelCreator S channelID org (id_ID i)) id (\<lambda>c. ok \<lparr>channelClient = c, ccp_signer = i\<rparr>)"

text \<open>Here the outer map is for the channels and the inner one for the identities.\<close>

definition ccp_getChannelClient ::
  "('w, 'c, 'p) channel_sdk \<Rightarrow> 'w identities \<Rightarrow> string \<Rightarrow> string \<Rightarrow> string \<Rightarrow>
   ('c ccpClientWrapper cache \<times> 'w, 'c ccpClientWrapper) op" where
  "ccp_getChannelClient S idm org channelID signer = (\<lambda>(m, w). case idm signer w of
     (Inl ErrUserNotFound, w') \<Rightarrow> (Inl (''Signer '' @ signer @ '' does not exist''), (m, w'))
   | (Inl (OtherIdError err), w') \<Rightarrow> (Inl (''Failed to retrieve signing identity: '' @ err), (m, w'))
   | (Inr i, w') \<Rightarrow> cached channelID (id_ID i) (ccp_create S org channelID i) (m, w'))"

definition ccp_SignerUpdated :: "string \<Rightarrow> 'c cache \<Rightarrow> 'c cache" where
  "ccp_SignerUpdated signer channelClients = (\<lambda>ch. map_option (\<lambda>cs. cs(signer := None)) (channelClients ch))"

definition ccp_sendTransaction where
  "ccp_sendTransaction S svc idm org channelID signer chaincodeName method args transientMap isInit =
     chk (ccp_getChannelClient S idm org channelID signer) (\<lambda>err. ''Failed to get channel client. '' @ err) (\<lambda>client (m, w).
     case InvokeHandler S (channelClient client) (Handle svc)
            \<lparr>req_ChaincodeID = chaincodeName, req_Fcn = method, req_Args = convertStringArray args, req_TransientMap = convertStringMap transientMap,
             req_IsInit = isInit\<rparr> (w, no_status) of
       (Inl err, (w', _)) \<Rightarrow> (Inl err, (m, w'))
     | (Inr payload, (w', txStatus)) \<Rightarrow> (Inr (ccp_signer client, txStatus), (m, w')))"

text \<open>The answer to the caller, which a nil status ends with a panic.\<close>

definition receipt_of_status :: "(IdentityIdentifier \<times> TxStatusEvent option) res \<times> 's \<Rightarrow> TxReceipt res run \<times> 's" where
  "receipt_of_status x = (case x of
     (Inl err, s) \<Rightarrow> (Ret (Inl err), s)
   | (Inr (signerID, st), s) \<Rightarrow> (bind_run (newReceipt st signerID) (\<lambda>r. Ret (Inr r)), s))"

definition ccp_Invoke where
  "ccp_Invoke S svc idm org channelID signer chaincodeName method args transientMap isInit x =
     receipt_of_status (chk (ccp_sendTransaction S svc idm org channelID signer chaincodeName method args transientMap isInit) id
       (\<lambda>(i, st). ok (i, Some st)) x)"

definition ccp_Query where
  "ccp_Query S idm org config channelID signer chaincodeName method args strongread x =
     (case ccp_getChannelClient S idm org channelID signer x of
        (Inl err, y) \<Rightarrow> (Ret (Inl (''Failed to get channel client. '' @ err)), y)
      | (Inr client, (m, w)) \<Rightarrow>
          (let req = \<lparr>req_ChaincodeID = chaincodeName, req_Fcn = method, req_Args = convertStringArray args, req_TransientMap = [], req_IsInit = False\<rparr>;
               query = (\<lambda>ep. let (r, w') = cc_Query S (channelClient client) req ep w in (Ret r, (m, w')))
           in if strongread then query None
              else (case getFirstPeerEndpointFromConfig config of
                Ret (Inr ep) \<Rightarrow> query (Some ep) | Ret (Inl err) \<Rightarrow> (Ret (Inl err), (m, w)) | Panic p \<Rightarrow> (Panic p, (m, w))
              | OutOfFuel \<Rightarrow> (OutOfFuel, (m, w)))))"

definition newRPCClientFromCCP :: "(string \<times> string) res \<Rightarrow> 'c cache res" where
  "newRPCClientFromCCP identityConfig = (case identityConfig of
     Inl err \<Rightarrow> Inl (''Failed to load identity configurations: '' @ err)
   | Inr (path, org) \<Rightarrow> if path = [] then Inl ''User credentials store path is empty'' else Inr Map.empty)"

subsection \<open>The gateway of the SDK\<close>

text \<open>
  A gateway \<open>'g\<close> is connected for a signer, a network \<open>'n\<close> is a channel of it, \<open>'t\<close> a prepared transaction.  \<open>notified\<close> is what comes
  first on the notifier of a transaction or its time limit.
\<close>

record ('w, 'g, 'n, 't) gateway_sdk =
  gatewayCreator :: "string \<Rightarrow> ('w, 'g) op"
  networkCreator :: "'g option \<Rightarrow> string \<Rightarrow> ('w, 'n) op"
  gw_CreateTransaction :: "'n \<Rightarrow> string \<Rightarrow> string \<Rightarrow> bool \<Rightarrow> (string \<times> bytes) list option \<Rightarrow> ('w, 't) op"
  Submit :: "'t \<Rightarrow> string list \<Rightarrow> ('w, bytes) op"
  EvaluateTransaction :: "'n \<Rightarrow> string \<Rightarrow> string \<Rightarrow> string list \<Rightarrow> ('w, bytes) op"
  commit_notice :: "'t \<Rightarrow> 'w \<Rightarrow> notice \<times> 'w"

record ('g, 'n, 'c) gwRPCWrapper =
  gwClients :: "string \<rightharpoonup> 'g"
  gwGatewayClients :: "'n cache"
  gwChannelClients :: "'c cache"

definition newRPCClientWithClientSideGateway :: "('g, 'n, 'c) gwRPCWrapper" where
  "newRPCClientWithClientSideGateway = \<lparr>gwClients = Map.empty, gwGatewayClients = Map.empty, gwChannelClients = Map.empty\<rparr>"

definition gw_SignerUpdated :: "string \<Rightarrow> ('g, 'n, 'c) gwRPCWrapper \<Rightarrow> ('g, 'n, 'c) gwRPCWrapper" where
  "gw_SignerUpdated signer g = g\<lparr>gwClients := (gwClients g)(signer := None), gwGatewayClients := (gwGatewayClients g)(signer := None),
     gwChannelClients := (gwChannelClients g)(signer := None)\<rparr>"

definition connect_gateway :: "('w, 'g, 'n, 't) gateway_sdk \<Rightarrow> string \<Rightarrow> (('g, 'n, 'c) gwRPCWrapper \<times> 'w, unit) op" where
  "connect_gateway G signer = (\<lambda>(g, w). if gwGatewayClients g signer = None then
       (case gatewayCreator G signer w of
          (Inl err, w') \<Rightarrow> (Inl err, (g, w'))
        | (Inr c, w') \<Rightarrow> (Inr (), (g\<lparr>gwClients := (gwClients g)(signer \<mapsto> c), gwGatewayClients := (gwGatewayClients g)(signer \<mapsto> Map.empty)\<rparr>, w')))
     else (Inr (), (g, w)))"

definition getGatewayClient :: "('w, 'g, 'n, 't) gateway_sdk \<Rightarrow> string \<Rightarrow> string \<Rightarrow> (('g, 'n, 'c) gwRPCWrapper \<times> 'w, 'n) op" where
  "getGatewayClient G channelID signer = chk (connect_gateway G signer) id (\<lambda>_ (g, w).
     case inner (gwGatewayClients g) signer channelID of
       Some n \<Rightarrow> (Inr n, (g, w))
     | None \<Rightarrow> (case networkCreator G (gwClients g signer) channelID w of
         (Inl err, w') \<Rightarrow> (Inl err, (g, w'))
       | (Inr n, w') \<Rightarrow> (Inr n, (g\<lparr>gwGatewayClients := (gwGatewayClients g)(signer \<mapsto> (inner (gwGatewayClients g) signer)(channelID \<mapsto> n))\<rparr>, w'))))"

text \<open>The channel client for queries; a configuration without a proper organisation is an error, one of another type a panic.\<close>

definition gw_create_channel where
  "gw_create_channel S org channelID signer =
     chk (channelCreator S channelID org signer) (\<lambda>err. ''Failed to create new channel client: '' @ err) ok"

definition gw_getChannelClient ::
  "('w, 'c, 'p) channel_sdk \<Rightarrow> config \<Rightarrow> string \<Rightarrow> string \<Rightarrow> ('g, 'n, 'c) gwRPCWrapper \<times> 'w \<Rightarrow> 'c res run \<times> ('g, 'n, 'c) gwRPCWrapper \<times> 'w" where
  "gw_getChannelClient S config channelID signer = (\<lambda>(g, w).
     let g1 = g\<lparr>gwChannelClients := (gwChannelClients g)(signer \<mapsto> inner (gwChannelClients g) signer)\<rparr> in
     case inner (gwChannelClients g) signer channelID of
       Some c \<Rightarrow> (Ret (Inr c), (g1, w))
     | None \<Rightarrow> (case getOrgFromConfig config of
         Ret (Inr org) \<Rightarrow> (case gw_create_channel S org channelID signer w of
             (Inl err, w') \<Rightarrow> (Ret (Inl err), (g1, w'))
           | (Inr c, w') \<Rightarrow> (Ret (Inr c), (g1\<lparr>gwChannelClients := (gwChannelClients g1)(signer \<mapsto> (inner (gwChannelClients g) signer)(channelID \<mapsto> c))\<rparr>, w')))
       | Ret (Inl err) \<Rightarrow> (Ret (Inl err), (g1, w)) | Panic p \<Rightarrow> (Panic p, (g1, w)) | OutOfFuel \<Rightarrow> (OutOfFuel, (g1, w))))"

text \<open>
  The parameters of \<^verbatim>\<open>prepareTx\<close> and \<^verbatim>\<open>sendTransaction\<close> are in the order of the source: both take the signer before the channel, \<^verbatim>\<open>getGatewayClient\<close> the channel
  before the signer, and the callers pass their arguments by position.
\<close>

definition prepareTx ::
  "('w, 'g, 'n, 't) gateway_sdk \<Rightarrow> string \<Rightarrow> string \<Rightarrow> string \<Rightarrow> string \<Rightarrow> bool \<Rightarrow> (string \<times> bytes) list \<Rightarrow>
   (('g, 'n, 'c) gwRPCWrapper \<times> 'w, 't) op" where
  "prepareTx G signer channelID chaincodeName method isInit transientMap =
     chk (getGatewayClient G signer channelID) id (\<lambda>network (g, w).
     let (r, w') = gw_CreateTransaction G network chaincodeName method isInit (if transientMap = [] then None else Some transientMap) w
     in (r, (g, w')))"

definition gw_sendTransaction ::
  "('w, 'g, 'n, 't) gateway_sdk \<Rightarrow> string \<Rightarrow> string \<Rightarrow> string \<Rightarrow> string \<Rightarrow> string list \<Rightarrow> (string \<times> string) list option \<Rightarrow> bool \<Rightarrow>
   (('g, 'n, 'c) gwRPCWrapper \<times> 'w, TxStatusEvent option) op" where
  "gw_sendTransaction G signer channelID chaincodeName method args transientMap isInit =
     chk (prepareTx G signer channelID chaincodeName method isInit (convertStringMap transientMap)) id (\<lambda>tx (g, w).
     case Submit G tx args w of
       (Inl err, w1) \<Rightarrow> (Inl err, (g, w1))
     | (Inr result, w1) \<Rightarrow> (case commit_notice G tx w1 of
         (Committed st, w2) \<Rightarrow> (Inr st, (g, w2))
       | (TimedOut, w2) \<Rightarrow> (Inl (''Failed to get status event for transaction (channel='' @ channelID @ '', chaincode='' @ chaincodeName
           @ '', func='' @ method @ '')''), (g, w2))))"

definition gw_Invoke where
  "gw_Invoke G idm channelID signer chaincodeName method args transientMap isInit x =
     receipt_of_status (chk (gw_sendTransaction G channelID signer chaincodeName method args transientMap isInit) id (\<lambda>txStatus (g, w).
       case idm signer w of
         (Inl e, w') \<Rightarrow> (Inl (id_error_text e), (g, w'))
       | (Inr i, w') \<Rightarrow> (Inr (i, txStatus), (g, w'))) x)"

definition gw_Query where
  "gw_Query G S config channelID signer chaincodeName method args strongread x =
     (case gw_getChannelClient S config channelID signer x of
        (Ret (Inr client), y) \<Rightarrow>
          (if strongread then
             (case getGatewayClient G channelID signer y of
                (Inl err, z) \<Rightarrow> (Ret (Inl (''Failed to get gateway client. '' @ err)), z)
              | (Inr network, (g, w)) \<Rightarrow> (let (r, w') = EvaluateTransaction G network chaincodeName method args w in (Ret r, (g, w'))))
           else (case getFirstPeerEndpointFromConfig config of
                Ret (Inr ep) \<Rightarrow> (let (r, w') = cc_Query S client
                    \<lparr>req_ChaincodeID = chaincodeName, req_Fcn = method, req_Args = convertStringArray args, req_TransientMap = [], req_IsInit = False\<rparr> (Some ep) (snd y)
                  in (Ret r, (fst y, w')))
              | Ret (Inl err) \<Rightarrow> (Ret (Inl err), y) | Panic p \<Rightarrow> (Panic p, y) | OutOfFuel \<Rightarrow> (OutOfFuel, y)))
      | (Ret (Inl err), y) \<Rightarrow> (Ret (Inl (''Failed to get channel client. '' @ err)), y)
      | (Panic p, y) \<Rightarrow> (Panic p, y) | (OutOfFuel, y) \<Rightarrow> (OutOfFuel, y))"

subsection \<open>The choice of the client\<close>

record RPCConf =
  UseGatewayClient :: bool
  UseGatewayServer :: bool
  ConfigPath :: string

datatype ('u, 'g) rpc_client = CcpClient 'u | GatewayClient 'g

text \<open>The constructors are arguments; a client that was never assigned is nil.\<close>

definition RPCConnect ::
  "'s res \<Rightarrow> ('s \<Rightarrow> 'i res) \<Rightarrow> 'k res \<Rightarrow> ('s \<Rightarrow> 'i \<Rightarrow> 'k \<Rightarrow> 'u res) \<Rightarrow> ('i \<Rightarrow> 'k \<Rightarrow> 'g res) \<Rightarrow> RPCConf \<Rightarrow>
   (('u, 'g) rpc_client option \<times> 'i) res" where
  "RPCConnect userStore newIdentityClient sdk newCcp newGateway c = (case userStore of
     Inl err \<Rightarrow> Inl (''User credentials store creation failed. '' @ err)
   | Inr store \<Rightarrow> (case newIdentityClient store of
       Inl err \<Rightarrow> Inl err
     | Inr identityClient \<Rightarrow> (case sdk of
         Inl err \<Rightarrow> Inl (''Failed to initialize a new SDK instance. '' @ err)
       | Inr k \<Rightarrow>
           if \<not> UseGatewayClient c \<and> \<not> UseGatewayServer c then
             (case newCcp store identityClient k of Inl err \<Rightarrow> Inl err | Inr u \<Rightarrow> Inr (Some (CcpClient u), identityClient))
           else if UseGatewayClient c then
             (case newGateway identityClient k of Inl err \<Rightarrow> Inl err | Inr g \<Rightarrow> Inr (Some (GatewayClient g), identityClient))
           else Inr (None, identityClient))))"

subsection \<open>The cache of the static profile\<close>

text \<open>What the wrapper relies on: a signing identity carries the name it was asked for.\<close>

locale named_identities =
  fixes idm :: "'w identities"
  assumes named: "idm name w = (Inr i, w') \<Longrightarrow> id_ID i = name"

definition ccp_lookup :: "'c cache \<Rightarrow> string \<Rightarrow> string \<Rightarrow> 'c option" where
  "ccp_lookup m signer channelID = inner m channelID signer"

definition ccp_make :: "('w, 'c, 'p) channel_sdk \<Rightarrow> 'w identities \<Rightarrow> string \<Rightarrow> string \<Rightarrow> string \<Rightarrow> ('w, 'c ccpClientWrapper) op" where
  "ccp_make S idm org signer channelID = (\<lambda>w. case idm signer w of
     (Inl e, w') \<Rightarrow> (Inl (id_error_text e), w') | (Inr i, w') \<Rightarrow> ccp_create S org channelID i w')"

lemma ccp_get_cases:
  assumes "ccp_getChannelClient S idm org ch s (m, w) = (r, (m', w'))"
  obtains err where "r = Inl err" "m' = m"
  | i v where "idm s w = (Inr i, v)" "cached ch (id_ID i) (ccp_create S org ch i) (m, v) = (r, (m', w'))"
  using assms by (auto simp: ccp_getChannelClient_def split: prod.splits sum.splits id_error.splits)

lemma ccp_lookup_upd: "inner m' = (inner m)(ch := (inner m ch)(s \<mapsto> c)) \<Longrightarrow> ccp_lookup m' = (ccp_lookup m)(s := (ccp_lookup m s)(ch \<mapsto> c))"
  by (auto simp: ccp_lookup_def fun_eq_iff)

lemma ccp_lookup_eq: "inner m' = inner m \<Longrightarrow> ccp_lookup m' = ccp_lookup m"
  by (simp add: ccp_lookup_def [abs_def])

sublocale named_identities \<subseteq> ccp: signer_cache ccp_lookup "\<lambda>ch. ch" "ccp_make S idm org" "\<lambda>s ch. ccp_getChannelClient S idm org ch s" ccp_SignerUpdated
  for S :: "('w, 'c, 'p) channel_sdk" and org
proof
  fix m :: "'c ccpClientWrapper cache" and s ch c w r m' w'
  assume h: "ccp_lookup m s ch = Some c" and g: "ccp_getChannelClient S idm org ch s (m, w) = (r, (m', w'))"
  from g show "ccp_lookup m' = ccp_lookup m \<and> (\<forall>c'. r = Inr c' \<longrightarrow> c' = c)"
  proof (cases rule: ccp_get_cases)
    case (2 i v)
    then have "id_ID i = s" using named by blast
    with 2 h show ?thesis using cached_hit [of m ch s c "ccp_create S org ch i" v] by (auto simp: ccp_lookup_def intro: ccp_lookup_eq)
  qed simp
next
  fix m :: "'c ccpClientWrapper cache" and s ch w c m' w'
  assume h: "ccp_lookup m s ch = None" and g: "ccp_getChannelClient S idm org ch s (m, w) = (Inr c, (m', w'))"
  from g show "(\<exists>v v'. ccp_make S idm org s ch v = (Inr c, v')) \<and> ccp_lookup m' = (ccp_lookup m)(s := (ccp_lookup m s)(ch \<mapsto> c))"
  proof (cases rule: ccp_get_cases)
    case (2 i v)
    then have "id_ID i = s" using named by blast
    with 2 h have "ccp_create S org ch i v = (Inr c, w')" "inner m' = (inner m)(ch := (inner m ch)(s \<mapsto> c))"
      using cached_miss [of m ch s "ccp_create S org ch i" v "Inr c" m' w'] by (auto simp: ccp_lookup_def)
    moreover from this(1) 2(1) have "ccp_make S idm org s ch w = (Inr c, w')" by (simp add: ccp_make_def)
    ultimately show ?thesis using ccp_lookup_upd [of m' m ch s c] by auto
  qed simp
next
  fix m :: "'c ccpClientWrapper cache" and s ch w err m' w'
  assume h: "ccp_lookup m s ch = None" and g: "ccp_getChannelClient S idm org ch s (m, w) = (Inl err, (m', w'))"
  from g show "ccp_lookup m' = ccp_lookup m"
  proof (cases rule: ccp_get_cases)
    case (2 i v)
    then have "id_ID i = s" using named by blast
    with 2 h show ?thesis
      using cached_miss [of m ch s "ccp_create S org ch i" v "Inl err" m' w'] by (auto simp: ccp_lookup_def intro: ccp_lookup_eq)
  qed simp
next
  fix m :: "'c ccpClientWrapper cache" and s s' k
  show "ccp_lookup (ccp_SignerUpdated s m) s' k = (if s' = s then None else ccp_lookup m s' k)"
    by (simp add: ccp_lookup_def ccp_SignerUpdated_def inner_def split: option.splits)
qed

context named_identities
begin

lemma ccp_current:
  assumes "history (\<lambda>s ch. ccp_getChannelClient S idm org ch s) ccp_SignerUpdated (Map.empty, w0) us (m, w)"
    and "ccp_getChannelClient S idm org channelID signer (m, w) = (Inr client, (m', w'))"
  shows "made_for (\<lambda>ch. ch) (ccp_make S idm org) (us @ [Got signer channelID client]) signer channelID client"
  using ccp.client_is_current [OF assms(1) _ assms(2)] by (simp add: ccp_lookup_def inner_def)

end

subsection \<open>Properties\<close>

text \<open>The invocation on a network that was asked for by its names.\<close>

definition invoke_on_network where
  "invoke_on_network G idm channelID signer chaincodeName method args transientMap isInit x =
     receipt_of_status (chk (getGatewayClient G channelID signer) id (\<lambda>network (g, w).
       case gw_CreateTransaction G network chaincodeName method isInit
              (if convertStringMap transientMap = [] then None else Some (convertStringMap transientMap)) w of
         (Inl err, w1) \<Rightarrow> (Inl err, (g, w1))
       | (Inr tx, w1) \<Rightarrow> (case Submit G tx args w1 of
           (Inl err, w2) \<Rightarrow> (Inl err, (g, w2))
         | (Inr result, w2) \<Rightarrow> (case commit_notice G tx w2 of
             (TimedOut, w3) \<Rightarrow> (Inl (''Failed to get status event for transaction (channel='' @ signer @ '', chaincode='' @ chaincodeName
                 @ '', func='' @ method @ '')''), (g, w3))
           | (Committed st, w3) \<Rightarrow> (case idm signer w3 of
               (Inl e, w4) \<Rightarrow> (Inl (id_error_text e), (g, w4))
             | (Inr i, w4) \<Rightarrow> (Inr (i, st), (g, w4)))))) x)"


text \<open>The handler leaves no error exactly when the commit of a valid transaction was notified, and the status event then holds its data.\<close>

lemma Handle_succeeds:
  assumes "Handle S rc (w, ev) = (rc', (w', ev'))" "rq_Error rc' = None"
  shows "rq_TxValidationCode rc' = 0 \<and> te_TxValidationCode ev' = 0"
  using assms by (auto simp: Handle_def Let_def split: prod.splits sum.splits notice.splits option.splits if_splits)

text \<open>
  What the static mode relies on in the SDK: \<^verbatim>\<open>InvokeHandler\<close> reports no error only when the handler it was given has left none.
\<close>

locale handler_chain =
  fixes S :: "('w, 'c, 'p) channel_sdk"
  assumes no_error: "InvokeHandler S c h req (w, ev) = (Inr payload, (w', ev')) \<Longrightarrow>
    \<exists>rc y rc' v. h rc y = (rc', (v, ev')) \<and> rq_Error rc' = None"
begin

lemma sent_is_valid:
  assumes "ccp_sendTransaction S svc idm org ch s cc f args tm init x = (Inr (i, st), y)"
  shows "te_TxValidationCode st = 0"
proof -
  obtain c h w req w' payload where "InvokeHandler S c (Handle svc) req (w, no_status) = (Inr payload, (w', st))"
    using assms by (auto simp: ccp_sendTransaction_def chk_def split: prod.splits sum.splits)
  then obtain rc z rc' v where "Handle svc rc z = (rc', (v, st))" "rq_Error rc' = None" using no_error by blast
  then show ?thesis using Handle_succeeds [of svc rc "fst z" "snd z" rc' v st] by simp
qed

lemma receipt_is_valid:
  assumes "ccp_Invoke S svc idm org ch s cc f args tm init x = (Ret (Inr r), y)"
  shows "IsSuccess r"
proof -
  obtain i st z where "ccp_sendTransaction S svc idm org ch s cc f args tm init x = (Inr (i, st), z)"
    and "rc_Status r = te_TxValidationCode st"
    using assms by (auto simp: ccp_Invoke_def receipt_of_status_def chk_def newReceipt_def split: prod.splits sum.splits)
  then show ?thesis using sent_is_valid by (simp add: IsSuccess_def)
qed

end

text \<open>C33: In the mode of a static connection profile a receipt is always one of a valid transaction: a transaction that is found invalid
  at its commit, whose status event does not come in time or that cannot be sent is reported as an error instead.\<close>

theorem ccp_receipts_are_valid:
  assumes "handler_chain S"
    and "ccp_Invoke S svc idm org channelID signer chaincodeName method args transientMap isInit x = (Ret (Inr receipt), y)"
  shows "IsSuccess receipt"
  using handler_chain.receipt_is_valid [OF assms] .

text \<open>The mode of the server-side gateway has no client: \<^verbatim>\<open>RPCConnect\<close> reports success and returns nil, in every configuration that asks for the
  server-side gateway alone; otherwise it returns the client of the mode or an error.\<close>

theorem RPCConnect_client:
  "case RPCConnect userStore newIdentityClient sdk newCcp newGateway c of
     Inl err \<Rightarrow> True
   | Inr (client, i) \<Rightarrow> (case client of
       None \<Rightarrow> UseGatewayServer c \<and> \<not> UseGatewayClient c
     | Some (CcpClient u) \<Rightarrow> \<not> UseGatewayClient c \<and> \<not> UseGatewayServer c
     | Some (GatewayClient g) \<Rightarrow> UseGatewayClient c)"
  by (auto simp: RPCConnect_def split: sum.splits)

text \<open>When the notifier of a transaction is closed the gateway mode dereferences a status that is nil.\<close>

theorem closed_notifier_panics:
  assumes "gw_sendTransaction G channelID signer chaincodeName method args transientMap isInit x = (Inr None, (g, w))"
    and "idm signer w = (Inr i, w')"
  shows "fst (gw_Invoke G idm channelID signer chaincodeName method args transientMap isInit x) =
    Panic ''invalid memory address or nil pointer dereference''"
  using assms by (simp add: gw_Invoke_def receipt_of_status_def chk_def newReceipt_def)

text \<open>A gateway of a signer is kept as long as there are networks of it, so that no network is asked of a nil gateway.\<close>

definition gw_ok :: "('g, 'n, 'c) gwRPCWrapper \<Rightarrow> bool" where
  "gw_ok g \<longleftrightarrow> (\<forall>s. gwGatewayClients g s \<noteq> None \<longrightarrow> gwClients g s \<noteq> None)"

lemma gw_ok_preserved:
  "gw_ok newRPCClientWithClientSideGateway"
  "gw_ok g \<Longrightarrow> gw_ok (gw_SignerUpdated s g)"
  "getGatewayClient G ch s (g, w) = (r, (g', w')) \<Longrightarrow> gw_ok g \<Longrightarrow> gw_ok g'"
  by (auto simp: gw_ok_def newRPCClientWithClientSideGateway_def gw_SignerUpdated_def getGatewayClient_def connect_gateway_def chk_def
      split: prod.splits sum.splits option.splits if_splits)

lemma gateway_connected:
  "connect_gateway G s (g, w) = (Inr (), (g', w')) \<Longrightarrow> gw_ok g \<Longrightarrow> gwClients g' s \<noteq> None"
  by (auto simp: gw_ok_def connect_gateway_def split: prod.splits sum.splits if_splits)

subsection \<open>An example\<close>

definition sample_ids :: "nat identities" where
  "sample_ids name w = (Inr \<lparr>id_MSPID = ''Org1MSP'', id_ID = name\<rparr>, w)"

interpretation sample: named_identities sample_ids
  by unfold_locales (simp add: sample_ids_def)

definition sample_service :: "(nat, unit, nat, nat) tx_service" where
  "sample_service = \<lparr>RegisterTxStatusEvent = (\<lambda>_ w. (Inr 1, w)), UnregisterTx = (\<lambda>_ w. w), CreateTransaction = (\<lambda>_ w. (Inr 2, w)),
     SendTransactionOp = (\<lambda>_ w. (Inr (), w + 1)),
     await_status = (\<lambda>_ w. (Committed (Some \<lparr>te_TxID = ''tx1'', te_TxValidationCode = 0, te_BlockNumber = 7, te_SourceURL = ''peer0''\<rparr>), w))\<rparr>"

definition sample_channel :: "(nat, nat, unit) channel_sdk" where
  "sample_channel = \<lparr>channelCreator = (\<lambda>_ _ _ w. (Inr w, w + 1)), cc_Query = (\<lambda>_ _ _ w. (Inr ''1'', w)),
     InvokeHandler = (\<lambda>_ h _ y. case h \<lparr>rq_TransactionID = ''tx1'', rq_Proposal = (), rq_Error = None, rq_TxValidationCode = 0\<rparr> y of
       (rc, y') \<Rightarrow> (case rq_Error rc of None \<Rightarrow> (Inr [], y') | Some err \<Rightarrow> (Inl err, y')))\<rparr>"

interpretation sample_chain: handler_chain sample_channel
proof
  fix c h req w ev payload w' ev'
  let ?rc = "\<lparr>rq_TransactionID = ''tx1'', rq_Proposal = (), rq_Error = None, rq_TxValidationCode = 0\<rparr>"
  assume "InvokeHandler sample_channel c h req (w, ev) = (Inr payload, (w', ev'))"
  then have "h ?rc (w, ev) = (fst (h ?rc (w, ev)), (w', ev')) \<and> rq_Error (fst (h ?rc (w, ev))) = None"
    by (auto simp: sample_channel_def split: prod.splits option.splits)
  then show "\<exists>rc y rc' v. h rc y = (rc', (v, ev')) \<and> rq_Error rc' = None" by blast
qed

theorem ccp_receipts_are_valid_witness:
  "\<exists>r. fst (ccp_Invoke sample_channel sample_service sample_ids ''Org1'' ''ch1'' ''bob'' ''erc20'' ''Mint'' [''5''] None False (Map.empty, 0)) = Ret (Inr r)
     \<and> rc_BlockNumber r = 7 \<and> IsSuccess r"
proof -
  let ?x = "ccp_Invoke sample_channel sample_service sample_ids ''Org1'' ''ch1'' ''bob'' ''erc20'' ''Mint'' [''5''] None False (Map.empty, 0)"
  obtain r y where r: "?x = (Ret (Inr r), y)" "rc_BlockNumber r = 7"
    by (simp add: ccp_Invoke_def ccp_sendTransaction_def ccp_getChannelClient_def ccp_create_def cached_def inner_def sample_channel_def
        sample_service_def sample_ids_def Handle_def createAndSendTransaction_def no_status_def receipt_of_status_def newReceipt_def chk_def Let_def)
  then show ?thesis using ccp_receipts_are_valid [OF sample_chain.handler_chain_axioms r(1)] by simp
qed

end
