(* ===== verification/Identity_Client.thy ===== *)
theory Identity_Client
  imports Fabric_Rpc Event_Actions Event_Json Rest_Error
begin

text \<open>
  The client of the certificate authority, \<^verbatim>\<open>internal/fabric/client/identity.go\<close>, and the requests of
  \<^verbatim>\<open>internal/rest/identity/identity.go\<close>.

  The CA client and the identity manager of the SDK are operations on its state \<open>'w\<close>; the LRU cache of the signing identities is a value of the type
  \<open>'k\<close> with the two operations that are used of it; the listeners that are told about an update of a signer work on their state \<open>'m\<close>.
  Attributes are sent in the order of their names, where the source ranges over a map.  The text of an error of the JSON decoder is not modelled.
\<close>

subsection \<open>Byte slices in JSON\<close>

text \<open>\<^verbatim>\<open>base64.StdEncoding\<close>; the decoder skips line breaks.\<close>

definition b64_val :: "char \<Rightarrow> nat option" where
  "b64_val c = (let n = byte c in
     if 65 \<le> n \<and> n \<le> 90 then Some (n - 65) else if 97 \<le> n \<and> n \<le> 122 then Some (n - 71)
     else if 48 \<le> n \<and> n \<le> 57 then Some (n + 4) else if n = 43 then Some 62 else if n = 47 then Some 63 else None)"

fun b64_quads :: "string \<Rightarrow> bytes option" where
  "b64_quads [] = Some []"
| "b64_quads (a # b # c # d # r) = (case (b64_val a, b64_val b) of
     (Some x, Some y) \<Rightarrow>
       (case b64_val c of
          None \<Rightarrow> if c = CHR ''='' \<and> d = CHR ''='' \<and> r = [] then Some [char_of (x * 4 + y div 16)] else None
        | Some z \<Rightarrow> (case b64_val d of
            None \<Rightarrow> if d = CHR ''='' \<and> r = [] then Some [char_of (x * 4 + y div 16), char_of (y mod 16 * 16 + z div 4)] else None
          | Some u \<Rightarrow> map_option (\<lambda>t. char_of (x * 4 + y div 16) # char_of (y mod 16 * 16 + z div 4) # char_of (z mod 4 * 64 + u) # t) (b64_quads r)))
   | _ \<Rightarrow> None)"
| "b64_quads _ = None"
definition b64_decode :: "string \<Rightarrow> bytes option" where
  "b64_decode s = b64_quads (filter (\<lambda>c. byte c \<noteq> 10 \<and> byte c \<noteq> 13) s)"

lemma b64_val_char: "n < 64 \<Longrightarrow> b64_val (b64_char n) = Some n"
  by (auto simp: b64_val_def b64_char_def Let_def)

lemma b64_val_pad: "b64_val (CHR ''='') = None"
  by (simp add: b64_val_def)

lemma char_of_byte: "char_of (byte a) = a"
  by (simp add: char_of_char)

lemma byte_nibbles:
  "byte b div 16 div 16 = 0" "byte b div 16 mod 16 = byte b div 16" "byte c div 64 div 4 = 0" "byte c div 64 mod 4 = byte c div 64"
  using byte_less [of b] byte_less [of c] by (simp_all add: less_mult_imp_div_less div_mult2_eq [symmetric])

lemma b64_quads_b64: "b64_quads (b64 x) = Some x"
  by (induction x rule: b64.induct)
    (simp_all add: b64_val_char b64_val_pad b64_index byte_less byte_nibbles char_of_byte)

lemma b64_no_breaks: "filter (\<lambda>c. byte c \<noteq> 10 \<and> byte c \<noteq> 13) (b64 x) = b64 x"
proof -
  have "byte (b64_char n) \<noteq> 10 \<and> byte (b64_char n) \<noteq> 13" if "n < 64" for n
    using that by (auto simp: b64_char_def)
  then show ?thesis by (induction x rule: b64.induct) (simp_all add: b64_index byte_less)
qed

lemma b64_decode_b64: "b64_decode (b64 x) = Some x"
  by (simp add: b64_decode_def b64_no_breaks b64_quads_b64)

text \<open>A byte slice is a base64 string or an array of small numbers.\<close>

definition byte_elem :: "json \<Rightarrow> char option" where
  "byte_elem j = (case j of JNum l \<Rightarrow> (case parse_uint 8 l of (n, None) \<Rightarrow> Some (char_of n) | _ \<Rightarrow> None) | JNull \<Rightarrow> Some (char_of (0 :: nat)) | _ \<Rightarrow> None)"

definition dec_bytes :: "((bytes option \<Rightarrow> bytes option) \<Rightarrow> 's \<Rightarrow> 's) \<Rightarrow> 's field_dec" where
  "dec_bytes upd j s = (case j of
     JStr x \<Rightarrow> map_option (\<lambda>b. upd (\<lambda>_. Some b) s) (b64_decode x)
   | JArr vs \<Rightarrow> map_option (\<lambda>b. upd (\<lambda>_. Some b) s) (those (map byte_elem vs))
   | JNull \<Rightarrow> Some (upd (\<lambda>_. None) s) | _ \<Rightarrow> None)"

definition dec_bool :: "((bool \<Rightarrow> bool) \<Rightarrow> 's \<Rightarrow> 's) \<Rightarrow> 's field_dec" where
  "dec_bool upd j s = (case j of JBool b \<Rightarrow> Some (upd (\<lambda>_. b) s) | JNull \<Rightarrow> Some s | _ \<Rightarrow> None)"

definition bool_elem :: "json \<Rightarrow> bool option" where
  "bool_elem j = (case j of JBool b \<Rightarrow> Some b | JNull \<Rightarrow> Some False | _ \<Rightarrow> None)"

definition dec_bool_map :: "('s \<Rightarrow> (string \<times> bool) list option) \<Rightarrow>
    (((string \<times> bool) list option \<Rightarrow> (string \<times> bool) list option) \<Rightarrow> 's \<Rightarrow> 's) \<Rightarrow> 's field_dec" where
  "dec_bool_map get upd j s = (case j of
     JObj kvs \<Rightarrow> map_option (\<lambda>m. upd (\<lambda>_. Some m) s) (dec_map bool_elem kvs (case get s of None \<Rightarrow> [] | Some m \<Rightarrow> m))
   | JNull \<Rightarrow> Some (upd (\<lambda>_. None) s) | _ \<Rightarrow> None)"

text \<open>A decoder after \<^verbatim>\<open>DisallowUnknownFields\<close>.\<close>

definition known_fields :: "'s fields \<Rightarrow> obj \<Rightarrow> bool" where
  "known_fields fs m \<longleftrightarrow> list_all (\<lambda>(k, _). find_field fs k \<noteq> None) m"

definition decode_strict :: "'s fields \<Rightarrow> 's \<Rightarrow> bytes \<Rightarrow> 's option" where
  "decode_strict fs z body = (case pval (2 * length body + 2) body of
     Some (JObj m, _) \<Rightarrow> if known_fields fs m then dec_members fs m z else None
   | Some (JNull, _) \<Rightarrow> Some z
   | _ \<Rightarrow> None)"

subsection \<open>Requests and responses\<close>

record RegisterResponse =
  rr_Name :: string
  rr_Secret :: string

text \<open>The embedded \<^verbatim>\<open>RegisterResponse\<close> comes first; its fields are those of the object itself.\<close>

record Identity = RegisterResponse +
  MaxEnrollments :: int
  idn_Type :: string
  Affiliation :: string
  Attributes :: "(string \<times> string) list option"
  CAName :: string
  idn_Organization :: string
  idn_MSPID :: string
  EnrollmentCert :: "bytes option"
  CACert :: "bytes option"

record EnrollRequest =
  en_Name :: string
  en_Secret :: string
  en_CAName :: string
  en_Profile :: string
  en_AttrReqs :: "(string \<times> bool) list option"

record RevokeRequest =
  rv_Name :: string
  rv_Reason :: string
  rv_CAName :: string
  rv_GenCRL :: bool

record id_Response =
  res_Name :: string
  res_Success :: bool

record RevokeResponse =
  RevokedCerts :: "(string \<times> string) list list option"
  CRL :: bytes

definition zero_identity :: Identity where
  "zero_identity = \<lparr>rr_Name = [], rr_Secret = [], MaxEnrollments = 0, idn_Type = [], Affiliation = [], Attributes = None, CAName = [],
     idn_Organization = [], idn_MSPID = [], EnrollmentCert = None, CACert = None\<rparr>"

definition zero_enroll :: EnrollRequest where
  "zero_enroll = \<lparr>en_Name = [], en_Secret = [], en_CAName = [], en_Profile = [], en_AttrReqs = None\<rparr>"

definition zero_revoke :: RevokeRequest where
  "zero_revoke = \<lparr>rv_Name = [], rv_Reason = [], rv_CAName = [], rv_GenCRL = False\<rparr>"

definition identity_fields :: "Identity fields" where
  "identity_fields = [(''name'', dec_string rr_Name_update), (''secret'', dec_string rr_Secret_update),
     (''maxEnrollments'', dec_int MaxEnrollments_update), (''type'', dec_string idn_Type_update),
     (''affiliation'', dec_string Affiliation_update), (''attributes'', dec_str_map Attributes Attributes_update),
     (''caname'', dec_string CAName_update), (''organization'', dec_string idn_Organization_update),
     (''mspId'', dec_string idn_MSPID_update), (''enrollmentCert'', dec_bytes EnrollmentCert_update), (''caCert'', dec_bytes CACert_update)]"

definition enroll_fields :: "EnrollRequest fields" where
  "enroll_fields = [(''name'', dec_string en_Name_update), (''secret'', dec_string en_Secret_update), (''caname'', dec_string en_CAName_update),
     (''profile'', dec_string en_Profile_update), (''attributes'', dec_bool_map en_AttrReqs en_AttrReqs_update)]"

definition revoke_fields :: "RevokeRequest fields" where
  "revoke_fields = [(''name'', dec_string rv_Name_update), (''reason'', dec_string rv_Reason_update), (''caname'', dec_string rv_CAName_update),
     (''generateCRL'', dec_bool rv_GenCRL_update)]"

subsection \<open>The SDK\<close>

text \<open>The request types of the SDK, as far as they are filled in.\<close>

record RegistrationRequest =
  reg_Name :: string
  reg_Type :: string
  reg_MaxEnrollments :: int
  reg_Affiliation :: string
  reg_CAName :: string
  reg_Secret :: string
  reg_Attributes :: "(string \<times> string) list"

record EnrollmentRequest =
  er_Name :: string
  er_Secret :: string
  er_CAName :: string
  er_Profile :: string
  er_AttrReqs :: "(string \<times> bool) list"

record RevocationRequest =
  rvk_Name :: string
  rvk_CAName :: string
  rvk_Reason :: string
  rvk_GenCRL :: bool

record IdentityResponse =
  ir_ID :: string
  ir_Affiliation :: string
  ir_Attributes :: "(string \<times> string) list"
  ir_Type :: string
  ir_MaxEnrollments :: int
  ir_CAName :: string

record SigningIdentity =
  si_Identifier :: IdentityIdentifier
  EnrollmentCertificate :: bytes

text \<open>\<^verbatim>\<open>ModifyIdentity\<close> takes the same data as \<^verbatim>\<open>Register\<close>, its result is not used; \<^verbatim>\<open>Revoke\<close> returns the revoked
  certificates, each its AKI and serial number, and the revocation list.\<close>

record 'w CAClient =
  ca_Register :: "RegistrationRequest \<Rightarrow> ('w, string) op"
  ca_ModifyIdentity :: "RegistrationRequest \<Rightarrow> ('w, unit) op"
  ca_Enroll :: "EnrollmentRequest \<Rightarrow> ('w, unit) op"
  ca_Reenroll :: "EnrollmentRequest \<Rightarrow> ('w, unit) op"
  ca_Revoke :: "RevocationRequest \<Rightarrow> ('w, (string \<times> string) list \<times> bytes) op"
  ca_GetAllIdentities :: "string \<Rightarrow> ('w, IdentityResponse list) op"
  ca_GetIdentity :: "string \<Rightarrow> string \<Rightarrow> ('w, IdentityResponse) op"
  ca_GetCAInfo :: "('w, bytes) op"

type_synonym 'w identity_manager = "string \<Rightarrow> 'w \<Rightarrow> (id_error + SigningIdentity) \<times> 'w"

record 'k id_lru =
  id_lru_Get :: "string \<Rightarrow> 'k \<Rightarrow> SigningIdentity option \<times> 'k"
  id_lru_Add :: "string \<Rightarrow> SigningIdentity \<Rightarrow> 'k \<Rightarrow> 'k"

text \<open>The wrapper with its immutable parts, and what changes: the identity cache, the state of the listeners and that of the SDK.\<close>

record ('k, 'm, 'w) idClientWrapper =
  idc_Organization :: string
  identityMgr :: "'w identity_manager"
  caClient :: "'w CAClient"
  listeners :: "(string \<Rightarrow> 'm \<Rightarrow> 'm) list"
  idc_lru :: "'k id_lru"

record ('k, 'm, 'w) id_state =
  idc_cache :: 'k
  clients :: 'm
  sdk_state :: 'w

text \<open>The constructor: each step may fail, \<open>path\<close> is the path of the credential store and \<open>org\<close> the organisation in the identity configuration.\<close>

definition newIdentityClient ::
  "'cs res \<Rightarrow> 'e res \<Rightarrow> (string \<times> string) res \<Rightarrow> (string \<Rightarrow> 'cs \<Rightarrow> 'e \<Rightarrow> 'w identity_manager res) \<Rightarrow>
   (string \<Rightarrow> 'w identity_manager \<Rightarrow> 'w CAClient res) \<Rightarrow> 'k id_lru \<Rightarrow> (nat \<Rightarrow> 'k res) \<Rightarrow> (('k, 'm, 'w) idClientWrapper \<times> 'k) res" where
  "newIdentityClient suite endpointConfig identityConfig NewIdentityManager NewCAClient L lru_New = (case suite of
     Inl err \<Rightarrow> Inl (''Failed to get suite by config: '' @ err)
   | Inr cs \<Rightarrow> (case endpointConfig of
       Inl err \<Rightarrow> Inl (''Failed to read config: '' @ err)
     | Inr e \<Rightarrow> (case identityConfig of
         Inl err \<Rightarrow> Inl (''Failed to load identity configurations: '' @ err)
       | Inr (path, org) \<Rightarrow>
           if path = [] then Inl ''User credentials store path is empty''
           else (case NewIdentityManager org cs e of
             Inl err \<Rightarrow> Inl (''Identity manager creation failed. '' @ err)
           | Inr mgr \<Rightarrow> (case NewCAClient org mgr of
               Inl err \<Rightarrow> Inl (''CA Client creation failed. '' @ err)
             | Inr ca \<Rightarrow> (case lru_New 100 of
                 Inl err \<Rightarrow> Inl (''Failed to create cache. '' @ err)
               | Inr cache \<Rightarrow> Inr (\<lparr>idc_Organization = org, identityMgr = mgr, caClient = ca, listeners = [], idc_lru = L\<rparr>, cache)))))))"

definition GetClientOrg :: "('k, 'm, 'w) idClientWrapper \<Rightarrow> string" where
  "GetClientOrg w = idc_Organization w"

definition AddSignerUpdateListener :: "(string \<Rightarrow> 'm \<Rightarrow> 'm) \<Rightarrow> ('k, 'm, 'w) idClientWrapper \<Rightarrow> ('k, 'm, 'w) idClientWrapper" where
  "AddSignerUpdateListener listener w = w\<lparr>listeners := listeners w @ [listener]\<rparr>"

definition notifySignerUpdate :: "('k, 'm, 'w) idClientWrapper \<Rightarrow> string \<Rightarrow> 'm \<Rightarrow> 'm" where
  "notifySignerUpdate w signer m = fold (\<lambda>listener. listener signer) (listeners w) m"

definition GetSigningIdentity ::
  "('k, 'm, 'w) idClientWrapper \<Rightarrow> string \<Rightarrow> ('k, 'm, 'w) id_state \<Rightarrow> (id_error + SigningIdentity) \<times> ('k, 'm, 'w) id_state" where
  "GetSigningIdentity w name s = (case id_lru_Get (idc_lru w) name (idc_cache s) of
     (Some hit, k) \<Rightarrow> (Inr hit, s\<lparr>idc_cache := k\<rparr>)
   | (None, k) \<Rightarrow> (case identityMgr w name (sdk_state s) of
       (Inl err, v) \<Rightarrow> (Inl err, s\<lparr>idc_cache := k, sdk_state := v\<rparr>)
     | (Inr i, v) \<Rightarrow> (Inr i, s\<lparr>idc_cache := id_lru_Add (idc_lru w) name i k, sdk_state := v\<rparr>)))"

subsection \<open>The handlers\<close>

text \<open>A handler gets the body and the parameters of the path; \<^verbatim>\<open>ByName\<close> of a missing parameter is empty.\<close>

type_synonym path_params = "(string \<times> string) list"

definition ByName :: "string \<Rightarrow> path_params \<Rightarrow> string" where
  "ByName name ps = (case map_of ps name of None \<Rightarrow> [] | Some v \<Rightarrow> v)"

definition decode_failed :: error where
  "decode_failed = ''failed to decode JSON payload: '' @ json_error"

text \<open>A call of the CA, whose error becomes the code 500.\<close>

definition on_ca ::
  "('w, 'a) op \<Rightarrow> ('a \<Rightarrow> ('k, 'm, 'w) id_state \<Rightarrow> 'b rest \<times> ('k, 'm, 'w) id_state) \<Rightarrow>
   ('k, 'm, 'w) id_state \<Rightarrow> 'b rest \<times> ('k, 'm, 'w) id_state" where
  "on_ca call k s = (case call (sdk_state s) of
     (Inl err, v) \<Rightarrow> (NewRestError err 500, s\<lparr>sdk_state := v\<rparr>)
   | (Inr x, v) \<Rightarrow> k x (s\<lparr>sdk_state := v\<rparr>))"

definition idc_Register ::
  "('k, 'm, 'w) idClientWrapper \<Rightarrow> bytes \<Rightarrow> ('k, 'm, 'w) id_state \<Rightarrow> RegisterResponse rest \<times> ('k, 'm, 'w) id_state" where
  "idc_Register w body s = (case decode_strict identity_fields zero_identity body of
     None \<Rightarrow> (NewRestError decode_failed 400, s)
   | Some regreq \<Rightarrow>
       if rr_Name regreq = [] then (NewRestError ''missing required parameter \"name\"'' 400, s)
       else let rr = \<lparr>reg_Name = rr_Name regreq, reg_Type = (if idn_Type regreq = [] then ''client'' else idn_Type regreq),
                      reg_MaxEnrollments = MaxEnrollments regreq, reg_Affiliation = Affiliation regreq, reg_CAName = CAName regreq,
                      reg_Secret = rr_Secret regreq, reg_Attributes = (case Attributes regreq of None \<Rightarrow> [] | Some m \<Rightarrow> m)\<rparr>
            in on_ca (ca_Register (caClient w) rr) (\<lambda>secret s'. (Inr \<lparr>rr_Name = reg_Name rr, rr_Secret = secret\<rparr>, s')) s)"

definition idc_Modify ::
  "('k, 'm, 'w) idClientWrapper \<Rightarrow> bytes \<Rightarrow> path_params \<Rightarrow> ('k, 'm, 'w) id_state \<Rightarrow> RegisterResponse rest \<times> ('k, 'm, 'w) id_state" where
  "idc_Modify w body params s = (case decode_strict identity_fields zero_identity body of
     None \<Rightarrow> (NewRestError decode_failed 400, s)
   | Some regreq \<Rightarrow>
       let rr = \<lparr>reg_Name = ByName ''username'' params, reg_Type = idn_Type regreq,
                 reg_MaxEnrollments = MaxEnrollments regreq, reg_Affiliation = Affiliation regreq, reg_CAName = CAName regreq,
                 reg_Secret = rr_Secret regreq, reg_Attributes = (case Attributes regreq of None \<Rightarrow> [] | Some m \<Rightarrow> m)\<rparr>
       in on_ca (ca_ModifyIdentity (caClient w) rr) (\<lambda>_ s'. (Inr \<lparr>rr_Name = reg_Name rr, rr_Secret = []\<rparr>, s')) s)"

definition idc_Enroll ::
  "('k, 'm, 'w) idClientWrapper \<Rightarrow> bytes \<Rightarrow> path_params \<Rightarrow> ('k, 'm, 'w) id_state \<Rightarrow> id_Response rest \<times> ('k, 'm, 'w) id_state" where
  "idc_Enroll w body params s = (let username = ByName ''username'' params in
     case decode_strict enroll_fields zero_enroll body of
       None \<Rightarrow> (NewRestError decode_failed 400, s)
     | Some enreq \<Rightarrow>
         if en_Secret enreq = [] then (NewRestError ''missing required parameter \"secret\"'' 400, s)
         else let input = \<lparr>er_Name = username, er_Secret = en_Secret enreq, er_CAName = en_CAName enreq, er_Profile = en_Profile enreq,
                           er_AttrReqs = (case en_AttrReqs enreq of None \<Rightarrow> [] | Some m \<Rightarrow> m)\<rparr>
              in on_ca (ca_Enroll (caClient w) input) (\<lambda>_ s'. (Inr \<lparr>res_Name = en_Name enreq, res_Success = True\<rparr>,
                   s'\<lparr>clients := notifySignerUpdate w username (clients s')\<rparr>)) s)"

text \<open>A re-enrolment has no secret.\<close>

definition idc_Reenroll ::
  "('k, 'm, 'w) idClientWrapper \<Rightarrow> bytes \<Rightarrow> path_params \<Rightarrow> ('k, 'm, 'w) id_state \<Rightarrow> id_Response rest \<times> ('k, 'm, 'w) id_state" where
  "idc_Reenroll w body params s = (let username = ByName ''username'' params in
     case decode_strict enroll_fields zero_enroll body of
       None \<Rightarrow> (NewRestError decode_failed 400, s)
     | Some enreq \<Rightarrow>
         let input = \<lparr>er_Name = username, er_Secret = [], er_CAName = en_CAName enreq, er_Profile = en_Profile enreq,
                      er_AttrReqs = (case en_AttrReqs enreq of None \<Rightarrow> [] | Some m \<Rightarrow> m)\<rparr>
         in on_ca (ca_Reenroll (caClient w) input) (\<lambda>_ s'. (Inr \<lparr>res_Name = username, res_Success = True\<rparr>,
              s'\<lparr>clients := notifySignerUpdate w username (clients s')\<rparr>)) s)"

definition idc_Revoke ::
  "('k, 'm, 'w) idClientWrapper \<Rightarrow> bytes \<Rightarrow> path_params \<Rightarrow> ('k, 'm, 'w) id_state \<Rightarrow> RevokeResponse rest \<times> ('k, 'm, 'w) id_state" where
  "idc_Revoke w body params s = (case decode_strict revoke_fields zero_revoke body of
     None \<Rightarrow> (NewRestError decode_failed 400, s)
   | Some enreq \<Rightarrow>
       let input = \<lparr>rvk_Name = ByName ''username'' params, rvk_CAName = rv_CAName enreq, rvk_Reason = rv_Reason enreq, rvk_GenCRL = rv_GenCRL enreq\<rparr>
       in on_ca (ca_Revoke (caClient w) input) (\<lambda>(certs, crl) s'. (Inr \<lparr>RevokedCerts =
              (if certs = [] then None else Some (map (\<lambda>(aki, serial). [(''aki'', aki), (''serial'', serial)]) certs)), CRL = crl\<rparr>, s')) s)"

definition attribute_map :: "(string \<times> string) list \<Rightarrow> (string \<times> string) list option" where
  "attribute_map attrs = (if attrs = [] then None else Some (fold (\<lambda>(name, value). assoc_upd name value) attrs []))"

definition listed_identity :: "IdentityResponse \<Rightarrow> Identity" where
  "listed_identity v = zero_identity\<lparr>rr_Name := ir_ID v, MaxEnrollments := ir_MaxEnrollments v, CAName := ir_CAName v, idn_Type := ir_Type v,
     Affiliation := ir_Affiliation v, Attributes := attribute_map (ir_Attributes v)\<rparr>"

definition idc_List ::
  "('k, 'm, 'w) idClientWrapper \<Rightarrow> path_params \<Rightarrow> ('k, 'm, 'w) id_state \<Rightarrow> Identity list rest \<times> ('k, 'm, 'w) id_state" where
  "idc_List w params = on_ca (ca_GetAllIdentities (caClient w) (ByName ''caname'' params)) (\<lambda>result s'. (Inr (map listed_identity result), s'))"

definition getCACert :: "('k, 'm, 'w) idClientWrapper \<Rightarrow> ('w, bytes) op" where
  "getCACert w = ca_GetCAInfo (caClient w)"

definition idc_Get ::
  "('k, 'm, 'w) idClientWrapper \<Rightarrow> path_params \<Rightarrow> ('k, 'm, 'w) id_state \<Rightarrow> Identity rest \<times> ('k, 'm, 'w) id_state" where
  "idc_Get w params = (let username = ByName ''username'' params in
     on_ca (ca_GetIdentity (caClient w) username (ByName ''caname'' params)) (\<lambda>result s.
       let (r, v) = identityMgr w username (sdk_state s);
           s' = s\<lparr>sdk_state := v\<rparr>;
           withCA = (\<lambda>newID. on_ca (getCACert w) (\<lambda>cacert s''. (Inr (newID\<lparr>idn_Organization := GetClientOrg w, CACert := Some cacert\<rparr>), s'')) s')
       in case r of
            Inl (OtherIdError err) \<Rightarrow> (NewRestError err 500, s')
          | Inl ErrUserNotFound \<Rightarrow> withCA (listed_identity result)
          | Inr si \<Rightarrow> withCA ((listed_identity result)\<lparr>idn_MSPID := id_MSPID (si_Identifier si), EnrollmentCert := Some (EnrollmentCertificate si)\<rparr>)))"

subsection \<open>Reading an identity back\<close>

text \<open>The JSON form of an identity, as the handlers of the router reply it.\<close>

definition identity_json :: "Identity \<Rightarrow> json" where
  "identity_json i = JObj (omit False ''name'' (JStr (rr_Name i)) @ omit (rr_Secret i = []) ''secret'' (JStr (rr_Secret i))
     @ omit False ''maxEnrollments'' (JNum (int_str (MaxEnrollments i))) @ omit False ''type'' (JStr (idn_Type i))
     @ omit False ''affiliation'' (JStr (Affiliation i))
     @ omit False ''attributes'' (case Attributes i of None \<Rightarrow> JNull | Some m \<Rightarrow> JObj (map (map_prod id JStr) m))
     @ omit False ''caname'' (JStr (CAName i)) @ omit (idn_Organization i = []) ''organization'' (JStr (idn_Organization i))
     @ omit (idn_MSPID i = []) ''mspId'' (JStr (idn_MSPID i))
     @ omit (EnrollmentCert i = None \<or> EnrollmentCert i = Some []) ''enrollmentCert'' (JStr (b64 (the (EnrollmentCert i))))
     @ omit (CACert i = None \<or> CACert i = Some []) ''caCert'' (JStr (b64 (the (CACert i)))))"

definition identity_ok :: "Identity \<Rightarrow> bool" where
  "identity_ok i \<longleftrightarrow> list_all ascii [rr_Name i, rr_Secret i, idn_Type i, Affiliation i, CAName i, idn_Organization i, idn_MSPID i]
     \<and> int64_range (MaxEnrollments i) \<and> EnrollmentCert i \<noteq> Some [] \<and> CACert i \<noteq> Some []
     \<and> (case Attributes i of None \<Rightarrow> True | Some m \<Rightarrow> sorted_wrt (<) (map fst m) \<and> list_all (\<lambda>(k, v). ascii k \<and> ascii v) m)"

lemma seg_bytes:
  "find_field fs k = Some (dec_bytes upd) \<Longrightarrow> (x = None \<Longrightarrow> upd (\<lambda>_. x) s = s) \<Longrightarrow> x \<noteq> Some [] \<Longrightarrow>
   dec_members fs (omit (x = None) k (JStr (b64 (the x))) @ r) s = dec_members fs r (upd (\<lambda>_. x) s)"
  by (auto simp: omit_def dec_bytes_def b64_decode_b64)

lemma seg_attributes:
  assumes "find_field fs k = Some (dec_str_map get upd)" "get s = None" "\<And>m. x = Some m \<Longrightarrow> sorted_wrt (<) (map fst m)"
  shows "dec_members fs (omit False k (case x of None \<Rightarrow> JNull | Some m \<Rightarrow> JObj (map (map_prod id JStr) m)) @ r) s = dec_members fs r (upd (\<lambda>_. x) s)"
proof (cases x)
  case (Some m)
  then have "dec_map str_elem (map (map_prod id JStr) m) [] = Some m"
    using assms(3) dec_map_enc [of str_elem JStr "[]" m] by (simp add: str_elem_def)
  then show ?thesis using Some assms by (simp add: omit_def dec_str_map_def)
qed (use assms in \<open>simp add: omit_def dec_str_map_def\<close>)

lemma identity_find:
  "find_field identity_fields ''name'' = Some (dec_string rr_Name_update)"
  "find_field identity_fields ''secret'' = Some (dec_string rr_Secret_update)"
  "find_field identity_fields ''type'' = Some (dec_string idn_Type_update)"
  "find_field identity_fields ''affiliation'' = Some (dec_string Affiliation_update)"
  "find_field identity_fields ''caname'' = Some (dec_string CAName_update)"
  "find_field identity_fields ''organization'' = Some (dec_string idn_Organization_update)"
  "find_field identity_fields ''mspId'' = Some (dec_string idn_MSPID_update)"
  "find_field identity_fields ''maxEnrollments'' = Some (dec_int MaxEnrollments_update)"
  "find_field identity_fields ''attributes'' = Some (dec_str_map Attributes Attributes_update)"
  "find_field identity_fields ''enrollmentCert'' = Some (dec_bytes EnrollmentCert_update)"
  "find_field identity_fields ''caCert'' = Some (dec_bytes CACert_update)"
  by (simp_all add: find_field_def identity_fields_def)

lemma dec_identity: "identity_ok i \<Longrightarrow> dec_struct identity_fields (identity_json i) zero_identity = Some i"
proof -
  assume ok: "identity_ok i"
  then have a: "\<And>m. Attributes i = Some m \<Longrightarrow> sorted_wrt (<) (map fst m)" by (auto simp: identity_ok_def)
  have "dec_struct identity_fields (identity_json i) zero_identity = Some \<lparr>rr_Name = rr_Name i, rr_Secret = rr_Secret i, MaxEnrollments = MaxEnrollments i,
      idn_Type = idn_Type i, Affiliation = Affiliation i, Attributes = Attributes i, CAName = CAName i,
      idn_Organization = idn_Organization i, idn_MSPID = idn_MSPID i, EnrollmentCert = EnrollmentCert i, CACert = CACert i\<rparr>"
    using ok
    by (simp add: dec_struct_def identity_json_def zero_identity_def identity_find(1-7) [THEN seg_string] seg_int [OF identity_find(8)]
        seg_attributes [OF identity_find(9) _ a] seg_bytes [OF identity_find(10)]
        seg_bytes [OF identity_find(11), where r = "[]", unfolded append_Nil2] identity_ok_def)
  then show ?thesis by simp
qed

lemma identity_json_known: "identity_json i = JObj m \<Longrightarrow> known_fields identity_fields m"
  by (auto simp: identity_json_def known_fields_def omit_def identity_find)

lemma identity_json_ok: "identity_ok i \<Longrightarrow> json_ok (identity_json i)"
  using json_ok_int_str
  by (auto simp: identity_json_def identity_ok_def b64_ascii list_all_iff simp del: json_ok.simps(1,4) split: option.splits)
     (auto simp: list_all_iff)

lemma decode_identity: "identity_ok i \<Longrightarrow> decode_strict identity_fields zero_identity (enc b 0 (identity_json i)) = Some i"
proof -
  assume ok: "identity_ok i"
  obtain m where m: "identity_json i = JObj m" by (simp add: identity_json_def)
  then show ?thesis
    using parse_enc(1) [OF identity_json_ok [OF ok], of "[]" b 0 "2 * length (enc b 0 (identity_json i)) + 2"] dec_identity [OF ok] identity_json_known [OF m]
    by (simp add: decode_strict_def dec_struct_JObj del: enc.simps)
qed

subsection \<open>Properties\<close>

text \<open>What the SDK is asked to do with an identity.\<close>

definition identity_request :: "string \<Rightarrow> Identity \<Rightarrow> RegistrationRequest" where
  "identity_request name i = \<lparr>reg_Name = name, reg_Type = idn_Type i, reg_MaxEnrollments = MaxEnrollments i, reg_Affiliation = Affiliation i,
     reg_CAName = CAName i, reg_Secret = rr_Secret i, reg_Attributes = (case Attributes i of None \<Rightarrow> [] | Some m \<Rightarrow> m)\<rparr>"

text \<open>C31: An identity goes through the gateway unchanged: the JSON text of an identity, compact or indented, sent as the body of a modification,
  makes the CA modify the user of the path with exactly the type, limit, affiliation, CA name, secret and attributes of that identity.\<close>

theorem modify_round_trip:
  assumes "identity_ok i"
  shows "idc_Modify w (enc indented 0 (identity_json i)) params s =
    on_ca (ca_ModifyIdentity (caClient w) (identity_request (ByName ''username'' params) i))
      (\<lambda>_ s'. (Inr \<lparr>rr_Name = ByName ''username'' params, rr_Secret = []\<rparr>, s')) s"
  using decode_identity [OF assms] by (simp add: idc_Modify_def identity_request_def del: enc.simps)

text \<open>The clients that depend on a signer, and the wrapper with the listeners that \<^verbatim>\<open>RPCConnect\<close> has registered in a mode whose RPC client
  handles an update by \<open>rpc_SignerUpdated\<close>.\<close>

record ('l, 'e, 'r) client_caches =
  cl_ledger :: "'l cache"
  cl_event :: "'e cache"
  cl_rpc :: 'r

definition listening ::
  "(string \<Rightarrow> 'r \<Rightarrow> 'r) \<Rightarrow> ('k, ('l, 'e, 'r) client_caches, 'w) idClientWrapper \<Rightarrow> ('k, ('l, 'e, 'r) client_caches, 'w) idClientWrapper" where
  "listening rpc_SignerUpdated w =
     AddSignerUpdateListener (\<lambda>s c. c\<lparr>cl_rpc := rpc_SignerUpdated s (cl_rpc c)\<rparr>)
    (AddSignerUpdateListener (\<lambda>s c. c\<lparr>cl_event := event_SignerUpdated s (cl_event c)\<rparr>)
    (AddSignerUpdateListener (\<lambda>s c. c\<lparr>cl_ledger := ledger_SignerUpdated s (cl_ledger c)\<rparr>) (w\<lparr>listeners := []\<rparr>)))"

text \<open>The clients of \<open>user\<close> are gone, those of the others are still there.\<close>

definition renewed_for :: "string \<Rightarrow> ('m \<Rightarrow> string \<Rightarrow> string \<Rightarrow> 'c option) \<Rightarrow> 'm \<Rightarrow> 'm \<Rightarrow> bool" where
  "renewed_for user look m m' \<longleftrightarrow> look m' = (look m)(user := Map.empty)"

lemma listening_notifies:
  "notifySignerUpdate (listening upd w) u c = c\<lparr>cl_ledger := ledger_SignerUpdated u (cl_ledger c),
     cl_event := event_SignerUpdated u (cl_event c), cl_rpc := upd u (cl_rpc c)\<rparr>"
  by (simp add: notifySignerUpdate_def listening_def AddSignerUpdateListener_def)

lemma enroll_notifies:
  "(r, s') = idc_Enroll w body params s \<Longrightarrow>
   clients s' = (case r of Inl _ \<Rightarrow> clients s | Inr _ \<Rightarrow> notifySignerUpdate w (ByName ''username'' params) (clients s))"
  "(r, s') = idc_Reenroll w body params s \<Longrightarrow>
   clients s' = (case r of Inl _ \<Rightarrow> clients s | Inr _ \<Rightarrow> notifySignerUpdate w (ByName ''username'' params) (clients s))"
  by (auto simp: idc_Enroll_def idc_Reenroll_def on_ca_def NewRestError_def Let_def split: option.splits if_splits prod.splits sum.splits)

lemma renewed_caches:
  "renewed_for u inner m (ledger_SignerUpdated u m)" "renewed_for u inner m (event_SignerUpdated u m)"
  "renewed_for u ccp_lookup m (ccp_SignerUpdated u m)"
  "renewed_for u (inner \<circ> gwGatewayClients) g (gw_SignerUpdated u g)" "renewed_for u (inner \<circ> gwChannelClients) g (gw_SignerUpdated u g)"
  by (auto simp: renewed_for_def fun_eq_iff ledger_SignerUpdated_def event_SignerUpdated_def ccp_SignerUpdated_def ccp_lookup_def inner_def
      gw_SignerUpdated_def drop_signer_def split: option.splits)


text \<open>The cache of signing identities is not a listener: an identity that was handed out for a user before he was enrolled anew is
  handed out again afterwards, whatever the identity manager then holds for him.\<close>

theorem enroll_keeps_cached_identity:
  assumes "\<And>k i k'. id_lru_Get (idc_lru w) name k = (Some i, k') \<Longrightarrow> \<exists>k''. id_lru_Get (idc_lru w) name k' = (Some i, k'')"
    and "\<And>k i. \<exists>k'. id_lru_Get (idc_lru w) name (id_lru_Add (idc_lru w) name i k) = (Some i, k')"
    and "GetSigningIdentity w name s = (Inr i, s1)"
    and "(if again then idc_Reenroll else idc_Enroll) w body params s1 = (r, s2)"
  shows "fst (GetSigningIdentity w name s2) = Inr i"
proof -
  have "idc_cache s2 = idc_cache s1"
    using assms(4) by (auto simp: idc_Enroll_def idc_Reenroll_def on_ca_def NewRestError_def Let_def split: option.splits if_splits prod.splits sum.splits)
  moreover have "\<exists>k. id_lru_Get (idc_lru w) name (idc_cache s1) = (Some i, k)"
  proof (cases "id_lru_Get (idc_lru w) name (idc_cache s)")
    case (Pair hit k)
    with assms(3) show ?thesis using assms(1) [of "idc_cache s" i k] assms(2)
      by (auto simp: GetSigningIdentity_def split: option.splits prod.splits sum.splits)
  qed
  ultimately show ?thesis by (auto simp: GetSigningIdentity_def)
qed

subsection \<open>An example\<close>

text \<open>The CA of the example numbers the certificates that it issues, and the identity manager knows the last one; the cache keeps the newest hundred.\<close>

definition list_lru :: "(string \<times> SigningIdentity) list id_lru" where
  "list_lru = \<lparr>id_lru_Get = (\<lambda>n k. case map_of k n of None \<Rightarrow> (None, k) | Some i \<Rightarrow> (Some i, (n, i) # filter (\<lambda>e. fst e \<noteq> n) k)),
     id_lru_Add = (\<lambda>n i k. take 100 ((n, i) # filter (\<lambda>e. fst e \<noteq> n) k))\<rparr>"

definition sample_ca :: "nat CAClient" where
  "sample_ca = \<lparr>ca_Register = (\<lambda>_ n. (Inr ''secret'', n)), ca_ModifyIdentity = (\<lambda>r n. if reg_MaxEnrollments r = 3 then (Inr (), n + 1) else (Inl ''denied'', n)),
     ca_Enroll = (\<lambda>_ n. (Inr (), n + 1)), ca_Reenroll = (\<lambda>_ n. (Inr (), n + 1)), ca_Revoke = (\<lambda>_ n. (Inr ([], []), n)),
     ca_GetAllIdentities = (\<lambda>_ n. (Inr [], n)), ca_GetIdentity = (\<lambda>_ _ n. (Inl ''no user'', n)), ca_GetCAInfo = (\<lambda>n. (Inr [], n))\<rparr>"

definition sample_identity :: "nat \<Rightarrow> string \<Rightarrow> SigningIdentity" where
  "sample_identity n name = \<lparr>si_Identifier = \<lparr>id_MSPID = ''Org1MSP'', id_ID = name\<rparr>, EnrollmentCertificate = nat_digits n\<rparr>"

definition sample_wrapper :: "((string \<times> SigningIdentity) list, unit, nat) idClientWrapper" where
  "sample_wrapper = \<lparr>idc_Organization = ''Org1'', identityMgr = (\<lambda>name n. (Inr (sample_identity n name), n)), caClient = sample_ca, listeners = [],
     idc_lru = list_lru\<rparr>"

theorem modify_round_trip_witness:
  "idc_Modify sample_wrapper (enc False 0 (identity_json (zero_identity\<lparr>rr_Name := ''bob'', MaxEnrollments := 3, Attributes := Some [(''role'', ''a'')]\<rparr>)))
     [(''username'', ''bob'')] \<lparr>idc_cache = [], clients = (), sdk_state = 7\<rparr>
   = (Inr \<lparr>rr_Name = ''bob'', rr_Secret = []\<rparr>, \<lparr>idc_cache = [], clients = (), sdk_state = 8\<rparr>)"
proof -
  have ok: "identity_ok (zero_identity\<lparr>rr_Name := ''bob'', MaxEnrollments := 3, Attributes := Some [(''role'', ''a'')]\<rparr>)"
    by (simp add: identity_ok_def zero_identity_def int64_range_def)
  show ?thesis unfolding modify_round_trip [OF ok]
    by (simp add: on_ca_def identity_request_def sample_wrapper_def sample_ca_def ByName_def zero_identity_def del: enc.simps)
qed

theorem enroll_keeps_cached_identity_witness:
  "fst (GetSigningIdentity sample_wrapper ''bob'' \<lparr>idc_cache = [(''bob'', sample_identity 7 ''bob'')], clients = (), sdk_state = 8\<rparr>)
   = Inr (sample_identity 7 ''bob'')"
proof (rule enroll_keeps_cached_identity [where w = sample_wrapper and again = True and body = "''{}''" and params = "[(''username'', ''bob'')]"
      and s = "\<lparr>idc_cache = [], clients = (), sdk_state = 7\<rparr>"])
  show "GetSigningIdentity sample_wrapper ''bob'' \<lparr>idc_cache = [], clients = (), sdk_state = 7\<rparr> =
      (Inr (sample_identity 7 ''bob''), \<lparr>idc_cache = [(''bob'', sample_identity 7 ''bob'')], clients = (), sdk_state = 7\<rparr>)"
    by (simp add: GetSigningIdentity_def sample_wrapper_def list_lru_def)
  show "(if True then idc_Reenroll else idc_Enroll) sample_wrapper ''{}'' [(''username'', ''bob'')]
      \<lparr>idc_cache = [(''bob'', sample_identity 7 ''bob'')], clients = (), sdk_state = 7\<rparr> =
      (Inr \<lparr>res_Name = ''bob'', res_Success = True\<rparr>, \<lparr>idc_cache = [(''bob'', sample_identity 7 ''bob'')], clients = (), sdk_state = 8\<rparr>)"
  proof -
    have "decode_strict enroll_fields zero_enroll ''{}'' = Some zero_enroll" by code_simp
    then show ?thesis by (simp add: idc_Reenroll_def on_ca_def sample_wrapper_def sample_ca_def ByName_def notifySignerUpdate_def)
  qed
qed (auto simp: sample_wrapper_def list_lru_def split: option.splits)

end
