(* ===== verification/Rest_Gateway.thy ===== *)
theory Rest_Gateway
  imports Router Kafka_Bridge Identity_Client
begin

text \<open>
  The start and the end of the program: \<^verbatim>\<open>internal/rest/restgateway.go\<close>, the choice of the asynchronous handler in \<^verbatim>\<open>asyncdispatcher.go\<close>, and
  the command \<^verbatim>\<open>cmd/fabconnect.go\<close>.

  The components that are started are represented by the results of their checks and constructors; the HTTP listener by the way it ends.
\<close>

subsection \<open>Configuration\<close>

record RESTGatewayConf =
  HTTP_Port :: int
  HTTP_LocalAddr :: string
  HTTP_TLS :: TLSConfig
  g_Kafka :: KafkaConf
  g_RPC :: RPCConf
  g_EventsPath :: string

definition gateway_ValidateConf :: "RESTGatewayConf \<Rightarrow> unit res \<times> RESTGatewayConf" where
  "gateway_ValidateConf c =
     (if HTTP_Port c = 0 then (Inl ''Must provide REST Gateway http listening port'', c)
      else if ConfigPath (g_RPC c) = [] then (Inl ''Must provide REST Gateway client configuration path'', c)
      else (Inr (), if HTTP_LocalAddr c = [] then c\<lparr>HTTP_LocalAddr := ''0.0.0.0''\<rparr> else c))"

text \<open>Kafka is used as soon as a broker is configured.\<close>

datatype handler_kind = KafkaHandler | DirectHandler

definition NewAsyncDispatcher :: "RESTGatewayConf \<Rightarrow> handler_kind" where
  "NewAsyncDispatcher c = (if 0 < length (Brokers (g_Kafka c)) then KafkaHandler else DirectHandler)"

text \<open>The direct handler has no check of its own that can fail.\<close>

definition async_ValidateConf :: "unit res \<Rightarrow> RESTGatewayConf \<Rightarrow> unit res" where
  "async_ValidateConf receiptStore_ValidateConf c =
     (case (case NewAsyncDispatcher c of KafkaHandler \<Rightarrow> kafka_ValidateConf (g_Kafka c) | DirectHandler \<Rightarrow> Inr ()) of
        Inl err \<Rightarrow> Inl err
      | Inr _ \<Rightarrow> receiptStore_ValidateConf)"

subsection \<open>The gateway\<close>

text \<open>What the constructors of the components return.\<close>

record ('r, 'i) components =
  receipts_ValidateConf :: "unit res"
  rpc_connect :: "RPCConf \<Rightarrow> ('r option \<times> 'i) res"
  receipts_Init :: "unit res"
  sm_Init :: "unit res"

record ('r, 'i) Gateway =
  gw_rpc :: "'r option"
  gw_identity :: 'i
  gw_sm :: bool

definition gateway_Init :: "('r, 'i) components \<Rightarrow> RESTGatewayConf \<Rightarrow> ('r, 'i) Gateway res" where
  "gateway_Init e c = (case async_ValidateConf (receipts_ValidateConf e) c of
     Inl err \<Rightarrow> Inl err
   | Inr _ \<Rightarrow> (case rpc_connect e (g_RPC c) of
       Inl err \<Rightarrow> Inl err
     | Inr (rpcClient, identityClient) \<Rightarrow> (case receipts_Init e of
         Inl err \<Rightarrow> Inl err
       | Inr _ \<Rightarrow>
           if g_EventsPath c \<noteq> [] then (case sm_Init e of
               Inl err \<Rightarrow> Inl (''Event-stream subscription manager failed to initialize: '' @ err)
             | Inr _ \<Rightarrow> Inr \<lparr>gw_rpc = rpcClient, gw_identity = identityClient, gw_sm = True\<rparr>)
           else Inr \<lparr>gw_rpc = rpcClient, gw_identity = identityClient, gw_sm = False\<rparr>)))"

datatype closing = CloseSubscriptions | CloseDispatcher | CloseRPC | CloseWebSockets

definition gateway_Shutdown :: "('r, 'i) Gateway \<Rightarrow> closing list run" where
  "gateway_Shutdown g = bind_run (deref (gw_rpc g)) (\<lambda>_.
     Ret ((if gw_sm g then [CloseSubscriptions] else []) @ [CloseDispatcher, CloseRPC, CloseWebSockets]))"

text \<open>The main routine polls until the dispatcher is initialized; \<open>isInitialized n\<close> is what the poll \<open>n\<close> sees.\<close>

fun wait_initialized :: "(nat \<Rightarrow> bool) \<Rightarrow> nat \<Rightarrow> nat \<Rightarrow> nat run" where
  "wait_initialized isInitialized 0 n = OutOfFuel"
| "wait_initialized isInitialized (Suc fuel) n = (if isInitialized n then Ret n else wait_initialized isInitialized fuel (Suc n))"

text \<open>Which of the three comes first: the end of the dispatcher, the end of the HTTP listener, or a signal.\<close>

datatype ending = GwDone "error option" | SvrDone "error option" | Signalled

definition err_of :: "ending \<Rightarrow> error option" where
  "err_of e = (case e of GwDone err \<Rightarrow> err | SvrDone err \<Rightarrow> err | Signalled \<Rightarrow> None)"

definition gateway_Start ::
  "(string \<Rightarrow> string \<Rightarrow> 'x res) \<Rightarrow> (string \<Rightarrow> bytes res) \<Rightarrow> nat \<Rightarrow> (nat \<Rightarrow> bool) \<Rightarrow> ending \<Rightarrow> RESTGatewayConf \<Rightarrow> ('r, 'i) Gateway \<Rightarrow> error option run" where
  "gateway_Start load read fuel isInitialized e c g = (case CreateTLSConfiguration load read (HTTP_TLS c) of
     Inl err \<Rightarrow> Ret (Some err)
   | Inr tlsConfig \<Rightarrow> bind_run (wait_initialized isInitialized fuel 0) (\<lambda>_. bind_run (gateway_Shutdown g) (\<lambda>_. Ret (err_of e))))"

subsection \<open>The command\<close>

text \<open>\<^verbatim>\<open>startServer\<close> may print the configuration first (\<open>printed\<close> is the outcome, or nil when it is not asked for); it logs the error of the gateway and returns nil.\<close>

definition startServer :: "unit res \<Rightarrow> error option run \<Rightarrow> unit res run" where
  "startServer printed started = (case printed of Inl err \<Rightarrow> Ret (Inl err) | Inr _ \<Rightarrow> bind_run started (\<lambda>_. Ret (Inr ())))"

definition PreRunE :: "RESTGatewayConf res \<Rightarrow> ('r, 'i) components \<Rightarrow> (RESTGatewayConf \<times> ('r, 'i) Gateway) res" where
  "PreRunE unmarshalled e = (case unmarshalled of
     Inl err \<Rightarrow> Inl err
   | Inr c \<Rightarrow> (case gateway_ValidateConf c of
       (Inl err, _) \<Rightarrow> Inl err
     | (Inr _, c') \<Rightarrow> (case gateway_Init e c' of Inl err \<Rightarrow> Inl err | Inr g \<Rightarrow> Inr (c', g))))"

text \<open>The exit status of the process; a panic is not turned into a status here.\<close>

definition Execute :: "RESTGatewayConf res \<Rightarrow> unit res \<Rightarrow> ('r, 'i) components \<Rightarrow> (RESTGatewayConf \<Rightarrow> ('r, 'i) Gateway \<Rightarrow> error option run) \<Rightarrow> nat run" where
  "Execute unmarshalled printed e started = (case PreRunE unmarshalled e of
     Inl err \<Rightarrow> Ret 1
   | Inr (c, g) \<Rightarrow> bind_run (startServer printed (started c g)) (\<lambda>r. Ret (case r of Inl err \<Rightarrow> 1 | Inr _ \<Rightarrow> 0)))"

subsection \<open>Properties\<close>

text \<open>The poll ends exactly when the dispatcher is initialized within the fuel.\<close>

lemma wait_initialized_iff: "(\<exists>m. wait_initialized isInit fuel n = Ret m) \<longleftrightarrow> (\<exists>k. k < fuel \<and> isInit (n + k))"
proof (induction fuel arbitrary: n)
  case (Suc fuel)
  show ?case
  proof (cases "isInit n")
    case True
    then show ?thesis by (auto intro: exI [of _ 0])
  next
    case False
    then have "(\<exists>k. k < Suc fuel \<and> isInit (n + k)) \<longleftrightarrow> (\<exists>k. k < fuel \<and> isInit (Suc n + k))"
      by (metis Suc_less_eq add_Suc_right add_Suc add_cancel_left_right less_Suc_eq_0_disj)
    then show ?thesis using Suc.IH [of "Suc n"] False by simp
  qed
qed simp

text \<open>C39: With the server-side gateway as the only mode the program starts, answers, and then panics on its way out: \<^verbatim>\<open>RPCConnect\<close> has returned nil for the
  client, which \<^verbatim>\<open>Shutdown\<close> dereferences, however the gateway has come to its end.\<close>

theorem server_side_gateway_panics_at_shutdown:
  assumes "UseGatewayServer (g_RPC c)" "\<not> UseGatewayClient (g_RPC c)"
    and "rpc_connect e = RPCConnect userStore connectIdentity fabsdk newCcp newGateway"
    and "gateway_Init e c = Inr g"
    and "CreateTLSConfiguration load read (HTTP_TLS c) = Inr tls" "isInitialized k" "k < fuel"
  shows "gateway_Start load read fuel isInitialized ending c g = Panic ''invalid memory address or nil pointer dereference''"
proof -
  have "gw_rpc g = None" using assms(1-4) by (auto simp: gateway_Init_def RPCConnect_def split: sum.splits if_splits prod.splits)
  moreover obtain m where "wait_initialized isInitialized fuel 0 = Ret m"
    using wait_initialized_iff [of isInitialized fuel 0] assms(6,7) by auto
  ultimately show ?thesis using assms(5) by (simp add: gateway_Start_def gateway_Shutdown_def deref_def)
qed


subsection \<open>Examples\<close>

definition sample_conf :: "bool \<Rightarrow> RESTGatewayConf" where
  "sample_conf server = \<lparr>HTTP_Port = 3000, HTTP_LocalAddr = ''localhost'',
     HTTP_TLS = \<lparr>ClientCertsFile = [], ClientKeyFile = [], CACertsFile = [], tls_Enabled = False, InsecureSkipVerify = False\<rparr>,
     g_Kafka = sample_kafka, g_RPC = \<lparr>UseGatewayClient = False, UseGatewayServer = server, ConfigPath = ''ccp.yml''\<rparr>, g_EventsPath = []\<rparr>"

definition sample_components :: "((nat, nat) rpc_client, nat) components" where
  "sample_components = \<lparr>receipts_ValidateConf = Inr (), rpc_connect = RPCConnect (Inr (0 :: nat)) (\<lambda>_. Inr 1) (Inr (2 :: nat)) (\<lambda>_ _ _. Inr 3) (\<lambda>_ _. Inr 4),
     receipts_Init = Inr (), sm_Init = Inr ()\<rparr>"

theorem server_side_gateway_panics_at_shutdown_witness:
  "gateway_Start (\<lambda>_ _. Inr (0 :: nat)) (\<lambda>_. Inl ''none'') 3 (\<lambda>n. 1 \<le> n) Signalled (sample_conf True)
     \<lparr>gw_rpc = (None :: (nat, nat) rpc_client option), gw_identity = 1 :: nat, gw_sm = False\<rparr>
   = Panic ''invalid memory address or nil pointer dereference''"
proof (rule server_side_gateway_panics_at_shutdown [where e = sample_components and userStore = "Inr (0 :: nat)" and connectIdentity = "\<lambda>_. Inr 1" and fabsdk = "Inr (2 :: nat)"
      and newCcp = "\<lambda>_ _ _. Inr 3" and newGateway = "\<lambda>_ _. Inr 4" and k = 1])
  show "gateway_Init sample_components (sample_conf True) = Inr \<lparr>gw_rpc = None, gw_identity = 1, gw_sm = False\<rparr>"
    by (simp add: gateway_Init_def sample_components_def sample_conf_def async_ValidateConf_def NewAsyncDispatcher_def kafka_ValidateConf_def
        AllOrNoneReqd_def sample_kafka_def RPCConnect_def)
qed (simp_all add: sample_conf_def sample_components_def CreateTLSConfiguration_def AllOrNoneReqd_def)


end
