(* ===== verification/Spec2Isabelle.thy ===== *)
theory Spec2Isabelle
  imports Token_Properties Receipt_LevelDB Block_Decoder Ws_Server Rest_Gateway
begin

text \<open>
  Verification of the ERC-20/HTLC chaincode and of the FireFly fabconnect gateway
  (\<^verbatim>\<open>src/ERC20-HTLC-HLF-Net\<close>).

  \<^bold>\<open>The program.\<close>  A chaincode of Hyperledger Fabric (\<^verbatim>\<open>token_contract.go\<close>) keeps ERC-20 accounts, allowances and
  hashed time-locks in the world state.  The gateway (\<^verbatim>\<open>firefly-fabconnect/internal\<close>) offers it to REST clients: the router turns a
  request into a message, a synchronous dispatcher answers it in place, an asynchronous one (direct or over Kafka) accepts it
  and stores the reply as a receipt; the transaction processor sends it to Fabric.  In the other direction subscriptions turn the blocks and
  chaincode events of the node into events of a stream, which delivers them in batches to a webhook or over the WebSocket server and keeps
  checkpoints in a key-value store.

  \<^bold>\<open>Conventions\<close> (\<open>Prelude\<close>).  Go's 64-bit integers are words; bytes and strings are \<^typ>\<open>string\<close>.  \<^verbatim>\<open>(T, error)\<close> is
  \<^typ>\<open>'a res\<close>; a function that works on mutable state returns the state on the error path as well (\<open>op\<close>, \<open>chk\<close>).  What may panic
  returns \<^typ>\<open>'a run\<close>.  A Go map is an association list where its contents are written out or ranged over and a HOL map elsewhere.  A pointer that may be nil is an option.  Clocks, UUIDs, request
  bodies, the security module, the Fabric SDK, the network, LevelDB, MongoDB, the LRU caches, Sarama, the protobuf
  package and Fabric's stub are arguments.

  \<^bold>\<open>The standard library.\<close>  \<open>Go_Strconv\<close> (strconv, strings), \<open>Go_Json\<close> (encoding/json with its parser, the escapes and the round trip), \<open>Go_Time\<close> (RFC 3339
  times, round trip and order), \<open>Go_Sort\<close> (sorting and bisection).

  \<^bold>\<open>The chaincode.\<close>  \<open>Token_Contract\<close>: every method of \<^verbatim>\<open>SmartContract\<close> over the argument \<open>ctx\<close>.  \<open>Token_Ledger\<close>: the locale
  \<open>fabric_ledger\<close> with the documented laws of the stub, interpreted on an in-memory stub, and the effect of each method.  \<open>Token_HTLC\<close>: the JSON
  form of a lock.  \<open>Token_Invariant\<close>: transactions, sequences of them, the accounting invariant and the life cycle of a lock by rule
  induction.  \<open>Token_Properties\<close>: the balances sum up to the supply over every history, a lock settles at most once, who pays whom.

  \<^bold>\<open>Storage.\<close>  \<open>Kvstore\<close>: \<^verbatim>\<open>kvstore.go\<close>; the locale \<open>kv_store\<close> is the contract of the wrapper, \<open>goleveldb\<close> that of the library, and a sublocale shows that the second
  gives the first.  \<open>Receipts\<close>: the contract \<open>receipt_persistence\<close> and the in-memory store that fulfils it.  \<open>Receipt_LevelDB\<close>: \<^verbatim>\<open>leveldb.go\<close> with its indexes; a
  sublocale shows that it fulfils the contract over any \<open>kv_store\<close> and any source of fresh increasing ULIDs.  \<open>Receipt_Store\<close>: processing of replies and the queries, over any store that fulfils
  the contract.

  \<^bold>\<open>Events.\<close>  \<open>Event_Stream\<close>: \<^verbatim>\<open>eventstream.go\<close> and \<^verbatim>\<open>evtprocessor.go\<close>, one function for each atomic section of the goroutines.  \<open>Event_Stream_Steps\<close>: their interleavings; no
  event is lost, doubled or reordered, and what blocks a stream.  \<open>Event_Actions\<close>: webhooks and websockets.  \<open>Event_Json\<close>: the persisted structures.
  \<open>Subscription\<close>: \<^verbatim>\<open>subscription.go\<close>.  \<open>Block_Decoder\<close>: \<^verbatim>\<open>blockdecoder.go\<close>; the events of a block against a description of its contents, and on into the stream.  \<open>Subscription_Manager\<close>: \<^verbatim>\<open>submanager.go\<close> with the
  poller; \<open>Subscription_Recovery\<close> and \<open>Subscription_Properties\<close>: the database mirrors the maps under every request, and a restart recovers
  everything.  \<open>Ws_Server\<close>: \<^verbatim>\<open>wsserver.go\<close> and \<^verbatim>\<open>wsconn.go\<close> as a step relation over all goroutines.

  \<^bold>\<open>Requests.\<close>  \<open>Auth\<close>: the checks of \<^verbatim>\<open>auth.go\<close>.  \<open>Rest_Error\<close>, \<open>Rest_Params\<close>: errors, parameters and messages.  \<open>Tx_Processor\<close>: \<^verbatim>\<open>txprocessor.go\<close> and
  \<^verbatim>\<open>fabric/tx.go\<close>; every message is answered exactly once, as a specification says.  \<open>Async_Dispatcher\<close>, \<open>Async_Steps\<close>, \<open>Async_Receipts\<close>: the direct handler,
  its threads as the relation \<open>dstep\<close> with accounting and progress, and the way from a request to its stored receipt.  \<open>Kafka_Handler\<close>: the
  acknowledgements of the Kafka handler.  \<open>Sync_Dispatcher\<close>: one response for each synchronous request, queries, the lost wake-up.  \<open>Router\<close>: the
  handlers of the routes and the authorization of a request.

  \<^bold>\<open>The clients of Fabric\<close> (\<^verbatim>\<open>internal/fabric/client\<close>).  \<open>Client_Cache\<close>: \<^verbatim>\<open>ledger.go\<close> and \<^verbatim>\<open>eventsubscriber.go\<close>; the locale \<open>signer_cache\<close> is the contract of a cache of clients for each signer, interpreted
  on both, and shows that a client is never older than the last enrolment of its signer.  \<open>Fabric_Rpc\<close>: the two modes of the RPC client
  (\<^verbatim>\<open>client_ccp.go\<close>, \<^verbatim>\<open>client_gateway_clientside.go\<close>), the handler that waits for the commit and \<^verbatim>\<open>RPCConnect\<close>; the locales \<open>named_identities\<close> and \<open>handler_chain\<close> hold what is relied on of the SDK, and the first is
  a sublocale of \<open>signer_cache\<close> for the channel clients.  \<open>Identity_Client\<close>: the handlers of identities with their strict JSON bodies; an enrolment renews the clients, and identities read back unchanged.

  \<^bold>\<open>Start-up.\<close>  \<open>Receipt_MongoDB\<close>: \<^verbatim>\<open>mongodb.go\<close> over the locale \<open>mongo_driver\<close>, a sublocale of \<open>receipt_persistence\<close>.  \<open>Kafka_Bridge\<close>: \<^verbatim>\<open>internal/kafka\<close>, the start with the
  errors it hides and the consumer group as the relation \<open>cstep\<close>, with safety, the end after a close, and the close that is lost.  \<open>Rest_Gateway\<close>: \<^verbatim>\<open>restgateway.go\<close> and \<^verbatim>\<open>cmd/fabconnect.go\<close>, from the checks of the configuration to the exit
  status, which spans the RPC client, the Kafka bridge and the TLS settings.

  \<^bold>\<open>Bounds and fuel.\<close>  The JSON parser runs with fuel \<open>2 * length s + 2\<close>; \<open>pval_fuel_enough\<close> shows that more changes nothing.  The loops over database iterators
  take fuel because only the laws of the store bound them; the theorems need one unit more than there are entries, and then the result is a value.  The
  retry loop of the receipt store takes fuel; the theorem needs as many attempts as the clock allows, and the loop then returns or panics.  The poll of the gateway for its dispatcher takes fuel; \<open>wait_initialized_iff\<close> says exactly how much is enough.  All other functions are total by structure or by
  a measure.

  \<^bold>\<open>Not modelled.\<close>  The declarations of flags in \<^verbatim>\<open>conf.go\<close>, the debug router and the logging in \<^verbatim>\<open>cmd\<close>, the Swagger pages, the HTTP listener and
  the upgrade of a WebSocket, which only call libraries; the generated mocks.  The locks of the clients in \<^verbatim>\<open>internal/fabric/client\<close> are taken for the whole of each operation, so its operations are atomic here.  Logging has no effect on the state and is left out throughout; so are the texts of errors that
  come from Go's standard library inside a decoder.  Characters beyond ASCII are compared without regard to case as the bytes they are.
\<close>

end
